(* ===== verification/PCD_Prelude.thy ===== *)
theory PCD_Prelude
  imports Main "HOL-Library.Word" "HOL-Library.AList"
begin

text \<open>
  Shared vocabulary of the development: the machine integer types of the Go program, the
  run-time panics of Go as an error type, the error monad on sums, Go maps used as sets
  (a list without duplicates whose order is the iteration order), and the collections of
  simplification rules that the component theories fill and use.
\<close>

named_theorems go_simps \<open>unfolding rules for the Go run-time operations\<close>
named_theorems chan_simps \<open>behaviour of buffered channel operations\<close>
named_theorems str_simps \<open>behaviour of the string operations\<close>
named_theorems engine_simps \<open>frame rules of the engine's handlers\<close>

type_synonym u8 = "8 word"
type_synonym u32 = "32 word"
type_synonym u64 = "64 word"
type_synonym i32 = "32 word"
type_synonym i64 = "64 word"

section \<open>Run-time panics and the error monad\<close>

datatype go_panic =
    SendOnClosedChannel
  | CloseOfClosedChannel
  | IndexOutOfRange int
  | NonPositiveTicker
  | PatternConflict string

type_synonym 'a go = "go_panic + 'a"

definition ebind :: "'e + 'a \<Rightarrow> ('a \<Rightarrow> 'e + 'b) \<Rightarrow> 'e + 'b" where
  "ebind r f = (case r of Inl e \<Rightarrow> Inl e | Inr x \<Rightarrow> f x)"

lemma ebind_Inl [simp]: "ebind (Inl e) f = Inl e"
  by (simp add: ebind_def)

lemma ebind_Inr [simp]: "ebind (Inr x) f = f x"
  by (simp add: ebind_def)

lemma ebind_eq_Inr:
  "ebind r f = Inr y \<longleftrightarrow> (\<exists>x. r = Inr x \<and> f x = Inr y)"
  by (cases r) auto

lemma ebind_split:
  "P (ebind r f) \<longleftrightarrow> (\<forall>e. r = Inl e \<longrightarrow> P (Inl e)) \<and> (\<forall>x. r = Inr x \<longrightarrow> P (f x))"
  by (cases r) auto

section \<open>Go maps used as sets\<close>

text \<open>
  A \<^verbatim>\<open>map[K]bool\<close> whose values are only ever \<^verbatim>\<open>true\<close> is a list without duplicates;
  \<^const>\<open>List.insert\<close> is \<^verbatim>\<open>m[k] = true\<close>, \<^const>\<open>removeAll\<close> is \<^verbatim>\<open>delete(m, k)\<close> and the order of the list is
  the order a \<^verbatim>\<open>range\<close> loop visits the keys in. Go leaves that order open, so every
  theorem is stated for an arbitrary list.
\<close>

lemma removeAll_notin_id [simp]: "x \<notin> set xs \<Longrightarrow> removeAll x xs = xs"
  by (rule removeAll_id)

lemma length_insert_removeAll:
  assumes "distinct xs"
  shows "length (List.insert x (removeAll x xs)) = (if x \<in> set xs then length xs else Suc (length xs))"
proof -
  have "length (List.insert x (removeAll x xs)) = card (set (List.insert x (removeAll x xs)))"
    using assms by (simp add: distinct_card distinct_removeAll del: set_removeAll List.set_insert)
  also have "set (List.insert x (removeAll x xs)) = insert x (set xs)"
    by auto
  finally show ?thesis
    using assms by (simp add: card_insert_if distinct_card)
qed

lemma length_removeAll_distinct:
  assumes "distinct xs"
  shows "length (removeAll x xs) = (if x \<in> set xs then length xs - 1 else length xs)"
  using assms by (simp add: distinct_remove1_removeAll[symmetric] length_remove1)

section \<open>Filtering fold over lists\<close>

lemma fold_id_on:
  assumes "\<And>x. x \<in> set xs \<Longrightarrow> f x s = s"
  shows "fold f xs s = s"
  using assms by (induction xs) auto

section \<open>Searching\<close>

text \<open>A loop that returns the first result it finds.\<close>

fun first_some :: "('a \<Rightarrow> 'b option) \<Rightarrow> 'a list \<Rightarrow> 'b option" where
  "first_some f [] = None"
| "first_some f (x # xs) = (case f x of Some y \<Rightarrow> Some y | None \<Rightarrow> first_some f xs)"

lemma first_some_None: "first_some f xs = None \<longleftrightarrow> (\<forall>x \<in> set xs. f x = None)"
  by (induction xs) (auto split: option.split)

lemma first_some_SomeD: "first_some f xs = Some y \<Longrightarrow> \<exists>x \<in> set xs. f x = Some y"
  by (induction xs) (auto split: option.splits)

end
