(* ===== verification/Go_Strings.thy ===== *)
theory Go_Strings
  imports PCD_Prelude
begin

text \<open>
  The parts of Go's \<^verbatim>\<open>strings\<close>, \<^verbatim>\<open>strconv\<close>, \<^verbatim>\<open>encoding/hex\<close> and \<^verbatim>\<open>fmt\<close> packages that the program uses.
  A Go string is a sequence of bytes, so a string is a list of (8-bit) characters.
  Case conversion and white space are those of ASCII, the only repertoire of the
  texts these operations are applied to in the program (sysfs files, ADB replies,
  configuration keys, option values).
\<close>

section \<open>Prefixes, suffixes, substrings\<close>

definition has_prefix :: "string \<Rightarrow> string \<Rightarrow> bool" where
  "has_prefix s p \<longleftrightarrow> take (length p) s = p"

definition trim_prefix :: "string \<Rightarrow> string \<Rightarrow> string" where
  "trim_prefix s p = (if has_prefix s p then drop (length p) s else s)"

definition has_suffix :: "string \<Rightarrow> string \<Rightarrow> bool" where
  "has_suffix s p \<longleftrightarrow> length p \<le> length s \<and> drop (length s - length p) s = p"

fun contains_str :: "string \<Rightarrow> string \<Rightarrow> bool" where
  "contains_str [] p = (p = [])"
| "contains_str (c # cs) p = (has_prefix (c # cs) p \<or> contains_str cs p)"

lemma has_prefix_append [simp]: "has_prefix (p @ s) p"
  by (simp add: has_prefix_def)

lemma has_prefix_iff: "has_prefix s p \<longleftrightarrow> (\<exists>r. s = p @ r)"
  by (auto simp: has_prefix_def) (metis append_take_drop_id)

lemma trim_prefix_append [simp]: "trim_prefix (p @ s) p = s"
  by (simp add: trim_prefix_def)

lemma trim_prefix_restores: "has_prefix s p \<Longrightarrow> p @ trim_prefix s p = s"
  by (auto simp: has_prefix_iff trim_prefix_def)

lemma contains_str_iff: "contains_str s p \<longleftrightarrow> (\<exists>u v. s = u @ p @ v)"
proof (induction s)
  case Nil
  then show ?case by auto
next
  case (Cons c cs)
  show ?case
  proof
    assume "contains_str (c # cs) p"
    then show "\<exists>u v. c # cs = u @ p @ v"
    proof (simp only: contains_str.simps, elim disjE)
      assume "has_prefix (c # cs) p"
      then show ?thesis by (auto simp: has_prefix_iff intro: exI[of _ "[]"])
    next
      assume "contains_str cs p"
      with Cons.IH obtain u v where "cs = u @ p @ v" by blast
      then have "c # cs = (c # u) @ p @ v" by simp
      then show ?thesis by blast
    qed
  next
    assume "\<exists>u v. c # cs = u @ p @ v"
    then obtain u v where eq: "c # cs = u @ p @ v" by blast
    show "contains_str (c # cs) p"
    proof (cases u)
      case Nil
      with eq have "has_prefix (c # cs) p" by (auto simp: has_prefix_iff)
      then show ?thesis by simp
    next
      case (Cons d u')
      with eq have "cs = u' @ p @ v" by simp
      with Cons.IH show ?thesis by auto
    qed
  qed
qed

section \<open>White space\<close>

definition is_space :: "char \<Rightarrow> bool" where
  "is_space c \<longleftrightarrow> (let n = (of_char c :: nat) in n = 32 \<or> (9 \<le> n \<and> n \<le> 13))"

definition trim_space :: "string \<Rightarrow> string" where
  "trim_space s = rev (dropWhile is_space (rev (dropWhile is_space s)))"

function str_fields :: "string \<Rightarrow> string list" where
  "str_fields [] = []"
| "str_fields (c # cs) =
     (if is_space c then str_fields cs
      else (c # takeWhile (\<lambda>d. \<not> is_space d) cs) # str_fields (dropWhile (\<lambda>d. \<not> is_space d) cs))"
  by pat_completeness auto
termination
  by (relation "measure length") (auto simp: le_imp_less_Suc length_dropWhile_le)

lemma set_trim_space: "set (trim_space s) \<subseteq> set s"
  unfolding trim_space_def by (metis set_dropWhileD set_rev subset_code(1))

lemma trim_space_no_lead: "trim_space s \<noteq> [] \<Longrightarrow> \<not> is_space (last (trim_space s))"
  by (simp add: trim_space_def last_rev hd_dropWhile)

lemma str_fields_no_space: "w \<in> set (str_fields s) \<Longrightarrow> w \<noteq> [] \<and> (\<forall>c \<in> set w. \<not> is_space c)"
proof (induction s rule: str_fields.induct)
  case 1
  then show ?case by simp
next
  case (2 c cs)
  show ?case
  proof (cases "is_space c")
    case True
    with 2 show ?thesis by simp
  next
    case False
    then consider "w = c # takeWhile (\<lambda>d. \<not> is_space d) cs"
      | "w \<in> set (str_fields (dropWhile (\<lambda>d. \<not> is_space d) cs))"
      using 2(3) by auto
    then show ?thesis
    proof cases
      case 1
      with False show ?thesis using set_takeWhileD by fastforce
    next
      case 2
      then show ?thesis by (rule "2.IH"(2)[OF False])
    qed
  qed
qed

section \<open>Splitting and replacing\<close>

fun split_on :: "char \<Rightarrow> string \<Rightarrow> string list" where
  "split_on d [] = [[]]"
| "split_on d (c # cs) =
     (if c = d then [] # split_on d cs
      else (case split_on d cs of [] \<Rightarrow> [[c]] | w # ws \<Rightarrow> (c # w) # ws))"

fun join_with :: "char \<Rightarrow> string list \<Rightarrow> string" where
  "join_with d [] = []"
| "join_with d [w] = w"
| "join_with d (w # ws) = w @ d # join_with d ws"

lemma split_on_not_Nil [simp]: "split_on d s \<noteq> []"
  by (induction s) (auto split: list.splits)

lemma join_split [str_simps]: "join_with d (split_on d s) = s"
proof (induction s)
  case Nil
  then show ?case by simp
next
  case (Cons c cs)
  then obtain w ws where "split_on d cs = w # ws"
    by (metis list.exhaust split_on_not_Nil)
  with Cons show ?case by (cases ws) auto
qed

lemma split_on_no_sep: "w \<in> set (split_on d s) \<Longrightarrow> d \<notin> set w"
  by (induction s arbitrary: w) (auto split: list.splits if_splits)

fun replace_char :: "char \<Rightarrow> string \<Rightarrow> string \<Rightarrow> string" where
  "replace_char d r [] = []"
| "replace_char d r (c # cs) = (if c = d then r else [c]) @ replace_char d r cs"

lemma replace_char_append: "replace_char d r (s @ t) = replace_char d r s @ replace_char d r t"
  by (induction s) auto

lemma replace_char_removes: "d \<notin> set r \<Longrightarrow> d \<notin> set (replace_char d r s)"
  by (induction s) auto

section \<open>Case\<close>

definition lower_char :: "char \<Rightarrow> char" where
  "lower_char c = (let n = (of_char c :: nat) in if 65 \<le> n \<and> n \<le> 90 then char_of (n + 32) else c)"

definition to_lower :: "string \<Rightarrow> string" where
  "to_lower s = map lower_char s"

lemma of_char_less_256: "(of_char c :: nat) < 256"
  using of_char_mod_256[of c, where ?'a = nat] by (metis mod_less_divisor zero_less_numeral)

lemma of_char_char_of_small [simp]: "n < 256 \<Longrightarrow> (of_char (char_of n) :: nat) = n"
  by (simp add: of_char_of)

lemma lower_char_idem [simp]: "lower_char (lower_char c) = lower_char c"
  by (simp add: lower_char_def Let_def)

lemma to_lower_idem [simp]: "to_lower (to_lower s) = to_lower s"
  by (simp add: to_lower_def)

lemma length_to_lower [simp]: "length (to_lower s) = length s"
  by (simp add: to_lower_def)

section \<open>Numbers\<close>

definition digit_char :: "nat \<Rightarrow> char" where
  "digit_char n = (if n < 10 then char_of (n + 48) else char_of (n + 87))"

fun string_of_nat :: "nat \<Rightarrow> string" where
  "string_of_nat n = (if n < 10 then [digit_char n] else string_of_nat (n div 10) @ [digit_char (n mod 10)])"

declare string_of_nat.simps [simp del]

definition itoa :: "int \<Rightarrow> string" where
  "itoa i = (if i < 0 then CHR ''-'' # string_of_nat (nat (- i)) else string_of_nat (nat i))"

definition digit_val :: "char \<Rightarrow> nat option" where
  "digit_val c = (let n = (of_char c :: nat) in if 48 \<le> n \<and> n \<le> 57 then Some (n - 48) else None)"

fun digits_val :: "nat \<Rightarrow> string \<Rightarrow> nat option" where
  "digits_val acc [] = Some acc"
| "digits_val acc (c # cs) =
     (case digit_val c of None \<Rightarrow> None | Some d \<Rightarrow> digits_val (10 * acc + d) cs)"

text \<open>\<^verbatim>\<open>strconv.ParseUint(s, 10, 64)\<close>: decimal digits only, an error on the empty text and on a
  value that does not fit.\<close>

definition parse_uint64 :: "string \<Rightarrow> u64 option" where
  "parse_uint64 s =
     (if s = [] then None
      else case digits_val 0 s of
             None \<Rightarrow> None
           | Some n \<Rightarrow> if n < 2 ^ 64 then Some (word_of_nat n) else None)"

lemma digit_val_digit_char [simp]: "n < 10 \<Longrightarrow> digit_val (digit_char n) = Some n"
  by (simp add: digit_val_def digit_char_def Let_def)

lemma digits_val_append:
  "digits_val acc (s @ t) = (case digits_val acc s of None \<Rightarrow> None | Some n \<Rightarrow> digits_val n t)"
  by (induction s arbitrary: acc) (auto split: option.splits)

lemma digits_val_string_of_nat: "digits_val 0 (string_of_nat n) = Some n"
proof (induction n rule: string_of_nat.induct)
  case (1 n)
  show ?case
  proof (cases "n < 10")
    case True
    then show ?thesis by (simp add: string_of_nat.simps[of n])
  next
    case False
    with 1 show ?thesis by (simp add: string_of_nat.simps[of n] digits_val_append)
  qed
qed

lemma string_of_nat_not_Nil [simp]: "string_of_nat n \<noteq> []"
  by (subst string_of_nat.simps) simp

lemma parse_uint64_string_of_nat:
  "n < 2 ^ 64 \<Longrightarrow> parse_uint64 (string_of_nat n) = Some (word_of_nat n)"
  by (simp add: parse_uint64_def digits_val_string_of_nat)

section \<open>Hexadecimal\<close>

fun to_hex :: "nat \<Rightarrow> string" where
  "to_hex n = (if n < 16 then [digit_char n] else to_hex (n div 16) @ [digit_char (n mod 16)])"

declare to_hex.simps [simp del]

text \<open>\<^verbatim>\<open>fmt.Sprintf("%04x", n)\<close>: at least four digits, more when the number needs them.\<close>

definition sprintf_04x :: "nat \<Rightarrow> string" where
  "sprintf_04x n = replicate (4 - length (to_hex n)) CHR ''0'' @ to_hex n"

definition hex_val :: "char \<Rightarrow> nat option" where
  "hex_val c = (let n = (of_char c :: nat) in
     if 48 \<le> n \<and> n \<le> 57 then Some (n - 48)
     else if 97 \<le> n \<and> n \<le> 102 then Some (n - 87)
     else if 65 \<le> n \<and> n \<le> 70 then Some (n - 55)
     else None)"

datatype hex_error = InvalidByteError char | ErrLength

text \<open>\<^verbatim>\<open>hex.DecodeString\<close>: pairs of hexadecimal digits, the first offending byte is reported; a
  single byte left over is an error too.\<close>

fun hex_decode :: "string \<Rightarrow> hex_error + nat list" where
  "hex_decode [] = Inr []"
| "hex_decode [c] = (case hex_val c of None \<Rightarrow> Inl (InvalidByteError c) | Some _ \<Rightarrow> Inl ErrLength)"
| "hex_decode (c # d # cs) =
     (case hex_val c of
        None \<Rightarrow> Inl (InvalidByteError c)
      | Some h \<Rightarrow>
          (case hex_val d of
             None \<Rightarrow> Inl (InvalidByteError d)
           | Some l \<Rightarrow> ebind (hex_decode cs) (\<lambda>bs. Inr ((16 * h + l) # bs))))"

lemma hex_val_digit_char [simp]: "n < 16 \<Longrightarrow> hex_val (digit_char n) = Some n"
  by (simp add: hex_val_def digit_char_def Let_def)

lemma digit_char_numerals [simp]:
  "digit_char 0 = CHR ''0''" "digit_char (Suc 0) = CHR ''1''" "digit_char 1 = CHR ''1''"
  "digit_char 2 = CHR ''2''" "digit_char 3 = CHR ''3''" "digit_char 4 = CHR ''4''"
  "digit_char 5 = CHR ''5''" "digit_char 6 = CHR ''6''" "digit_char 7 = CHR ''7''"
  "digit_char 8 = CHR ''8''" "digit_char 9 = CHR ''9''" "digit_char 10 = CHR ''a''"
  "digit_char 11 = CHR ''b''" "digit_char 12 = CHR ''c''" "digit_char 13 = CHR ''d''"
  "digit_char 14 = CHR ''e''" "digit_char 15 = CHR ''f''"
  by code_simp+

lemma replicate_small [simp]: "replicate 2 x = [x, x]" "replicate 3 x = [x, x, x]"
  by (simp_all add: numeral_2_eq_2 numeral_3_eq_3)

lemma hex_val_less: "hex_val c = Some n \<Longrightarrow> n < 16"
  by (auto simp: hex_val_def Let_def split: if_splits)

lemma sprintf_04x_digits:
  assumes "n < 65536"
  shows "sprintf_04x n =
    map digit_char [n div 4096, n div 256 mod 16, n div 16 mod 16, n mod 16]"
proof -
  have d: "n div 16 div 16 = n div 256" "n div 256 div 16 = n div 4096"
    by (simp_all add: div_mult2_eq[symmetric])
  have top: "n div 4096 < 16" using assms by auto
  consider "n < 16" | "16 \<le> n" "n div 16 < 16" | "16 \<le> n div 16" "n div 256 < 16" | "16 \<le> n div 256"
    by linarith
  then show ?thesis
  proof cases
    case 1
    then show ?thesis by (simp add: sprintf_04x_def to_hex.simps[of n] numeral_3_eq_3)
  next
    case 2
    then have "n div 256 = 0" "n div 4096 = 0" by auto
    with 2 show ?thesis
      by (simp add: sprintf_04x_def to_hex.simps[of n] to_hex.simps[of "n div 16"] numeral_2_eq_2)
  next
    case 3
    then have "n div 4096 = 0" "\<not> n < 16" by auto
    with 3 show ?thesis
      by (simp add: sprintf_04x_def to_hex.simps[of n] to_hex.simps[of "n div 16"]
          to_hex.simps[of "n div 256"] d)
  next
    case 4
    then have "\<not> n < 16" "\<not> n div 16 < 16" by auto
    with 4 top show ?thesis
      by (simp add: sprintf_04x_def to_hex.simps[of n] to_hex.simps[of "n div 16"]
          to_hex.simps[of "n div 256"] to_hex.simps[of "n div 4096"] d)
  qed
qed

lemma length_sprintf_04x: "n < 65536 \<Longrightarrow> length (sprintf_04x n) = 4"
  by (simp add: sprintf_04x_digits)

section \<open>Paths\<close>

text \<open>\<^verbatim>\<open>path/filepath\<close>: \<open>path_clean\<close> removes empty and \<^verbatim>\<open>.\<close> elements and resolves \<^verbatim>\<open>..\<close> where it can (the stack
  of kept elements is reversed); \<open>path_join\<close> ignores leading empty elements and cleans the
  joined path.\<close>

definition clean_step :: "bool \<Rightarrow> string \<Rightarrow> string list \<Rightarrow> string list" where
  "clean_step rooted w st =
     (if w = [] \<or> w = ''.'' then st
      else if w = ''..'' then
        (case st of
           [] \<Rightarrow> if rooted then [] else [w]
         | t # rest \<Rightarrow> if t = ''..'' then w # st else rest)
      else w # st)"

definition path_clean :: "string \<Rightarrow> string" where
  "path_clean p =
     (let rooted = (p \<noteq> [] \<and> hd p = CHR ''/'');
          out = (if rooted then ''/'' else []) @ join_with (CHR ''/'') (rev (fold (clean_step rooted) (split_on (CHR ''/'') p) []))
      in if out = [] then ''.'' else out)"

definition path_join :: "string list \<Rightarrow> string" where
  "path_join ps =
     (case dropWhile (\<lambda>p. p = []) ps of [] \<Rightarrow> [] | qs \<Rightarrow> path_clean (join_with (CHR ''/'') qs))"

text \<open>\<^verbatim>\<open>filepath.Dir\<close>, \<^verbatim>\<open>filepath.Ext\<close>, \<^verbatim>\<open>filepath.IsAbs\<close> and \<^verbatim>\<open>filepath.Base\<close>.\<close>

definition path_dir :: "string \<Rightarrow> string" where
  "path_dir p = path_clean (rev (dropWhile (\<lambda>c. c \<noteq> CHR ''/'') (rev p)))"

definition path_ext :: "string \<Rightarrow> string" where
  "path_ext p =
     (let r = rev p; elem = takeWhile (\<lambda>c. c \<noteq> CHR ''/'') r in
      if CHR ''.'' \<in> set elem then CHR ''.'' # rev (takeWhile (\<lambda>c. c \<noteq> CHR ''.'') elem) else [])"

definition path_is_abs :: "string \<Rightarrow> bool" where
  "path_is_abs p = has_prefix p ''/''"

definition path_base :: "string \<Rightarrow> string" where
  "path_base p =
     (if p = [] then ''.''
      else let q = rev (dropWhile (\<lambda>c. c = CHR ''/'') (rev p)); b = rev (takeWhile (\<lambda>c. c \<noteq> CHR ''/'') (rev q))
           in if b = [] then ''/'' else b)"

text \<open>What \<^verbatim>\<open>os.Stat\<close> may report.\<close>

datatype stat = Exists | NotExist | StatError string

end
