(* ===== verification/Config_Loader.thy ===== *)
theory Config_Loader
  imports Go_Strings
begin

text \<open>
  Configuration (\<^verbatim>\<open>pkg/config\<close>): the settings, their defaults, the choice of the configuration
  file and its parser, the mapping of environment variables to keys, and the command line
  overrides, merged in the order of \<^verbatim>\<open>LoadConfig\<close>. The key-value store that does the merging is the
  library \<^verbatim>\<open>koanf\<close>; its operations are the fields of a record that the loader is given.
\<close>

section \<open>Settings\<close>

record ServerConfig =
  sc_Host :: string
  sc_Port :: int

record DaemonConfig =
  dc_UpdateIntervalMS :: int
  dc_LockedUpdateIntervalMS :: int
  dc_LogLevel :: string
  dc_LogFormat :: string
  dc_SocketPath :: string

record ADBConfig =
  ac_ServerHost :: string
  ac_ServerPort :: int
  ac_TargetPackage :: string
  ac_TargetActivity :: string
  ac_NoAppControl :: bool

record Config =
  cf_Server :: ServerConfig
  cf_Daemon :: DaemonConfig
  cf_ADB :: ADBConfig

text \<open>A value of a setting, and of the \<^verbatim>\<open>map[string]interface{}\<close> of command line flags.\<close>

datatype cval = VNil | VStr string | VInt int | VBool bool

text \<open>What the process environment provides: variables, and the home and temporary
  directories.\<close>

record process_env =
  pe_vars :: "(string \<times> string) list"
  pe_home :: "string option"
  pe_tmp :: string

definition getenv :: "process_env \<Rightarrow> string \<Rightarrow> string" where
  "getenv en name = (case map_of (pe_vars en) name of Some v \<Rightarrow> v | None \<Rightarrow> [])"

definition DefaultConfig :: "process_env \<Rightarrow> Config" where
  "DefaultConfig en =
     (let xdgRuntime = getenv en ''XDG_RUNTIME_DIR'';
          socketPath = (if xdgRuntime \<noteq> [] then path_join [xdgRuntime, ''pc-dashboard-server.sock'']
                        else path_join [pe_tmp en, ''pc-dashboard-server.sock''])
      in \<lparr>cf_Server = \<lparr>sc_Host = ''127.0.0.1'', sc_Port = 12345\<rparr>,
          cf_Daemon = \<lparr>dc_UpdateIntervalMS = 1000, dc_LockedUpdateIntervalMS = 5000, dc_LogLevel = ''info'',
            dc_LogFormat = ''text'', dc_SocketPath = socketPath\<rparr>,
          cf_ADB = \<lparr>ac_ServerHost = ''127.0.0.1'', ac_ServerPort = 5037, ac_TargetPackage = ''com.noosxe.pc_dashboard'',
            ac_TargetActivity = ''com.noosxe.pc_dashboard.MainActivity'', ac_NoAppControl = False\<rparr>\<rparr>)"

section \<open>Loading\<close>

datatype parser = YamlParser | TomlParser

definition config_candidates :: "string \<Rightarrow> string list" where
  "config_candidates homeDir =
     [path_join [homeDir, ''.config'', ''pc-dashboard'', ''config.yaml''],
      path_join [homeDir, ''.config'', ''pc-dashboard'', ''config.yml''],
      path_join [homeDir, ''.config'', ''pc-dashboard'', ''config.toml'']]"

definition choose_config_path :: "process_env \<Rightarrow> (string \<Rightarrow> stat) \<Rightarrow> string \<Rightarrow> string" where
  "choose_config_path en fstat configPath =
     (if configPath = [] then
        (case pe_home en of
           None \<Rightarrow> []
         | Some homeDir \<Rightarrow>
             (case List.find (\<lambda>c. fstat c = Exists) (config_candidates homeDir) of None \<Rightarrow> [] | Some c \<Rightarrow> c))
      else configPath)"

definition choose_parser :: "string \<Rightarrow> parser" where
  "choose_parser path = (if has_suffix path ''.toml'' then TomlParser else YamlParser)"

definition env_key :: "string \<Rightarrow> string" where
  "env_key s = replace_char (CHR ''_'') ''.'' (to_lower (trim_prefix s ''PCD_''))"

definition cli_skipped :: "cval \<Rightarrow> bool" where
  "cli_skipped v = (v = VNil \<or> v = VStr [] \<or> v = VInt 0)"

text \<open>The operations of a \<^verbatim>\<open>koanf\<close> store: an empty one, loading a struct, a file with a parser and the
  environment variables with a prefix through a key function, setting one key, and
  unmarshalling. Each may fail with a message.\<close>

record 'k koanf =
  kf_new :: 'k
  kf_structs :: "Config \<Rightarrow> 'k \<Rightarrow> string + 'k"
  kf_file :: "string \<Rightarrow> parser \<Rightarrow> 'k \<Rightarrow> string + 'k"
  kf_env :: "string \<Rightarrow> (string \<Rightarrow> string) \<Rightarrow> (string \<times> string) list \<Rightarrow> 'k \<Rightarrow> string + 'k"
  kf_set :: "string \<Rightarrow> cval \<Rightarrow> 'k \<Rightarrow> string + 'k"
  kf_unmarshal :: "'k \<Rightarrow> string + Config"

datatype config_error =
    DefaultsFailed string
  | FileFailed string string
  | StatFailed string
  | EnvFailed string
  | FlagFailed string string
  | UnmarshalFailed string

definition wrap_err :: "(string \<Rightarrow> config_error) \<Rightarrow> string + 'a \<Rightarrow> config_error + 'a" where
  "wrap_err f r = (case r of Inl e \<Rightarrow> Inl (f e) | Inr x \<Rightarrow> Inr x)"

definition load_file :: "'k koanf \<Rightarrow> (string \<Rightarrow> stat) \<Rightarrow> string \<Rightarrow> 'k \<Rightarrow> config_error + 'k" where
  "load_file kf fstat path k =
     (if path = [] then Inr k
      else case fstat path of
             Exists \<Rightarrow> wrap_err (FileFailed path) (kf_file kf path (choose_parser path) k)
           | NotExist \<Rightarrow> Inr k
           | StatError e \<Rightarrow> Inl (StatFailed e))"

fun merge_flags :: "'k koanf \<Rightarrow> (string \<times> cval) list \<Rightarrow> 'k \<Rightarrow> config_error + 'k" where
  "merge_flags kf [] k = Inr k"
| "merge_flags kf ((key, v) # flags) k =
     (if cli_skipped v then merge_flags kf flags k
      else ebind (wrap_err (FlagFailed key) (kf_set kf key v k)) (merge_flags kf flags))"

definition load_store ::
  "'k koanf \<Rightarrow> process_env \<Rightarrow> (string \<Rightarrow> stat) \<Rightarrow> string \<Rightarrow> (string \<times> cval) list \<Rightarrow> config_error + 'k" where
  "load_store kf en fstat configPath cliFlags =
     ebind (wrap_err DefaultsFailed (kf_structs kf (DefaultConfig en) (kf_new kf))) (\<lambda>k1.
     ebind (load_file kf fstat (choose_config_path en fstat configPath) k1) (\<lambda>k2.
     ebind (wrap_err EnvFailed (kf_env kf ''PCD_'' env_key (pe_vars en) k2)) (\<lambda>k3.
     merge_flags kf cliFlags k3)))"

definition LoadConfig ::
  "'k koanf \<Rightarrow> process_env \<Rightarrow> (string \<Rightarrow> stat) \<Rightarrow> string \<Rightarrow> (string \<times> cval) list \<Rightarrow> config_error + Config" where
  "LoadConfig kf en fstat configPath cliFlags =
     ebind (load_store kf en fstat configPath cliFlags) (\<lambda>k. wrap_err UnmarshalFailed (kf_unmarshal kf k))"

section \<open>Precedence\<close>

text \<open>What the loader relies on of the store, for one key: the documented merging, in which a later
  source overrides an earlier one for the keys it has and leaves the others alone. Keys
  are paths, so the law is only claimed for sources that hold no proper prefix or
  extension of the key. \<open>dflt\<close> and \<open>content\<close> are the key-value pairs of the defaults and of a file.\<close>

definition key_conflict :: "string \<Rightarrow> string \<Rightarrow> bool" where
  "key_conflict a b \<longleftrightarrow> has_prefix a (b @ ''.'') \<or> has_prefix b (a @ ''.'')"

definition env_pairs :: "string \<Rightarrow> (string \<Rightarrow> string) \<Rightarrow> (string \<times> string) list \<Rightarrow> (string \<times> cval) list" where
  "env_pairs prefix f vars = map (\<lambda>(n, v). (f n, VStr v)) (filter (\<lambda>(n, v). has_prefix n prefix) vars)"

definition no_conflicts :: "string \<Rightarrow> (string \<times> 'v) list \<Rightarrow> bool" where
  "no_conflicts key kvs \<longleftrightarrow> list_all (\<lambda>(k, v). \<not> key_conflict k key) kvs"

definition koanf_merges ::
  "'k koanf \<Rightarrow> ('k \<Rightarrow> string \<Rightarrow> cval option) \<Rightarrow> (Config \<Rightarrow> (string \<times> cval) list) \<Rightarrow>
     (string \<Rightarrow> parser \<Rightarrow> (string \<times> cval) list) \<Rightarrow> string \<Rightarrow> bool" where
  "koanf_merges kf look dflt content key \<longleftrightarrow>
     look (kf_new kf) key = None \<and>
     (\<forall>c k k'. kf_structs kf c k = Inr k' \<longrightarrow> no_conflicts key (dflt c) \<longrightarrow>
        look k' key = (case map_of (rev (dflt c)) key of Some v \<Rightarrow> Some v | None \<Rightarrow> look k key)) \<and>
     (\<forall>p ps k k'. kf_file kf p ps k = Inr k' \<longrightarrow> no_conflicts key (content p ps) \<longrightarrow>
        look k' key = (case map_of (rev (content p ps)) key of Some v \<Rightarrow> Some v | None \<Rightarrow> look k key)) \<and>
     (\<forall>p f vars k k'. kf_env kf p f vars k = Inr k' \<longrightarrow> no_conflicts key (env_pairs p f vars) \<longrightarrow>
        look k' key = (case map_of (rev (env_pairs p f vars)) key of Some v \<Rightarrow> Some v | None \<Rightarrow> look k key)) \<and>
     (\<forall>a v k k'. kf_set kf a v k = Inr k' \<longrightarrow> \<not> key_conflict a key \<longrightarrow>
        look k' key = (if a = key then Some v else look k key))"

text \<open>The pairs a source contributes, the last one first.\<close>

definition file_pairs :: "(string \<Rightarrow> stat) \<Rightarrow> (string \<Rightarrow> parser \<Rightarrow> (string \<times> cval) list) \<Rightarrow> string \<Rightarrow> (string \<times> cval) list" where
  "file_pairs fstat content path =
     (if path \<noteq> [] \<and> fstat path = Exists then content path (choose_parser path) else [])"

definition effective_flags :: "(string \<times> cval) list \<Rightarrow> (string \<times> cval) list" where
  "effective_flags flags = filter (\<lambda>(k, v). \<not> cli_skipped v) flags"

lemma wrap_err_Inr [simp]: "wrap_err f r = Inr x \<longleftrightarrow> r = Inr x"
  by (simp add: wrap_err_def split: sum.split)

lemma no_conflicts_Cons [simp]: "no_conflicts key ((k, v) # kvs) \<longleftrightarrow> \<not> key_conflict k key \<and> no_conflicts key kvs"
  by (simp add: no_conflicts_def)

lemma merge_flags_lookup:
  assumes law: "koanf_merges kf look dflt content key"
  shows "merge_flags kf flags k = Inr k' \<Longrightarrow> no_conflicts key flags \<Longrightarrow>
    look k' key = (case map_of (rev (effective_flags flags)) key of Some v \<Rightarrow> Some v | None \<Rightarrow> look k key)"
proof (induction flags arbitrary: k)
  case Nil
  then show ?case by (simp add: effective_flags_def)
next
  case (Cons kv flags)
  obtain a v where kv: "kv = (a, v)" by fastforce
  show ?case
  proof (cases "cli_skipped v")
    case True
    then show ?thesis using Cons kv by (simp add: effective_flags_def)
  next
    case False
    then obtain k1 where k1: "kf_set kf a v k = Inr k1" "merge_flags kf flags k1 = Inr k'"
      using Cons.prems kv by (auto simp: ebind_eq_Inr)
    have "look k1 key = (if a = key then Some v else look k key)"
      using law k1(1) Cons.prems(2) kv unfolding koanf_merges_def by auto
    then show ?thesis using Cons.IH[OF k1(2)] Cons.prems(2) kv False
      by (auto simp: effective_flags_def map_add_def split: option.splits)
  qed
qed

section \<open>Properties\<close>

text \<open>C18: settings are resolved in the documented order: after a successful load, a key has the value of
  the last non-empty command line flag for it, else of the environment variable that maps
  to it, else of the configuration file, else the default, provided the store merges as
  documented and no source holds a conflicting path.\<close>

theorem config_precedence:
  assumes "koanf_merges kf look dflt content key"
    and "load_store kf en fstat configPath flags = Inr k"
    and "no_conflicts key (dflt (DefaultConfig en))"
    and "no_conflicts key (file_pairs fstat content (choose_config_path en fstat configPath))"
    and "no_conflicts key (env_pairs ''PCD_'' env_key (pe_vars en))"
    and "no_conflicts key flags"
  shows "look k key = map_of (rev (effective_flags flags) @ rev (env_pairs ''PCD_'' env_key (pe_vars en)) @
      rev (file_pairs fstat content (choose_config_path en fstat configPath)) @ rev (dflt (DefaultConfig en))) key"
proof -
  let ?path = "choose_config_path en fstat configPath"
  obtain k1 k2 k3 where k: "kf_structs kf (DefaultConfig en) (kf_new kf) = Inr k1" "load_file kf fstat ?path k1 = Inr k2"
      "kf_env kf ''PCD_'' env_key (pe_vars en) k2 = Inr k3" "merge_flags kf flags k3 = Inr k"
    using assms(2) unfolding load_store_def by (auto simp: ebind_eq_Inr)
  have "look (kf_new kf) key = None" using assms(1) by (simp add: koanf_merges_def)
  then have 1: "look k1 key = map_of (rev (dflt (DefaultConfig en))) key"
    using assms(1,3) k(1) unfolding koanf_merges_def by (fastforce split: option.splits)
  have 2: "look k2 key = (case map_of (rev (file_pairs fstat content ?path)) key of Some v \<Rightarrow> Some v | None \<Rightarrow> look k1 key)"
    using assms(1,4) k(2) unfolding koanf_merges_def load_file_def file_pairs_def
    by (fastforce split: if_splits stat.splits)
  have 3: "look k3 key = (case map_of (rev (env_pairs ''PCD_'' env_key (pe_vars en))) key of Some v \<Rightarrow> Some v | None \<Rightarrow> look k2 key)"
    using assms(1,5) k(3) unfolding koanf_merges_def by blast
  show ?thesis
    using merge_flags_lookup[OF assms(1) k(4) assms(6)] 1 2 3 by (simp add: map_add_def split: option.splits)
qed

text \<open>A store that is a finite map, as an instance of the laws.\<close>

definition merge_pairs :: "(string \<times> cval) list \<Rightarrow> (string \<times> cval) list \<Rightarrow> (string \<times> cval) list" where
  "merge_pairs kvs k = rev kvs @ k"

definition config_pairs :: "Config \<Rightarrow> (string \<times> cval) list" where
  "config_pairs c = [(''server.host'', VStr (sc_Host (cf_Server c))), (''server.port'', VInt (sc_Port (cf_Server c))),
     (''daemon.update_interval_ms'', VInt (dc_UpdateIntervalMS (cf_Daemon c)))]"

definition sample_koanf :: "(string \<times> cval) list koanf" where
  "sample_koanf = \<lparr>kf_new = [], kf_structs = (\<lambda>c k. Inr (merge_pairs (config_pairs c) k)),
     kf_file = (\<lambda>p ps k. Inr (merge_pairs [(''server.port'', VInt 9000)] k)),
     kf_env = (\<lambda>p f vars k. Inr (merge_pairs (env_pairs p f vars) k)),
     kf_set = (\<lambda>a v k. Inr (merge_pairs [(a, v)] k)), kf_unmarshal = (\<lambda>k. Inl ''not used'')\<rparr>"

lemma sample_koanf_merges:
  "koanf_merges sample_koanf map_of config_pairs (\<lambda>p ps. [(''server.port'', VInt 9000)]) key"
  unfolding koanf_merges_def sample_koanf_def merge_pairs_def
  by (auto simp: map_add_def split: option.splits)

theorem config_precedence_witness:
  "\<exists>k. load_store sample_koanf \<lparr>pe_vars = [(''PCD_SERVER_HOST'', ''::1''), (''PCD_SERVER_PORT'', ''7000'')],
        pe_home = None, pe_tmp = ''/tmp''\<rparr> (\<lambda>p. Exists) ''/etc/pcd.yaml''
        [(''server.port'', VInt 8000), (''server.host'', VStr [])] = Inr k \<and>
     map_of k ''server.port'' = Some (VInt 8000) \<and> map_of k ''server.host'' = Some (VStr ''::1'')"
proof -
  let ?en = "\<lparr>pe_vars = [(''PCD_SERVER_HOST'', ''::1''), (''PCD_SERVER_PORT'', ''7000'')], pe_home = None, pe_tmp = ''/tmp''\<rparr>"
  let ?fl = "[(''server.port'', VInt 8000), (''server.host'', VStr [])]"
  let ?ct = "\<lambda>p ps. [(''server.port'', VInt 9000)]"
  have env: "env_pairs ''PCD_'' env_key (pe_vars ?en) = [(''server.host'', VStr ''::1''), (''server.port'', VStr ''7000'')]"
    by code_simp
  obtain k where k: "load_store sample_koanf ?en (\<lambda>p. Exists) ''/etc/pcd.yaml'' ?fl = Inr k"
    by (simp add: load_store_def load_file_def sample_koanf_def choose_config_path_def cli_skipped_def wrap_err_def)
  have nc: "no_conflicts key (config_pairs c)" "no_conflicts key (?ct p ps)" "no_conflicts key ?fl"
      "no_conflicts key (file_pairs (\<lambda>p. Exists) ?ct path)"
      "no_conflicts key (env_pairs ''PCD_'' env_key (pe_vars ?en))"
    if "key = ''server.port'' \<or> key = ''server.host''" for key c p ps path
    using that unfolding env
    by (auto simp: no_conflicts_def key_conflict_def has_prefix_def config_pairs_def file_pairs_def)
  have look: "map_of k key = map_of (rev (effective_flags ?fl) @ rev (env_pairs ''PCD_'' env_key (pe_vars ?en)) @
      rev (file_pairs (\<lambda>p. Exists) ?ct (choose_config_path ?en (\<lambda>p. Exists) ''/etc/pcd.yaml'')) @
      rev (config_pairs (DefaultConfig ?en))) key" if "key = ''server.port'' \<or> key = ''server.host''" for key
    by (rule config_precedence[OF sample_koanf_merges k]) (use nc that in auto)
  have "map_of k ''server.port'' = Some (VInt 8000)" "map_of k ''server.host'' = Some (VStr ''::1'')"
    using look[of "''server.port''"] look[of "''server.host''"] unfolding env
    by (simp_all add: effective_flags_def cli_skipped_def)
  with k show ?thesis by blast
qed

text \<open>no environment variable can set a key that contains an underscore, such as
  \<^verbatim>\<open>daemon.update_interval_ms\<close> or \<^verbatim>\<open>adb.target_package\<close>: the key function turns every underscore into a
  dot, so the variable named in the documentation sets \<^verbatim>\<open>daemon.update.interval.ms\<close> instead.\<close>

theorem env_keys_have_no_underscore:
  "CHR ''_'' \<notin> set (env_key name) \<and> env_key name \<noteq> ''daemon.update_interval_ms'' \<and>
   env_key ''PCD_DAEMON_UPDATE_INTERVAL_MS'' = ''daemon.update.interval.ms''"
proof -
  have no: "CHR ''_'' \<notin> set (env_key n)" for n
    unfolding env_key_def by (rule replace_char_removes) simp
  moreover have "env_key name \<noteq> ''daemon.update_interval_ms''"
    using no[of name] by auto
  moreover have "env_key ''PCD_DAEMON_UPDATE_INTERVAL_MS'' = ''daemon.update.interval.ms''"
    by code_simp
  ultimately show ?thesis by blast
qed

end
