(* ===== verification/Go_Chan.thy ===== *)
theory Go_Chan
  imports PCD_Prelude
begin

text \<open>
  Buffered Go channels. A channel has a capacity, a FIFO buffer and a flag that says
  whether it has been closed; a send on a closed channel panics, in a \<^verbatim>\<open>select\<close> with a
  \<^verbatim>\<open>default\<close> branch as well. The locales state what the components rely on: an
  \<open>lossy_sink\<close> never blocks and keeps what it accepted in order, a
  \<open>transition_filter\<close> forwards a value only when it differs from the last one seen.
\<close>

record 'a chan =
  ch_cap :: nat
  ch_buf :: "'a list"
  ch_closed :: bool

definition make_chan :: "nat \<Rightarrow> 'a chan" where
  "make_chan n = \<lparr>ch_cap = n, ch_buf = [], ch_closed = False\<rparr>"

text \<open>\<^verbatim>\<open>select { case c <- x: default: }\<close>; the flag says whether the send happened.\<close>

definition try_send :: "'a \<Rightarrow> 'a chan \<Rightarrow> ('a chan \<times> bool) go" where
  "try_send x c =
     (if ch_closed c then Inl SendOnClosedChannel
      else if length (ch_buf c) < ch_cap c then Inr (c\<lparr>ch_buf := ch_buf c @ [x]\<rparr>, True)
      else Inr (c, False))"

text \<open>\<^verbatim>\<open>select { case x := <-c: default: }\<close>\<close>

definition try_recv :: "'a chan \<Rightarrow> 'a option \<times> 'a chan" where
  "try_recv c = (case ch_buf c of [] \<Rightarrow> (None, c) | x # xs \<Rightarrow> (Some x, c\<lparr>ch_buf := xs\<rparr>))"

definition close_chan :: "'a chan \<Rightarrow> 'a chan go" where
  "close_chan c = (if ch_closed c then Inl CloseOfClosedChannel else Inr (c\<lparr>ch_closed := True\<rparr>))"

definition offer :: "'a \<Rightarrow> 'a chan \<Rightarrow> 'a chan go" where
  "offer x c = ebind (try_send x c) (\<lambda>(c', _). Inr c')"

definition chan_ok :: "'a chan \<Rightarrow> bool" where
  "chan_ok c \<longleftrightarrow> length (ch_buf c) \<le> ch_cap c"

fun offer_all :: "('a \<Rightarrow> 'c \<Rightarrow> 'c go) \<Rightarrow> 'a list \<Rightarrow> 'c \<Rightarrow> 'c go" where
  "offer_all snd_op [] c = Inr c"
| "offer_all snd_op (x # xs) c = ebind (snd_op x c) (\<lambda>c'. offer_all snd_op xs c')"

lemma make_chan_sel [simp]:
  "ch_cap (make_chan n) = n" "ch_buf (make_chan n) = []" "\<not> ch_closed (make_chan n)"
  by (simp_all add: make_chan_def)

lemma chan_ok_make [simp]: "chan_ok (make_chan n)"
  by (simp add: chan_ok_def)

lemma offer_open [chan_simps]:
  "\<not> ch_closed c \<Longrightarrow> offer x c =
     Inr (if length (ch_buf c) < ch_cap c then c\<lparr>ch_buf := ch_buf c @ [x]\<rparr> else c)"
  by (simp add: offer_def try_send_def)

lemma offer_closed [chan_simps]: "ch_closed c \<Longrightarrow> offer x c = Inl SendOnClosedChannel"
  by (simp add: offer_def try_send_def)

lemma offer_Inr_iff:
  "offer x c = Inr c' \<longleftrightarrow> \<not> ch_closed c \<and>
     c' = (if length (ch_buf c) < ch_cap c then c\<lparr>ch_buf := ch_buf c @ [x]\<rparr> else c)"
  by (cases "ch_closed c") (auto simp: offer_open offer_closed)

lemma try_send_offer:
  "ebind (try_send x c) (\<lambda>(c', _). Inr (f c')) = ebind (offer x c) (\<lambda>c'. Inr (f c'))"
  by (simp add: offer_def try_send_def)

lemma offer_chan_ok: "chan_ok c \<Longrightarrow> offer x c = Inr c' \<Longrightarrow> chan_ok c'"
  by (auto simp: offer_Inr_iff chan_ok_def)

section \<open>Non-blocking sinks\<close>

locale lossy_sink =
  fixes send :: "'a \<Rightarrow> 'c \<Rightarrow> 'c go"
    and queued :: "'c \<Rightarrow> 'a list"
    and room :: "'c \<Rightarrow> nat"
    and live :: "'c \<Rightarrow> bool"
  assumes send_live: "live c \<Longrightarrow> \<exists>c'. send x c = Inr c'"
    and send_queued: "send x c = Inr c' \<Longrightarrow>
      queued c' = (if length (queued c) < room c then queued c @ [x] else queued c)"
    and send_room: "send x c = Inr c' \<Longrightarrow> room c' = room c"
    and send_keeps_live: "send x c = Inr c' \<Longrightarrow> live c \<Longrightarrow> live c'"
begin

lemma send_bounded:
  "send x c = Inr c' \<Longrightarrow> length (queued c) \<le> room c \<Longrightarrow> length (queued c') \<le> room c'"
  by (auto simp: send_queued send_room)

lemma send_all_total: "live c \<Longrightarrow> \<exists>c'. offer_all send xs c = Inr c'"
proof (induction xs arbitrary: c)
  case Nil
  then show ?case by simp
next
  case (Cons x xs)
  then obtain c1 where "send x c = Inr c1" using send_live by blast
  moreover from this Cons.prems have "live c1" by (rule send_keeps_live)
  ultimately show ?case using Cons.IH by simp
qed

text \<open>Sending a sequence keeps the longest prefix that fits, in order.\<close>

lemma send_all_queued:
  "offer_all send xs c = Inr c' \<Longrightarrow> length (queued c) \<le> room c \<Longrightarrow>
     queued c' = take (room c) (queued c @ xs)"
proof (induction xs arbitrary: c)
  case Nil
  then show ?case by simp
next
  case (Cons x xs)
  from Cons.prems(1) obtain c1 where c1: "send x c = Inr c1" and rest: "offer_all send xs c1 = Inr c'"
    by (auto simp: ebind_eq_Inr)
  have "queued c' = take (room c1) (queued c1 @ xs)"
    using Cons.IH[OF rest] send_bounded[OF c1 Cons.prems(2)] by simp
  also have "\<dots> = take (room c) (queued c @ x # xs)"
    using send_queued[OF c1] send_room[OF c1] Cons.prems(2)
    by (cases "length (queued c) < room c") (auto simp: take_Cons')
  finally show ?case .
qed

end

interpretation chan_sink: lossy_sink offer ch_buf ch_cap "\<lambda>c. \<not> ch_closed c"
  by unfold_locales (auto simp: offer_Inr_iff chan_simps)

section \<open>Forwarding transitions only\<close>

text \<open>
  The session lock and the display power managers share one scheme: remember the last
  value, forward a value that differs from it (or the first one) with a non-blocking send,
  and ignore it otherwise. \<open>known\<close> is the remembered value, if any.
\<close>

fun run_updates :: "('s \<Rightarrow> 'v \<Rightarrow> 'e chan \<Rightarrow> ('s \<times> 'e chan) go) \<Rightarrow> 's \<Rightarrow> 'v list \<Rightarrow> 'e chan \<Rightarrow> ('s \<times> 'e chan) go" where
  "run_updates upd s [] c = Inr (s, c)"
| "run_updates upd s (v # vs) c = ebind (upd s v c) (\<lambda>(s', c'). run_updates upd s' vs c')"

fun transitions :: "'v option \<Rightarrow> 'v list \<Rightarrow> 'v list" where
  "transitions k [] = []"
| "transitions k (v # vs) = (if k = Some v then transitions k vs else v # transitions (Some v) vs)"

lemma transitions_Some_remdups_adj: "k # transitions (Some k) vs = remdups_adj (k # vs)"
  by (induction vs arbitrary: k) auto

lemma transitions_None: "transitions None vs = remdups_adj vs"
  by (cases vs) (simp_all add: transitions_Some_remdups_adj)

locale transition_filter =
  fixes upd :: "'s \<Rightarrow> 'v \<Rightarrow> 'e chan \<Rightarrow> ('s \<times> 'e chan) go"
    and known :: "'s \<Rightarrow> 'v option"
    and mk :: "'v \<Rightarrow> 'e"
  assumes upd_same: "known s = Some v \<Longrightarrow> upd s v c = Inr (s, c)"
    and upd_new: "known s \<noteq> Some v \<Longrightarrow> offer (mk v) c = Inr c' \<Longrightarrow>
      \<exists>s'. upd s v c = Inr (s', c') \<and> known s' = Some v"
begin

lemma upd_open:
  assumes "\<not> ch_closed c"
  obtains s' c' where "upd s v c = Inr (s', c')" and "known s' = Some v" and "\<not> ch_closed c'"
    and "offer_all offer (map mk (transitions (known s) [v])) c = Inr c'"
proof (cases "known s = Some v")
  case True
  then show ?thesis using assms that[OF upd_same] by simp
next
  case False
  obtain c' where c': "offer (mk v) c = Inr c'"
    using chan_sink.send_live[OF assms, of "mk v"] by blast
  from upd_new[OF False c'] obtain s' where "upd s v c = Inr (s', c')" "known s' = Some v" by blast
  with False c' chan_sink.send_keeps_live[OF c' assms] that show ?thesis by simp
qed

text \<open>A run on an open channel never panics, remembers the last value, and offers the channel
  exactly the transitions of the input.\<close>

lemma run_transitions:
  "\<not> ch_closed c \<Longrightarrow> \<exists>s' c'. run_updates upd s vs c = Inr (s', c') \<and>
     offer_all offer (map mk (transitions (known s) vs)) c = Inr c' \<and>
     known s' = (if vs = [] then known s else Some (last vs))"
proof (induction vs arbitrary: s c)
  case Nil
  then show ?case by simp
next
  case (Cons v vs)
  from Cons.prems obtain s1 c1 where step: "upd s v c = Inr (s1, c1)" "known s1 = Some v"
      "\<not> ch_closed c1" and off: "offer_all offer (map mk (transitions (known s) [v])) c = Inr c1"
    by (rule upd_open)
  from Cons.IH[OF step(3), of s1] step(2) obtain s' c' where
      "run_updates upd s1 vs c1 = Inr (s', c')" "known s' = Some (last (v # vs))"
      "offer_all offer (map mk (transitions (Some v) vs)) c1 = Inr c'"
    by auto
  with step(1) off show ?case
    by (cases "known s = Some v") (auto simp: ebind_eq_Inr)
qed

lemma run_buffer:
  assumes "\<not> ch_closed c" and "chan_ok c"
  shows "\<exists>s' c'. run_updates upd s vs c = Inr (s', c') \<and>
    ch_buf c' = take (ch_cap c) (ch_buf c @ map mk (transitions (known s) vs))"
proof -
  obtain s' c' where "run_updates upd s vs c = Inr (s', c')"
      and off: "offer_all offer (map mk (transitions (known s) vs)) c = Inr c'"
    using run_transitions[OF assms(1)] by blast
  moreover have "ch_buf c' = take (ch_cap c) (ch_buf c @ map mk (transitions (known s) vs))"
    using chan_sink.send_all_queued[OF off] assms(2) by (simp add: chan_ok_def)
  ultimately show ?thesis by blast
qed

end

section \<open>Systems that never panic\<close>

text \<open>A component as a set of operations on a state, each of which may panic; an operation that is not
  possible in a state leaves it unchanged. If every operation of a state that satisfies the
  invariant succeeds and keeps it, no sequence of operations panics.\<close>

fun run_ops :: "('op \<Rightarrow> 's \<Rightarrow> 's go) \<Rightarrow> 'op list \<Rightarrow> 's \<Rightarrow> 's go" where
  "run_ops exec [] s = Inr s"
| "run_ops exec (opr # ops) s = ebind (exec opr s) (run_ops exec ops)"

locale safe_system =
  fixes exec :: "'op \<Rightarrow> 's \<Rightarrow> 's go"
    and inv :: "'s \<Rightarrow> bool"
  assumes exec_safe: "inv s \<Longrightarrow> \<exists>s'. exec opr s = Inr s' \<and> inv s'"
begin

lemma run_safe: "inv s \<Longrightarrow> \<exists>s'. run_ops exec ops s = Inr s' \<and> inv s'"
proof (induction ops arbitrary: s)
  case (Cons opr ops)
  then obtain s1 where "exec opr s = Inr s1" "inv s1" using exec_safe by blast
  with Cons.IH show ?case by simp
qed simp

lemma run_keeps: "inv s \<Longrightarrow> run_ops exec ops s = Inr s' \<Longrightarrow> inv s'"
  using run_safe[of s ops] by auto

end

end
