(* ===== verification/Stream_Hub.thy ===== *)
theory Stream_Hub
  imports Go_Chan "HOL-Library.Sublist"
begin

text \<open>
  The subscription scheme that all streams of the ConnectRPC server share: a handler makes a
  channel with room for ten messages, enters it in the server's map, forwards what it receives
  to its client, and on the way out deletes the channel from the map and closes it. A broadcast
  offers its message to every channel of the map and drops it where the buffer is full.

  Channels are objects shared by the map and the handler, so the hub has a store of channels
  and a list of the stored channels that are in the map. The locale states what a subscriber
  may rely on; the step relation interleaves handlers and broadcasts arbitrarily.
\<close>

section \<open>Operations\<close>

record 'a hub =
  hb_store :: "'a chan list"
  hb_members :: "nat list"

definition empty_hub :: "'a hub" where
  "empty_hub = \<lparr>hb_store = [], hb_members = []\<rparr>"

definition hub_subscribe :: "'a hub \<Rightarrow> nat \<times> 'a hub" where
  "hub_subscribe h =
     (let ch = length (hb_store h) in
      (ch, h\<lparr>hb_store := hb_store h @ [make_chan 10], hb_members := List.insert ch (hb_members h)\<rparr>))"

definition hub_unsubscribe :: "nat \<Rightarrow> 'a hub \<Rightarrow> 'a hub go" where
  "hub_unsubscribe ch h =
     (let h1 = h\<lparr>hb_members := removeAll ch (hb_members h)\<rparr> in
      ebind (close_chan (hb_store h1 ! ch)) (\<lambda>c. Inr (h1\<lparr>hb_store := (hb_store h1)[ch := c]\<rparr>)))"

definition hub_offer :: "'a \<Rightarrow> nat \<Rightarrow> 'a hub \<Rightarrow> 'a hub go" where
  "hub_offer x ch h = ebind (offer x (hb_store h ! ch)) (\<lambda>c. Inr (h\<lparr>hb_store := (hb_store h)[ch := c]\<rparr>))"

fun hub_offer_each :: "'a \<Rightarrow> nat list \<Rightarrow> 'a hub \<Rightarrow> 'a hub go" where
  "hub_offer_each x [] h = Inr h"
| "hub_offer_each x (ch # chs) h = ebind (hub_offer x ch h) (hub_offer_each x chs)"

definition hub_publish :: "'a \<Rightarrow> 'a hub \<Rightarrow> 'a hub go" where
  "hub_publish x h = hub_offer_each x (hb_members h) h"

text \<open>The receive branch of a handler's \<^verbatim>\<open>select\<close>.\<close>

definition hub_receive :: "nat \<Rightarrow> 'a hub \<Rightarrow> 'a option \<times> 'a hub" where
  "hub_receive ch h =
     (case try_recv (hb_store h ! ch) of (r, c) \<Rightarrow> (r, h\<lparr>hb_store := (hb_store h)[ch := c]\<rparr>))"

section \<open>Well-formed hubs\<close>

text \<open>The channels in the map are stored, open and within their capacity of ten, and none is
  entered twice; a stored channel outside the map has been closed.\<close>

definition hub_ok :: "'a hub \<Rightarrow> bool" where
  "hub_ok h \<longleftrightarrow> distinct (hb_members h) \<and> (\<forall>ch \<in> set (hb_members h). ch < length (hb_store h)) \<and>
     (\<forall>ch < length (hb_store h). let c = hb_store h ! ch in
        ch_cap c = 10 \<and> chan_ok c \<and> (ch_closed c \<longleftrightarrow> ch \<notin> set (hb_members h)))"

lemma hub_okD:
  assumes "hub_ok h" and "ch \<in> set (hb_members h)"
  shows "ch < length (hb_store h)" and "\<not> ch_closed (hb_store h ! ch)"
    and "ch_cap (hb_store h ! ch) = 10" and "length (ch_buf (hb_store h ! ch)) \<le> 10"
  using assms by (auto simp: hub_ok_def Let_def chan_ok_def)

lemma hub_ok_empty [simp]: "hub_ok empty_hub"
  by (simp add: hub_ok_def empty_hub_def)

lemma hub_ok_subscribe:
  assumes "hub_ok h"
  shows "hub_ok (snd (hub_subscribe h))"
  using assms by (fastforce simp: hub_ok_def hub_subscribe_def Let_def nth_append less_Suc_eq)

text \<open>Writing back a channel that has the same capacity and the same closed flag.\<close>

lemma hub_ok_update:
  assumes "hub_ok h" and "ch_cap c = ch_cap (hb_store h ! ch)" and "ch_closed c = ch_closed (hb_store h ! ch)"
    and "chan_ok c"
  shows "hub_ok (h\<lparr>hb_store := (hb_store h)[ch := c]\<rparr>)"
  using assms by (cases "ch < length (hb_store h)") (auto simp: hub_ok_def Let_def nth_list_update)

lemma hub_offer_member:
  assumes "hub_ok h" and "ch \<in> set (hb_members h)"
  shows "\<exists>h'. hub_offer x ch h = Inr h' \<and> hub_ok h' \<and> hb_members h' = hb_members h \<and>
    hb_store h' = (hb_store h)[ch := (hb_store h ! ch)\<lparr>ch_buf := take 10 (ch_buf (hb_store h ! ch) @ [x])\<rparr>]"
proof -
  let ?c = "hb_store h ! ch" and ?c' = "(hb_store h ! ch)\<lparr>ch_buf := take 10 (ch_buf (hb_store h ! ch) @ [x])\<rparr>"
  have "offer x ?c = Inr ?c'"
    using hub_okD[OF assms] by (cases "length (ch_buf ?c) < 10") (auto simp: offer_open)
  moreover have "hub_ok (h\<lparr>hb_store := (hb_store h)[ch := ?c']\<rparr>)"
    using assms(1) hub_okD[OF assms] by (intro hub_ok_update) (auto simp: chan_ok_def)
  ultimately show ?thesis by (simp add: hub_offer_def)
qed

lemma hub_offer_each_members:
  "hub_ok h \<Longrightarrow> set chs \<subseteq> set (hb_members h) \<Longrightarrow> distinct chs \<Longrightarrow>
   \<exists>h'. hub_offer_each x chs h = Inr h' \<and> hub_ok h' \<and> hb_members h' = hb_members h \<and>
     length (hb_store h') = length (hb_store h) \<and>
     (\<forall>ch < length (hb_store h). hb_store h' ! ch =
        (if ch \<in> set chs then (hb_store h ! ch)\<lparr>ch_buf := take 10 (ch_buf (hb_store h ! ch) @ [x])\<rparr>
         else hb_store h ! ch))"
proof (induction chs arbitrary: h)
  case (Cons ch chs)
  then obtain h1 where h1: "hub_offer x ch h = Inr h1" "hub_ok h1" "hb_members h1 = hb_members h"
      "hb_store h1 = (hb_store h)[ch := (hb_store h ! ch)\<lparr>ch_buf := take 10 (ch_buf (hb_store h ! ch) @ [x])\<rparr>]"
    using hub_offer_member[of h ch x] by auto
  moreover have "ch < length (hb_store h)" using Cons.prems hub_okD(1) by auto
  ultimately show ?case using Cons.IH[of h1] Cons.prems by (fastforce simp: nth_list_update)
qed simp

lemma hub_publish_members:
  assumes "hub_ok h"
  obtains h' where "hub_publish x h = Inr h'" and "hub_ok h'" and "hb_members h' = hb_members h"
    and "length (hb_store h') = length (hb_store h)"
    and "\<And>ch. ch < length (hb_store h) \<Longrightarrow> hb_store h' ! ch =
        (if ch \<in> set (hb_members h) then (hb_store h ! ch)\<lparr>ch_buf := take 10 (ch_buf (hb_store h ! ch) @ [x])\<rparr>
         else hb_store h ! ch)"
  using hub_offer_each_members[of h "hb_members h" x] assms
  by (auto simp: hub_publish_def hub_ok_def)

lemma hub_unsubscribe_member:
  assumes "hub_ok h" and "ch \<in> set (hb_members h)"
  shows "\<exists>h'. hub_unsubscribe ch h = Inr h' \<and> hub_ok h' \<and> hb_members h' = removeAll ch (hb_members h) \<and>
    hb_store h' = (hb_store h)[ch := (hb_store h ! ch)\<lparr>ch_closed := True\<rparr>]"
  using assms hub_okD[OF assms]
  by (auto simp: hub_unsubscribe_def Let_def close_chan_def hub_ok_def chan_ok_def nth_list_update distinct_removeAll)

lemma hub_receive_ok:
  assumes "hub_ok h"
  shows "hub_ok (snd (hub_receive ch h))"
proof -
  obtain r c where rc: "try_recv (hb_store h ! ch) = (r, c)" by fastforce
  show ?thesis
  proof (cases "ch < length (hb_store h)")
    case True
    with assms have "chan_ok (hb_store h ! ch)" by (auto simp: hub_ok_def Let_def)
    with rc have "chan_ok c" "ch_cap c = ch_cap (hb_store h ! ch)" "ch_closed c = ch_closed (hb_store h ! ch)"
      by (auto simp: try_recv_def chan_ok_def split: list.splits)
    with rc assms show ?thesis by (simp add: hub_receive_def hub_ok_update)
  next
    case False
    with rc assms show ?thesis by (simp add: hub_receive_def hub_ok_def)
  qed
qed

section \<open>The handlers of one stream\<close>

text \<open>A handler first subscribes (\<open>Starting\<close>), then sends the states it was given to start with
  (only one of the streams has any), then forwards what it receives. A failed send ends it at
  once, a cancelled request ends it in the receive loop. Handler number \<open>ch\<close> owns channel number \<open>ch\<close>. The last
  two fields are what the client has been sent in the receive loop and, for the
  specification only, what has been broadcast while the handler was subscribed.\<close>

datatype 'a phase = Starting | Sending "'a list" | Returned

record 'a stream_sys =
  ss_hub :: "'a hub"
  ss_phase :: "'a phase list"
  ss_greeted :: "'a list list"
  ss_sent :: "'a list list"
  ss_offered :: "'a list list"

definition empty_stream :: "'a stream_sys" where
  "empty_stream = \<lparr>ss_hub = empty_hub, ss_phase = [], ss_greeted = [], ss_sent = [], ss_offered = []\<rparr>"

definition stream_open :: "'a stream_sys \<Rightarrow> nat \<times> 'a stream_sys" where
  "stream_open s =
     (case hub_subscribe (ss_hub s) of
        (ch, h) \<Rightarrow> (ch, s\<lparr>ss_hub := h, ss_phase := ss_phase s @ [Starting], ss_greeted := ss_greeted s @ [[]],
                       ss_sent := ss_sent s @ [[]], ss_offered := ss_offered s @ [[]]\<rparr>))"

definition stream_greet :: "nat \<Rightarrow> 'a list \<Rightarrow> 'a stream_sys \<Rightarrow> 'a stream_sys" where
  "stream_greet ch xs s =
     (if ch < length (ss_phase s) \<and> ss_phase s ! ch = Starting
      then s\<lparr>ss_phase := (ss_phase s)[ch := Sending xs]\<rparr> else s)"

text \<open>The deferred function of a handler.\<close>

definition stream_return :: "nat \<Rightarrow> 'a stream_sys \<Rightarrow> 'a stream_sys go" where
  "stream_return ch s =
     ebind (hub_unsubscribe ch (ss_hub s))
       (\<lambda>h. Inr (s\<lparr>ss_hub := h, ss_phase := (ss_phase s)[ch := Returned]\<rparr>))"

text \<open>One send of a handler to its client, whose outcome is \<open>sent\<close>.\<close>

definition stream_serve :: "nat \<Rightarrow> bool \<Rightarrow> 'a stream_sys \<Rightarrow> 'a stream_sys go" where
  "stream_serve ch sent s =
     (if ch < length (ss_phase s) then
        (case ss_phase s ! ch of
           Sending (x # xs) \<Rightarrow>
             (if sent
              then Inr (s\<lparr>ss_phase := (ss_phase s)[ch := Sending xs], ss_greeted := (ss_greeted s)[ch := ss_greeted s ! ch @ [x]]\<rparr>)
              else stream_return ch s)
         | Sending [] \<Rightarrow>
             (case hub_receive ch (ss_hub s) of
                (None, _) \<Rightarrow> Inr s
              | (Some x, h) \<Rightarrow>
                  (if sent
                   then Inr (s\<lparr>ss_hub := h, ss_sent := (ss_sent s)[ch := ss_sent s ! ch @ [x]]\<rparr>)
                   else stream_return ch (s\<lparr>ss_hub := h\<rparr>)))
         | _ \<Rightarrow> Inr s)
      else Inr s)"

text \<open>The \<^verbatim>\<open>ctx.Done()\<close> branch.\<close>

definition stream_cancel :: "nat \<Rightarrow> 'a stream_sys \<Rightarrow> 'a stream_sys go" where
  "stream_cancel ch s =
     (if ch < length (ss_phase s) \<and> ss_phase s ! ch = Sending [] then stream_return ch s else Inr s)"

definition stream_publish :: "'a \<Rightarrow> 'a stream_sys \<Rightarrow> 'a stream_sys go" where
  "stream_publish x s =
     ebind (hub_publish x (ss_hub s))
       (\<lambda>h. Inr (s\<lparr>ss_hub := h,
          ss_offered := map (\<lambda>(p, xs). if p = Returned then xs else xs @ [x]) (zip (ss_phase s) (ss_offered s))\<rparr>))"

datatype 'a stream_op = SOpen | SGreet nat "'a list" | SServe nat bool | SCancel nat | SPublish 'a

definition stream_exec :: "'a stream_op \<Rightarrow> 'a stream_sys \<Rightarrow> 'a stream_sys go" where
  "stream_exec opr s =
     (case opr of
        SOpen \<Rightarrow> Inr (snd (stream_open s))
      | SGreet ch xs \<Rightarrow> Inr (stream_greet ch xs s)
      | SServe ch sent \<Rightarrow> stream_serve ch sent s
      | SCancel ch \<Rightarrow> stream_cancel ch s
      | SPublish x \<Rightarrow> stream_publish x s)"

section \<open>What the handlers guarantee\<close>

text \<open>Per handler: it is in the map exactly until it returns; what its client got in the loop,
  followed by what is still buffered, is a subsequence of what was broadcast to it, and all of it
  as long as no more than the ten messages the buffer holds were broadcast.\<close>

definition handler_ok :: "'a stream_sys \<Rightarrow> nat \<Rightarrow> bool" where
  "handler_ok s ch \<longleftrightarrow>
     (ss_phase s ! ch \<noteq> Returned \<longleftrightarrow> ch \<in> set (hb_members (ss_hub s))) \<and>
     (let got = ss_sent s ! ch @ ch_buf (hb_store (ss_hub s) ! ch) in
      subseq got (ss_offered s ! ch) \<and>
      (length (ss_offered s ! ch) \<le> 10 \<longrightarrow> ss_phase s ! ch \<noteq> Returned \<longrightarrow> got = ss_offered s ! ch))"

definition stream_ok :: "'a stream_sys \<Rightarrow> bool" where
  "stream_ok s \<longleftrightarrow> hub_ok (ss_hub s) \<and> length (ss_phase s) = length (hb_store (ss_hub s)) \<and>
     length (ss_greeted s) = length (ss_phase s) \<and> length (ss_sent s) = length (ss_phase s) \<and>
     length (ss_offered s) = length (ss_phase s) \<and> (\<forall>ch < length (ss_phase s). handler_ok s ch)"

lemma stream_ok_empty [simp]: "stream_ok empty_stream"
  by (simp add: stream_ok_def empty_stream_def) (simp add: empty_hub_def)

lemma stream_okD:
  assumes "stream_ok s"
  shows "hub_ok (ss_hub s)" "length (ss_phase s) = length (hb_store (ss_hub s))"
    "length (ss_greeted s) = length (ss_phase s)" "length (ss_sent s) = length (ss_phase s)"
    "length (ss_offered s) = length (ss_phase s)" "\<And>ch. ch < length (ss_phase s) \<Longrightarrow> handler_ok s ch"
  using assms by (auto simp: stream_ok_def)

lemma subseq_drop_mid: "subseq (u @ x # v) w \<Longrightarrow> subseq (u @ v) w"
proof -
  assume w: "subseq (u @ x # v) w"
  have "subseq (u @ v) (u @ x # v)" by (simp add: list_emb_append_mono list_emb_Cons)
  then show ?thesis using w by (rule subseq_order.trans)
qed

lemma stream_ok_open:
  assumes "stream_ok s"
  shows "stream_ok (snd (stream_open s))"
proof -
  let ?n = "length (ss_phase s)" and ?s = "snd (stream_open s)"
  note D = stream_okD[OF assms]
  have len: "length (hb_store (ss_hub s)) = ?n" using D(2) by simp
  have notin: "?n \<notin> set (hb_members (ss_hub s))" using hub_okD(1)[OF D(1)] len by fastforce
  have "handler_ok ?s ch" if "ch < Suc ?n" for ch
    using that D(6)[of ch] D(2-5) notin
    by (auto simp: handler_ok_def stream_open_def hub_subscribe_def Let_def nth_append less_Suc_eq)
  moreover have "ss_hub ?s = snd (hub_subscribe (ss_hub s))" "length (ss_phase ?s) = Suc ?n"
      "length (hb_store (ss_hub ?s)) = Suc ?n" "length (ss_sent ?s) = Suc ?n"
      "length (ss_offered ?s) = Suc ?n" "length (ss_greeted ?s) = Suc ?n"
    using D(2-5) by (simp_all add: stream_open_def hub_subscribe_def Let_def)
  ultimately show ?thesis using hub_ok_subscribe[OF D(1)] by (simp add: stream_ok_def)
qed

lemma stream_ok_greet:
  assumes "stream_ok s"
  shows "stream_ok (stream_greet ch xs s)"
  using assms by (auto simp: stream_ok_def stream_greet_def handler_ok_def nth_list_update)

text \<open>Returning needs less of the returning handler than the invariant gives: it may have taken a
  message that it could not send.\<close>

lemma stream_return_weak:
  assumes "hub_ok (ss_hub s)" and "length (ss_phase s) = length (hb_store (ss_hub s))"
    and "length (ss_greeted s) = length (ss_phase s)" and "length (ss_sent s) = length (ss_phase s)"
    and "length (ss_offered s) = length (ss_phase s)" and "ch \<in> set (hb_members (ss_hub s))"
    and sub: "subseq (ss_sent s ! ch @ ch_buf (hb_store (ss_hub s) ! ch)) (ss_offered s ! ch)"
    and others: "\<And>i. i < length (ss_phase s) \<Longrightarrow> i \<noteq> ch \<Longrightarrow> handler_ok s i"
  shows "\<exists>s'. stream_return ch s = Inr s' \<and> stream_ok s'"
proof -
  obtain h where h: "hub_unsubscribe ch (ss_hub s) = Inr h" "hub_ok h"
      "hb_members h = removeAll ch (hb_members (ss_hub s))"
      "hb_store h = (hb_store (ss_hub s))[ch := (hb_store (ss_hub s) ! ch)\<lparr>ch_closed := True\<rparr>]"
    using hub_unsubscribe_member[OF assms(1,6)] by blast
  have "handler_ok (s\<lparr>ss_hub := h, ss_phase := (ss_phase s)[ch := Returned]\<rparr>) i" if "i < length (ss_phase s)" for i
    using others[OF that] sub that assms(2) h(3,4) by (cases "i = ch") (auto simp: handler_ok_def Let_def)
  with h(1,2,4) assms(2-5) show ?thesis by (auto simp: stream_return_def stream_ok_def)
qed

lemma stream_return_ok:
  assumes "stream_ok s" and "ch < length (ss_phase s)" and "ss_phase s ! ch \<noteq> Returned"
  shows "\<exists>s'. stream_return ch s = Inr s' \<and> stream_ok s'"
proof (rule stream_return_weak)
  show "ch \<in> set (hb_members (ss_hub s))"
      and "subseq (ss_sent s ! ch @ ch_buf (hb_store (ss_hub s) ! ch)) (ss_offered s ! ch)"
    using stream_okD(6)[OF assms(1,2)] assms(3) by (auto simp: handler_ok_def Let_def)
qed (use stream_okD[OF assms(1)] in auto)

lemma stream_publish_ok:
  assumes "stream_ok s"
  shows "\<exists>s'. stream_publish x s = Inr s' \<and> stream_ok s'"
proof -
  note D = stream_okD[OF assms]
  obtain h where h: "hub_publish x (ss_hub s) = Inr h" "hub_ok h" "hb_members h = hb_members (ss_hub s)"
      "length (hb_store h) = length (hb_store (ss_hub s))"
    and st: "\<And>ch. ch < length (hb_store (ss_hub s)) \<Longrightarrow> hb_store h ! ch =
        (if ch \<in> set (hb_members (ss_hub s))
         then (hb_store (ss_hub s) ! ch)\<lparr>ch_buf := take 10 (ch_buf (hb_store (ss_hub s) ! ch) @ [x])\<rparr>
         else hb_store (ss_hub s) ! ch)"
    using hub_publish_members[OF D(1)] by metis
  let ?s = "s\<lparr>ss_hub := h, ss_offered := map (\<lambda>(p, xs). if p = Returned then xs else xs @ [x]) (zip (ss_phase s) (ss_offered s))\<rparr>"
  have "handler_ok ?s ch" if "ch < length (ss_phase s)" for ch
  proof (cases "ch \<in> set (hb_members (ss_hub s))")
    case False
    with D(6)[OF that] that st[of ch] D(2-5) h(3) show ?thesis by (simp add: handler_ok_def Let_def)
  next
    case True
    let ?b = "ch_buf (hb_store (ss_hub s) ! ch)"
    have old: "handler_ok s ch" by (rule D(6)[OF that])
    have off: "ss_offered ?s ! ch = ss_offered s ! ch @ [x]"
      using True old that D(5) by (simp add: handler_ok_def)
    have le: "length ?b \<le> 10" by (rule hub_okD(4)[OF D(1) True])
    have buf: "ch_buf (hb_store h ! ch) = take 10 (?b @ [x])" using True st[of ch] that D(2) by simp
    have sub: "subseq (ss_sent s ! ch @ take 10 (?b @ [x])) (ss_offered s ! ch @ [x])"
      using old le by (cases "length ?b < 10") (auto simp: handler_ok_def Let_def simp flip: append_assoc)
    have "ss_sent s ! ch @ take 10 (?b @ [x]) = ss_offered s ! ch @ [x]" if "length (ss_offered s ! ch @ [x]) \<le> 10"
    proof -
      have all: "ss_sent s ! ch @ ?b = ss_offered s ! ch" using that old True by (simp add: handler_ok_def Let_def)
      have "length (ss_sent s ! ch) + length ?b = length (ss_offered s ! ch)" by (simp only: length_append[symmetric] all)
      then have "length ?b < 10" using that by simp
      then have "take 10 (?b @ [x]) = ?b @ [x]" by simp
      then show ?thesis by (simp only: all append_assoc[symmetric])
    qed
    then show ?thesis using sub old True off buf h(3) by (simp add: handler_ok_def Let_def)
  qed
  then have "stream_ok ?s" using h D(2-5) by (simp add: stream_ok_def)
  with h(1) show ?thesis by (auto simp: stream_publish_def)
qed

text \<open>What a broadcast puts into the channel of a subscriber that has room.\<close>

lemma stream_publish_buffers:
  assumes "stream_ok s" and "ch \<in> set (hb_members (ss_hub s))" and "length (ch_buf (hb_store (ss_hub s) ! ch)) < 10"
  obtains s' where "stream_publish x s = Inr s'" and "stream_ok s'"
    and "ch_buf (hb_store (ss_hub s') ! ch) = ch_buf (hb_store (ss_hub s) ! ch) @ [x]"
proof -
  note hok = stream_okD(1)[OF assms(1)]
  have lt: "ch < length (hb_store (ss_hub s))" using hub_okD(1)[OF hok assms(2)] .
  obtain h where h: "hub_publish x (ss_hub s) = Inr h"
      "hb_store h ! ch = (hb_store (ss_hub s) ! ch)\<lparr>ch_buf := take 10 (ch_buf (hb_store (ss_hub s) ! ch) @ [x])\<rparr>"
    using hub_publish_members[OF hok, of x] lt assms(2) by metis
  obtain s' where s': "stream_publish x s = Inr s'" "stream_ok s'" using stream_publish_ok[OF assms(1)] by blast
  then have "ss_hub s' = h" using h(1) by (auto simp: stream_publish_def)
  with that[OF s'] h(2) assms(3) show thesis by simp
qed

lemma stream_publish_appends:
  assumes "stream_ok s" and "stream_publish x s = Inr s'"
  shows "list_all2 (\<lambda>c c'. ch_buf c' = ch_buf c \<or> ch_buf c' = ch_buf c @ [x]) (hb_store (ss_hub s)) (hb_store (ss_hub s'))"
proof -
  note hok = stream_okD(1)[OF assms(1)]
  obtain h where h: "hub_publish x (ss_hub s) = Inr h" "length (hb_store h) = length (hb_store (ss_hub s))"
    and st: "\<And>ch. ch < length (hb_store (ss_hub s)) \<Longrightarrow> hb_store h ! ch =
        (if ch \<in> set (hb_members (ss_hub s))
         then (hb_store (ss_hub s) ! ch)\<lparr>ch_buf := take 10 (ch_buf (hb_store (ss_hub s) ! ch) @ [x])\<rparr>
         else hb_store (ss_hub s) ! ch)"
    using hub_publish_members[OF hok] by metis
  have "ss_hub s' = h" using assms(2) h(1) by (auto simp: stream_publish_def)
  moreover have "ch_buf (hb_store h ! ch) = ch_buf (hb_store (ss_hub s) ! ch) \<or>
      ch_buf (hb_store h ! ch) = ch_buf (hb_store (ss_hub s) ! ch) @ [x]" if "ch < length (hb_store (ss_hub s))" for ch
    using st[OF that] hub_okD(4)[OF hok, of ch] by (cases "length (ch_buf (hb_store (ss_hub s) ! ch)) < 10") auto
  ultimately show ?thesis using h(2) by (simp add: list_all2_conv_all_nth)
qed

text \<open>A handler that takes a message out of its buffer: the message is appended to what was sent, or lost.\<close>

lemma stream_serve_ok:
  assumes "stream_ok s"
  shows "\<exists>s'. stream_serve ch sent s = Inr s' \<and> stream_ok s'"
proof (cases "ch < length (ss_phase s)")
  case True
  note D = stream_okD[OF assms]
  show ?thesis
  proof (cases "ss_phase s ! ch")
    case Starting
    then show ?thesis using assms by (simp add: stream_serve_def)
  next
    case Returned
    then show ?thesis using assms by (simp add: stream_serve_def)
  next
    case (Sending xs)
    show ?thesis
    proof (cases xs)
      case (Cons x ys)
      have "stream_ok (s\<lparr>ss_phase := (ss_phase s)[ch := Sending ys], ss_greeted := (ss_greeted s)[ch := ss_greeted s ! ch @ [x]]\<rparr>)"
        using assms Sending True by (auto simp: stream_ok_def handler_ok_def nth_list_update)
      then show ?thesis using Cons Sending True stream_return_ok[OF assms True] by (simp add: stream_serve_def)
    next
      case Nil
      have mem: "ch \<in> set (hb_members (ss_hub s))" using D(6)[OF True] Sending by (simp add: handler_ok_def)
      show ?thesis
      proof (cases "ch_buf (hb_store (ss_hub s) ! ch)")
        case Nil
        then show ?thesis using \<open>xs = []\<close> Sending True assms by (simp add: stream_serve_def hub_receive_def try_recv_def)
      next
        case (Cons x b)
        let ?h = "(ss_hub s)\<lparr>hb_store := (hb_store (ss_hub s))[ch := (hb_store (ss_hub s) ! ch)\<lparr>ch_buf := b\<rparr>]\<rparr>"
        have recv: "hub_receive ch (ss_hub s) = (Some x, ?h)" using Cons by (simp add: hub_receive_def try_recv_def)
        have hok: "hub_ok ?h" using hub_receive_ok[OF D(1), of ch] recv by simp
        let ?got = "s\<lparr>ss_hub := ?h, ss_sent := (ss_sent s)[ch := ss_sent s ! ch @ [x]]\<rparr>"
        have others: "handler_ok (s\<lparr>ss_hub := ?h\<rparr>) i" "handler_ok ?got i"
          if "i < length (ss_phase s)" "i \<noteq> ch" for i
          using D(6)[OF that(1)] that by (simp_all add: handler_ok_def Let_def)
        have "handler_ok ?got ch" using D(6)[OF True] Cons True D(2,4) by (simp add: handler_ok_def Let_def)
        with others(2) have "stream_ok ?got" using hok D(2-5) by (auto simp: stream_ok_def)
        moreover have "\<exists>s'. stream_return ch (s\<lparr>ss_hub := ?h\<rparr>) = Inr s' \<and> stream_ok s'"
        proof (rule stream_return_weak)
          show "subseq (ss_sent (s\<lparr>ss_hub := ?h\<rparr>) ! ch @ ch_buf (hb_store (ss_hub (s\<lparr>ss_hub := ?h\<rparr>)) ! ch))
              (ss_offered (s\<lparr>ss_hub := ?h\<rparr>) ! ch)"
            using D(6)[OF True] Cons True D(2) by (auto simp: handler_ok_def Let_def intro: subseq_drop_mid)
        qed (use hok D mem others(1) in auto)
        ultimately show ?thesis using recv Sending \<open>xs = []\<close> True by (simp add: stream_serve_def)
      qed
    qed
  qed
qed (use assms in \<open>simp add: stream_serve_def\<close>)

lemma stream_cancel_ok:
  assumes "stream_ok s"
  shows "\<exists>s'. stream_cancel ch s = Inr s' \<and> stream_ok s'"
  using assms stream_return_ok[OF assms] by (simp add: stream_cancel_def)

interpretation stream: safe_system stream_exec stream_ok
  by unfold_locales
     (auto simp: stream_exec_def stream_ok_open stream_ok_greet stream_serve_ok stream_cancel_ok stream_publish_ok
        split: stream_op.splits)

section \<open>The greeting\<close>

text \<open>How far handler \<open>ch\<close> is with the messages \<open>xs\<close> it sends before its receive loop: \<open>n\<close> sends succeeded, the
  client has the first \<open>n\<close> messages, and nothing else before it has all of them.\<close>

definition greeting :: "'a list \<Rightarrow> nat \<Rightarrow> nat \<Rightarrow> 'a stream_sys \<Rightarrow> bool" where
  "greeting xs ch n s \<longleftrightarrow>
     ch < length (ss_phase s) \<and> ch < length (ss_greeted s) \<and> ch < length (ss_sent s) \<and>
     ss_greeted s ! ch = take n xs \<and> (ss_sent s ! ch = [] \<or> length xs \<le> n) \<and>
     (ss_phase s ! ch = Sending (drop n xs) \<or> ss_phase s ! ch = Returned \<and> length xs \<le> n)"

lemma stream_return_keeps:
  "stream_return i s = Inr s' \<Longrightarrow>
   ss_phase s' = (ss_phase s)[i := Returned] \<and> ss_greeted s' = ss_greeted s \<and> ss_sent s' = ss_sent s"
  by (auto simp: stream_return_def ebind_eq_Inr)

lemma greeting_return_other: "greeting xs ch n s \<Longrightarrow> i \<noteq> ch \<Longrightarrow> stream_return i s = Inr s' \<Longrightarrow> greeting xs ch n s'"
  by (drule stream_return_keeps) (simp add: greeting_def)

lemma stream_serve_other:
  "stream_serve i sent s = Inr s' \<Longrightarrow> i \<noteq> ch \<Longrightarrow>
   ss_phase s' ! ch = ss_phase s ! ch \<and> ss_greeted s' ! ch = ss_greeted s ! ch \<and> ss_sent s' ! ch = ss_sent s ! ch \<and>
   length (ss_phase s') = length (ss_phase s) \<and> length (ss_greeted s') = length (ss_greeted s) \<and>
   length (ss_sent s') = length (ss_sent s)"
  by (auto simp: stream_serve_def dest!: stream_return_keeps
      split: if_splits phase.splits list.splits prod.splits option.splits)

lemma greeting_serve_other:
  "greeting xs ch n s \<Longrightarrow> i \<noteq> ch \<Longrightarrow> stream_serve i sent s = Inr s' \<Longrightarrow> greeting xs ch n s'"
  by (drule stream_serve_other[of i sent s s' ch]) (simp_all add: greeting_def)

lemma greeting_serve:
  assumes "greeting xs ch n s" and "stream_serve ch True s = Inr s'"
  shows "greeting xs ch (Suc n) s'"
proof (cases "n < length xs")
  case True
  then have "drop n xs = xs ! n # drop (Suc n) xs" by (simp add: Cons_nth_drop_Suc)
  with True assms show ?thesis by (auto simp: greeting_def stream_serve_def take_Suc_conv_app_nth)
next
  case False
  with assms show ?thesis
    by (auto simp: greeting_def stream_serve_def split: prod.splits option.splits)
qed

lemma greeting_step:
  assumes "greeting xs ch n s" and "stream_exec opr s = Inr s'" and "opr \<noteq> SServe ch False"
  shows "greeting xs ch (if opr = SServe ch True then Suc n else n) s'"
proof (cases opr)
  case SOpen
  with assms show ?thesis by (auto simp: stream_exec_def stream_open_def greeting_def nth_append split: prod.splits)
next
  case (SGreet i ys)
  with assms show ?thesis by (cases "i = ch") (auto simp: stream_exec_def stream_greet_def greeting_def split: if_splits)
next
  case (SServe i sent)
  with assms greeting_serve_other[OF assms(1)] greeting_serve[OF assms(1)] show ?thesis
    by (cases "i = ch") (auto simp: stream_exec_def)
next
  case (SCancel i)
  show ?thesis
  proof (cases "i = ch")
    case True
    with assms SCancel show ?thesis
      by (auto simp: stream_exec_def stream_cancel_def greeting_def dest!: stream_return_keeps split: if_splits)
  next
    case False
    with assms SCancel greeting_return_other[OF assms(1) False] show ?thesis
      by (auto simp: stream_exec_def stream_cancel_def split: if_splits)
  qed
next
  case (SPublish x)
  with assms show ?thesis by (auto simp: stream_exec_def stream_publish_def greeting_def ebind_eq_Inr)
qed

lemma greeting_run:
  "greeting xs ch n s \<Longrightarrow> run_ops stream_exec ops s = Inr s' \<Longrightarrow> list_all (\<lambda>opr. opr \<noteq> SServe ch False) ops \<Longrightarrow>
   greeting xs ch (n + count_list ops (SServe ch True)) s'"
proof (induction ops arbitrary: n s)
  case (Cons opr ops)
  from Cons.prems obtain s1 where s1: "stream_exec opr s = Inr s1" "run_ops stream_exec ops s1 = Inr s'"
    by (auto simp: ebind_eq_Inr)
  from Cons.IH[OF greeting_step[OF Cons.prems(1) s1(1)] s1(2)] Cons.prems(3) show ?case by (simp split: if_splits)
qed simp

lemma greeting_opened:
  assumes "stream_ok s" and "stream_open s = (ch, t)"
  shows "greeting xs ch 0 (stream_greet ch xs t)"
  using assms
  by (auto simp: stream_ok_def stream_open_def stream_greet_def greeting_def hub_subscribe_def Let_def nth_append)

section \<open>Properties\<close>

text \<open>C4: the streaming handlers never panic: whatever way subscriptions, sends, failures, cancellations
  and broadcasts interleave, no broadcast sends on a closed channel and no handler closes
  its channel twice; a broadcast never waits, since no buffer exceeds its ten messages, and a
  channel is closed exactly when its handler has returned.\<close>

theorem streams_never_panic:
  "case run_ops stream_exec ops empty_stream of
     Inl p \<Rightarrow> False
   | Inr s \<Rightarrow>
       list_all (\<lambda>c. length (ch_buf c) \<le> 10) (hb_store (ss_hub s)) \<and>
       list_all2 (\<lambda>c p. ch_closed c \<longleftrightarrow> p = Returned) (hb_store (ss_hub s)) (ss_phase s)"
proof -
  obtain s where s: "run_ops stream_exec ops empty_stream = Inr s" "stream_ok s"
    using stream.run_safe[OF stream_ok_empty] by blast
  have "list_all (\<lambda>c. length (ch_buf c) \<le> 10) (hb_store (ss_hub s))"
    using stream_okD(1)[OF s(2)] by (fastforce simp: hub_ok_def Let_def chan_ok_def list_all_length)
  moreover have "list_all2 (\<lambda>c p. ch_closed c \<longleftrightarrow> p = Returned) (hb_store (ss_hub s)) (ss_phase s)"
    using stream_okD(1,2,6)[OF s(2)] by (auto simp: list_all2_conv_all_nth hub_ok_def handler_ok_def Let_def)
  ultimately show ?thesis using s(1) by simp
qed

text \<open>C5: a subscriber sees broadcasts in order and without duplicates: what its client was sent is a
  subsequence of what was broadcast while it was subscribed, and a subscriber that is still
  being served has lost nothing as long as no more than ten messages were broadcast to it:
  what was sent and what is buffered together are exactly those messages.\<close>

theorem subscribers_see_broadcasts_in_order:
  assumes "run_ops stream_exec ops empty_stream = Inr s" and "ch < length (ss_phase s)"
  shows "subseq (ss_sent s ! ch) (ss_offered s ! ch) \<and>
    (length (ss_offered s ! ch) \<le> 10 \<longrightarrow> ss_phase s ! ch \<noteq> Returned \<longrightarrow>
       ss_sent s ! ch @ ch_buf (hb_store (ss_hub s) ! ch) = ss_offered s ! ch)"
proof -
  have "stream_ok s" using stream.run_keeps[OF stream_ok_empty assms(1)] .
  then have ok: "handler_ok s ch" using stream_okD(6) assms(2) by blast
  have "subseq (ss_sent s ! ch) (ss_sent s ! ch @ ch_buf (hb_store (ss_hub s) ! ch))"
    by (intro prefix_imp_subseq) simp
  then show ?thesis using ok by (auto simp: handler_ok_def Let_def intro: subseq_order.trans)
qed

theorem subscribers_see_broadcasts_in_order_witness:
  "\<exists>s. run_ops stream_exec [SOpen, SGreet 0 [], SPublish (7::nat), SPublish 8, SServe 0 True] empty_stream = Inr s \<and>
     ss_sent s = [[7]] \<and> ss_sent s ! 0 @ ch_buf (hb_store (ss_hub s) ! 0) = [7, 8]"
proof -
  let ?r = "run_ops stream_exec [SOpen, SGreet 0 [], SPublish (7::nat), SPublish 8, SServe 0 True] empty_stream"
  obtain s where s: "?r = Inr s" "ss_sent s = [[7]]" "ss_phase s = [Sending []]" "ss_offered s = [[7, 8]]"
    by (simp add: stream_exec_def stream_open_def stream_greet_def stream_publish_def stream_serve_def
        hub_subscribe_def hub_publish_def hub_offer_def hub_receive_def try_recv_def offer_open empty_stream_def
        empty_hub_def Let_def)
  from subscribers_see_broadcasts_in_order[OF s(1), of 0] s show ?thesis by simp
qed

end
