(* ===== verification/Go_Base64.thy ===== *)
theory Go_Base64
  imports Go_Strings
begin

text \<open>
  \<^verbatim>\<open>encoding/base64\<close>, the padded standard alphabet: the encoder, the decoder (which skips line breaks
  and does not insist on zero trailing bits), and the round trip.
\<close>

definition b64_alphabet :: string where
  "b64_alphabet = ''ABCDEFGHIJKLMNOPQRSTUVWXYZabcdefghijklmnopqrstuvwxyz0123456789+/''"

definition b64_enc :: "nat \<Rightarrow> char" where
  "b64_enc n = b64_alphabet ! n"

definition b64_dec :: "char \<Rightarrow> nat option" where
  "b64_dec c = List.find (\<lambda>n. b64_alphabet ! n = c) [0..<64]"

fun b64_encode :: "string \<Rightarrow> string" where
  "b64_encode [] = []"
| "b64_encode [a] =
     (let x = of_char a in [b64_enc (x div 4), b64_enc (x mod 4 * 16), CHR ''='', CHR ''=''])"
| "b64_encode [a, b] =
     (let x = of_char a; y = of_char b in
      [b64_enc (x div 4), b64_enc (x mod 4 * 16 + y div 16), b64_enc (y mod 16 * 4), CHR ''=''])"
| "b64_encode (a # b # c # cs) =
     (let x = of_char a; y = of_char b; z = of_char c in
      [b64_enc (x div 4), b64_enc (x mod 4 * 16 + y div 16), b64_enc (y mod 16 * 4 + z div 64), b64_enc (z mod 64)]
      @ b64_encode cs)"

fun b64_quanta :: "string \<Rightarrow> string option" where
  "b64_quanta [] = Some []"
| "b64_quanta (a # b # c # d # cs) =
     (case (b64_dec a, b64_dec b) of
        (Some p, Some q) \<Rightarrow>
          (if c = CHR ''='' then
             (if d = CHR ''='' \<and> cs = [] then Some [char_of (p * 4 + q div 16)] else None)
           else case b64_dec c of
             None \<Rightarrow> None
           | Some r \<Rightarrow>
               (if d = CHR ''='' then
                  (if cs = [] then Some [char_of (p * 4 + q div 16), char_of (q mod 16 * 16 + r div 4)] else None)
                else case b64_dec d of
                  None \<Rightarrow> None
                | Some t \<Rightarrow>
                    map_option (\<lambda>rest. [char_of (p * 4 + q div 16), char_of (q mod 16 * 16 + r div 4), char_of (r mod 4 * 64 + t)] @ rest)
                      (b64_quanta cs)))
      | _ \<Rightarrow> None)"
| "b64_quanta _ = None"

definition b64_decode :: "string \<Rightarrow> string option" where
  "b64_decode s = b64_quanta (filter (\<lambda>c. c \<noteq> CHR 0x0A \<and> c \<noteq> CHR 0x0D) s)"

lemma b64_alphabet_facts:
  "\<forall>n \<in> set [0..<64]. b64_dec (b64_enc n) = Some n \<and> b64_enc n \<noteq> CHR ''='' \<and> b64_enc n \<noteq> CHR 0x0A \<and> b64_enc n \<noteq> CHR 0x0D"
  by code_simp

lemma b64_enc_simps [simp]:
  "n < 64 \<Longrightarrow> b64_dec (b64_enc n) = Some n" "n < 64 \<Longrightarrow> b64_enc n \<noteq> CHR ''=''"
  "n < 64 \<Longrightarrow> b64_enc n \<noteq> CHR 0x0A" "n < 64 \<Longrightarrow> b64_enc n \<noteq> CHR 0x0D"
  using b64_alphabet_facts by auto

lemma b64_quanta_encode: "b64_quanta (b64_encode s) = Some s"
proof (induction s rule: b64_encode.induct)
  case 1
  then show ?case by simp
next
  case (2 a)
  define x :: nat where "x = of_char a"
  have x: "x < 256" "a = char_of x" by (simp_all add: x_def of_char_less_256)
  then have "x div 4 < 64" "x mod 4 * 16 < 64" by auto
  moreover have "x div 4 * 4 + x mod 4 * 16 div 16 = x" by simp
  ultimately show ?case by (simp add: Let_def x_def[symmetric]) (simp add: x_def)
next
  case (3 a b)
  define x y :: nat where "x = of_char a" and "y = of_char b"
  have x: "x < 256" "y < 256" by (simp_all add: x_def y_def of_char_less_256)
  then have "x div 4 < 64" "x mod 4 * 16 + y div 16 < 64" "y mod 16 * 4 < 64" by auto
  moreover have "x div 4 * 4 + (x mod 4 * 16 + y div 16) div 16 = x" using x by auto
  moreover have "(x mod 4 * 16 + y div 16) mod 16 * 16 + y mod 16 * 4 div 4 = y" using x by auto
  ultimately show ?case by (simp add: Let_def x_def[symmetric] y_def[symmetric]) (simp add: x_def y_def)
next
  case (4 a b c cs)
  define x y z :: nat where "x = of_char a" and "y = of_char b" and "z = of_char c"
  have x: "x < 256" "y < 256" "z < 256" by (simp_all add: x_def y_def z_def of_char_less_256)
  then have "x div 4 < 64" "x mod 4 * 16 + y div 16 < 64" "y mod 16 * 4 + z div 64 < 64" "z mod 64 < 64" by auto
  moreover have "x div 4 * 4 + (x mod 4 * 16 + y div 16) div 16 = x" using x by auto
  moreover have "(x mod 4 * 16 + y div 16) mod 16 * 16 + (y mod 16 * 4 + z div 64) div 4 = y" using x by auto
  moreover have "(y mod 16 * 4 + z div 64) mod 4 * 64 + z mod 64 = z" using x by auto
  ultimately show ?case
    using 4 by (simp add: Let_def x_def[symmetric] y_def[symmetric] z_def[symmetric]) (simp add: x_def y_def z_def)
qed

lemma b64_index_bounds:
  fixes x y z :: nat
  assumes "x < 256" "y < 256" "z < 256"
  shows "x div 4 < 64" "x mod 4 * 16 < 64" "x mod 4 * 16 + y div 16 < 64" "y mod 16 * 4 < 64"
    "y mod 16 * 4 + z div 64 < 64" "z mod 64 < 64"
  using assms by auto

lemma b64_encode_no_breaks: "CHR 0x0A \<notin> set (b64_encode s) \<and> CHR 0x0D \<notin> set (b64_encode s)"
proof -
  note bnd = b64_index_bounds[OF of_char_less_256 of_char_less_256 of_char_less_256]
  note ne = b64_enc_simps(3,4)[OF bnd(1)] b64_enc_simps(3,4)[OF bnd(2)] b64_enc_simps(3,4)[OF bnd(3)]
    b64_enc_simps(3,4)[OF bnd(4)] b64_enc_simps(3,4)[OF bnd(5)] b64_enc_simps(3,4)[OF bnd(6)]
  show ?thesis
    by (induction s rule: b64_encode.induct) (simp_all add: Let_def ne ne[symmetric])
qed

lemma b64_roundtrip: "b64_decode (b64_encode s) = Some s"
proof -
  have "filter (\<lambda>c. c \<noteq> CHR 0x0A \<and> c \<noteq> CHR 0x0D) (b64_encode s) = b64_encode s"
    using b64_encode_no_breaks[of s] by (auto intro!: filter_True)
  then show ?thesis by (simp add: b64_decode_def b64_quanta_encode)
qed

end
