(* ===== verification/Go_Float.thy ===== *)
theory Go_Float
  imports PCD_Prelude "HOL-Library.Log_Nat"
begin

text \<open>
  Go's \<^verbatim>\<open>float64\<close>: a finite value, the two infinities or a NaN, with every operation rounded
  to nearest, ties to even, in the 53-bit format of IEEE 754 including its gradual
  underflow and overflow. The two zeros are not told apart: no operation the program
  applies to a float can distinguish them except a division by zero, and the program
  divides by values it has checked to be positive.
\<close>

datatype f64 = Fin rat | PInf | NInf | NaN

definition round_even :: "rat \<Rightarrow> int" where
  "round_even x = (let f = \<lfloor>x\<rfloor>; d = x - of_int f in
     if d < 1 / 2 then f else if d > 1 / 2 then f + 1 else if even f then f else f + 1)"

definition pow2 :: "int \<Rightarrow> rat" where
  "pow2 k = (if 0 \<le> k then 2 ^ nat k else 1 / 2 ^ nat (- k))"

definition ilog2 :: "rat \<Rightarrow> int" where
  "ilog2 x = (let (n, d) = quotient_of x; k = bitlen n - bitlen d in if pow2 k \<le> x then k else k - 1)"

definition rnd :: "rat \<Rightarrow> f64" where
  "rnd x = (if x = 0 then Fin 0
     else let e = max (ilog2 \<bar>x\<bar> - 52) (-1074); y = of_int (round_even (\<bar>x\<bar> / pow2 e)) * pow2 e in
       if 2 ^ 1024 \<le> y then (if 0 < x then PInf else NInf) else Fin (if 0 < x then y else - y))"

text \<open>Comparison (false as soon as a NaN is involved), the conversions from and to integers (the latter
  truncates; out of range and for a NaN it gives the least integer, as the amd64 instruction
  does), and the idiom that clamps a value to a range.\<close>

fun f64_less :: "f64 \<Rightarrow> f64 \<Rightarrow> bool" where
  "f64_less (Fin a) (Fin b) = (a < b)"
| "f64_less NInf (Fin b) = True"
| "f64_less NInf PInf = True"
| "f64_less (Fin a) PInf = True"
| "f64_less _ _ = False"

definition f64_of_int :: "int \<Rightarrow> f64" where
  "f64_of_int n = rnd (of_int n)"

definition rat_trunc :: "rat \<Rightarrow> int" where
  "rat_trunc q = (if 0 \<le> q then \<lfloor>q\<rfloor> else \<lceil>q\<rceil>)"

definition f64_to_i64 :: "f64 \<Rightarrow> i64" where
  "f64_to_i64 x =
     (case x of
        Fin q \<Rightarrow> if - (2 ^ 63) \<le> rat_trunc q \<and> rat_trunc q < 2 ^ 63 then word_of_int (rat_trunc q) else word_of_int (- (2 ^ 63))
      | _ \<Rightarrow> word_of_int (- (2 ^ 63)))"

definition clamp_unit :: "f64 \<Rightarrow> f64" where
  "clamp_unit v = (if f64_less v (Fin 0) then Fin 0 else if f64_less (Fin 1) v then Fin 1 else v)"

lemma clamp_unit_cases: "clamp_unit v = NaN \<and> v = NaN \<or> (\<exists>q. clamp_unit v = Fin q \<and> 0 \<le> q \<and> q \<le> 1)"
  by (cases v) (auto simp: clamp_unit_def)

end
