(* ===== verification/Metrics_Types.thy ===== *)
theory Metrics_Types
  imports Go_Float
begin

text \<open>The telemetry data of \<^verbatim>\<open>pkg/metrics/metrics.go\<close>, field by field.\<close>

record CPUMetrics =
  cpu_UsagePercent :: f64
  cpu_CoresUsagePercent :: "f64 list"
  cpu_TempCelsius :: f64
  cpu_FreqMHz :: f64
  cpu_PowerWatts :: f64

record RAMMetrics =
  ram_UsedBytes :: u64
  ram_TotalBytes :: u64
  ram_Percentage :: f64

record SwapMetrics =
  swap_UsedBytes :: u64
  swap_TotalBytes :: u64
  swap_Percentage :: f64

record ZRAMMetrics =
  zram_OrigDataSizeBytes :: u64
  zram_ComprDataSizeBytes :: u64
  zram_MemUsedTotalBytes :: u64
  zram_TotalBytes :: u64
  zram_CompressionRatio :: f64

record GPUMetrics =
  gpu_UsagePercent :: f64
  gpu_TempCelsius :: f64
  gpu_VramUsedBytes :: u64
  gpu_VramTotalBytes :: u64
  gpu_FreqMHz :: f64
  gpu_PowerWatts :: f64
  gpu_VramTempCelsius :: f64
  gpu_VramFreqMHz :: f64

record TelemetryFlags =
  fl_CPUUsageSupported :: bool
  fl_CPUCoresUsageSupported :: bool
  fl_CPUTempSupported :: bool
  fl_CPUFreqSupported :: bool
  fl_CPUPowerSupported :: bool
  fl_RAMSupported :: bool
  fl_SwapSupported :: bool
  fl_ZRAMSupported :: bool
  fl_GPUSupported :: bool
  fl_GPUUsageSupported :: bool
  fl_GPUTempSupported :: bool
  fl_GPUVramSupported :: bool
  fl_GPUFreqSupported :: bool
  fl_GPUPowerSupported :: bool
  fl_GPUVramTempSupported :: bool
  fl_GPUVramFreqSupported :: bool

record SystemMetrics =
  sm_CPU :: CPUMetrics
  sm_RAM :: RAMMetrics
  sm_GPU :: GPUMetrics
  sm_Swap :: SwapMetrics
  sm_ZRAM :: ZRAMMetrics
  sm_Flags :: TelemetryFlags

text \<open>The zero values of the structs.\<close>

definition zeroCPU :: CPUMetrics where
  "zeroCPU = \<lparr>cpu_UsagePercent = Fin 0, cpu_CoresUsagePercent = [], cpu_TempCelsius = Fin 0,
     cpu_FreqMHz = Fin 0, cpu_PowerWatts = Fin 0\<rparr>"

definition zeroRAM :: RAMMetrics where
  "zeroRAM = \<lparr>ram_UsedBytes = 0, ram_TotalBytes = 0, ram_Percentage = Fin 0\<rparr>"

definition zeroSwap :: SwapMetrics where
  "zeroSwap = \<lparr>swap_UsedBytes = 0, swap_TotalBytes = 0, swap_Percentage = Fin 0\<rparr>"

definition zeroZRAM :: ZRAMMetrics where
  "zeroZRAM = \<lparr>zram_OrigDataSizeBytes = 0, zram_ComprDataSizeBytes = 0, zram_MemUsedTotalBytes = 0,
     zram_TotalBytes = 0, zram_CompressionRatio = Fin 0\<rparr>"

definition zeroGPU :: GPUMetrics where
  "zeroGPU = \<lparr>gpu_UsagePercent = Fin 0, gpu_TempCelsius = Fin 0, gpu_VramUsedBytes = 0, gpu_VramTotalBytes = 0,
     gpu_FreqMHz = Fin 0, gpu_PowerWatts = Fin 0, gpu_VramTempCelsius = Fin 0, gpu_VramFreqMHz = Fin 0\<rparr>"

definition zeroFlags :: TelemetryFlags where
  "zeroFlags = \<lparr>fl_CPUUsageSupported = False, fl_CPUCoresUsageSupported = False, fl_CPUTempSupported = False,
     fl_CPUFreqSupported = False, fl_CPUPowerSupported = False, fl_RAMSupported = False, fl_SwapSupported = False,
     fl_ZRAMSupported = False, fl_GPUSupported = False, fl_GPUUsageSupported = False, fl_GPUTempSupported = False,
     fl_GPUVramSupported = False, fl_GPUFreqSupported = False, fl_GPUPowerSupported = False,
     fl_GPUVramTempSupported = False, fl_GPUVramFreqSupported = False\<rparr>"

definition zeroSystemMetrics :: SystemMetrics where
  "zeroSystemMetrics = \<lparr>sm_CPU = zeroCPU, sm_RAM = zeroRAM, sm_GPU = zeroGPU, sm_Swap = zeroSwap,
     sm_ZRAM = zeroZRAM, sm_Flags = zeroFlags\<rparr>"

end
