(* ===== verification/Mpris_Types.thy ===== *)
theory Mpris_Types
  imports Go_Float
begin

text \<open>The media player data of \<^verbatim>\<open>pkg/mpris/mpris.go\<close> and the argument values of media commands.\<close>

type_synonym PlaybackStatus = string

abbreviation StatusPlaying :: PlaybackStatus where "StatusPlaying \<equiv> ''Playing''"
abbreviation StatusPaused :: PlaybackStatus where "StatusPaused \<equiv> ''Paused''"
abbreviation StatusStopped :: PlaybackStatus where "StatusStopped \<equiv> ''Stopped''"

record PlayerMetadata =
  pm_TrackID :: string
  pm_Title :: string
  pm_Artist :: "string list"
  pm_Album :: string
  pm_ArtURL :: string
  pm_LengthMicro :: i64

record PlayerState =
  ps_PlayerName :: string
  ps_Identity :: string
  ps_DesktopEntry :: string
  ps_PlaybackStatus :: PlaybackStatus
  ps_Volume :: f64
  ps_PositionMicro :: i64
  ps_Metadata :: PlayerMetadata

record MediaEvent =
  ActivePlayers :: "PlayerState list"

text \<open>A \<^verbatim>\<open>map[string]interface{}\<close> of command arguments.\<close>

datatype marg = AInt64 i64 | AInt i64 | AFloat64 f64 | AFloat32 f64 | AString string | AOther

type_synonym margs = "(string \<times> marg) list"

definition zeroMetadata :: PlayerMetadata where
  "zeroMetadata = \<lparr>pm_TrackID = [], pm_Title = [], pm_Artist = [], pm_Album = [], pm_ArtURL = [], pm_LengthMicro = 0\<rparr>"

end
