(* ===== verification/Go_Json.thy ===== *)
theory Go_Json
  imports Go_Float Go_Strings
begin

text \<open>
  JSON values and the rules by which \<^verbatim>\<open>encoding/json\<close> stores them into Go variables: an object key
  selects the struct field of exactly that name, else one that agrees up to case; \<^verbatim>\<open>null\<close> leaves
  a scalar unchanged; a value of the wrong kind or out of range makes the whole decoding
  fail; unknown keys are ignored; a later duplicate overwrites (an array as a whole: its elements
  are decoded into zero values, not into those of the earlier array). Integer literals and other
  number literals are kept apart since only the former fit a Go integer. The lexical layer
  (from bytes to a JSON value) is a parameter of the operations that read bytes.
\<close>

datatype json =
    JNull
  | JBool bool
  | JInt int
  | JDec f64
  | JStr string
  | JArr "json list"
  | JObj "(string \<times> json) list"

definition find_field :: "string list \<Rightarrow> string \<Rightarrow> string option" where
  "find_field names k = (if k \<in> set names then Some k else List.find (\<lambda>n. to_lower n = to_lower k) names)"

fun decode_fields :: "string list \<Rightarrow> (string \<Rightarrow> json \<Rightarrow> 's \<Rightarrow> 's option) \<Rightarrow> (string \<times> json) list \<Rightarrow> 's \<Rightarrow> 's option" where
  "decode_fields names upd [] s = Some s"
| "decode_fields names upd ((k, v) # kvs) s =
     (case find_field names k of
        None \<Rightarrow> decode_fields names upd kvs s
      | Some f \<Rightarrow> (case upd f v s of None \<Rightarrow> None | Some s' \<Rightarrow> decode_fields names upd kvs s'))"

definition decode_struct :: "string list \<Rightarrow> (string \<Rightarrow> json \<Rightarrow> 's \<Rightarrow> 's option) \<Rightarrow> json \<Rightarrow> 's \<Rightarrow> 's option" where
  "decode_struct names upd j s =
     (case j of JNull \<Rightarrow> Some s | JObj kvs \<Rightarrow> decode_fields names upd kvs s | _ \<Rightarrow> None)"

definition decode_string :: "json \<Rightarrow> string \<Rightarrow> string option" where
  "decode_string j old = (case j of JStr s \<Rightarrow> Some s | JNull \<Rightarrow> Some old | _ \<Rightarrow> None)"

definition decode_bool :: "json \<Rightarrow> bool \<Rightarrow> bool option" where
  "decode_bool j old = (case j of JBool b \<Rightarrow> Some b | JNull \<Rightarrow> Some old | _ \<Rightarrow> None)"

definition decode_ranged :: "int \<Rightarrow> int \<Rightarrow> json \<Rightarrow> int \<Rightarrow> int option" where
  "decode_ranged lo hi j old =
     (case j of JInt n \<Rightarrow> if lo \<le> n \<and> n \<le> hi then Some n else None | JNull \<Rightarrow> Some old | _ \<Rightarrow> None)"

definition decode_int :: "json \<Rightarrow> int \<Rightarrow> int option" where
  "decode_int = decode_ranged (- (2 ^ 63)) (2 ^ 63 - 1)"

definition decode_u32 :: "json \<Rightarrow> u32 \<Rightarrow> u32 option" where
  "decode_u32 j old = map_option word_of_int (decode_ranged 0 (2 ^ 32 - 1) j (uint old))"

definition decode_u64 :: "json \<Rightarrow> u64 \<Rightarrow> u64 option" where
  "decode_u64 j old = map_option word_of_int (decode_ranged 0 (2 ^ 64 - 1) j (uint old))"

definition decode_i32 :: "json \<Rightarrow> i32 \<Rightarrow> i32 option" where
  "decode_i32 j old = map_option word_of_int (decode_ranged (- (2 ^ 31)) (2 ^ 31 - 1) j (sint old))"

definition decode_i64 :: "json \<Rightarrow> i64 \<Rightarrow> i64 option" where
  "decode_i64 j old = map_option word_of_int (decode_ranged (- (2 ^ 63)) (2 ^ 63 - 1) j (sint old))"

definition finite_f64 :: "f64 \<Rightarrow> f64 option" where
  "finite_f64 x = (case x of Fin q \<Rightarrow> Some (Fin q) | _ \<Rightarrow> None)"

definition decode_f64 :: "json \<Rightarrow> f64 \<Rightarrow> f64 option" where
  "decode_f64 j old =
     (case j of JInt n \<Rightarrow> finite_f64 (rnd (of_int n)) | JDec x \<Rightarrow> finite_f64 x | JNull \<Rightarrow> Some old | _ \<Rightarrow> None)"

fun decode_list :: "(json \<Rightarrow> 'a option) \<Rightarrow> json list \<Rightarrow> 'a list option" where
  "decode_list d [] = Some []"
| "decode_list d (j # js) =
     (case d j of None \<Rightarrow> None | Some x \<Rightarrow> map_option (\<lambda>xs. x # xs) (decode_list d js))"

definition decode_slice :: "(json \<Rightarrow> 'a option) \<Rightarrow> json \<Rightarrow> 'a list option" where
  "decode_slice d j = (case j of JNull \<Rightarrow> Some [] | JArr js \<Rightarrow> decode_list d js | _ \<Rightarrow> None)"

definition decode_strings :: "json \<Rightarrow> string list option" where
  "decode_strings = decode_slice (\<lambda>j. decode_string j [])"

text \<open>A pointer field: \<^verbatim>\<open>null\<close> clears it, anything else is decoded into what it points to (a zero
  value when it was nil).\<close>

definition decode_ptr :: "(json \<Rightarrow> 'a \<Rightarrow> 'a option) \<Rightarrow> 'a \<Rightarrow> json \<Rightarrow> 'a option \<Rightarrow> 'a option option" where
  "decode_ptr d zero j old =
     (case j of JNull \<Rightarrow> Some None
      | _ \<Rightarrow> map_option Some (d j (case old of None \<Rightarrow> zero | Some x \<Rightarrow> x)))"

text \<open>Storing into an \<^verbatim>\<open>interface{}\<close>: every number becomes a \<^verbatim>\<open>float64\<close> (and must fit one), objects become
  maps with the last value of each key.\<close>

fun any_ok :: "json \<Rightarrow> bool" where
  "any_ok (JInt n) = (finite_f64 (rnd (of_int n)) \<noteq> None)"
| "any_ok (JDec x) = (finite_f64 x \<noteq> None)"
| "any_ok (JArr js) = list_all any_ok js"
| "any_ok (JObj kvs) = list_all (\<lambda>kv. any_ok (snd kv)) kvs"
| "any_ok _ = True"

fun to_any :: "json \<Rightarrow> json" where
  "to_any (JInt n) = JDec (rnd (of_int n))"
| "to_any (JArr js) = JArr (map to_any js)"
| "to_any (JObj kvs) = JObj (foldr (\<lambda>kv m. if fst kv \<in> fst ` set m then m else (fst kv, to_any (snd kv)) # m) kvs [])"
| "to_any j = j"

definition decode_any :: "json \<Rightarrow> json option" where
  "decode_any j = (if any_ok j then Some (to_any j) else None)"

text \<open>A struct as a table of its fields: \<open>fld\<close> decodes into the old value of a field and stores the result.\<close>

definition fld :: "(json \<Rightarrow> 'a \<Rightarrow> 'a option) \<Rightarrow> ('s \<Rightarrow> 'a) \<Rightarrow> ('a \<Rightarrow> 's \<Rightarrow> 's) \<Rightarrow> json \<Rightarrow> 's \<Rightarrow> 's option" where
  "fld d get put j s = map_option (\<lambda>x. put x s) (d j (get s))"

definition decode_record :: "(string \<times> (json \<Rightarrow> 's \<Rightarrow> 's option)) list \<Rightarrow> json \<Rightarrow> 's \<Rightarrow> 's option" where
  "decode_record tbl = decode_struct (map fst tbl) (\<lambda>f j s. case map_of tbl f of Some u \<Rightarrow> u j s | None \<Rightarrow> Some s)"

definition fresh :: "(json \<Rightarrow> 'a option) \<Rightarrow> json \<Rightarrow> 'a \<Rightarrow> 'a option" where
  "fresh d j old = d j"

lemma decode_fields_append:
  "decode_fields names upd (xs @ ys) s =
     (case decode_fields names upd xs s of None \<Rightarrow> None | Some s' \<Rightarrow> decode_fields names upd ys s')"
  by (induction names upd xs s rule: decode_fields.induct) (auto split: option.splits)

lemma find_field_exact [simp]: "k \<in> set names \<Longrightarrow> find_field names k = Some k"
  by (simp add: find_field_def)

lemma find_field_known: "find_field names k = Some f \<Longrightarrow> f \<in> set names"
  by (auto simp: find_field_def find_Some_iff split: if_splits)

end
