(* ===== verification/Dbus_Values.thy ===== *)
theory Dbus_Values
  imports Go_Float Go_Strings
begin

text \<open>
  The dynamically typed values the D-Bus binding hands to the program: a signal carries a
  list of them, and the program inspects each with a type assertion or a type switch. A
  \<^verbatim>\<open>map[string]dbus.Variant\<close> is an association list with distinct keys.
\<close>

datatype dval =
    DStr string
  | DBool bool
  | DByte u8
  | DI16 "16 word"
  | DI32 i32
  | DI64 i64
  | DInt i64
  | DU16 "16 word"
  | DU32 u32
  | DU64 u64
  | DF32 f64
  | DF64 f64
  | DPath string
  | DStrs "string list"
  | DBytes "u8 list"
  | DArr "dval list"
  | DMap "(string \<times> dval) list"
  | DMaps "(string \<times> dval) list list"
  | DOther string

record signal =
  sg_Sender :: string
  sg_Path :: string
  sg_Name :: string
  sg_Body :: "dval list"

definition as_string :: "dval \<Rightarrow> string option" where
  "as_string v = (case v of DStr s \<Rightarrow> Some s | _ \<Rightarrow> None)"

definition as_bool :: "dval \<Rightarrow> bool option" where
  "as_bool v = (case v of DBool b \<Rightarrow> Some b | _ \<Rightarrow> None)"

definition as_map :: "dval \<Rightarrow> (string \<times> dval) list option" where
  "as_map v = (case v of DMap m \<Rightarrow> Some m | _ \<Rightarrow> None)"

definition str_or_empty :: "dval \<Rightarrow> string" where
  "str_or_empty v = (case as_string v of Some s \<Rightarrow> s | None \<Rightarrow> [])"

lemma as_string_simps [simp]: "as_string (DStr s) = Some s"
  by (simp add: as_string_def)

lemma as_bool_simps [simp]: "as_bool (DBool b) = Some b"
  by (simp add: as_bool_def)

lemma as_map_simps [simp]: "as_map (DMap m) = Some m"
  by (simp add: as_map_def)

end
