(* ===== verification/Notification_Manager.thy ===== *)
theory Notification_Manager
  imports Go_Chan Dbus_Values
begin

text \<open>
  Desktop notifications (\<^verbatim>\<open>pkg/notifications\<close>): the sanitisation every outgoing notification goes
  through (truncation, HTML tag removal, hint whitelist), the decoding of intercepted
  \<^verbatim>\<open>Notify\<close> calls, and the emulated manager.
\<close>

section \<open>Values and messages\<close>

text \<open>The dynamic types a hint of a request can have (\<^verbatim>\<open>interface{}\<close>): the primitives that pass the
  type switch, and everything else.\<close>

datatype hint =
    HStr string
  | HBool bool
  | HInt nat i64
  | HUint nat u64
  | HFloat nat f64
  | HOther string

text \<open>The hints of an event are a Go map, which may be nil (\<^term>\<open>None\<close>).\<close>

record NotificationEvent =
  ne_AppName :: string
  ne_ReplacesID :: u32
  ne_AppIcon :: string
  ne_AppIconBase64 :: string
  ne_Summary :: string
  ne_Body :: string
  ne_Actions :: "string list"
  ne_Hints :: "(string \<times> dval) list option"
  ne_ExpireTimeout :: i32

record NotificationRequest =
  nr_AppName :: string
  nr_ReplacesID :: u32
  nr_AppIcon :: string
  nr_Summary :: string
  nr_Body :: string
  nr_Actions :: "string list"
  nr_Hints :: "(string \<times> hint) list"
  nr_ExpireTimeout :: i32

section \<open>Removing HTML tags\<close>

text \<open>\<^verbatim>\<open>htmlTagRegexp.ReplaceAllString(s, "")\<close> for the expression \<^verbatim>\<open><[^>]*>\<close>: the leftmost match starts
  at the first \<^verbatim>\<open><\<close> that is followed by a \<^verbatim>\<open>>\<close> and ends at the next \<^verbatim>\<open>>\<close>.\<close>

function sanitizeHTML :: "string \<Rightarrow> string" where
  "sanitizeHTML [] = []"
| "sanitizeHTML (c # cs) =
     (if c = CHR ''<'' \<and> CHR ''>'' \<in> set cs
      then sanitizeHTML (tl (dropWhile (\<lambda>d. d \<noteq> CHR ''>'') cs))
      else c # sanitizeHTML cs)"
  by pat_completeness auto
termination
  by (relation "measure length")
     (auto intro!: le_less_trans[OF diff_le_self] simp: le_imp_less_Suc length_dropWhile_le)

section \<open>Sending\<close>

definition truncate_bytes :: "nat \<Rightarrow> string \<Rightarrow> string" where
  "truncate_bytes n s = (if length s > n then take n s else s)"

definition allowedHints :: "string list" where
  "allowedHints = [''urgency'', ''category'', ''transient'', ''resident'', ''suppress-sound'', ''sound-file'', ''sound-name'']"

definition primitive_hint :: "hint \<Rightarrow> bool" where
  "primitive_hint v = (case v of HOther _ \<Rightarrow> False | _ \<Rightarrow> True)"

definition cleanHints :: "(string \<times> hint) list \<Rightarrow> (string \<times> hint) list" where
  "cleanHints hs = filter (\<lambda>(k, v). k \<in> set allowedHints \<and> primitive_hint v) hs"

definition sanitize_texts :: "NotificationRequest \<Rightarrow> NotificationRequest" where
  "sanitize_texts req =
     (let req1 = req\<lparr>nr_Summary := truncate_bytes 512 (nr_Summary req)\<rparr>;
          req2 = req1\<lparr>nr_Body := truncate_bytes 2048 (nr_Body req1)\<rparr>;
          req3 = req2\<lparr>nr_Summary := sanitizeHTML (nr_Summary req2)\<rparr>
      in req3\<lparr>nr_Body := sanitizeHTML (nr_Body req3)\<rparr>)"

text \<open>\<^verbatim>\<open>SendNotification\<close>: the bus answers the \<^verbatim>\<open>Notify\<close> call with an identifier or an error. The call
  that is made is returned with the outcome.\<close>

definition dbus_SendNotification ::
  "(NotificationRequest \<Rightarrow> string + u32) \<Rightarrow> NotificationRequest \<Rightarrow> (string + u32) \<times> NotificationRequest" where
  "dbus_SendNotification notify req =
     (let req1 = sanitize_texts req;
          call = req1\<lparr>nr_Hints := cleanHints (nr_Hints req1)\<rparr>
      in (case notify call of
            Inl e \<Rightarrow> Inl (''failed to trigger notification via D-Bus: '' @ e)
          | Inr i \<Rightarrow> Inr i, call))"

text \<open>\<^verbatim>\<open>Close\<close>: the connection for outgoing calls is closed, when there is one; no other field is touched. Closing a connection
  is code of the bus library.\<close>

definition notifications_Close :: "('c \<Rightarrow> string option \<times> 'c) \<Rightarrow> 'c option \<Rightarrow> string option \<times> 'c option" where
  "notifications_Close close_conn sendConn =
     (case sendConn of
        Some conn \<Rightarrow> (let (err, conn') = close_conn conn in (err, Some conn'))
      | None \<Rightarrow> (None, None))"

section \<open>Intercepting\<close>

definition as_u32 :: "dval \<Rightarrow> u32" where
  "as_u32 v = (case v of DU32 w \<Rightarrow> w | _ \<Rightarrow> 0)"

definition as_i32 :: "dval \<Rightarrow> i32" where
  "as_i32 v = (case v of DI32 w \<Rightarrow> w | _ \<Rightarrow> 0)"

definition as_strs :: "dval \<Rightarrow> string list" where
  "as_strs v = (case v of DStrs ss \<Rightarrow> ss | _ \<Rightarrow> [])"

definition map_or_empty :: "dval \<Rightarrow> (string \<times> dval) list" where
  "map_or_empty v = (case as_map v of Some m \<Rightarrow> m | None \<Rightarrow> [])"

text \<open>One message of the monitor loop: a body with fewer than eight values is skipped; a value of an
  unexpected type becomes the zero value. The icon extraction runs in a goroutine of its
  own, so the order of the events of several messages is left open.\<close>

definition intercept :: "(string \<Rightarrow> string \<Rightarrow> (string \<times> dval) list \<Rightarrow> string) \<Rightarrow> dval list \<Rightarrow> NotificationEvent option" where
  "intercept extract body =
     (case body of
        v0 # v1 # v2 # v3 # v4 # v5 # v6 # v7 # _ \<Rightarrow>
          Some \<lparr>ne_AppName = str_or_empty v0, ne_ReplacesID = as_u32 v1, ne_AppIcon = str_or_empty v2,
                ne_AppIconBase64 = extract (str_or_empty v0) (str_or_empty v2) (map_or_empty v6),
                ne_Summary = str_or_empty v3, ne_Body = str_or_empty v4, ne_Actions = as_strs v5,
                ne_Hints = Some (map_or_empty v6), ne_ExpireTimeout = as_i32 v7\<rparr>
      | _ \<Rightarrow> None)"

section \<open>The emulated manager\<close>

record MockNotificationManager =
  mn_nextID :: u32

definition NewMockNotificationManager :: MockNotificationManager where
  "NewMockNotificationManager = \<lparr>mn_nextID = 100\<rparr>"

definition mock_SendNotification ::
  "MockNotificationManager \<Rightarrow> NotificationRequest \<Rightarrow> (u32 \<times> NotificationRequest) \<times> MockNotificationManager" where
  "mock_SendNotification m req =
     (let i = mn_nextID m + 1 in ((i, sanitize_texts req), m\<lparr>mn_nextID := i\<rparr>))"

text \<open>\<^verbatim>\<open>MockNotificationManager.Start\<close>: after the first delay and at every tick a random index picks
  one of five canned events; the indices are given as a list, one per event.\<close>

definition mockApps :: "string list" where
  "mockApps = [''Slack'', ''Discord'', ''Thunderbird'', ''Spotify'', ''Systemd'']"

definition mockSummaries :: "string list" where
  "mockSummaries = [''New direct message'', ''Server Alert'', ''Update available'', ''Now playing'', ''Battery low'']"

definition mockBodies :: "string list" where
  "mockBodies = [''Alice: Let'' @ [CHR 0x27] @ ''s sync up later today.'', ''High CPU load detected on host server.'',
     ''Version 1.26.4 is ready for download.'', ''Stayin'' @ [CHR 0x27] @ '' Alive - Bee Gees'',
     ''Battery is currently at 12%. Connect charger.'']"

definition mockBase64Icon :: string where
  "mockBase64Icon = ''data:image/png;base64,iVBORw0KGgoAAAANSUhEUgAAAAEAAAABCAQAAAC1HAwCAAAAC0lEQVR42mNkYAAAAAYAAjCB0C8AAAAASUVORK5CYII=''"

definition mock_notification :: "nat \<Rightarrow> NotificationEvent go" where
  "mock_notification idx =
     (if idx < length mockApps
      then Inr \<lparr>ne_AppName = mockApps ! idx, ne_ReplacesID = 0, ne_AppIcon = ''dialog-information'',
             ne_AppIconBase64 = mockBase64Icon, ne_Summary = mockSummaries ! idx, ne_Body = mockBodies ! idx,
             ne_Actions = [''default'', ''Dismiss''], ne_Hints = Some [(''urgency'', DInt 1)], ne_ExpireTimeout = 5000\<rparr>
      else Inl (IndexOutOfRange (int idx)))"

definition mock_notifications :: "nat list \<Rightarrow> NotificationEvent go list" where
  "mock_notifications idxs = map mock_notification idxs"

fun mock_send_all :: "MockNotificationManager \<Rightarrow> NotificationRequest list \<Rightarrow> u32 list \<times> MockNotificationManager" where
  "mock_send_all m [] = ([], m)"
| "mock_send_all m (r # rs) =
     (let ((i, _), m1) = mock_SendNotification m r; (is, m2) = mock_send_all m1 rs in (i # is, m2))"

section \<open>What sanitisation guarantees\<close>

definition has_tag :: "string \<Rightarrow> bool" where
  "has_tag s \<longleftrightarrow> (\<exists>u v w. s = u @ CHR ''<'' # v @ CHR ''>'' # w)"

lemma has_tag_Cons: "has_tag (c # cs) \<longleftrightarrow> (c = CHR ''<'' \<and> CHR ''>'' \<in> set cs) \<or> has_tag cs"
proof
  assume "has_tag (c # cs)"
  then obtain u v w where eq: "c # cs = u @ CHR ''<'' # v @ CHR ''>'' # w" by (auto simp: has_tag_def)
  show "(c = CHR ''<'' \<and> CHR ''>'' \<in> set cs) \<or> has_tag cs"
  proof (cases u)
    case Nil
    with eq show ?thesis by simp
  next
    case (Cons d u')
    with eq have "cs = u' @ CHR ''<'' # v @ CHR ''>'' # w" by simp
    then show ?thesis by (auto simp: has_tag_def)
  qed
next
  assume "(c = CHR ''<'' \<and> CHR ''>'' \<in> set cs) \<or> has_tag cs"
  then show "has_tag (c # cs)"
  proof
    assume "c = CHR ''<'' \<and> CHR ''>'' \<in> set cs"
    then obtain v w where "c # cs = [] @ CHR ''<'' # v @ CHR ''>'' # w" by (auto dest: split_list)
    then show ?thesis unfolding has_tag_def by blast
  next
    assume "has_tag cs"
    then obtain u v w where "c # cs = (c # u) @ CHR ''<'' # v @ CHR ''>'' # w" by (auto simp: has_tag_def)
    then show ?thesis unfolding has_tag_def by blast
  qed
qed

lemma not_has_tag_Nil [simp]: "\<not> has_tag []"
  by (simp add: has_tag_def)

lemma has_tag_angle: "has_tag s \<Longrightarrow> CHR ''<'' \<in> set s"
  by (auto simp: has_tag_def)

lemma set_tl_dropWhile: "set (tl (dropWhile P cs)) \<subseteq> set cs"
  by (metis list.set_sel(2) set_dropWhileD subsetI tl_Nil)

lemma set_sanitizeHTML: "set (sanitizeHTML s) \<subseteq> set s"
proof (induction s rule: sanitizeHTML.induct)
  case (2 c cs)
  then show ?case using set_tl_dropWhile[of "\<lambda>d. d \<noteq> CHR ''>''" cs] by auto
qed simp

lemma sanitizeHTML_no_tag: "\<not> has_tag (sanitizeHTML s)"
proof (induction s rule: sanitizeHTML.induct)
  case (2 c cs)
  then show ?case using set_sanitizeHTML[of cs] by (auto simp: has_tag_Cons)
qed simp

lemma sanitizeHTML_id: "\<not> has_tag s \<Longrightarrow> sanitizeHTML s = s"
  by (induction s) (auto simp: has_tag_Cons)

lemma length_sanitizeHTML: "length (sanitizeHTML s) \<le> length s"
proof (induction s rule: sanitizeHTML.induct)
  case (2 c cs)
  have "length (tl (dropWhile (\<lambda>d. d \<noteq> CHR ''>'') cs)) \<le> length cs"
    using length_dropWhile_le[of "\<lambda>d. d \<noteq> CHR ''>''" cs] by simp
  with 2 show ?case by (auto intro: le_trans le_SucI)
qed simp

lemma length_truncate_bytes: "length (truncate_bytes n s) \<le> n"
  by (simp add: truncate_bytes_def)

lemma sanitize_texts_sel [simp]:
  "nr_Summary (sanitize_texts req) = sanitizeHTML (truncate_bytes 512 (nr_Summary req))"
  "nr_Body (sanitize_texts req) = sanitizeHTML (truncate_bytes 2048 (nr_Body req))"
  "nr_Hints (sanitize_texts req) = nr_Hints req"
  "nr_AppName (sanitize_texts req) = nr_AppName req"
  "nr_Actions (sanitize_texts req) = nr_Actions req"
  by (simp_all add: sanitize_texts_def Let_def)

section \<open>Properties\<close>


text \<open>sanitisation is idempotent and leaves text without tags alone, so sending a
  notification that was already sanitised changes neither its summary nor its body.\<close>

theorem sanitize_texts_idempotent:
  "sanitize_texts (sanitize_texts req) = sanitize_texts req"
proof -
  have "truncate_bytes n (sanitizeHTML (truncate_bytes n s)) = sanitizeHTML (truncate_bytes n s)" for n s
    using le_trans[OF length_sanitizeHTML length_truncate_bytes, of n s] by (simp add: truncate_bytes_def)
  then have "sanitizeHTML (truncate_bytes n (sanitizeHTML (truncate_bytes n s))) = sanitizeHTML (truncate_bytes n s)" for n s
    by (simp add: sanitizeHTML_id sanitizeHTML_no_tag)
  then show ?thesis by (simp add: sanitize_texts_def Let_def)
qed

text \<open>Truncation counts bytes, so it can cut a multi-byte character in two: the text that is sent
  then ends in the lead byte of a two-byte sequence without its continuation byte.\<close>

lemma truncation_splits_character:
  "let s = replicate 511 CHR ''a'' @ [CHR 0xC3, CHR 0xA9]
   in sanitizeHTML (truncate_bytes 512 s) = replicate 511 CHR ''a'' @ [CHR 0xC3]"
proof -
  have "\<not> has_tag (replicate 511 CHR ''a'' @ [CHR 0xC3])"
    by (auto dest!: has_tag_angle)
  then show ?thesis by (simp add: truncate_bytes_def sanitizeHTML_id)
qed

text \<open>the emulated manager hands out consecutive identifiers, modulo the width of the counter:
  the \<open>k\<close>-th request gets \<open>100 + k\<close>.\<close>

theorem mock_ids_consecutive:
  "fst (mock_send_all NewMockNotificationManager reqs) =
     map (\<lambda>k. 100 + word_of_nat (Suc k)) [0..<length reqs]"
proof -
  have "fst (mock_send_all \<lparr>mn_nextID = n\<rparr> reqs) = map (\<lambda>k. n + word_of_nat (Suc k)) [0..<length reqs]" for n
  proof (induction reqs arbitrary: n)
    case (Cons r rs)
    have "[0..<length (r # rs)] = 0 # map Suc [0..<length rs]"
      by (simp add: map_Suc_upt upt_conv_Cons del: upt_Suc)
    then show ?case
      using Cons[of "n + 1"] by (simp add: mock_SendNotification_def Let_def split_beta add_ac)
  qed simp
  then show ?thesis by (simp add: NewMockNotificationManager_def)
qed

end
