(* ===== verification/Connection_Pool.thy ===== *)
theory Connection_Pool
  imports Go_Json Mpris_Types Notification_Manager
begin

text \<open>
  The WebSocket side (\<^verbatim>\<open>pkg/websocket\<close>): the registry of client connections, broadcasting, the
  decoding and dispatch of inbound client messages to the daemon's callbacks, and the
  loopback guard of the server's constructor.

  A connection is a number. Whether a write of a message to it succeeds is decided by the
  network and by the encoding of the message, given as a predicate \<open>up\<close>; a closed connection never
  accepts a write. The pool keeps, besides its map of connections, the connections it has closed
  and the messages it has delivered, in order.
\<close>

section \<open>The registry\<close>

record 'm pool =
  pl_conns :: "nat list"
  pl_closed :: "nat list"
  pl_sent :: "(nat \<times> 'm) list"

definition empty_pool :: "'m pool" where
  "empty_pool = \<lparr>pl_conns = [], pl_closed = [], pl_sent = []\<rparr>"

text \<open>\<^verbatim>\<open>ClientConn.WriteJSON\<close>\<close>

definition writeJSON :: "(nat \<Rightarrow> 'm \<Rightarrow> bool) \<Rightarrow> nat \<Rightarrow> 'm \<Rightarrow> 'm pool \<Rightarrow> bool \<times> 'm pool" where
  "writeJSON up c v p =
     (if up c v \<and> c \<notin> set (pl_closed p) then (True, p\<lparr>pl_sent := pl_sent p @ [(c, v)]\<rparr>) else (False, p))"

definition pool_Insert :: "nat \<Rightarrow> 'm pool \<Rightarrow> 'm pool" where
  "pool_Insert c p = p\<lparr>pl_conns := List.insert c (pl_conns p)\<rparr>"

definition pool_Remove :: "nat \<Rightarrow> 'm pool \<Rightarrow> 'm pool" where
  "pool_Remove c p =
     (if c \<in> set (pl_conns p)
      then p\<lparr>pl_conns := removeAll c (pl_conns p), pl_closed := List.insert c (pl_closed p)\<rparr>
      else p)"

definition pool_Size :: "'m pool \<Rightarrow> nat" where
  "pool_Size p = length (pl_conns p)"

definition broadcast_one :: "(nat \<Rightarrow> 'm \<Rightarrow> bool) \<Rightarrow> 'm \<Rightarrow> nat \<Rightarrow> 'm pool \<Rightarrow> 'm pool" where
  "broadcast_one up v c p =
     (case writeJSON up c v p of (ok, p') \<Rightarrow> if ok then p' else pool_Remove c p')"

text \<open>The loop runs over a copy of the connections taken before the first write.\<close>

definition pool_Broadcast :: "(nat \<Rightarrow> 'm \<Rightarrow> bool) \<Rightarrow> 'm \<Rightarrow> 'm pool \<Rightarrow> 'm pool" where
  "pool_Broadcast up v p = fold (broadcast_one up v) (pl_conns p) p"

section \<open>Inbound messages\<close>

record MediaCommandArgs =
  ma_Offset :: "i64 option"
  ma_Position :: "i64 option"
  ma_TrackID :: "string option"
  ma_Volume :: "f64 option"

record InboundMessage =
  im_Type :: string
  im_Command :: string
  im_Settings :: "int option"
  im_AppName :: string
  im_ReplacesID :: u32
  im_AppIcon :: string
  im_Summary :: string
  im_Body :: string
  im_Actions :: "string list"
  im_Hints :: "(string \<times> hint) list"
  im_ExpireTimeout :: i32
  im_PlayerName :: string
  im_Args :: "MediaCommandArgs option"
  im_Profile :: string

definition zeroInbound :: InboundMessage where
  "zeroInbound = \<lparr>im_Type = [], im_Command = [], im_Settings = None, im_AppName = [], im_ReplacesID = 0,
     im_AppIcon = [], im_Summary = [], im_Body = [], im_Actions = [], im_Hints = [], im_ExpireTimeout = 0,
     im_PlayerName = [], im_Args = None, im_Profile = []\<rparr>"

definition zeroArgs :: MediaCommandArgs where
  "zeroArgs = \<lparr>ma_Offset = None, ma_Position = None, ma_TrackID = None, ma_Volume = None\<rparr>"

definition args_field :: "string \<Rightarrow> json \<Rightarrow> MediaCommandArgs \<Rightarrow> MediaCommandArgs option" where
  "args_field f v a =
     (if f = ''offset_microseconds'' then map_option (\<lambda>x. a\<lparr>ma_Offset := x\<rparr>) (decode_ptr decode_i64 0 v (ma_Offset a))
      else if f = ''position_microseconds'' then map_option (\<lambda>x. a\<lparr>ma_Position := x\<rparr>) (decode_ptr decode_i64 0 v (ma_Position a))
      else if f = ''track_id'' then map_option (\<lambda>x. a\<lparr>ma_TrackID := x\<rparr>) (decode_ptr decode_string [] v (ma_TrackID a))
      else if f = ''volume'' then map_option (\<lambda>x. a\<lparr>ma_Volume := x\<rparr>) (decode_ptr decode_f64 (Fin 0) v (ma_Volume a))
      else Some a)"

definition decode_args :: "json \<Rightarrow> MediaCommandArgs \<Rightarrow> MediaCommandArgs option" where
  "decode_args = decode_struct [''offset_microseconds'', ''position_microseconds'', ''track_id'', ''volume''] args_field"

definition decode_settings :: "json \<Rightarrow> int \<Rightarrow> int option" where
  "decode_settings = decode_struct [''interval_ms''] (\<lambda>f v i. decode_int v i)"

text \<open>A hint is stored in an \<^verbatim>\<open>interface{}\<close>: strings and booleans stay, numbers become floats.\<close>

definition hint_of_json :: "json \<Rightarrow> hint" where
  "hint_of_json j =
     (case j of JStr s \<Rightarrow> HStr s | JBool b \<Rightarrow> HBool b | JDec x \<Rightarrow> HFloat 64 x
      | JInt n \<Rightarrow> HFloat 64 (rnd (of_int n)) | JNull \<Rightarrow> HOther ''nil'' | JArr _ \<Rightarrow> HOther ''[]interface {}''
      | JObj _ \<Rightarrow> HOther ''map[string]interface {}'')"

definition decode_hints :: "json \<Rightarrow> (string \<times> hint) list \<Rightarrow> (string \<times> hint) list option" where
  "decode_hints j old =
     (case j of JNull \<Rightarrow> Some []
      | JObj kvs \<Rightarrow> if any_ok j then Some (fold (\<lambda>(k, v) m. AList.update k (hint_of_json v) m) kvs old) else None
      | _ \<Rightarrow> None)"

definition inbound_names :: "string list" where
  "inbound_names = [''type'', ''command'', ''settings'', ''app_name'', ''replaces_id'', ''app_icon'', ''summary'',
     ''body'', ''actions'', ''hints'', ''expire_timeout'', ''player_name'', ''args'', ''profile'']"

definition inbound_field :: "string \<Rightarrow> json \<Rightarrow> InboundMessage \<Rightarrow> InboundMessage option" where
  "inbound_field f v m =
     (if f = ''type'' then map_option (\<lambda>x. m\<lparr>im_Type := x\<rparr>) (decode_string v (im_Type m))
      else if f = ''command'' then map_option (\<lambda>x. m\<lparr>im_Command := x\<rparr>) (decode_string v (im_Command m))
      else if f = ''settings'' then map_option (\<lambda>x. m\<lparr>im_Settings := x\<rparr>) (decode_ptr decode_settings 0 v (im_Settings m))
      else if f = ''app_name'' then map_option (\<lambda>x. m\<lparr>im_AppName := x\<rparr>) (decode_string v (im_AppName m))
      else if f = ''replaces_id'' then map_option (\<lambda>x. m\<lparr>im_ReplacesID := x\<rparr>) (decode_u32 v (im_ReplacesID m))
      else if f = ''app_icon'' then map_option (\<lambda>x. m\<lparr>im_AppIcon := x\<rparr>) (decode_string v (im_AppIcon m))
      else if f = ''summary'' then map_option (\<lambda>x. m\<lparr>im_Summary := x\<rparr>) (decode_string v (im_Summary m))
      else if f = ''body'' then map_option (\<lambda>x. m\<lparr>im_Body := x\<rparr>) (decode_string v (im_Body m))
      else if f = ''actions'' then map_option (\<lambda>x. m\<lparr>im_Actions := x\<rparr>) (decode_strings v)
      else if f = ''hints'' then map_option (\<lambda>x. m\<lparr>im_Hints := x\<rparr>) (decode_hints v (im_Hints m))
      else if f = ''expire_timeout'' then map_option (\<lambda>x. m\<lparr>im_ExpireTimeout := x\<rparr>) (decode_i32 v (im_ExpireTimeout m))
      else if f = ''player_name'' then map_option (\<lambda>x. m\<lparr>im_PlayerName := x\<rparr>) (decode_string v (im_PlayerName m))
      else if f = ''args'' then map_option (\<lambda>x. m\<lparr>im_Args := x\<rparr>) (decode_ptr decode_args zeroArgs v (im_Args m))
      else if f = ''profile'' then map_option (\<lambda>x. m\<lparr>im_Profile := x\<rparr>) (decode_string v (im_Profile m))
      else Some m)"

definition unmarshal_inbound :: "json \<Rightarrow> InboundMessage option" where
  "unmarshal_inbound j = decode_struct inbound_names inbound_field j zeroInbound"

section \<open>Dispatch\<close>

text \<open>The daemon's callbacks, over its state; each may be absent.\<close>

record 's callbacks =
  onConfigChange :: "(int \<Rightarrow> 's \<Rightarrow> 's) option"
  onAction :: "(string \<Rightarrow> 's \<Rightarrow> 's) option"
  onNotificationCommand :: "(NotificationRequest \<Rightarrow> 's \<Rightarrow> (string + u32) \<times> 's) option"
  onMediaCommand :: "(string \<Rightarrow> string \<Rightarrow> margs \<Rightarrow> 's \<Rightarrow> string option \<times> 's) option"
  onPowerProfileCommand :: "(string \<Rightarrow> 's \<Rightarrow> string option \<times> 's) option"

datatype reply =
    Pong
  | NotificationResponse "string + u32"
  | MediaResponse "string option"
  | PowerProfileResponse "string option"

definition clamp_interval :: "int \<Rightarrow> int" where
  "clamp_interval interval =
     (if interval < 100 then 100 else if interval > 10000 then 10000 else interval)"

definition request_of_inbound :: "InboundMessage \<Rightarrow> NotificationRequest" where
  "request_of_inbound m =
     (let req = \<lparr>nr_AppName = im_AppName m, nr_ReplacesID = im_ReplacesID m, nr_AppIcon = im_AppIcon m,
           nr_Summary = im_Summary m, nr_Body = im_Body m, nr_Actions = im_Actions m, nr_Hints = im_Hints m,
           nr_ExpireTimeout = im_ExpireTimeout m\<rparr>;
          req1 = (if nr_AppName req = [] then req\<lparr>nr_AppName := ''pc-dashboard''\<rparr> else req);
          req2 = (if nr_AppIcon req1 = [] then req1\<lparr>nr_AppIcon := ''dialog-information''\<rparr> else req1)
      in if nr_ExpireTimeout req2 = 0 then req2\<lparr>nr_ExpireTimeout := - 1\<rparr> else req2)"

definition margs_of :: "i64 option \<Rightarrow> i64 option \<Rightarrow> string option \<Rightarrow> f64 option \<Rightarrow> margs" where
  "margs_of offset position track volume =
     (case offset of None \<Rightarrow> [] | Some x \<Rightarrow> [(''offset_microseconds'', AInt64 x)]) @
     (case position of None \<Rightarrow> [] | Some x \<Rightarrow> [(''position_microseconds'', AInt64 x)]) @
     (case track of None \<Rightarrow> [] | Some x \<Rightarrow> [(''track_id'', AString x)]) @
     (case volume of None \<Rightarrow> [] | Some x \<Rightarrow> [(''volume'', AFloat64 x)])"

definition margs_of_inbound :: "InboundMessage \<Rightarrow> margs" where
  "margs_of_inbound m =
     (case im_Args m of
        None \<Rightarrow> []
      | Some a \<Rightarrow> margs_of (ma_Offset a) (ma_Position a) (ma_TrackID a) (ma_Volume a))"

text \<open>One iteration of the read loop after decoding: the callback and the reply it leads to.\<close>

definition dispatch :: "'s callbacks \<Rightarrow> InboundMessage \<Rightarrow> 's \<Rightarrow> reply option \<times> 's" where
  "dispatch cb m s =
     (if im_Type m = ''ping'' then (Some Pong, s)
      else if im_Type m = ''config'' then
        (case (im_Settings m, onConfigChange cb) of
           (Some interval, Some f) \<Rightarrow> (None, f (clamp_interval interval) s)
         | _ \<Rightarrow> (None, s))
      else if im_Type m = ''action'' then
        (case onAction cb of Some f \<Rightarrow> (None, f (im_Command m) s) | None \<Rightarrow> (None, s))
      else if im_Type m = ''notification_command'' then
        (case onNotificationCommand cb of
           Some f \<Rightarrow> (case f (request_of_inbound m) s of (r, s') \<Rightarrow> (Some (NotificationResponse r), s'))
         | None \<Rightarrow> (None, s))
      else if im_Type m = ''media_command'' then
        (case onMediaCommand cb of
           Some f \<Rightarrow> (case f (im_PlayerName m) (im_Command m) (margs_of_inbound m) s of (r, s') \<Rightarrow> (Some (MediaResponse r), s'))
         | None \<Rightarrow> (None, s))
      else if im_Type m = ''power_profile_command'' then
        (case onPowerProfileCommand cb of
           Some f \<Rightarrow> (case f (im_Profile m) s of (r, s') \<Rightarrow> (Some (PowerProfileResponse r), s'))
         | None \<Rightarrow> (None, s))
      else (None, s))"

text \<open>A frame that is not a valid message is logged and skipped; a reply that cannot be written is
  dropped. The daemon's state and the pool are passed together, with access to the pool
  inside it, since a callback may itself broadcast.\<close>

record ('s, 'm) pool_access =
  get_pool :: "'s \<Rightarrow> 'm pool"
  put_pool :: "'m pool \<Rightarrow> 's \<Rightarrow> 's"
  reply_msg :: "reply \<Rightarrow> 'm"

definition handle_frame ::
  "('s, 'm) pool_access \<Rightarrow> 's callbacks \<Rightarrow> (string \<Rightarrow> json option) \<Rightarrow> (nat \<Rightarrow> 'm \<Rightarrow> bool) \<Rightarrow> nat \<Rightarrow> string \<Rightarrow> 's \<Rightarrow> 's" where
  "handle_frame acc cb parse up c bytes s =
     (case Option.bind (parse bytes) unmarshal_inbound of
        None \<Rightarrow> s
      | Some m \<Rightarrow>
          (case dispatch cb m s of
             (None, s') \<Rightarrow> s'
           | (Some r, s') \<Rightarrow> put_pool acc (snd (writeJSON up c (reply_msg acc r) (get_pool acc s'))) s'))"

text \<open>\<^verbatim>\<open>HandleClient\<close>: register, greet through the connect callback, process the frames until the
  read fails, and in any case remove the client.\<close>

definition handleClient ::
  "('s, 'm) pool_access \<Rightarrow> 's callbacks \<Rightarrow> (nat \<Rightarrow> 's \<Rightarrow> 's) option \<Rightarrow> (string \<Rightarrow> json option) \<Rightarrow> (nat \<Rightarrow> 'm \<Rightarrow> bool) \<Rightarrow>
     nat \<Rightarrow> string list \<Rightarrow> 's \<Rightarrow> 's" where
  "handleClient acc cb onConnect parse up c frames s =
     (let s1 = put_pool acc (pool_Insert c (get_pool acc s)) s;
          s2 = (case onConnect of Some f \<Rightarrow> f c s1 | None \<Rightarrow> s1);
          s3 = fold (handle_frame acc cb parse up c) frames s2
      in put_pool acc (pool_Remove c (get_pool acc s3)) s3)"

section \<open>The server's constructor\<close>

record ws_server =
  ws_host :: string
  ws_port :: int

definition NewServer :: "string \<Rightarrow> int \<Rightarrow> ws_server" where
  "NewServer host port =
     \<lparr>ws_host = (if host \<noteq> ''127.0.0.1'' \<and> host \<noteq> ''::1'' \<and> host \<noteq> ''localhost'' then ''127.0.0.1'' else host),
      ws_port = (if port = 0 then 12345 else port)\<rparr>"

section \<open>The registry's contract\<close>

text \<open>What broadcasting relies on: the sets of registered and of closed connections, the delivery
  log, and how removing a connection and writing to one change them.\<close>

locale client_registry =
  fixes members :: "'p \<Rightarrow> nat set"
    and retired :: "'p \<Rightarrow> nat set"
    and sent :: "'p \<Rightarrow> (nat \<times> 'm) list"
    and rem :: "nat \<Rightarrow> 'p \<Rightarrow> 'p"
    and wr :: "nat \<Rightarrow> 'm \<Rightarrow> 'p \<Rightarrow> bool \<times> 'p"
    and ok :: "nat \<Rightarrow> 'm \<Rightarrow> bool"
  assumes members_rem: "members (rem c p) = members p - {c}"
    and retired_rem: "retired (rem c p) = retired p \<union> ({c} \<inter> members p)"
    and sent_rem: "sent (rem c p) = sent p"
    and write_ok: "fst (wr c v p) \<longleftrightarrow> ok c v \<and> c \<notin> retired p"
    and members_write: "members (snd (wr c v p)) = members p"
    and retired_write: "retired (snd (wr c v p)) = retired p"
    and sent_write: "sent (snd (wr c v p)) = (if fst (wr c v p) then sent p @ [(c, v)] else sent p)"
begin

lemmas registry_simps = members_rem retired_rem sent_rem members_write retired_write

lemma separated_rem: "members p \<inter> retired p = {} \<Longrightarrow> members (rem c p) \<inter> retired (rem c p) = {}"
  by (auto simp: registry_simps)

lemma fanout:
  fixes v :: 'm
  assumes "distinct cs" and "set cs \<subseteq> members p" and "members p \<inter> retired p = {}"
  defines "q \<equiv> fold (\<lambda>c p. case wr c v p of (b, p') \<Rightarrow> if b then p' else rem c p') cs p"
  shows "members q = members p - {c \<in> set cs. \<not> ok c v} \<and>
    retired q = retired p \<union> {c \<in> set cs. \<not> ok c v} \<and>
    sent q = sent p @ map (\<lambda>c. (c, v)) (filter (\<lambda>c. ok c v) cs)"
  using assms(1-3) unfolding q_def
proof (induction cs arbitrary: p)
  case Nil
  then show ?case by simp
next
  case (Cons c cs)
  let ?p = "case wr c v p of (b, p') \<Rightarrow> if b then p' else rem c p'"
  have c: "c \<in> members p" "c \<notin> retired p" using Cons.prems by auto
  have p: "members ?p = (if ok c v then members p else members p - {c})"
    "retired ?p = (if ok c v then retired p else insert c (retired p))"
    "sent ?p = (if ok c v then sent p @ [(c, v)] else sent p)"
    using c write_ok[of c v p] sent_write[of c v p] members_write[of c v p] retired_write[of c v p]
    by (auto simp: split_beta registry_simps)
  have "set cs \<subseteq> members ?p" "members ?p \<inter> retired ?p = {}"
    using Cons.prems by (auto simp: p)
  then show ?case
    using Cons.IH[of ?p] Cons.prems(1) by (auto simp: p)
qed

end

interpretation ws_pool: client_registry
  "\<lambda>p. set (pl_conns p)" "\<lambda>p. set (pl_closed p)" pl_sent pool_Remove "writeJSON up" up
  for up :: "nat \<Rightarrow> 'm \<Rightarrow> bool"
  by unfold_locales (auto simp: pool_Remove_def writeJSON_def)

definition pool_ok :: "'m pool \<Rightarrow> bool" where
  "pool_ok p \<longleftrightarrow> distinct (pl_conns p) \<and> set (pl_conns p) \<inter> set (pl_closed p) = {}"

lemma pool_ok_empty [simp]: "pool_ok empty_pool"
  by (simp add: pool_ok_def empty_pool_def)

lemma pool_ok_Insert: "pool_ok p \<Longrightarrow> c \<notin> set (pl_closed p) \<Longrightarrow> pool_ok (pool_Insert c p)"
  by (auto simp: pool_ok_def pool_Insert_def)

lemma pool_ok_Remove: "pool_ok p \<Longrightarrow> pool_ok (pool_Remove c p)"
  by (auto simp: pool_ok_def pool_Remove_def distinct_removeAll)

lemma pool_ok_write: "pool_ok p \<Longrightarrow> pool_ok (snd (writeJSON up c v p))"
  by (simp add: pool_ok_def writeJSON_def)

lemma pool_ok_Broadcast: "pool_ok p \<Longrightarrow> pool_ok (pool_Broadcast up v p)"
proof -
  have "pool_ok (fold (broadcast_one up v) cs p)" if "pool_ok p" for cs p
    using that
    by (induction cs arbitrary: p)
       (simp_all add: broadcast_one_def split_beta pool_ok_Remove pool_ok_write)
  then show "pool_ok p \<Longrightarrow> pool_ok (pool_Broadcast up v p)" by (simp add: pool_Broadcast_def)
qed

lemma pool_Broadcast_effect:
  assumes "pool_ok p"
  shows "set (pl_conns (pool_Broadcast up v p)) = {c \<in> set (pl_conns p). up c v} \<and>
    set (pl_closed (pool_Broadcast up v p)) = set (pl_closed p) \<union> {c \<in> set (pl_conns p). \<not> up c v} \<and>
    pl_sent (pool_Broadcast up v p) = pl_sent p @ map (\<lambda>c. (c, v)) (filter (\<lambda>c. up c v) (pl_conns p))"
  using ws_pool.fanout[of "pl_conns p" p up v] assms
  by (auto simp: pool_Broadcast_def broadcast_one_def[abs_def] pool_ok_def)

lemma clamp_interval_bounds: "100 \<le> clamp_interval i \<and> clamp_interval i \<le> 10000"
  by (simp add: clamp_interval_def)

lemma clamp_interval_id: "100 \<le> i \<Longrightarrow> i \<le> 10000 \<Longrightarrow> clamp_interval i = i"
  by (simp add: clamp_interval_def)

section \<open>Properties\<close>

text \<open>C8: a broadcast delivers the message exactly once to every registered client that can be
  written to, in registry order, and to nobody else; the clients whose write fails are
  the ones removed and closed; the pool stays consistent (no duplicate, nobody both
  registered and closed).\<close>

theorem broadcast_delivers_and_prunes:
  assumes "pool_ok p"
  shows "pool_ok (pool_Broadcast up v p) \<and>
    set (pl_conns (pool_Broadcast up v p)) = {c \<in> set (pl_conns p). up c v} \<and>
    set (pl_closed (pool_Broadcast up v p)) = set (pl_closed p) \<union> {c \<in> set (pl_conns p). \<not> up c v} \<and>
    pl_sent (pool_Broadcast up v p) = pl_sent p @ map (\<lambda>c. (c, v)) (filter (\<lambda>c. up c v) (pl_conns p))"
  by (rule conjI[OF pool_ok_Broadcast[OF assms] pool_Broadcast_effect[OF assms]])

theorem broadcast_delivers_and_prunes_witness:
  "pl_sent (pool_Broadcast (\<lambda>c m. c \<noteq> 2) ''m'' (pool_Insert 1 (pool_Insert 2 (pool_Insert 3 empty_pool)))) =
     [(1, ''m''), (3, ''m'')] \<and>
   set (pl_closed (pool_Broadcast (\<lambda>c m. c \<noteq> 2) ''m'' (pool_Insert 1 (pool_Insert 2 (pool_Insert 3 empty_pool))))) = {2}"
proof -
  let ?p = "pool_Insert 1 (pool_Insert 2 (pool_Insert 3 empty_pool)) :: string pool"
  have "pool_ok ?p" by (auto simp: pool_ok_def pool_Insert_def empty_pool_def)
  from broadcast_delivers_and_prunes[OF this, of "\<lambda>c m. c \<noteq> 2" "''m''"] show ?thesis
    by (auto simp: pool_Insert_def empty_pool_def)
qed

text \<open>a client's polling interval reaches the daemon only through the clamp: a \<^verbatim>\<open>config\<close> message with
  settings runs the callback once with a value between 100 and 10000 milliseconds, which
  is the requested one when that is in range, and sends no reply.\<close>

theorem config_interval_is_clamped:
  assumes "im_Type m = ''config''" and "im_Settings m = Some i" and "onConfigChange cb = Some f"
  shows "\<exists>j. dispatch cb m s = (None, f j s) \<and> 100 \<le> j \<and> j \<le> 10000 \<and> (100 \<le> i \<and> i \<le> 10000 \<longrightarrow> j = i)"
  using assms clamp_interval_bounds[of i] clamp_interval_id[of i]
  by (intro exI[of _ "clamp_interval i"]) (simp add: dispatch_def)

definition log_callbacks :: "int list callbacks" where
  "log_callbacks = \<lparr>onConfigChange = Some (\<lambda>i xs. xs @ [i]), onAction = None, onNotificationCommand = None,
     onMediaCommand = None, onPowerProfileCommand = None\<rparr>"

theorem config_interval_is_clamped_witness:
  "\<exists>j. dispatch log_callbacks (zeroInbound\<lparr>im_Type := ''config'', im_Settings := Some 5\<rparr>) [] = (None, [] @ [j]) \<and>
     100 \<le> j \<and> j \<le> 10000"
  using config_interval_is_clamped[of "zeroInbound\<lparr>im_Type := ''config'', im_Settings := Some 5\<rparr>" 5
      log_callbacks "\<lambda>i xs. xs @ [i]" "[]"]
  by (auto simp: log_callbacks_def)

text \<open>with all callbacks registered, a decoded message is answered if and only if its type is one
  of the four that expect an answer, and the answer is of the matching kind.\<close>

theorem dispatch_replies_iff_expected:
  assumes "onNotificationCommand cb = Some fn" and "onMediaCommand cb = Some fm" and "onPowerProfileCommand cb = Some fp"
  shows "(fst (dispatch cb m s) = None \<longleftrightarrow>
      im_Type m \<notin> {''ping'', ''notification_command'', ''media_command'', ''power_profile_command''}) \<and>
    (fst (dispatch cb m s) = Some Pong \<longleftrightarrow> im_Type m = ''ping'') \<and>
    ((\<exists>r. fst (dispatch cb m s) = Some (NotificationResponse r)) \<longleftrightarrow> im_Type m = ''notification_command'') \<and>
    ((\<exists>r. fst (dispatch cb m s) = Some (MediaResponse r)) \<longleftrightarrow> im_Type m = ''media_command'') \<and>
    ((\<exists>r. fst (dispatch cb m s) = Some (PowerProfileResponse r)) \<longleftrightarrow> im_Type m = ''power_profile_command'')"
  using assms by (auto simp: dispatch_def split_beta split: option.splits)

theorem dispatch_replies_iff_expected_witness:
  "fst (dispatch (\<lparr>onConfigChange = None, onAction = None, onNotificationCommand = Some (\<lambda>r s. (Inr 7, s)),
      onMediaCommand = Some (\<lambda>p c a s. (None, s)), onPowerProfileCommand = Some (\<lambda>p s. (None, s))\<rparr> :: unit callbacks)
      (zeroInbound\<lparr>im_Type := ''ping''\<rparr>) ()) = Some Pong"
  using dispatch_replies_iff_expected[of "\<lparr>onConfigChange = None, onAction = None, onNotificationCommand = Some (\<lambda>r s. (Inr 7, s)),
      onMediaCommand = Some (\<lambda>p c a s. (None, s)), onPowerProfileCommand = Some (\<lambda>p s. (None, s))\<rparr> :: unit callbacks"
      "\<lambda>r s. (Inr 7, s)" "\<lambda>p c a s. (None, s)" "\<lambda>p s. (None, s)" "zeroInbound\<lparr>im_Type := ''ping''\<rparr>" "()"]
  by simp

text \<open>the server never binds outside the loopback: whatever host is configured, the address it
  listens on is a loopback name, a configured loopback name is kept, and the port is never
  zero.\<close>

theorem server_binds_loopback:
  "ws_host (NewServer host port) \<in> {''127.0.0.1'', ''::1'', ''localhost''} \<and>
   (host \<in> {''127.0.0.1'', ''::1'', ''localhost''} \<longleftrightarrow> ws_host (NewServer host port) = host) \<and>
   ws_port (NewServer host port) \<noteq> 0"
  by (auto simp: NewServer_def)

end
