(* ===== verification/Lock_Manager.thy ===== *)
theory Lock_Manager
  imports Go_Chan Dbus_Values
begin

text \<open>
  Session lock monitoring (\<^verbatim>\<open>pkg/lock\<close>): screensaver signals of the session bus and logind
  signals of the system bus are reduced to one stream of lock state transitions. The two
  receiver goroutines share the deduplication state under a mutex, so a run is an
  interleaving of whole signal handlers.
\<close>

record SessionLockEvent =
  Locked :: bool

record DbusLockManager =
  lk_sessionConn :: bool
  lk_systemConn :: bool
  lk_isFirstEvent :: bool
  lk_lastState :: bool

text \<open>The constructor: connecting to a bus may fail, and only both failures together are an
  error.\<close>

definition NewDbusLockManager :: "bool \<Rightarrow> bool \<Rightarrow> string + DbusLockManager" where
  "NewDbusLockManager sessionOk systemOk =
     (if \<not> sessionOk \<and> \<not> systemOk then Inl ''both D-Bus session and system bus connections failed''
      else Inr \<lparr>lk_sessionConn = sessionOk, lk_systemConn = systemOk, lk_isFirstEvent = True, lk_lastState = False\<rparr>)"

definition lock_updateState ::
  "DbusLockManager \<Rightarrow> bool \<Rightarrow> SessionLockEvent chan \<Rightarrow> (DbusLockManager \<times> SessionLockEvent chan) go" where
  "lock_updateState m locked out =
     (if lk_isFirstEvent m \<or> lk_lastState m \<noteq> locked
      then let m' = m\<lparr>lk_isFirstEvent := False, lk_lastState := locked\<rparr>
           in ebind (try_send \<lparr>Locked = locked\<rparr> out) (\<lambda>(out', _). Inr (m', out'))
      else Inr (m, out))"

definition lock_handleSessionSignal ::
  "DbusLockManager \<Rightarrow> signal \<Rightarrow> SessionLockEvent chan \<Rightarrow> (DbusLockManager \<times> SessionLockEvent chan) go" where
  "lock_handleSessionSignal m sig out =
     (if sg_Name sig = ''org.freedesktop.ScreenSaver.ActiveChanged''
         \<or> sg_Name sig = ''org.gnome.ScreenSaver.ActiveChanged''
      then (case sg_Body sig of
              [] \<Rightarrow> Inr (m, out)
            | v # _ \<Rightarrow> (case as_bool v of Some active \<Rightarrow> lock_updateState m active out | None \<Rightarrow> Inr (m, out)))
      else Inr (m, out))"

definition lock_handleSystemSignal ::
  "DbusLockManager \<Rightarrow> signal \<Rightarrow> SessionLockEvent chan \<Rightarrow> (DbusLockManager \<times> SessionLockEvent chan) go" where
  "lock_handleSystemSignal m sig out =
     (if sg_Name sig = ''org.freedesktop.login1.Session.Lock'' then lock_updateState m True out
      else if sg_Name sig = ''org.freedesktop.login1.Session.Unlock'' then lock_updateState m False out
      else Inr (m, out))"

text \<open>What \<^verbatim>\<open>Start\<close> sets up: the output channel and one receiver per connected bus, each of which
  feeds the signals it receives to its handler. The output channel is closed by the
  coordinator only after both receivers have returned, so it is open while they run.\<close>

datatype lock_source = SessionBus signal | SystemBus signal

definition lock_receive ::
  "DbusLockManager \<Rightarrow> lock_source \<Rightarrow> SessionLockEvent chan \<Rightarrow> (DbusLockManager \<times> SessionLockEvent chan) go" where
  "lock_receive m src out =
     (case src of
        SessionBus sig \<Rightarrow> if lk_sessionConn m then lock_handleSessionSignal m sig out else Inr (m, out)
      | SystemBus sig \<Rightarrow> if lk_systemConn m then lock_handleSystemSignal m sig out else Inr (m, out))"

definition lock_out_chan :: "SessionLockEvent chan" where
  "lock_out_chan = make_chan 50"

fun lock_run ::
  "DbusLockManager \<Rightarrow> lock_source list \<Rightarrow> SessionLockEvent chan \<Rightarrow> (DbusLockManager \<times> SessionLockEvent chan) go" where
  "lock_run m [] out = Inr (m, out)"
| "lock_run m (src # srcs) out = ebind (lock_receive m src out) (\<lambda>(m', out'). lock_run m' srcs out')"

section \<open>The simulation driver\<close>

text \<open>\<^verbatim>\<open>MockLockManager.Start\<close>: after the first delay the state becomes locked and is sent; each
  tick toggles and sends. \<open>mock_lock_events n\<close> are the events of the first \<open>n\<close> ticks.\<close>

fun mock_lock_ticks :: "bool \<Rightarrow> nat \<Rightarrow> SessionLockEvent list" where
  "mock_lock_ticks locked 0 = []"
| "mock_lock_ticks locked (Suc n) = \<lparr>Locked = (\<not> locked)\<rparr> # mock_lock_ticks (\<not> locked) n"

definition mock_lock_events :: "nat \<Rightarrow> SessionLockEvent list" where
  "mock_lock_events n = (let locked = True in \<lparr>Locked = locked\<rparr> # mock_lock_ticks locked n)"

section \<open>Deduplication\<close>

definition lock_known :: "DbusLockManager \<Rightarrow> bool option" where
  "lock_known m = (if lk_isFirstEvent m then None else Some (lk_lastState m))"

lemma lock_updateState_same: "lock_known m = Some b \<Longrightarrow> lock_updateState m b out = Inr (m, out)"
  by (auto simp: lock_updateState_def lock_known_def split: if_splits)

lemma lock_updateState_new:
  "lock_known m \<noteq> Some b \<Longrightarrow> lock_updateState m b out =
     ebind (offer \<lparr>Locked = b\<rparr> out) (\<lambda>out'. Inr (m\<lparr>lk_isFirstEvent := False, lk_lastState := b\<rparr>, out'))"
  by (auto simp: lock_updateState_def lock_known_def try_send_offer[symmetric] Let_def split: if_splits)

lemma lock_known_update [simp]:
  "lock_known (m\<lparr>lk_isFirstEvent := False, lk_lastState := b\<rparr>) = Some b"
  by (simp add: lock_known_def)

interpretation lock_filter: transition_filter lock_updateState lock_known "\<lambda>b. \<lparr>Locked = b\<rparr>"
  by unfold_locales (simp_all add: lock_updateState_same lock_updateState_new)

text \<open>The lock state a signal claims, if it is one the manager understands.\<close>

definition lock_claim :: "DbusLockManager \<Rightarrow> lock_source \<Rightarrow> bool option" where
  "lock_claim m src =
     (case src of
        SessionBus sig \<Rightarrow>
          if lk_sessionConn m \<and> sg_Name sig \<in> {''org.freedesktop.ScreenSaver.ActiveChanged'', ''org.gnome.ScreenSaver.ActiveChanged''}
          then (case sg_Body sig of [] \<Rightarrow> None | v # _ \<Rightarrow> as_bool v) else None
      | SystemBus sig \<Rightarrow>
          if \<not> lk_systemConn m then None
          else if sg_Name sig = ''org.freedesktop.login1.Session.Lock'' then Some True
          else if sg_Name sig = ''org.freedesktop.login1.Session.Unlock'' then Some False
          else None)"

lemma lock_receive_claim:
  "lock_receive m src out =
     (case lock_claim m src of None \<Rightarrow> Inr (m, out) | Some b \<Rightarrow> lock_updateState m b out)"
  by (auto simp: lock_receive_def lock_claim_def lock_handleSessionSignal_def lock_handleSystemSignal_def
      split: lock_source.splits list.splits option.splits)

lemma lock_claim_update:
  "lock_updateState m b out = Inr (m', out') \<Longrightarrow> lock_claim m' src = lock_claim m src"
  by (auto simp: lock_updateState_def lock_claim_def Let_def ebind_eq_Inr
      split: if_splits prod.splits lock_source.splits list.splits)

lemma lock_run_updates:
  "lock_run m srcs out = run_updates lock_updateState m (List.map_filter (lock_claim m) srcs) out"
proof (induction srcs arbitrary: m out)
  case Nil
  then show ?case by (simp add: List.map_filter_simps)
next
  case (Cons src srcs)
  show ?case
  proof (cases "lock_claim m src")
    case None
    then show ?thesis using Cons by (simp add: lock_receive_claim List.map_filter_simps)
  next
    case (Some b)
    have "lock_updateState m b out = Inr (m', out') \<Longrightarrow>
        List.map_filter (lock_claim m') srcs = List.map_filter (lock_claim m) srcs" for m' out'
      by (metis ext lock_claim_update)
    with Some Cons show ?thesis
      by (cases "lock_updateState m b out") (auto simp: lock_receive_claim List.map_filter_simps)
  qed
qed

section \<open>Properties\<close>

text \<open>whatever signals the two buses deliver and however their handlers interleave, a fresh
  manager does not panic, and what it puts on its output channel is the sequence of lock
  states the signals claim with adjacent repetitions removed, cut at the channel's
  capacity of 50; the consumer never sees the same state twice in a row.\<close>

theorem lock_stream_is_deduplicated:
  assumes "NewDbusLockManager sessionOk systemOk = Inr m"
  shows "\<exists>m' out'. lock_run m srcs lock_out_chan = Inr (m', out') \<and>
    ch_buf out' = take 50 (map (\<lambda>b. \<lparr>Locked = b\<rparr>) (remdups_adj (List.map_filter (lock_claim m) srcs)))"
proof -
  have k: "lock_known m = None"
    using assms by (auto simp: NewDbusLockManager_def lock_known_def split: if_splits)
  show ?thesis
    using lock_filter.run_buffer[of lock_out_chan m "List.map_filter (lock_claim m) srcs"]
    by (auto simp: lock_run_updates lock_out_chan_def k transitions_None)
qed

definition sample_signal :: "string \<Rightarrow> dval list \<Rightarrow> signal" where
  "sample_signal name body = \<lparr>sg_Sender = ''x'', sg_Path = ''/'', sg_Name = name, sg_Body = body\<rparr>"

theorem lock_stream_is_deduplicated_witness:
  "\<exists>m' out'. lock_run \<lparr>lk_sessionConn = True, lk_systemConn = True, lk_isFirstEvent = True, lk_lastState = False\<rparr>
     [SystemBus (sample_signal ''org.freedesktop.login1.Session.Lock'' []),
      SessionBus (sample_signal ''org.gnome.ScreenSaver.ActiveChanged'' [DBool True]),
      SystemBus (sample_signal ''org.freedesktop.login1.Session.Unlock'' [])] lock_out_chan = Inr (m', out') \<and>
   ch_buf out' = [\<lparr>Locked = True\<rparr>, \<lparr>Locked = False\<rparr>]"
proof -
  have n: "NewDbusLockManager True True =
      Inr \<lparr>lk_sessionConn = True, lk_systemConn = True, lk_isFirstEvent = True, lk_lastState = False\<rparr>"
    by (simp add: NewDbusLockManager_def)
  show ?thesis
    using lock_stream_is_deduplicated[OF n, of "[SystemBus (sample_signal ''org.freedesktop.login1.Session.Lock'' []),
      SessionBus (sample_signal ''org.gnome.ScreenSaver.ActiveChanged'' [DBool True]),
      SystemBus (sample_signal ''org.freedesktop.login1.Session.Unlock'' [])]"]
    by (simp add: List.map_filter_simps lock_claim_def sample_signal_def)
qed

end
