(* ===== verification/Dpms_Manager.thy ===== *)
theory Dpms_Manager
  imports Go_Chan Dbus_Values
begin

text \<open>
  Display power monitoring (\<^verbatim>\<open>pkg/dpms\<close>): the \<^verbatim>\<open>PowerSaveMode\<close> property of the display
  configuration service is reduced to a stream of \<^verbatim>\<open>on\<close> and \<^verbatim>\<open>off\<close> transitions with the same
  deduplication scheme as the session lock.
\<close>

record DpmsEvent =
  dp_State :: string

record DbusDpmsManager =
  dm_isFirstEvent :: bool
  dm_lastState :: string

definition NewDbusDpmsManager :: "bool \<Rightarrow> string + DbusDpmsManager" where
  "NewDbusDpmsManager sessionOk =
     (if sessionOk then Inr \<lparr>dm_isFirstEvent = True, dm_lastState = []\<rparr>
      else Inl ''failed to connect to D-Bus session bus for DPMS tracking'')"

definition dpms_updateState ::
  "DbusDpmsManager \<Rightarrow> string \<Rightarrow> DpmsEvent chan \<Rightarrow> (DbusDpmsManager \<times> DpmsEvent chan) go" where
  "dpms_updateState m state out =
     (if dm_isFirstEvent m \<or> dm_lastState m \<noteq> state
      then let m' = m\<lparr>dm_isFirstEvent := False, dm_lastState := state\<rparr>
           in ebind (try_send \<lparr>dp_State = state\<rparr> out) (\<lambda>(out', _). Inr (m', out'))
      else Inr (m, out))"

text \<open>The type switch on the property's value, converted to \<^verbatim>\<open>int64\<close>: an unsigned 64-bit value is
  reinterpreted, any other type is refused.\<close>

definition power_save_mode :: "dval \<Rightarrow> int option" where
  "power_save_mode v =
     (case v of
        DI32 w \<Rightarrow> Some (sint w)
      | DI64 w \<Rightarrow> Some (sint w)
      | DU32 w \<Rightarrow> Some (uint w)
      | DU64 w \<Rightarrow> Some (sint w)
      | DInt w \<Rightarrow> Some (sint w)
      | _ \<Rightarrow> None)"

definition dpms_state_of_mode :: "int \<Rightarrow> string" where
  "dpms_state_of_mode mode = (if mode > 0 then ''off'' else ''on'')"

definition dpms_handleSessionSignal ::
  "DbusDpmsManager \<Rightarrow> signal \<Rightarrow> DpmsEvent chan \<Rightarrow> (DbusDpmsManager \<times> DpmsEvent chan) go" where
  "dpms_handleSessionSignal m sig out =
     (if sg_Name sig = ''org.freedesktop.DBus.Properties.PropertiesChanged''
         \<and> sg_Path sig = ''/org/gnome/Mutter/DisplayConfig''
      then (case sg_Body sig of
              v0 # v1 # _ \<Rightarrow>
                (case as_string v0 of
                   Some iface \<Rightarrow>
                     if iface = ''org.gnome.Mutter.DisplayConfig'' then
                       (case as_map v1 of
                          Some changedProps \<Rightarrow>
                            (case map_of changedProps ''PowerSaveMode'' of
                               Some val \<Rightarrow>
                                 (case power_save_mode val of
                                    Some mode \<Rightarrow> dpms_updateState m (dpms_state_of_mode mode) out
                                  | None \<Rightarrow> Inr (m, out))
                             | None \<Rightarrow> Inr (m, out))
                        | None \<Rightarrow> Inr (m, out))
                     else Inr (m, out)
                 | None \<Rightarrow> Inr (m, out))
            | _ \<Rightarrow> Inr (m, out))
      else Inr (m, out))"

definition dpms_out_chan :: "DpmsEvent chan" where
  "dpms_out_chan = make_chan 50"

text \<open>The receiver loop of \<^verbatim>\<open>Start\<close>; the output channel is closed when it returns.\<close>

fun dpms_run ::
  "DbusDpmsManager \<Rightarrow> signal list \<Rightarrow> DpmsEvent chan \<Rightarrow> (DbusDpmsManager \<times> DpmsEvent chan) go" where
  "dpms_run m [] out = Inr (m, out)"
| "dpms_run m (sig # sigs) out = ebind (dpms_handleSessionSignal m sig out) (\<lambda>(m', out'). dpms_run m' sigs out')"

section \<open>The simulation driver\<close>

fun mock_dpms_ticks :: "string \<Rightarrow> nat \<Rightarrow> DpmsEvent list" where
  "mock_dpms_ticks state 0 = []"
| "mock_dpms_ticks state (Suc n) =
     (let state' = (if state = ''on'' then ''off'' else ''on'')
      in \<lparr>dp_State = state'\<rparr> # mock_dpms_ticks state' n)"

definition mock_dpms_events :: "nat \<Rightarrow> DpmsEvent list" where
  "mock_dpms_events n = \<lparr>dp_State = ''off''\<rparr> # mock_dpms_ticks ''off'' n"

section \<open>Deduplication\<close>

definition dpms_known :: "DbusDpmsManager \<Rightarrow> string option" where
  "dpms_known m = (if dm_isFirstEvent m then None else Some (dm_lastState m))"

lemma dpms_updateState_same: "dpms_known m = Some s \<Longrightarrow> dpms_updateState m s out = Inr (m, out)"
  by (auto simp: dpms_updateState_def dpms_known_def split: if_splits)

lemma dpms_updateState_new:
  "dpms_known m \<noteq> Some s \<Longrightarrow> dpms_updateState m s out =
     ebind (offer \<lparr>dp_State = s\<rparr> out) (\<lambda>out'. Inr (m\<lparr>dm_isFirstEvent := False, dm_lastState := s\<rparr>, out'))"
  by (auto simp: dpms_updateState_def dpms_known_def try_send_offer[symmetric] Let_def split: if_splits)

lemma dpms_known_update [simp]:
  "dpms_known (m\<lparr>dm_isFirstEvent := False, dm_lastState := s\<rparr>) = Some s"
  by (simp add: dpms_known_def)

interpretation dpms_filter: transition_filter dpms_updateState dpms_known "\<lambda>s. \<lparr>dp_State = s\<rparr>"
  by unfold_locales (simp_all add: dpms_updateState_same dpms_updateState_new)

definition dpms_claim :: "signal \<Rightarrow> string option" where
  "dpms_claim sig =
     (if sg_Name sig = ''org.freedesktop.DBus.Properties.PropertiesChanged''
         \<and> sg_Path sig = ''/org/gnome/Mutter/DisplayConfig''
      then (case sg_Body sig of
              v0 # v1 # _ \<Rightarrow>
                (case (as_string v0, as_map v1) of
                   (Some iface, Some props) \<Rightarrow>
                     if iface = ''org.gnome.Mutter.DisplayConfig''
                     then map_option dpms_state_of_mode (Option.bind (map_of props ''PowerSaveMode'') power_save_mode)
                     else None
                 | _ \<Rightarrow> None)
            | _ \<Rightarrow> None)
      else None)"

lemma dpms_handle_claim:
  "dpms_handleSessionSignal m sig out =
     (case dpms_claim sig of None \<Rightarrow> Inr (m, out) | Some s \<Rightarrow> dpms_updateState m s out)"
  by (auto simp: dpms_handleSessionSignal_def dpms_claim_def split: list.splits option.splits)

lemma dpms_run_updates:
  "dpms_run m sigs out = run_updates dpms_updateState m (List.map_filter dpms_claim sigs) out"
proof (induction sigs arbitrary: m out)
  case Nil
  then show ?case by (simp add: List.map_filter_simps)
next
  case (Cons sig sigs)
  then show ?case
    by (cases "dpms_claim sig") (auto simp: dpms_handle_claim List.map_filter_simps ebind_def
        split: sum.splits)
qed

lemma dpms_claim_on_off: "dpms_claim sig = Some s \<Longrightarrow> s = ''on'' \<or> s = ''off''"
  by (auto simp: dpms_claim_def dpms_state_of_mode_def split: list.splits option.splits if_splits)

section \<open>Properties\<close>

text \<open>a fresh display power manager never panics; its channel receives the states claimed by
  the signals with adjacent repetitions removed (at most 50), and each is \<^verbatim>\<open>on\<close> or
  \<^verbatim>\<open>off\<close>.\<close>

theorem dpms_stream_is_deduplicated:
  assumes "NewDbusDpmsManager True = Inr m"
  shows "\<exists>m' out'. dpms_run m sigs dpms_out_chan = Inr (m', out') \<and>
    ch_buf out' = take 50 (map (\<lambda>s. \<lparr>dp_State = s\<rparr>) (remdups_adj (List.map_filter dpms_claim sigs))) \<and>
    dp_State ` set (ch_buf out') \<subseteq> {''on'', ''off''}"
proof -
  have k: "dpms_known m = None"
    using assms by (auto simp: NewDbusDpmsManager_def dpms_known_def)
  obtain m' out' where r: "dpms_run m sigs dpms_out_chan = Inr (m', out')"
      "ch_buf out' = take 50 (map (\<lambda>s. \<lparr>dp_State = s\<rparr>) (remdups_adj (List.map_filter dpms_claim sigs)))"
    using dpms_filter.run_buffer[of dpms_out_chan m "List.map_filter dpms_claim sigs"]
    by (auto simp: dpms_run_updates dpms_out_chan_def k transitions_None)
  have "set (List.map_filter dpms_claim sigs) \<subseteq> {''on'', ''off''}"
    using dpms_claim_on_off by (fastforce simp: List.map_filter_def)
  then have "dp_State ` set (ch_buf out') \<subseteq> {''on'', ''off''}"
    unfolding r(2) by (force dest: in_set_takeD)
  with r show ?thesis by blast
qed

definition sample_mode_signal :: "dval \<Rightarrow> signal" where
  "sample_mode_signal v =
     \<lparr>sg_Sender = ''x'', sg_Path = ''/org/gnome/Mutter/DisplayConfig'',
      sg_Name = ''org.freedesktop.DBus.Properties.PropertiesChanged'',
      sg_Body = [DStr ''org.gnome.Mutter.DisplayConfig'', DMap [(''PowerSaveMode'', v)], DStrs []]\<rparr>"

theorem dpms_stream_is_deduplicated_witness:
  "\<exists>m' out'. dpms_run \<lparr>dm_isFirstEvent = True, dm_lastState = []\<rparr>
     (map sample_mode_signal [DI32 3, DI32 1, DStr ''?'', DI32 0]) dpms_out_chan = Inr (m', out') \<and>
   ch_buf out' = [\<lparr>dp_State = ''off''\<rparr>, \<lparr>dp_State = ''on''\<rparr>]"
proof -
  have n: "NewDbusDpmsManager True = Inr \<lparr>dm_isFirstEvent = True, dm_lastState = []\<rparr>"
    by (simp add: NewDbusDpmsManager_def)
  have c: "List.map_filter dpms_claim (map sample_mode_signal [DI32 3, DI32 1, DStr ''?'', DI32 0]) =
      [''off'', ''off'', ''on'']"
    by (simp add: List.map_filter_simps dpms_claim_def sample_mode_signal_def power_save_mode_def dpms_state_of_mode_def)
  show ?thesis
    using dpms_stream_is_deduplicated[OF n, of "map sample_mode_signal [DI32 3, DI32 1, DStr ''?'', DI32 0]"]
    by (auto simp only: c) auto
qed

text \<open>the displays count as sleeping exactly for positive modes. In particular a negative mode
  (the service's \<^emph>\<open>unsupported\<close>) and an unsigned 64-bit value at or above \<open>2\<^sup>6\<^sup>3\<close>, which becomes
  negative, are reported as \<^verbatim>\<open>on\<close>.\<close>

theorem dpms_off_iff_positive_mode:
  "dpms_claim (sample_mode_signal v) = Some ''off'' \<longleftrightarrow> (\<exists>mode. power_save_mode v = Some mode \<and> 0 < mode)"
  by (auto simp: dpms_claim_def sample_mode_signal_def dpms_state_of_mode_def split: if_splits)

end
