(* ===== verification/Power_Manager.thy ===== *)
theory Power_Manager
  imports Go_Chan Dbus_Values
begin

text \<open>
  Power profile monitoring and control (\<^verbatim>\<open>pkg/power\<close>): the production manager on the system bus
  and the emulated one. Both promise the engine the same thing, stated as the locale
  \<open>profile_manager\<close>: a request for a profile that is not available is refused and changes
  nothing, and no request changes what is available.
\<close>

record PowerProfile =
  Profile :: string

record PowerProfileState =
  ActiveProfile :: string
  AvailableProfiles :: "PowerProfile list"

locale profile_manager =
  fixes setp :: "'s \<Rightarrow> string \<Rightarrow> string option \<times> 's"
    and avail :: "'s \<Rightarrow> string list"
    and active :: "'s \<Rightarrow> string"
  assumes refuse: "p \<notin> set (avail s) \<Longrightarrow> fst (setp s p) \<noteq> None \<and> snd (setp s p) = s"
    and keep_avail: "avail (snd (setp s p)) = avail s"
    and new_active: "active (snd (setp s p)) = active s \<or> active (snd (setp s p)) = p"
begin

lemma active_available:
  "active s \<in> set (avail s) \<Longrightarrow> active (snd (setp s p)) \<in> set (avail (snd (setp s p)))"
  using refuse keep_avail new_active by metis

lemma fold_keep_avail: "avail (fold (\<lambda>p s. snd (setp s p)) ps s) = avail s"
  by (induction ps arbitrary: s) (simp_all add: keep_avail)

lemma fold_active_available:
  "active s \<in> set (avail s) \<Longrightarrow>
     active (fold (\<lambda>p s. snd (setp s p)) ps s) \<in> set (avail (fold (\<lambda>p s. snd (setp s p)) ps s))"
  by (induction ps arbitrary: s) (simp_all add: active_available)

end

section \<open>The D-Bus manager\<close>

record DbusPowerProfilesManager =
  pw_activeProfile :: string
  pw_profiles :: "PowerProfile list"
  pw_eventsChan :: "PowerProfileState chan option"
  pw_started :: bool

definition NewDbusPowerProfilesManager :: "bool \<Rightarrow> string + DbusPowerProfilesManager" where
  "NewDbusPowerProfilesManager systemOk =
     (if systemOk then Inr \<lparr>pw_activeProfile = [], pw_profiles = [], pw_eventsChan = None, pw_started = False\<rparr>
      else Inl ''failed to connect to system bus'')"

definition power_broadcastState :: "DbusPowerProfilesManager \<Rightarrow> DbusPowerProfilesManager go" where
  "power_broadcastState m =
     (case pw_eventsChan m of
        None \<Rightarrow> Inr m
      | Some c \<Rightarrow>
          ebind (try_send \<lparr>ActiveProfile = pw_activeProfile m, AvailableProfiles = pw_profiles m\<rparr> c)
            (\<lambda>(c', _). Inr (m\<lparr>pw_eventsChan := Some c'\<rparr>)))"

definition profile_of_map :: "(string \<times> dval) list \<Rightarrow> PowerProfile option" where
  "profile_of_map m =
     (case map_of m ''Profile'' of
        None \<Rightarrow> None
      | Some v \<Rightarrow> map_option (\<lambda>s. \<lparr>Profile = s\<rparr>) (as_string v))"

definition parse_profiles :: "dval option \<Rightarrow> PowerProfile list" where
  "parse_profiles r =
     (case r of
        Some (DMaps ms) \<Rightarrow> List.map_filter profile_of_map ms
      | Some (DArr items) \<Rightarrow> List.map_filter (\<lambda>item. Option.bind (as_map item) profile_of_map) items
      | _ \<Rightarrow> [])"

text \<open>\<^verbatim>\<open>fetchInitialState\<close>: each property query answers a value or fails (\<^term>\<open>None\<close>).\<close>

definition power_fetchInitialState ::
  "DbusPowerProfilesManager \<Rightarrow> dval option \<Rightarrow> dval option \<Rightarrow> DbusPowerProfilesManager go" where
  "power_fetchInitialState m activeVar profilesVar =
     (let m1 = (case activeVar of
                  Some v \<Rightarrow> (case as_string v of Some s \<Rightarrow> m\<lparr>pw_activeProfile := s\<rparr> | None \<Rightarrow> m)
                | None \<Rightarrow> m)
      in power_broadcastState (m1\<lparr>pw_profiles := parse_profiles profilesVar\<rparr>))"

definition power_handleDbusSignal :: "DbusPowerProfilesManager \<Rightarrow> signal \<Rightarrow> DbusPowerProfilesManager go" where
  "power_handleDbusSignal m sig =
     (if sg_Name sig = ''org.freedesktop.DBus.Properties.PropertiesChanged'' then
        (case sg_Body sig of
           v0 # v1 # _ \<Rightarrow>
             (if as_string v0 = Some ''net.hadess.PowerProfiles'' then
                (case as_map v1 of
                   Some changedProps \<Rightarrow>
                     (case map_of changedProps ''ActiveProfile'' of
                        Some activeVal \<Rightarrow>
                          (case as_string activeVal of
                             Some activeStr \<Rightarrow> power_broadcastState (m\<lparr>pw_activeProfile := activeStr\<rparr>)
                           | None \<Rightarrow> Inr m)
                      | None \<Rightarrow> Inr m)
                 | None \<Rightarrow> Inr m)
              else Inr m)
         | _ \<Rightarrow> Inr m)
      else Inr m)"

text \<open>\<^verbatim>\<open>Start\<close>: the match rule may be refused, which undoes the start.\<close>

definition power_Start ::
  "DbusPowerProfilesManager \<Rightarrow> string option \<Rightarrow> dval option \<Rightarrow> dval option \<Rightarrow>
     ((string option) \<times> DbusPowerProfilesManager) go" where
  "power_Start m matchErr activeVar profilesVar =
     (if pw_started m then Inr (None, m)
      else let m1 = m\<lparr>pw_eventsChan := Some (make_chan 10), pw_started := True\<rparr> in
        (case matchErr of
           Some e \<Rightarrow> Inr (Some (''failed to add D-Bus match rule for power profiles: '' @ e),
                          m1\<lparr>pw_started := False, pw_eventsChan := None\<rparr>)
         | None \<Rightarrow> ebind (power_fetchInitialState m1 activeVar profilesVar) (\<lambda>m2. Inr (None, m2))))"

text \<open>The deferred function of the signal loop: close the channel once and forget it.\<close>

definition power_stop :: "DbusPowerProfilesManager \<Rightarrow> DbusPowerProfilesManager go" where
  "power_stop m =
     (case pw_eventsChan m of
        None \<Rightarrow> Inr m
      | Some c \<Rightarrow> ebind (close_chan c) (\<lambda>_. Inr (m\<lparr>pw_eventsChan := None\<rparr>)))"

text \<open>\<^verbatim>\<open>SetPowerProfile\<close>: validation against the available profiles, then one property write on the
  bus, which may fail. The writes that reached the bus are kept with the manager.\<close>

definition power_SetPowerProfile ::
  "(string \<Rightarrow> string option) \<Rightarrow> DbusPowerProfilesManager \<times> string list \<Rightarrow> string \<Rightarrow>
     string option \<times> (DbusPowerProfilesManager \<times> string list)" where
  "power_SetPowerProfile busErr st profile =
     (case st of (m, writes) \<Rightarrow>
        if \<not> list_ex (\<lambda>p. Profile p = profile) (pw_profiles m)
        then (Some (''invalid power profile: '' @ profile @ '' (not in available profiles)''), st)
        else case busErr profile of
               Some e \<Rightarrow> (Some (''failed to set ActiveProfile property: '' @ e), st)
             | None \<Rightarrow> (None, (m, writes @ [profile])))"

section \<open>The emulated manager\<close>

record MockPowerProfilesManager =
  mp_activeProfile :: string
  mp_profiles :: "PowerProfile list"
  mp_eventsChan :: "PowerProfileState chan option"
  mp_started :: bool

definition NewMockPowerProfilesManager :: MockPowerProfilesManager where
  "NewMockPowerProfilesManager =
     \<lparr>mp_activeProfile = ''balanced'',
      mp_profiles = [\<lparr>Profile = ''power-saver''\<rparr>, \<lparr>Profile = ''balanced''\<rparr>, \<lparr>Profile = ''performance''\<rparr>],
      mp_eventsChan = None, mp_started = False\<rparr>"

definition mock_state :: "MockPowerProfilesManager \<Rightarrow> PowerProfileState" where
  "mock_state m = \<lparr>ActiveProfile = mp_activeProfile m, AvailableProfiles = mp_profiles m\<rparr>"

definition mock_power_Start :: "MockPowerProfilesManager \<Rightarrow> MockPowerProfilesManager" where
  "mock_power_Start m =
     (if mp_started m then m
      else m\<lparr>mp_eventsChan := Some ((make_chan 10)\<lparr>ch_buf := [mock_state m]\<rparr>), mp_started := True\<rparr>)"

definition mock_power_SetPowerProfile ::
  "MockPowerProfilesManager \<Rightarrow> string \<Rightarrow> string option \<times> MockPowerProfilesManager" where
  "mock_power_SetPowerProfile m profile =
     (if \<not> list_ex (\<lambda>p. Profile p = profile) (mp_profiles m)
      then (Some (''invalid power profile: '' @ profile), m)
      else let m1 = m\<lparr>mp_activeProfile := profile\<rparr> in
        (None, case mp_eventsChan m1 of
                 Some c \<Rightarrow>
                   if mp_started m1
                   then (case offer (mock_state m1) c of Inr c' \<Rightarrow> m1\<lparr>mp_eventsChan := Some c'\<rparr> | Inl _ \<Rightarrow> m1)
                   else m1
               | None \<Rightarrow> m1))"

section \<open>Both managers meet the contract\<close>

lemma list_ex_profile: "list_ex (\<lambda>p. Profile p = x) ps \<longleftrightarrow> x \<in> set (map Profile ps)"
  by (auto simp: list_ex_iff)

definition dbus_avail :: "DbusPowerProfilesManager \<times> string list \<Rightarrow> string list" where
  "dbus_avail st = map Profile (pw_profiles (fst st))"

definition dbus_requested :: "DbusPowerProfilesManager \<times> string list \<Rightarrow> string" where
  "dbus_requested st = last (pw_activeProfile (fst st) # snd st)"

interpretation dbus_power: profile_manager "power_SetPowerProfile busErr" dbus_avail dbus_requested for busErr
  by unfold_locales
     (auto simp: power_SetPowerProfile_def dbus_avail_def dbus_requested_def list_ex_profile
        split: prod.splits option.splits if_splits)

definition mock_avail :: "MockPowerProfilesManager \<Rightarrow> string list" where
  "mock_avail m = map Profile (mp_profiles m)"

interpretation mock_power: profile_manager mock_power_SetPowerProfile mock_avail mp_activeProfile
  by unfold_locales
     (auto simp: mock_power_SetPowerProfile_def mock_avail_def list_ex_profile Let_def
        split: option.splits sum.splits)

section \<open>Channel safety\<close>

definition power_ok :: "DbusPowerProfilesManager \<Rightarrow> bool" where
  "power_ok m \<longleftrightarrow> (\<forall>c. pw_eventsChan m = Some c \<longrightarrow> \<not> ch_closed c \<and> chan_ok c)"

lemma power_ok_eqI: "power_ok m \<Longrightarrow> pw_eventsChan m' = pw_eventsChan m \<Longrightarrow> power_ok m'"
  by (simp add: power_ok_def)

lemma power_broadcastState_ok:
  assumes "power_ok m"
  shows "\<exists>m'. power_broadcastState m = Inr m' \<and> power_ok m'"
proof (cases "pw_eventsChan m")
  case None
  with assms show ?thesis by (simp add: power_broadcastState_def)
next
  case (Some c)
  with assms have "\<not> ch_closed c" "chan_ok c" by (auto simp: power_ok_def)
  then show ?thesis
    using Some by (auto simp: power_broadcastState_def power_ok_def try_send_def chan_ok_def)
qed

datatype power_step = PStart "string option" "dval option" "dval option" | PSignal signal | PStop

definition power_apply :: "power_step \<Rightarrow> DbusPowerProfilesManager \<Rightarrow> DbusPowerProfilesManager go" where
  "power_apply st m =
     (case st of
        PStart e a p \<Rightarrow> ebind (power_Start m e a p) (\<lambda>(_, m'). Inr m')
      | PSignal sig \<Rightarrow> power_handleDbusSignal m sig
      | PStop \<Rightarrow> power_stop m)"

fun power_run :: "power_step list \<Rightarrow> DbusPowerProfilesManager \<Rightarrow> DbusPowerProfilesManager go" where
  "power_run [] m = Inr m"
| "power_run (st # sts) m = ebind (power_apply st m) (power_run sts)"

lemma power_fetch_ok:
  "power_ok m \<Longrightarrow> \<exists>m'. power_fetchInitialState m a p = Inr m' \<and> power_ok m'"
  unfolding power_fetchInitialState_def Let_def
  by (rule power_broadcastState_ok) (auto simp: power_ok_def split: option.splits)

lemma power_Start_ok: "power_ok m \<Longrightarrow> \<exists>r m'. power_Start m e a p = Inr (r, m') \<and> power_ok m'"
  using power_fetch_ok[of "m\<lparr>pw_eventsChan := Some (make_chan 10), pw_started := True\<rparr>" a p]
  by (auto simp: power_Start_def Let_def power_ok_def split: option.splits)

lemma power_signal_ok: "power_ok m \<Longrightarrow> \<exists>m'. power_handleDbusSignal m sig = Inr m' \<and> power_ok m'"
  using power_broadcastState_ok[OF power_ok_eqI, of m]
  by (auto simp: power_handleDbusSignal_def split: list.splits option.splits)

lemma power_stop_ok: "power_ok m \<Longrightarrow> \<exists>m'. power_stop m = Inr m' \<and> power_ok m'"
  by (auto simp: power_stop_def power_ok_def close_chan_def split: option.splits)

lemma power_apply_ok: "power_ok m \<Longrightarrow> \<exists>m'. power_apply st m = Inr m' \<and> power_ok m'"
proof (cases st)
  case (PStart e a p)
  assume "power_ok m"
  then obtain r m' where "power_Start m e a p = Inr (r, m')" "power_ok m'"
    using power_Start_ok by blast
  with PStart show ?thesis by (simp add: power_apply_def)
qed (auto simp: power_apply_def intro: power_signal_ok power_stop_ok)

section \<open>Properties\<close>

text \<open>the power manager never sends on a closed channel and never closes one twice: any
  sequence of starts, signals and loop exits on a fresh manager runs without a panic.\<close>

theorem power_manager_never_panics:
  assumes "NewDbusPowerProfilesManager True = Inr m"
  shows "\<exists>m'. power_run steps m = Inr m' \<and> power_ok m'"
proof -
  have "power_ok m" using assms by (auto simp: NewDbusPowerProfilesManager_def power_ok_def)
  then show ?thesis
  proof (induction steps arbitrary: m)
    case Nil
    then show ?case by simp
  next
    case (Cons st sts)
    from power_apply_ok[OF Cons.prems] obtain m1 where "power_apply st m = Inr m1" "power_ok m1"
      by blast
    with Cons.IH show ?case by simp
  qed
qed

definition fresh_power :: DbusPowerProfilesManager where
  "fresh_power = \<lparr>pw_activeProfile = [], pw_profiles = [], pw_eventsChan = None, pw_started = False\<rparr>"

theorem power_manager_never_panics_witness:
  "\<exists>m'. power_run [PStart None (Some (DStr ''balanced'')) None, PStop, PStop] fresh_power = Inr m' \<and> power_ok m'"
  by (rule power_manager_never_panics) (simp add: NewDbusPowerProfilesManager_def fresh_power_def)

text \<open>only an available profile is ever written to the bus, whatever is requested and however
  the bus answers: after any sequence of requests the last requested profile is one the
  service offered, provided it was so before.\<close>

theorem power_requests_stay_available:
  assumes "dbus_requested st \<in> set (dbus_avail st)"
  shows "let st' = fold (\<lambda>p s. snd (power_SetPowerProfile busErr s p)) ps st
    in dbus_requested st' \<in> set (dbus_avail st') \<and> dbus_avail st' = dbus_avail st"
  using dbus_power.fold_active_available[OF assms] dbus_power.fold_keep_avail
  by (simp add: Let_def)

theorem power_requests_stay_available_witness:
  "let st = (fresh_power\<lparr>pw_activeProfile := ''balanced'',
       pw_profiles := [\<lparr>Profile = ''balanced''\<rparr>, \<lparr>Profile = ''performance''\<rparr>]\<rparr>, []);
     st' = fold (\<lambda>p s. snd (power_SetPowerProfile (\<lambda>_. None) s p)) [''turbo'', ''performance''] st
   in dbus_requested st' \<in> set (dbus_avail st') \<and> snd st' = [''performance'']"
  using power_requests_stay_available[of "(fresh_power\<lparr>pw_activeProfile := ''balanced'',
       pw_profiles := [\<lparr>Profile = ''balanced''\<rparr>, \<lparr>Profile = ''performance''\<rparr>]\<rparr>, [])"
      "\<lambda>_. None" "[''turbo'', ''performance'']"]
  by (simp add: dbus_requested_def dbus_avail_def Let_def power_SetPowerProfile_def)

text \<open>the emulated manager keeps its active profile among its profiles under any sequence of
  requests, and answers with an error exactly for a profile it does not have.\<close>

theorem mock_power_active_available:
  "mp_activeProfile (fold (\<lambda>p m. snd (mock_power_SetPowerProfile m p)) ps (mock_power_Start NewMockPowerProfilesManager))
     \<in> {''power-saver'', ''balanced'', ''performance''} \<and>
   (fst (mock_power_SetPowerProfile NewMockPowerProfilesManager p) = None \<longleftrightarrow>
      p \<in> {''power-saver'', ''balanced'', ''performance''})"
proof
  let ?m = "mock_power_Start NewMockPowerProfilesManager"
  have "mp_activeProfile ?m \<in> set (mock_avail ?m)"
    by (simp add: mock_power_Start_def NewMockPowerProfilesManager_def mock_avail_def)
  from mock_power.fold_active_available[OF this, of ps]
  show "mp_activeProfile (fold (\<lambda>p m. snd (mock_power_SetPowerProfile m p)) ps ?m)
      \<in> {''power-saver'', ''balanced'', ''performance''}"
    by (simp add: mock_power.fold_keep_avail) (simp add: mock_avail_def mock_power_Start_def NewMockPowerProfilesManager_def)
  show "fst (mock_power_SetPowerProfile NewMockPowerProfilesManager p) = None \<longleftrightarrow>
      p \<in> {''power-saver'', ''balanced'', ''performance''}"
    by (auto simp: mock_power_SetPowerProfile_def NewMockPowerProfilesManager_def Let_def)
qed

end
