(* ===== verification/Connect_Server.thy ===== *)
theory Connect_Server
  imports Stream_Hub Go_Base64 Metrics_Types Mpris_Types Connection_Pool Lock_Manager Dpms_Manager Power_Manager
begin

text \<open>
  The ConnectRPC server (\<^verbatim>\<open>pkg/connectrpc/server.go\<close>): the mapping of the daemon's data to protobuf
  messages, one group of streaming handlers per service over \<open>Stream_Hub\<close>, the broadcasts, and
  the unary calls with their error codes. The protobuf messages are records with the
  fields of \<^verbatim>\<open>api/proto\<close>; the conversion of hint maps to and from
  \<^verbatim>\<open>google.protobuf.Struct\<close> is library code and a parameter.
\<close>

section \<open>Protobuf messages\<close>

record pbCPUUsage =
  pc_UsagePercent :: f64
  pc_TempCelsius :: f64
  pc_PowerWatts :: f64
  pc_TmaxCelsius :: f64
  pc_CoresUsagePercent :: "f64 list"
  pc_FreqMhz :: f64

record pbGPUUsage =
  pg_UsagePercent :: f64
  pg_TempCelsius :: f64
  pg_VramUsedBytes :: u64
  pg_VramTotalBytes :: u64
  pg_PowerWatts :: f64
  pg_VramTempCelsius :: f64
  pg_VramFreqMhz :: f64
  pg_TmaxCelsius :: f64
  pg_FreqMhz :: f64

record pbRAMUsage =
  pr_UsedBytes :: u64
  pr_TotalBytes :: u64
  pr_Percentage :: f64

record pbSwapUsage =
  pw_UsedBytes :: u64
  pw_TotalBytes :: u64
  pw_Percentage :: f64

record pbZRAMUsage =
  pz_OrigDataSizeBytes :: u64
  pz_ComprDataSizeBytes :: u64
  pz_MemUsedTotalBytes :: u64
  pz_TotalBytes :: u64
  pz_CompressionRatio :: f64

record pbTelemetryFlags =
  pf_CpuUsageSupported :: bool
  pf_CpuCoresUsageSupported :: bool
  pf_CpuTempSupported :: bool
  pf_CpuFreqSupported :: bool
  pf_CpuPowerSupported :: bool
  pf_CpuTempTmaxSupported :: bool
  pf_RamSupported :: bool
  pf_SwapSupported :: bool
  pf_ZramSupported :: bool
  pf_GpuSupported :: bool
  pf_GpuUsageSupported :: bool
  pf_GpuTempSupported :: bool
  pf_GpuVramSupported :: bool
  pf_GpuFreqSupported :: bool
  pf_GpuPowerSupported :: bool
  pf_GpuVramTempSupported :: bool
  pf_GpuVramFreqSupported :: bool
  pf_GpuTempTmaxSupported :: bool
  pf_OsdSupported :: bool
  pf_PeripheralsSupported :: bool
  pf_PackageUpdatesSupported :: bool

record pbTelemetryPayload =
  pt_Timestamp :: i64
  pt_Cpu :: pbCPUUsage
  pt_Gpu :: pbGPUUsage
  pt_Ram :: pbRAMUsage
  pt_Swap :: pbSwapUsage
  pt_Zram :: pbZRAMUsage
  pt_Flags :: pbTelemetryFlags

record 'h pbNotificationEvent =
  pn_Id :: u32
  pn_AppName :: string
  pn_ReplacesId :: u32
  pn_AppIcon :: string
  pn_AppIconRaw :: string
  pn_Summary :: string
  pn_Body :: string
  pn_Actions :: "string list"
  pn_Hints :: "'h option"
  pn_ExpireTimeout :: i32

record 'h pbNotificationRequest =
  pq_AppName :: string
  pq_ReplacesId :: u32
  pq_AppIcon :: string
  pq_Summary :: string
  pq_Body :: string
  pq_Actions :: "string list"
  pq_Hints :: "'h option"
  pq_ExpireTimeout :: i32

record pbMediaTrackMetadata =
  pk_TrackId :: string
  pk_Title :: string
  pk_Artist :: "string list"
  pk_Album :: string
  pk_ArtUrl :: string
  pk_ArtRaw :: string
  pk_LengthMicroseconds :: i64

record pbMediaPlayerState =
  py_PlayerName :: string
  py_Identity :: string
  py_DesktopEntry :: string
  py_PlaybackStatus :: string
  py_Volume :: f64
  py_PositionMicroseconds :: i64
  py_Metadata :: pbMediaTrackMetadata

record pbSendMediaCommandRequest =
  px_PlayerName :: string
  px_Command :: string
  px_OffsetMicroseconds :: "i64 option"
  px_PositionMicroseconds :: "i64 option"
  px_TrackId :: "string option"
  px_Volume :: "f64 option"

datatype pbSystemEvent =
    PbSessionLock bool
  | PbDpmsState string
  | PbPowerProfileState string "string list"

record pbSystemState =
  pe_Timestamp :: i64
  pe_Event :: pbSystemEvent

section \<open>Mapping\<close>

text \<open>\<^verbatim>\<open>decodeBase64Image\<close>: the raw bytes of an inline image and the URL that remains.\<close>

definition decodeBase64Image :: "string \<Rightarrow> string \<times> string" where
  "decodeBase64Image dataURL =
     (if dataURL = [] then ([], [])
      else if \<not> has_prefix dataURL ''data:'' then ([], dataURL)
      else if CHR '','' \<notin> set dataURL then ([], dataURL)
      else let header = takeWhile (\<lambda>c. c \<noteq> CHR '','') dataURL;
               body = tl (dropWhile (\<lambda>c. c \<noteq> CHR '','') dataURL)
           in if \<not> contains_str header '';base64'' then ([], dataURL)
              else case b64_decode body of None \<Rightarrow> ([], dataURL) | Some decoded \<Rightarrow> (decoded, []))"

definition mapTelemetryPayload :: "i64 \<Rightarrow> SystemMetrics \<Rightarrow> pbTelemetryPayload" where
  "mapTelemetryPayload now sys = \<lparr>
     pt_Timestamp = now,
     pt_Cpu = \<lparr>pc_UsagePercent = cpu_UsagePercent (sm_CPU sys), pc_TempCelsius = cpu_TempCelsius (sm_CPU sys),
       pc_PowerWatts = cpu_PowerWatts (sm_CPU sys), pc_TmaxCelsius = Fin 0,
       pc_CoresUsagePercent = cpu_CoresUsagePercent (sm_CPU sys), pc_FreqMhz = cpu_FreqMHz (sm_CPU sys)\<rparr>,
     pt_Gpu = \<lparr>pg_UsagePercent = gpu_UsagePercent (sm_GPU sys), pg_TempCelsius = gpu_TempCelsius (sm_GPU sys),
       pg_VramUsedBytes = gpu_VramUsedBytes (sm_GPU sys), pg_VramTotalBytes = gpu_VramTotalBytes (sm_GPU sys),
       pg_PowerWatts = gpu_PowerWatts (sm_GPU sys), pg_VramTempCelsius = gpu_VramTempCelsius (sm_GPU sys),
       pg_VramFreqMhz = gpu_VramFreqMHz (sm_GPU sys), pg_TmaxCelsius = Fin 0, pg_FreqMhz = gpu_FreqMHz (sm_GPU sys)\<rparr>,
     pt_Ram = \<lparr>pr_UsedBytes = ram_UsedBytes (sm_RAM sys), pr_TotalBytes = ram_TotalBytes (sm_RAM sys),
       pr_Percentage = ram_Percentage (sm_RAM sys)\<rparr>,
     pt_Swap = \<lparr>pw_UsedBytes = swap_UsedBytes (sm_Swap sys), pw_TotalBytes = swap_TotalBytes (sm_Swap sys),
       pw_Percentage = swap_Percentage (sm_Swap sys)\<rparr>,
     pt_Zram = \<lparr>pz_OrigDataSizeBytes = zram_OrigDataSizeBytes (sm_ZRAM sys),
       pz_ComprDataSizeBytes = zram_ComprDataSizeBytes (sm_ZRAM sys),
       pz_MemUsedTotalBytes = zram_MemUsedTotalBytes (sm_ZRAM sys), pz_TotalBytes = zram_TotalBytes (sm_ZRAM sys),
       pz_CompressionRatio = zram_CompressionRatio (sm_ZRAM sys)\<rparr>,
     pt_Flags = \<lparr>pf_CpuUsageSupported = fl_CPUUsageSupported (sm_Flags sys),
       pf_CpuCoresUsageSupported = fl_CPUCoresUsageSupported (sm_Flags sys),
       pf_CpuTempSupported = fl_CPUTempSupported (sm_Flags sys), pf_CpuFreqSupported = fl_CPUFreqSupported (sm_Flags sys),
       pf_CpuPowerSupported = fl_CPUPowerSupported (sm_Flags sys), pf_CpuTempTmaxSupported = False,
       pf_RamSupported = fl_RAMSupported (sm_Flags sys), pf_SwapSupported = fl_SwapSupported (sm_Flags sys),
       pf_ZramSupported = fl_ZRAMSupported (sm_Flags sys), pf_GpuSupported = fl_GPUSupported (sm_Flags sys),
       pf_GpuUsageSupported = fl_GPUUsageSupported (sm_Flags sys), pf_GpuTempSupported = fl_GPUTempSupported (sm_Flags sys),
       pf_GpuVramSupported = fl_GPUVramSupported (sm_Flags sys), pf_GpuFreqSupported = fl_GPUFreqSupported (sm_Flags sys),
       pf_GpuPowerSupported = fl_GPUPowerSupported (sm_Flags sys),
       pf_GpuVramTempSupported = fl_GPUVramTempSupported (sm_Flags sys),
       pf_GpuVramFreqSupported = fl_GPUVramFreqSupported (sm_Flags sys), pf_GpuTempTmaxSupported = False,
       pf_OsdSupported = False, pf_PeripheralsSupported = False, pf_PackageUpdatesSupported = False\<rparr>\<rparr>"

text \<open>\<^verbatim>\<open>structpb.NewStruct\<close> is the parameter \<open>newStruct\<close>; a failed conversion drops the hints.\<close>

definition mapNotificationEvent ::
  "((string \<times> dval) list \<Rightarrow> 'h option) \<Rightarrow> NotificationEvent \<Rightarrow> 'h pbNotificationEvent" where
  "mapNotificationEvent newStruct ev =
     (case decodeBase64Image (ne_AppIconBase64 ev) of
        (rawIcon, url) \<Rightarrow>
          \<lparr>pn_Id = ne_ReplacesID ev, pn_AppName = ne_AppName ev, pn_ReplacesId = ne_ReplacesID ev,
           pn_AppIcon = (if url = [] \<and> ne_AppIcon ev = [] then ''dialog-information'' else ne_AppIcon ev),
           pn_AppIconRaw = rawIcon, pn_Summary = ne_Summary ev, pn_Body = ne_Body ev, pn_Actions = ne_Actions ev,
           pn_Hints = (case ne_Hints ev of None \<Rightarrow> None | Some h \<Rightarrow> newStruct h),
           pn_ExpireTimeout = ne_ExpireTimeout ev\<rparr>)"

definition mapPlayer :: "PlayerState \<Rightarrow> pbMediaPlayerState" where
  "mapPlayer p =
     (case decodeBase64Image (pm_ArtURL (ps_Metadata p)) of
        (rawArt, url) \<Rightarrow>
          \<lparr>py_PlayerName = ps_PlayerName p, py_Identity = ps_Identity p, py_DesktopEntry = ps_DesktopEntry p,
           py_PlaybackStatus = ps_PlaybackStatus p, py_Volume = ps_Volume p,
           py_PositionMicroseconds = ps_PositionMicro p,
           py_Metadata = \<lparr>pk_TrackId = pm_TrackID (ps_Metadata p), pk_Title = pm_Title (ps_Metadata p),
             pk_Artist = pm_Artist (ps_Metadata p), pk_Album = pm_Album (ps_Metadata p), pk_ArtUrl = url,
             pk_ArtRaw = rawArt, pk_LengthMicroseconds = pm_LengthMicro (ps_Metadata p)\<rparr>\<rparr>)"

definition mapMediaEvent :: "MediaEvent \<Rightarrow> pbMediaPlayerState list" where
  "mapMediaEvent ev = map mapPlayer (ActivePlayers ev)"

section \<open>The server\<close>

text \<open>The daemon hands the server the same callbacks as the WebSocket pool; the callback that reads
  the cached system states is passed to the handler that uses it. The Bluetooth service has
  no publisher, so its subscriber map stays empty and has no component here.\<close>

record 'h Server =
  sv_telemetry :: "pbTelemetryPayload stream_sys"
  sv_notification :: "'h pbNotificationEvent stream_sys"
  sv_media :: "pbMediaPlayerState list stream_sys"
  sv_system :: "pbSystemState stream_sys"

definition NewConnectServer :: "'h Server" where
  "NewConnectServer = \<lparr>sv_telemetry = empty_stream, sv_notification = empty_stream,
     sv_media = empty_stream, sv_system = empty_stream\<rparr>"

record ('s, 'h) server_access =
  get_srv :: "'s \<Rightarrow> 'h Server"
  put_srv :: "'h Server \<Rightarrow> 's \<Rightarrow> 's"

subsection \<open>Streaming calls\<close>

text \<open>The entry of each streaming handler, up to its loop. The loop and the deferred function are
  \<^const>\<open>stream_serve\<close>, \<^const>\<open>stream_cancel\<close> and \<^const>\<open>stream_return\<close>.\<close>

definition StreamTelemetry ::
  "('s, 'h) server_access \<Rightarrow> 's callbacks \<Rightarrow> i32 \<Rightarrow> 's \<Rightarrow> nat \<times> 's" where
  "StreamTelemetry acc cb intervalMs s =
     (let s1 = (case onConfigChange cb of
                  Some f \<Rightarrow> if sint intervalMs > 0 then f (sint intervalMs) s else s
                | None \<Rightarrow> s);
          srv = get_srv acc s1
      in case stream_open (sv_telemetry srv) of
           (ch, t) \<Rightarrow> (ch, put_srv acc (srv\<lparr>sv_telemetry := stream_greet ch [] t\<rparr>) s1))"

definition StreamNotifications :: "'h Server \<Rightarrow> nat \<times> 'h Server" where
  "StreamNotifications srv =
     (case stream_open (sv_notification srv) of
        (ch, t) \<Rightarrow> (ch, srv\<lparr>sv_notification := stream_greet ch [] t\<rparr>))"

definition StreamMediaState :: "'h Server \<Rightarrow> nat \<times> 'h Server" where
  "StreamMediaState srv =
     (case stream_open (sv_media srv) of
        (ch, t) \<Rightarrow> (ch, srv\<lparr>sv_media := stream_greet ch [] t\<rparr>))"

text \<open>The cached states are read after the subscription, so a change between the two reaches the
  client through its channel.\<close>

definition StreamSystemState ::
  "('s, 'h) server_access \<Rightarrow> ('s \<Rightarrow> pbSystemState list) option \<Rightarrow> 's \<Rightarrow> nat \<times> 's" where
  "StreamSystemState acc getInitialSystemStates s =
     (let srv = get_srv acc s in
      case stream_open (sv_system srv) of
        (ch, t) \<Rightarrow>
          let s1 = put_srv acc (srv\<lparr>sv_system := t\<rparr>) s;
              initialStates = (case getInitialSystemStates of Some f \<Rightarrow> f s1 | None \<Rightarrow> []);
              srv1 = get_srv acc s1
          in (ch, put_srv acc (srv1\<lparr>sv_system := stream_greet ch initialStates (sv_system srv1)\<rparr>) s1))"

subsection \<open>Unary calls\<close>

datatype code = CodeInvalidArgument | CodeUnimplemented | CodeInternal

datatype connect_error = ConnectError code string

text \<open>\<^verbatim>\<open>Hints.AsMap()\<close> is the parameter \<open>asMap\<close>.\<close>

definition SendNotification ::
  "('h \<Rightarrow> (string \<times> hint) list) \<Rightarrow> 's callbacks \<Rightarrow> 'h pbNotificationRequest option \<Rightarrow> 's \<Rightarrow> (connect_error + u32) \<times> 's" where
  "SendNotification asMap cb notification s =
     (case notification of
        None \<Rightarrow> (Inl (ConnectError CodeInvalidArgument ''notification parameter is missing''), s)
      | Some n \<Rightarrow>
          (case onNotificationCommand cb of
             None \<Rightarrow> (Inl (ConnectError CodeUnimplemented ''notification command handler not registered''), s)
           | Some f \<Rightarrow>
               (let hints = (case pq_Hints n of None \<Rightarrow> [] | Some h \<Rightarrow> asMap h);
                    nr = \<lparr>nr_AppName = pq_AppName n, nr_ReplacesID = pq_ReplacesId n, nr_AppIcon = pq_AppIcon n,
                      nr_Summary = pq_Summary n, nr_Body = pq_Body n, nr_Actions = pq_Actions n, nr_Hints = hints,
                      nr_ExpireTimeout = pq_ExpireTimeout n\<rparr>
                in case f nr s of
                     (Inl err, s') \<Rightarrow> (Inl (ConnectError CodeInternal err), s')
                   | (Inr i, s') \<Rightarrow> (Inr i, s'))))"

definition TriggerNotificationAction :: "u32 \<Rightarrow> string \<Rightarrow> 's \<Rightarrow> (connect_error + bool) \<times> 's" where
  "TriggerNotificationAction i action_key s =
     (Inl (ConnectError CodeUnimplemented ''notification action triggers not yet supported''), s)"

definition DismissNotification :: "u32 \<Rightarrow> 's \<Rightarrow> (connect_error + bool) \<times> 's" where
  "DismissNotification i s = (Inl (ConnectError CodeUnimplemented ''notification dismiss not yet supported''), s)"

definition SendMediaCommand :: "'s callbacks \<Rightarrow> pbSendMediaCommandRequest \<Rightarrow> 's \<Rightarrow> (connect_error + bool) \<times> 's" where
  "SendMediaCommand cb req s =
     (case onMediaCommand cb of
        None \<Rightarrow> (Inl (ConnectError CodeUnimplemented ''media command handler not registered''), s)
      | Some f \<Rightarrow>
          (let args = margs_of (px_OffsetMicroseconds req) (px_PositionMicroseconds req) (px_TrackId req) (px_Volume req)
           in case f (px_PlayerName req) (px_Command req) args s of
                (Some err, s') \<Rightarrow> (Inl (ConnectError CodeInternal err), s')
              | (None, s') \<Rightarrow> (Inr True, s')))"

definition ExecuteSystemAction :: "'s callbacks \<Rightarrow> string \<Rightarrow> 's \<Rightarrow> (connect_error + bool) \<times> 's" where
  "ExecuteSystemAction cb command s =
     (case onAction cb of
        None \<Rightarrow> (Inl (ConnectError CodeUnimplemented ''system action handler not registered''), s)
      | Some f \<Rightarrow> (Inr True, f command s))"

definition SetPowerProfile :: "'s callbacks \<Rightarrow> string \<Rightarrow> 's \<Rightarrow> (connect_error + bool) \<times> 's" where
  "SetPowerProfile cb profile s =
     (case onPowerProfileCommand cb of
        None \<Rightarrow> (Inl (ConnectError CodeUnimplemented ''power profile command handler not registered''), s)
      | Some f \<Rightarrow>
          (case f profile s of
             (Some err, s') \<Rightarrow> (Inl (ConnectError CodeInternal err), s')
           | (None, s') \<Rightarrow> (Inr True, s')))"

text \<open>The Bluetooth stream waits for the end of the request and sends nothing.\<close>

definition StreamBluetoothState :: "bool \<Rightarrow> 's \<Rightarrow> (connect_error option \<times> 's) option" where
  "StreamBluetoothState ctxDone s = (if ctxDone then Some (None, s) else None)"

subsection \<open>Broadcasts\<close>

definition BroadcastTelemetry :: "i64 \<Rightarrow> SystemMetrics \<Rightarrow> 'h Server \<Rightarrow> 'h Server go" where
  "BroadcastTelemetry now sysMetrics srv =
     (let payload = mapTelemetryPayload now sysMetrics in
      ebind (stream_publish payload (sv_telemetry srv)) (\<lambda>t. Inr (srv\<lparr>sv_telemetry := t\<rparr>)))"

definition BroadcastNotification ::
  "((string \<times> dval) list \<Rightarrow> 'h option) \<Rightarrow> NotificationEvent \<Rightarrow> 'h Server \<Rightarrow> 'h Server go" where
  "BroadcastNotification newStruct ev srv =
     (let payload = mapNotificationEvent newStruct ev in
      ebind (stream_publish payload (sv_notification srv)) (\<lambda>t. Inr (srv\<lparr>sv_notification := t\<rparr>)))"

definition BroadcastMediaState :: "MediaEvent \<Rightarrow> 'h Server \<Rightarrow> 'h Server go" where
  "BroadcastMediaState ev srv =
     (let payload = mapMediaEvent ev in
      ebind (stream_publish payload (sv_media srv)) (\<lambda>t. Inr (srv\<lparr>sv_media := t\<rparr>)))"

definition system_lock_msg :: "i64 \<Rightarrow> SessionLockEvent \<Rightarrow> pbSystemState" where
  "system_lock_msg now ev = \<lparr>pe_Timestamp = now, pe_Event = PbSessionLock (Locked ev)\<rparr>"

definition dpms_msg :: "i64 \<Rightarrow> DpmsEvent \<Rightarrow> pbSystemState" where
  "dpms_msg now ev = \<lparr>pe_Timestamp = now, pe_Event = PbDpmsState (dp_State ev)\<rparr>"

definition power_profile_msg :: "i64 \<Rightarrow> PowerProfileState \<Rightarrow> pbSystemState" where
  "power_profile_msg now ev =
     \<lparr>pe_Timestamp = now, pe_Event = PbPowerProfileState (ActiveProfile ev) (map Profile (AvailableProfiles ev))\<rparr>"

definition publish_system :: "pbSystemState \<Rightarrow> 'h Server \<Rightarrow> 'h Server go" where
  "publish_system resp srv = ebind (stream_publish resp (sv_system srv)) (\<lambda>t. Inr (srv\<lparr>sv_system := t\<rparr>))"

definition BroadcastSystemLock :: "i64 \<Rightarrow> SessionLockEvent \<Rightarrow> 'h Server \<Rightarrow> 'h Server go" where
  "BroadcastSystemLock now ev srv = publish_system (system_lock_msg now ev) srv"

definition BroadcastDpms :: "i64 \<Rightarrow> DpmsEvent \<Rightarrow> 'h Server \<Rightarrow> 'h Server go" where
  "BroadcastDpms now ev srv = publish_system (dpms_msg now ev) srv"

definition BroadcastPowerProfile :: "i64 \<Rightarrow> PowerProfileState \<Rightarrow> 'h Server \<Rightarrow> 'h Server go" where
  "BroadcastPowerProfile now ev srv = publish_system (power_profile_msg now ev) srv"

section \<open>Well-formed servers\<close>

definition server_ok :: "'h Server \<Rightarrow> bool" where
  "server_ok srv \<longleftrightarrow> stream_ok (sv_telemetry srv) \<and> stream_ok (sv_notification srv) \<and>
     stream_ok (sv_media srv) \<and> stream_ok (sv_system srv)"

lemma server_ok_New [simp]: "server_ok NewConnectServer"
  by (simp add: server_ok_def NewConnectServer_def)

text \<open>Every broadcast succeeds on a well-formed server and keeps it well-formed.\<close>

lemma broadcasts_ok:
  assumes "server_ok srv"
  shows "\<exists>srv'. BroadcastTelemetry now m srv = Inr srv' \<and> server_ok srv'"
    and "\<exists>srv'. BroadcastNotification newStruct n srv = Inr srv' \<and> server_ok srv'"
    and "\<exists>srv'. BroadcastMediaState e srv = Inr srv' \<and> server_ok srv'"
    and "\<exists>srv'. publish_system r srv = Inr srv' \<and> server_ok srv'"
  using assms stream_publish_ok[of "sv_telemetry srv"] stream_publish_ok[of "sv_notification srv"]
    stream_publish_ok[of "sv_media srv"] stream_publish_ok[of "sv_system srv"]
  by (fastforce simp: server_ok_def BroadcastTelemetry_def BroadcastNotification_def BroadcastMediaState_def
      publish_system_def Let_def ebind_eq_Inr)+

lemmas system_broadcast_defs = BroadcastSystemLock_def BroadcastDpms_def BroadcastPowerProfile_def

section \<open>Properties\<close>

lemma contains_str_suffix: "contains_str (s @ p) p"
  unfolding contains_str_iff by (metis append_Nil2)

lemma decode_data_url:
  assumes "CHR '','' \<notin> set mime"
  shows "decodeBase64Image (''data:'' @ mime @ '';base64,'' @ b64_encode raw) = (raw, [])"
proof -
  let ?h = "''data:'' @ mime @ '';base64''" and ?u = "''data:'' @ mime @ '';base64,'' @ b64_encode raw"
  have u: "?u = ?h @ CHR '','' # b64_encode raw" by simp
  have h: "CHR '','' \<notin> set ?h" using assms(1) by simp
  have "takeWhile (\<lambda>c. c \<noteq> CHR '','') ?u = ?h"
    unfolding u using h by (subst takeWhile_append2) auto
  moreover have "dropWhile (\<lambda>c. c \<noteq> CHR '','') ?u = CHR '','' # b64_encode raw"
    unfolding u using h by (subst dropWhile_append2) auto
  moreover have "contains_str ?h '';base64''"
    using contains_str_suffix[of "''data:'' @ mime" "'';base64''"] by simp
  moreover have "has_prefix ?u ''data:''" by (simp only: has_prefix_append)
  ultimately show ?thesis
    unfolding decodeBase64Image_def Let_def by (simp add: b64_roundtrip)
qed

text \<open>How an image field with the URL \<open>url\<close> travels: the raw bytes of an inline image, whatever its media type,
  in place of the URL; any text that is not a data URL as it is, with no bytes.\<close>

definition image_carried :: "string \<Rightarrow> string \<Rightarrow> string \<Rightarrow> bool" where
  "image_carried url raw' url' \<longleftrightarrow>
     (\<forall>mime raw. CHR '','' \<notin> set mime \<longrightarrow> url = ''data:'' @ mime @ '';base64,'' @ b64_encode raw \<longrightarrow> raw' = raw \<and> url' = []) \<and>
     (\<not> has_prefix url ''data:'' \<longrightarrow> raw' = [] \<and> url' = url)"

lemma decodeBase64Image_carries: "image_carried url (fst (decodeBase64Image url)) (snd (decodeBase64Image url))"
  by (auto simp: image_carried_def decode_data_url simp del: append_Cons append.assoc)
     (simp_all add: decodeBase64Image_def)

lemma mapMediaEvent_carries:
  "list_all2 (\<lambda>p q. py_PlayerName q = ps_PlayerName p \<and>
     image_carried (pm_ArtURL (ps_Metadata p)) (pk_ArtRaw (py_Metadata q)) (pk_ArtUrl (py_Metadata q)))
   (ActivePlayers ev) (mapMediaEvent ev)"
proof -
  have "py_PlayerName (mapPlayer p) = ps_PlayerName p \<and>
      image_carried (pm_ArtURL (ps_Metadata p)) (pk_ArtRaw (py_Metadata (mapPlayer p))) (pk_ArtUrl (py_Metadata (mapPlayer p)))" for p
    using decodeBase64Image_carries[of "pm_ArtURL (ps_Metadata p)"] by (simp add: mapPlayer_def split_beta)
  then show ?thesis by (simp add: mapMediaEvent_def list_all2_map2 list.rel_refl)
qed

lemma mapNotificationEvent_carries:
  "\<exists>url'. image_carried (ne_AppIconBase64 ev) (pn_AppIconRaw (mapNotificationEvent ns ev)) url'"
  using decodeBase64Image_carries[of "ne_AppIconBase64 ev"] by (auto simp: mapNotificationEvent_def split_beta)


definition sample_icon_event :: NotificationEvent where
  "sample_icon_event = \<lparr>ne_AppName = ''app'', ne_ReplacesID = 0, ne_AppIcon = [],
     ne_AppIconBase64 = ''data:'' @ ''image/png'' @ '';base64,'' @ b64_encode ''PNG'', ne_Summary = [], ne_Body = [],
     ne_Actions = [], ne_Hints = None, ne_ExpireTimeout = 0\<rparr>"


text \<open>no measurement is lost or mixed up on the way into the protobuf message: two readings give the
  same message only if they agree in every value and every flag.\<close>

theorem telemetry_mapping_lossless:
  "mapTelemetryPayload now a = mapTelemetryPayload now b \<longleftrightarrow> a = b"
proof
  assume "mapTelemetryPayload now a = mapTelemetryPayload now b"
  then show "a = b" unfolding mapTelemetryPayload_def
    by (intro SystemMetrics.equality CPUMetrics.equality GPUMetrics.equality RAMMetrics.equality
        SwapMetrics.equality ZRAMMetrics.equality TelemetryFlags.equality) simp_all
qed simp

text \<open>The ConnectRPC request with the content of a WebSocket media command.\<close>

definition media_request :: "InboundMessage \<Rightarrow> pbSendMediaCommandRequest" where
  "media_request m =
     (let a = (case im_Args m of None \<Rightarrow> zeroArgs | Some a \<Rightarrow> a)
      in \<lparr>px_PlayerName = im_PlayerName m, px_Command = im_Command m, px_OffsetMicroseconds = ma_Offset a,
          px_PositionMicroseconds = ma_Position a, px_TrackId = ma_TrackID a, px_Volume = ma_Volume a\<rparr>)"

lemma margs_of_media_request:
  "margs_of (px_OffsetMicroseconds (media_request m)) (px_PositionMicroseconds (media_request m))
     (px_TrackId (media_request m)) (px_Volume (media_request m)) = margs_of_inbound m"
  by (simp add: media_request_def margs_of_inbound_def Let_def zeroArgs_def margs_of_def split: option.split)

lemma media_request_names [simp]:
  "px_PlayerName (media_request m) = im_PlayerName m" "px_Command (media_request m) = im_Command m"
  by (simp_all add: media_request_def Let_def)

text \<open>C33: the two transports are equivalent for media commands: a WebSocket message and the ConnectRPC
  request with the same content lead to the same call of the daemon with the same
  arguments, leave the same state, and both report an error exactly when the call
  fails, with the same text.\<close>

theorem media_transports_agree:
  assumes "onMediaCommand cb = Some f" and "im_Type m = ''media_command''"
  shows "snd (dispatch cb m s) = snd (SendMediaCommand cb (media_request m) s) \<and>
    (case fst (SendMediaCommand cb (media_request m) s) of
       Inr ok \<Rightarrow> ok \<and> fst (dispatch cb m s) = Some (MediaResponse None)
     | Inl (ConnectError c err) \<Rightarrow> c = CodeInternal \<and> fst (dispatch cb m s) = Some (MediaResponse (Some err)))"
  using assms
  by (auto simp: dispatch_def SendMediaCommand_def margs_of_media_request Let_def split: prod.splits option.splits)

theorem media_transports_agree_witness:
  "let cb = \<lparr>onConfigChange = None, onAction = None, onNotificationCommand = None,
         onMediaCommand = Some (\<lambda>p c args s. (None, s @ [(p, c, args)])), onPowerProfileCommand = None\<rparr>;
       m = zeroInbound\<lparr>im_Type := ''media_command'', im_PlayerName := ''mpv'', im_Command := ''seek'',
         im_Args := Some (zeroArgs\<lparr>ma_Offset := Some 5000000\<rparr>)\<rparr>
   in snd (SendMediaCommand cb (media_request m) []) = [(''mpv'', ''seek'', [(''offset_microseconds'', AInt64 5000000)])]"
  unfolding Let_def
  by (subst media_transports_agree[where f = "\<lambda>p c args s. (None, s @ [(p, c, args)])", THEN conjunct1, symmetric])
     (simp_all add: dispatch_def margs_of_inbound_def margs_of_def zeroArgs_def)

end
