(* ===== verification/Adb_Client.thy ===== *)
theory Adb_Client
  imports Go_Strings
begin

unbundle bit_operations_syntax

text \<open>
  The ADB client of \<^verbatim>\<open>pkg/adb\<close>: the length-prefixed framing of the ADB host protocol, the
  status handshake, the five device commands, and the device tracking loop that turns
  the server's snapshots of attached devices into online and offline events.

  A TCP connection is what the client can observe of it: the bytes it will still receive
  and the error that follows them, the outcome of each write and of each \<^verbatim>\<open>SetDeadline\<close>,
  the bytes written so far, and whether it has been closed. Dialling is a parameter.
\<close>

section \<open>Connections\<close>

datatype net_err = EOF | UnexpectedEOF | ErrClosed | OtherNetErr string

record conn =
  cn_in :: string
  cn_end :: net_err
  cn_wres :: "net_err option list"
  cn_dres :: "net_err option list"
  cn_out :: string
  cn_open :: bool

text \<open>\<^verbatim>\<open>io.ReadFull\<close>: all the requested bytes or an error; an end of file after at least one byte is
  an unexpected one. Reading zero bytes never touches the connection.\<close>

definition read_full :: "nat \<Rightarrow> conn \<Rightarrow> (net_err + string) \<times> conn" where
  "read_full n c =
     (if n \<le> length (cn_in c) then (Inr (take n (cn_in c)), c\<lparr>cn_in := drop n (cn_in c)\<rparr>)
      else (Inl (if cn_end c = EOF \<and> cn_in c \<noteq> [] then UnexpectedEOF else cn_end c), c\<lparr>cn_in := []\<rparr>))"

definition conn_write :: "string \<Rightarrow> conn \<Rightarrow> net_err option \<times> conn" where
  "conn_write s c =
     (case cn_wres c of
        [] \<Rightarrow> (None, c\<lparr>cn_out := cn_out c @ s\<rparr>)
      | None # rs \<Rightarrow> (None, c\<lparr>cn_out := cn_out c @ s, cn_wres := rs\<rparr>)
      | Some e # rs \<Rightarrow> (Some e, c\<lparr>cn_wres := rs\<rparr>))"

definition set_deadline :: "conn \<Rightarrow> net_err option \<times> conn" where
  "set_deadline c = (case cn_dres c of [] \<Rightarrow> (None, c) | r # rs \<Rightarrow> (r, c\<lparr>cn_dres := rs\<rparr>))"

definition close_conn :: "conn \<Rightarrow> conn" where
  "close_conn c = c\<lparr>cn_open := False\<rparr>"

text \<open>\<^verbatim>\<open>io.Copy(io.Discard, conn)\<close>: reads until the end, the outcome is ignored.\<close>

definition discard_rest :: "conn \<Rightarrow> conn" where
  "discard_rest c = c\<lparr>cn_in := []\<rparr>"

section \<open>Framing\<close>

datatype adb_error =
    DialError string net_err
  | DeadlineError net_err
  | SendError string net_err
  | ReadStatusError net_err
  | ReadFailLength net_err
  | BadFailLength
  | ReadFailMessage net_err
  | ServerFail string
  | UnexpectedResponse string
  | Rejected string adb_error

datatype hexlen_error = BadHex hex_error | InsufficientBytes

definition parseHexLength :: "string \<Rightarrow> hexlen_error + nat" where
  "parseHexLength buf =
     (case hex_decode buf of
        Inl e \<Rightarrow> Inl (BadHex e)
      | Inr bs \<Rightarrow> if length bs < 2 then Inl InsufficientBytes
                 else Inr (push_bit 8 (bs ! 0) OR (bs ! 1)))"

definition frame :: "string \<Rightarrow> string" where
  "frame payload = sprintf_04x (length payload) @ payload"

definition writeFrame :: "string \<Rightarrow> conn \<Rightarrow> net_err option \<times> conn" where
  "writeFrame payload c = conn_write (frame payload) c"

definition checkOkay :: "conn \<Rightarrow> adb_error option \<times> conn" where
  "checkOkay c =
     (case read_full 4 c of
        (Inl e, c1) \<Rightarrow> (Some (ReadStatusError e), c1)
      | (Inr status, c1) \<Rightarrow>
          if status = ''OKAY'' then (None, c1)
          else if status = ''FAIL'' then
            (case read_full 4 c1 of
               (Inl e, c2) \<Rightarrow> (Some (ReadFailLength e), c2)
             | (Inr lenBuf, c2) \<Rightarrow>
                 (case parseHexLength lenBuf of
                    Inl _ \<Rightarrow> (Some BadFailLength, c2)
                  | Inr n \<Rightarrow>
                      (case read_full n c2 of
                         (Inl e, c3) \<Rightarrow> (Some (ReadFailMessage e), c3)
                       | (Inr msg, c3) \<Rightarrow> (Some (ServerFail msg), c3))))
          else (Some (UnexpectedResponse status), c1))"

section \<open>The client and its device commands\<close>

record SocketADBClient =
  serverHost :: string
  serverPort :: int

definition NewSocketADBClient :: "string \<Rightarrow> int \<Rightarrow> SocketADBClient" where
  "NewSocketADBClient host port =
     \<lparr>serverHost = (if host = [] then ''127.0.0.1'' else host),
      serverPort = (if port = 0 then 5037 else port)\<rparr>"

text \<open>\<^verbatim>\<open>net.JoinHostPort\<close>: an address literal with colons or a zone is bracketed.\<close>

definition join_host_port :: "string \<Rightarrow> string \<Rightarrow> string" where
  "join_host_port host port =
     (if CHR '':'' \<in> set host \<or> CHR ''%'' \<in> set host then ''['' @ host @ '']:'' @ port
      else host @ '':'' @ port)"

definition client_addr :: "SocketADBClient \<Rightarrow> string" where
  "client_addr cl = join_host_port (serverHost cl) (itoa (serverPort cl))"

type_synonym dialer = "string \<Rightarrow> net_err + conn"

text \<open>
  \<^verbatim>\<open>connectToDevice\<close> yields the connection or an error together with the connection it closed
  (\<^term>\<open>None\<close> when none was made). The choice between the context's deadline and the default
  one is not visible in the outcome of \<^verbatim>\<open>SetDeadline\<close>.
\<close>

definition connectToDevice ::
  "SocketADBClient \<Rightarrow> dialer \<Rightarrow> string \<Rightarrow> (adb_error \<times> conn option) + conn" where
  "connectToDevice cl dial serial =
     (case dial (client_addr cl) of
        Inl e \<Rightarrow> Inl (DialError (client_addr cl) e, None)
      | Inr c \<Rightarrow>
          (case set_deadline c of
             (Some e, c1) \<Rightarrow> Inl (DeadlineError e, Some (close_conn c1))
           | (None, c1) \<Rightarrow>
               (case writeFrame (''host:transport:'' @ serial) c1 of
                  (Some e, c2) \<Rightarrow> Inl (SendError ''transport cmd'' e, Some (close_conn c2))
                | (None, c2) \<Rightarrow>
                    (case checkOkay c2 of
                       (Some e, c3) \<Rightarrow> Inl (Rejected (''transport for serial '' @ serial) e, Some (close_conn c3))
                     | (None, c3) \<Rightarrow> Inr c3))))"

text \<open>The shared body of the five commands: connect, send one frame, check the status, for a
  shell command read the reply to its end, and close.\<close>

definition device_command ::
  "SocketADBClient \<Rightarrow> dialer \<Rightarrow> string \<Rightarrow> string \<Rightarrow> string \<Rightarrow> bool \<Rightarrow> adb_error option \<times> conn option" where
  "device_command cl dial serial what cmd drain =
     (case connectToDevice cl dial serial of
        Inl (e, oc) \<Rightarrow> (Some e, oc)
      | Inr c \<Rightarrow>
          (case writeFrame cmd c of
             (Some e, c1) \<Rightarrow> (Some (SendError what e), Some (close_conn c1))
           | (None, c1) \<Rightarrow>
               (case checkOkay c1 of
                  (Some e, c2) \<Rightarrow> (Some (Rejected what e), Some (close_conn c2))
                | (None, c2) \<Rightarrow> (None, Some (close_conn (if drain then discard_rest c2 else c2))))))"

definition ReversePort :: "SocketADBClient \<Rightarrow> dialer \<Rightarrow> string \<Rightarrow> int \<Rightarrow> int \<Rightarrow> adb_error option \<times> conn option" where
  "ReversePort cl dial serial localPort devicePort =
     device_command cl dial serial ''reverse forward''
       (''reverse:forward:tcp:'' @ itoa localPort @ '';tcp:'' @ itoa devicePort) False"

definition LaunchApp :: "SocketADBClient \<Rightarrow> dialer \<Rightarrow> string \<Rightarrow> string \<Rightarrow> string \<Rightarrow> adb_error option \<times> conn option" where
  "LaunchApp cl dial serial pkg activity =
     device_command cl dial serial ''launch app'' (''shell:am start -n '' @ pkg @ ''/'' @ activity) True"

definition WakeDevice :: "SocketADBClient \<Rightarrow> dialer \<Rightarrow> string \<Rightarrow> adb_error option \<times> conn option" where
  "WakeDevice cl dial serial =
     device_command cl dial serial ''wakeup'' ''shell:input keyevent KEYCODE_WAKEUP'' True"

definition SleepDevice :: "SocketADBClient \<Rightarrow> dialer \<Rightarrow> string \<Rightarrow> adb_error option \<times> conn option" where
  "SleepDevice cl dial serial =
     device_command cl dial serial ''sleep'' ''shell:input keyevent KEYCODE_SLEEP'' True"

definition CloseApp :: "SocketADBClient \<Rightarrow> dialer \<Rightarrow> string \<Rightarrow> string \<Rightarrow> adb_error option \<times> conn option" where
  "CloseApp cl dial serial pkg =
     device_command cl dial serial ''close app'' (''shell:am force-stop '' @ pkg) True"

section \<open>Device tracking\<close>

datatype DeviceState = StateOnline | StateOffline

record DeviceEvent =
  ev_Serial :: string
  ev_State :: DeviceState

definition online_ev :: "string \<Rightarrow> DeviceEvent" where
  "online_ev s = \<lparr>ev_Serial = s, ev_State = StateOnline\<rparr>"

definition offline_ev :: "string \<Rightarrow> DeviceEvent" where
  "offline_ev s = \<lparr>ev_Serial = s, ev_State = StateOffline\<rparr>"

text \<open>The serial and state of a payload line; blank lines and lines with fewer than two
  fields are skipped.\<close>

definition parse_line :: "string \<Rightarrow> (string \<times> string) option" where
  "parse_line line =
     (let l = trim_space line in
      if l = [] then None
      else case str_fields l of serial # state # _ \<Rightarrow> Some (serial, state) | _ \<Rightarrow> None)"

record track_state =
  ts_active :: "string list"
  ts_current :: "string list"
  ts_events :: "DeviceEvent list"

definition track_line :: "string \<times> string \<Rightarrow> track_state \<Rightarrow> track_state" where
  "track_line p t =
     (case p of (serial, state) \<Rightarrow>
        if state = ''device'' then
          (let t1 = t\<lparr>ts_current := List.insert serial (ts_current t)\<rparr> in
           if serial \<notin> set (ts_active t1)
           then t1\<lparr>ts_active := List.insert serial (ts_active t1),
                   ts_events := ts_events t1 @ [online_ev serial]\<rparr>
           else t1)
        else if serial \<in> set (ts_active t)
          then t\<lparr>ts_active := removeAll serial (ts_active t),
                 ts_events := ts_events t @ [offline_ev serial]\<rparr>
          else t)"

text \<open>The second loop: devices that are active but missing from the snapshot went offline.\<close>

definition drop_missing :: "string \<Rightarrow> track_state \<Rightarrow> track_state" where
  "drop_missing serial t =
     (if serial \<notin> set (ts_current t)
      then t\<lparr>ts_active := removeAll serial (ts_active t),
             ts_events := ts_events t @ [offline_ev serial]\<rparr>
      else t)"

definition process_payload :: "string list \<Rightarrow> string \<Rightarrow> string list \<times> DeviceEvent list" where
  "process_payload active payload =
     (let entries = List.map_filter parse_line (split_on (CHR 0x0A) payload);
          t1 = fold track_line entries \<lparr>ts_active = active, ts_current = [], ts_events = []\<rparr>;
          t2 = fold drop_missing (ts_active t1) t1
      in (ts_active t2, ts_events t2))"

datatype stop_reason = StreamEnd net_err | BadLength hexlen_error | PayloadError net_err

lemma read_full_Inr_shorter:
  "read_full n c = (Inr s, c') \<Longrightarrow> length (cn_in c') + n = length (cn_in c)"
  by (auto simp: read_full_def split: if_splits)

text \<open>The loop of the tracking goroutine. A cancelled context closes the connection, which
  ends the stream; every round consumes at least four bytes, so the loop terminates.\<close>

function track_loop :: "conn \<Rightarrow> string list \<Rightarrow> string list \<times> DeviceEvent list \<times> stop_reason \<times> conn" where
  "track_loop c active =
     (case read_full 4 c of
        (Inl e, c1) \<Rightarrow> (active, [], StreamEnd e, close_conn c1)
      | (Inr lenBuf, c1) \<Rightarrow>
          (case parseHexLength lenBuf of
             Inl e \<Rightarrow> (active, [], BadLength e, close_conn c1)
           | Inr n \<Rightarrow>
               (case read_full n c1 of
                  (Inl e, c2) \<Rightarrow> (active, [], PayloadError e, close_conn c2)
                | (Inr payload, c2) \<Rightarrow>
                    (case process_payload active payload of
                       (active', evs) \<Rightarrow>
                         (case track_loop c2 active' of
                            (active'', evs', r, c3) \<Rightarrow> (active'', evs @ evs', r, c3))))))"
  by pat_completeness auto
termination
  by (relation "measure (\<lambda>(c, active). length (cn_in c))")
     (auto dest!: read_full_Inr_shorter[OF sym])

declare track_loop.simps [simp del]

text \<open>\<^verbatim>\<open>TrackDevices\<close>: the handshake, then the loop with no active device. The result is the
  error with the connection it closed, or the events of the stream and how it ended.\<close>

definition TrackDevices ::
  "SocketADBClient \<Rightarrow> dialer \<Rightarrow> (adb_error \<times> conn option) + (string list \<times> DeviceEvent list \<times> stop_reason \<times> conn)" where
  "TrackDevices cl dial =
     (case dial (client_addr cl) of
        Inl e \<Rightarrow> Inl (DialError (client_addr cl) e, None)
      | Inr c \<Rightarrow>
          (case set_deadline c of
             (Some e, c1) \<Rightarrow> Inl (DeadlineError e, Some (close_conn c1))
           | (None, c1) \<Rightarrow>
               (case writeFrame ''host:track-devices'' c1 of
                  (Some e, c2) \<Rightarrow> Inl (SendError ''track-devices'' e, Some (close_conn c2))
                | (None, c2) \<Rightarrow>
                    (case checkOkay c2 of
                       (Some e, c3) \<Rightarrow> Inl (Rejected ''track-devices'' e, Some (close_conn c3))
                     | (None, c3) \<Rightarrow>
                         (case set_deadline c3 of
                            (Some e, c4) \<Rightarrow> Inl (DeadlineError e, Some (close_conn c4))
                          | (None, c4) \<Rightarrow> Inr (track_loop c4 []))))))"

section \<open>Framing: the length header\<close>

lemma not_bit_above: "l < 256 \<Longrightarrow> 8 \<le> n \<Longrightarrow> \<not> bit (l::nat) n"
proof -
  assume "l < 256" "8 \<le> n"
  then have "l < 2 ^ n" using power_increasing[of 8 n "2::nat"] by simp
  then show "\<not> bit l n" by (simp add: bit_iff_odd)
qed

lemma or_shifted_bytes: "l < 256 \<Longrightarrow> push_bit 8 h OR l = 256 * h + (l::nat)"
proof -
  assume l: "l < 256"
  have "push_bit 8 h + l = push_bit 8 h OR l"
    by (rule disjunctive_add) (use not_bit_above[OF l] in \<open>auto simp: bit_simps\<close>)
  then show ?thesis
    by (simp add: push_bit_eq_mult)
qed

lemma hex_decode_four:
  assumes "a < 16" "b < 16" "c < 16" "d < 16"
  shows "hex_decode (map digit_char [a, b, c, d]) = Inr [16 * a + b, 16 * c + d]"
  using assms by simp

lemma hex_digits_sum:
  fixes n :: nat
  shows "256 * (16 * (n div 4096) + n div 256 mod 16) + (16 * (n div 16 mod 16) + n mod 16) = n"
proof -
  have step: "n = 16 * p + r0 \<Longrightarrow> p = 16 * q + r1 \<Longrightarrow> q = 16 * t + r2 \<Longrightarrow>
      256 * (16 * t + r2) + (16 * r1 + r0) = n" for p q t r0 r1 r2 :: nat
    by simp
  show ?thesis
    by (rule step[of "n div 16" _ "n div 256"])
       (simp_all add: div_mult2_eq[of n 16 16, simplified] div_mult2_eq[of n 256 16, simplified])
qed

lemma parseHexLength_sprintf: "n < 65536 \<Longrightarrow> parseHexLength (sprintf_04x n) = Inr n"
proof -
  assume n: "n < 65536"
  have small: "n div 4096 < 16" "n div 256 mod 16 < 16" "n div 16 mod 16 < 16" "n mod 16 < 16"
    using n by auto
  then have byte: "16 * (n div 16 mod 16) + n mod 16 < 256" by linarith
  show ?thesis
    by (simp only: parseHexLength_def sprintf_04x_digits[OF n] hex_decode_four[OF small] sum.case
        or_shifted_bytes[OF byte] hex_digits_sum nth_Cons_0 One_nat_def nth_Cons_Suc)
       simp
qed

lemma parseHexLength_less: "length buf = 4 \<Longrightarrow> parseHexLength buf = Inr n \<Longrightarrow> n < 65536"
proof -
  assume len: "length buf = 4" and p: "parseHexLength buf = Inr n"
  then obtain a b c d where buf: "buf = [a, b, c, d]"
    by (auto simp: numeral_eq_Suc length_Suc_conv)
  with p obtain x y z w where v: "hex_val a = Some x" "hex_val b = Some y" "hex_val c = Some z" "hex_val d = Some w"
      and n: "n = push_bit 8 (16 * x + y) OR (16 * z + w)"
    by (auto simp: parseHexLength_def split: option.splits if_splits)
  from v have "x < 16" "y < 16" "z < 16" "w < 16" by (auto dest: hex_val_less)
  then show ?thesis unfolding n by (subst or_shifted_bytes) auto
qed

section \<open>Snapshots and events\<close>

text \<open>What a payload says: the state of the last line that mentions a serial counts.\<close>

definition payload_entries :: "string \<Rightarrow> (string \<times> string) list" where
  "payload_entries payload = List.map_filter parse_line (split_on (CHR 0x0A) payload)"

fun online_in :: "(string \<times> string) list \<Rightarrow> string \<Rightarrow> bool" where
  "online_in [] s = False"
| "online_in ((serial, state) # ps) s =
     (if s \<in> fst ` set ps then online_in ps s else serial = s \<and> state = ''device'')"

text \<open>What a consumer of the events makes of them.\<close>

definition apply_event :: "DeviceEvent \<Rightarrow> string set \<Rightarrow> string set" where
  "apply_event ev A = (case ev_State ev of StateOnline \<Rightarrow> insert (ev_Serial ev) A | StateOffline \<Rightarrow> A - {ev_Serial ev})"

fun genuine :: "string set \<Rightarrow> DeviceEvent list \<Rightarrow> bool" where
  "genuine A [] = True"
| "genuine A (ev # evs) =
     ((ev_State ev = StateOnline \<longleftrightarrow> ev_Serial ev \<notin> A) \<and> genuine (apply_event ev A) evs)"

lemma apply_event_simps [simp]:
  "apply_event (online_ev s) A = insert s A" "apply_event (offline_ev s) A = A - {s}"
  by (simp_all add: apply_event_def online_ev_def offline_ev_def)

lemma event_sel [simp]:
  "ev_State (online_ev s) = StateOnline" "ev_State (offline_ev s) = StateOffline"
  "ev_Serial (online_ev s) = s" "ev_Serial (offline_ev s) = s"
  by (simp_all add: online_ev_def offline_ev_def)

lemma genuine_append:
  "genuine A (xs @ ys) \<longleftrightarrow> genuine A xs \<and> genuine (fold apply_event xs A) ys"
  by (induction xs arbitrary: A) auto

text \<open>The tracker's state agrees with the events emitted so far, starting from the set \<open>A\<close>.\<close>

definition track_sync :: "string set \<Rightarrow> track_state \<Rightarrow> bool" where
  "track_sync A t \<longleftrightarrow> distinct (ts_active t) \<and>
     fold apply_event (ts_events t) A = set (ts_active t) \<and> genuine A (ts_events t)"

lemma track_line_sync: "track_sync A t \<Longrightarrow> track_sync A (track_line p t)"
  by (cases p) (auto simp: track_line_def track_sync_def Let_def genuine_append distinct_removeAll)

lemma track_lines_sync: "track_sync A t \<Longrightarrow> track_sync A (fold track_line ps t)"
  by (induction ps arbitrary: t) (auto intro: track_line_sync)

lemma drop_missing_current [simp]: "ts_current (drop_missing s t) = ts_current t"
  by (simp add: drop_missing_def)

lemma drop_missing_all:
  "track_sync A t \<Longrightarrow> distinct xs \<Longrightarrow> set xs \<subseteq> set (ts_active t) \<Longrightarrow>
     track_sync A (fold drop_missing xs t) \<and>
     set (ts_active (fold drop_missing xs t)) = set (ts_active t) - (set xs - set (ts_current t))"
proof (induction xs arbitrary: t)
  case Nil
  then show ?case by simp
next
  case (Cons x xs)
  have "track_sync A (drop_missing x t)"
    using Cons.prems by (auto simp: drop_missing_def track_sync_def genuine_append distinct_removeAll)
  moreover have "set xs \<subseteq> set (ts_active (drop_missing x t))"
    using Cons.prems by (auto simp: drop_missing_def)
  ultimately show ?case
    using Cons.IH[of "drop_missing x t"] Cons.prems by (auto simp: drop_missing_def split: if_splits)
qed

lemma track_lines_member:
  "distinct (ts_active t) \<Longrightarrow>
     (s \<in> set (ts_active (fold track_line ps t)) \<longleftrightarrow>
        (if s \<in> fst ` set ps then online_in ps s else s \<in> set (ts_active t))) \<and>
     (s \<in> set (ts_current (fold track_line ps t)) \<longleftrightarrow>
        s \<in> set (ts_current t) \<or> (s, ''device'') \<in> set ps)"
proof (induction ps arbitrary: t)
  case Nil
  then show ?case by simp
next
  case (Cons p ps)
  obtain serial state where p: "p = (serial, state)" by fastforce
  have d: "distinct (ts_active (track_line p t))"
    using Cons.prems by (auto simp: track_line_def Let_def p distinct_removeAll)
  have act: "s \<in> set (ts_active (track_line p t)) \<longleftrightarrow>
      (if s = serial then state = ''device'' else s \<in> set (ts_active t))"
    using Cons.prems by (auto simp: track_line_def Let_def p)
  have cur: "s \<in> set (ts_current (track_line p t)) \<longleftrightarrow> s \<in> set (ts_current t) \<or> (s = serial \<and> state = ''device'')"
    by (auto simp: track_line_def Let_def p)
  show ?case
    unfolding fold_simps(2) using Cons.IH[OF d] act cur
    by (cases "s \<in> fst ` set ps"; cases "s = serial") (simp_all add: p disj_ac eq_commute[of "''device''"])
qed

lemma online_in_entry: "online_in ps s \<Longrightarrow> (s, ''device'') \<in> set ps"
  by (induction ps s rule: online_in.induct) (auto split: if_splits)

lemma online_in_mentioned: "online_in ps s \<Longrightarrow> s \<in> fst ` set ps"
  using online_in_entry by force

lemma process_payload_correct:
  assumes "distinct active" and pp: "process_payload active payload = (active', evs)"
  shows "set active' = Collect (online_in (payload_entries payload))"
    and "fold apply_event evs (set active) = set active'"
    and "genuine (set active) evs"
    and "distinct active'"
proof -
  let ?ps = "payload_entries payload"
  let ?t0 = "\<lparr>ts_active = active, ts_current = [], ts_events = []\<rparr>"
  let ?t1 = "fold track_line ?ps ?t0"
  let ?t2 = "fold drop_missing (ts_active ?t1) ?t1"
  have s1: "track_sync (set active) ?t1"
    by (rule track_lines_sync) (simp add: track_sync_def assms(1))
  then have d1: "distinct (ts_active ?t1)" by (simp add: track_sync_def)
  have s2: "track_sync (set active) ?t2"
    and a2: "set (ts_active ?t2) = set (ts_active ?t1) \<inter> set (ts_current ?t1)"
    using drop_missing_all[OF s1 d1 subset_refl] by auto
  have res: "active' = ts_active ?t2" "evs = ts_events ?t2"
    using pp by (auto simp: process_payload_def payload_entries_def Let_def)
  have "s \<in> set (ts_active ?t2) \<longleftrightarrow> online_in ?ps s" for s
    using track_lines_member[of ?t0 s ?ps] assms(1)
    by (auto simp: a2 dest: online_in_entry online_in_mentioned split: if_splits intro: rev_image_eqI)
  then show "set active' = Collect (online_in ?ps)" by (auto simp: res)
  show "fold apply_event evs (set active) = set active'" "genuine (set active) evs" "distinct active'"
    using s2 by (auto simp: track_sync_def res)
qed

section \<open>The tracking stream\<close>

lemma read_full_append:
  "cn_in c = s @ r \<Longrightarrow> length s = n \<Longrightarrow> read_full n c = (Inr s, c\<lparr>cn_in := r\<rparr>)"
  by (auto simp: read_full_def)

lemma track_loop_one_frame:
  assumes "length payload < 65536" and "cn_in c = frame payload @ rest"
  shows "track_loop c active =
    (case process_payload active payload of (active', evs) \<Rightarrow>
       case track_loop (c\<lparr>cn_in := rest\<rparr>) active' of (a, evs', r, c') \<Rightarrow> (a, evs @ evs', r, c'))"
proof -
  let ?h = "sprintf_04x (length payload)"
  have 1: "read_full 4 c = (Inr ?h, c\<lparr>cn_in := payload @ rest\<rparr>)"
    by (rule read_full_append) (use assms in \<open>simp_all add: frame_def length_sprintf_04x\<close>)
  have 2: "read_full (length payload) (c\<lparr>cn_in := payload @ rest\<rparr>) = (Inr payload, c\<lparr>cn_in := rest\<rparr>)"
    using read_full_append[of "c\<lparr>cn_in := payload @ rest\<rparr>" payload rest] by simp
  show ?thesis
    by (subst track_loop.simps) (simp add: 1 2 parseHexLength_sprintf[OF assms(1)])
qed

lemma track_loop_end:
  "cn_in c = [] \<Longrightarrow> track_loop c active = (active, [], StreamEnd (cn_end c), close_conn c)"
  by (subst track_loop.simps) (cases c, simp add: read_full_def close_conn_def)

lemma track_loop_closes: "track_loop c active = (a, evs, r, c') \<Longrightarrow> \<not> cn_open c'"
proof (induction c active arbitrary: a evs rule: track_loop.induct)
  case (1 c active)
  then show ?case
    by (subst (asm) (2) track_loop.simps)
       (auto simp: close_conn_def split: prod.splits sum.splits)
qed

lemma track_loop_events:
  assumes "distinct active" and "track_loop c active = (active', evs, r, c')"
  shows "fold apply_event evs (set active) = set active' \<and> genuine (set active) evs \<and> distinct active'"
  using assms
proof (induction c active arbitrary: active' evs rule: track_loop.induct)
  case (1 c active)
  show ?case
  proof (cases "\<exists>n payload a1 e1 c1 c2 buf. read_full 4 c = (Inr buf, c1) \<and> parseHexLength buf = Inr n \<and>
      read_full n c1 = (Inr payload, c2) \<and> process_payload active payload = (a1, e1)")
    case True
    then obtain n payload a1 e1 c1 c2 buf where rd: "read_full 4 c = (Inr buf, c1)"
      "parseHexLength buf = Inr n" "read_full n c1 = (Inr payload, c2)"
      "process_payload active payload = (a1, e1)" by blast
    note pp = process_payload_correct[OF "1.prems"(1) rd(4)]
    from "1.prems"(2) rd obtain e2 where tl: "track_loop c2 a1 = (active', e2, r, c')" and evs: "evs = e1 @ e2"
      by (subst (asm) track_loop.simps) (auto split: prod.splits)
    show ?thesis
      using "1.IH"[OF rd(1)[symmetric] refl rd(2) rd(3)[symmetric] refl rd(4)[symmetric] pp(4) tl] pp
      by (simp add: evs genuine_append)
  next
    case False
    with "1.prems" show ?thesis
      by (subst (asm) track_loop.simps) (auto split: prod.splits sum.splits)
  qed
qed

lemma track_loop_snapshots:
  assumes "distinct active" and "payloads \<noteq> []" and "\<forall>p \<in> set payloads. length p < 65536"
    and "cn_in c = concat (map frame payloads)" and "track_loop c active = (active', evs, r, c')"
  shows "set active' = Collect (online_in (payload_entries (last payloads))) \<and> r = StreamEnd (cn_end c)"
  using assms
proof (induction payloads arbitrary: c active evs)
  case Nil
  then show ?case by simp
next
  case (Cons p ps)
  obtain a1 e1 where pp: "process_payload active p = (a1, e1)" by fastforce
  note pc = process_payload_correct[OF Cons.prems(1) pp]
  have len: "length p < 65536" and split: "cn_in c = frame p @ concat (map frame ps)"
    using Cons.prems by auto
  obtain e2 where tl: "track_loop (c\<lparr>cn_in := concat (map frame ps)\<rparr>) a1 = (active', e2, r, c')"
    using Cons.prems(5) pp by (auto simp: track_loop_one_frame[OF len split] split: prod.splits)
  show ?case
  proof (cases "ps = []")
    case True
    with tl pc show ?thesis by (simp add: track_loop_end)
  next
    case False
    with Cons.IH[OF pc(4) False _ _ tl] Cons.prems(3) show ?thesis by simp
  qed
qed

section \<open>The device commands\<close>

lemma conn_ops_clean [simp]:
  "cn_wres c = [] \<Longrightarrow> writeFrame p c = (None, c\<lparr>cn_out := cn_out c @ frame p\<rparr>)"
  "cn_dres c = [] \<Longrightarrow> set_deadline c = (None, c)"
  by (simp_all add: writeFrame_def conn_write_def set_deadline_def)

lemma checkOkay_okay: "cn_in c = ''OKAY'' @ r \<Longrightarrow> checkOkay c = (None, c\<lparr>cn_in := r\<rparr>)"
  by (simp add: checkOkay_def read_full_append[of c "''OKAY''" r])

lemma checkOkay_None:
  assumes "checkOkay c = (None, c')"
  shows "\<exists>r. cn_in c = ''OKAY'' @ r \<and> c' = c\<lparr>cn_in := r\<rparr>"
proof -
  from assms obtain st c1 where r: "read_full 4 c = (Inr st, c1)" and st: "st = ''OKAY''" and c': "c' = c1"
    by (auto simp: checkOkay_def split: prod.splits sum.splits if_splits)
  then have "take 4 (cn_in c) = ''OKAY''" "c1 = c\<lparr>cn_in := drop 4 (cn_in c)\<rparr>"
    by (auto simp: read_full_def split: if_splits)
  then show ?thesis using c' by (metis append_take_drop_id)
qed

lemma device_command_closed:
  "pred_option (\<lambda>c. \<not> cn_open c) (snd (device_command cl dial serial what cmd drain))"
  by (auto simp: device_command_def connectToDevice_def close_conn_def
      split: sum.splits prod.splits option.splits)

lemma device_command_success:
  assumes "dial (client_addr cl) = Inr c0" and "cn_wres c0 = []" and "cn_dres c0 = []"
  shows "fst (device_command cl dial serial what cmd drain) = None \<longleftrightarrow> has_prefix (cn_in c0) ''OKAYOKAY''"
    and "device_command cl dial serial what cmd drain = (None, Some c) \<Longrightarrow>
      cn_out c = cn_out c0 @ frame (''host:transport:'' @ serial) @ frame cmd"
proof -
  let ?c1 = "c0\<lparr>cn_out := cn_out c0 @ frame (''host:transport:'' @ serial)\<rparr>"
  show "fst (device_command cl dial serial what cmd drain) = None \<longleftrightarrow> has_prefix (cn_in c0) ''OKAYOKAY''"
  proof
    assume ok: "fst (device_command cl dial serial what cmd drain) = None"
    then obtain c2 where c2: "checkOkay ?c1 = (None, c2)"
      using assms by (cases "checkOkay ?c1")
        (auto simp: device_command_def connectToDevice_def split: option.splits)
    from checkOkay_None[OF c2] obtain r where r: "cn_in c0 = ''OKAY'' @ r" "c2 = ?c1\<lparr>cn_in := r\<rparr>"
      by auto
    let ?c3 = "c2\<lparr>cn_out := cn_out c2 @ frame cmd\<rparr>"
    from ok obtain c4 where "checkOkay ?c3 = (None, c4)"
      using assms c2 r(2) by (cases "checkOkay ?c3")
        (auto simp: device_command_def connectToDevice_def split: option.splits)
    from checkOkay_None[OF this] r show "has_prefix (cn_in c0) ''OKAYOKAY''"
      by (auto simp: has_prefix_def)
  next
    assume "has_prefix (cn_in c0) ''OKAYOKAY''"
    then obtain r where r: "cn_in c0 = ''OKAY'' @ ''OKAY'' @ r" by (auto simp: has_prefix_iff)
    then show "fst (device_command cl dial serial what cmd drain) = None"
      using assms by (simp add: device_command_def connectToDevice_def checkOkay_okay[of _ "''OKAY'' @ r"]
          checkOkay_okay[of _ r])
  qed
  assume "device_command cl dial serial what cmd drain = (None, Some c)"
  then show "cn_out c = cn_out c0 @ frame (''host:transport:'' @ serial) @ frame cmd"
    using assms
    by (auto simp: device_command_def connectToDevice_def close_conn_def discard_rest_def
        split: prod.splits option.splits if_splits dest!: checkOkay_None)
qed

text \<open>The frames of the commands the documents give as examples, as they go over the wire. The documents
  (\<^verbatim>\<open>docs/protocol_specification.md\<close>, section 2.2, and \<^verbatim>\<open>docs/design_document.md\<close>, section 3.2) agree on the
  tracking request, the activity start and the forced stop, and have other headers for the
  transport selection (\<^verbatim>\<open>001f\<close>), the wake-up (\<^verbatim>\<open>001f\<close>) and the reverse tunnel (\<^verbatim>\<open>0026\<close> and \<^verbatim>\<open>0015\<close>).\<close>

lemma documented_frames:
  "frame ''host:track-devices'' = ''0012host:track-devices''"
  "frame ''host:transport:0123456789ABC'' = ''001chost:transport:0123456789ABC''"
  "frame ''shell:input keyevent KEYCODE_WAKEUP'' = ''0023shell:input keyevent KEYCODE_WAKEUP''"
  "frame ''shell:am start -n com.noosxe.pc_dashboard/com.noosxe.pc_dashboard.MainActivity'' =
     ''004eshell:am start -n com.noosxe.pc_dashboard/com.noosxe.pc_dashboard.MainActivity''"
  "frame ''reverse:forward:tcp:12345;tcp:12345'' = ''0023reverse:forward:tcp:12345;tcp:12345''"
  "frame ''shell:am force-stop com.noosxe.pc_dashboard'' = ''002bshell:am force-stop com.noosxe.pc_dashboard''"
  by (simp_all add: frame_def sprintf_04x_def to_hex.simps)

section \<open>Properties\<close>

text \<open>C17: a frame the client writes is the frame its reader takes apart: whatever follows it in
  the stream, the tracking loop processes exactly the payload and goes on with the rest.
  The header has four digits, so this holds for payloads below 64 KiB.\<close>

theorem adb_frame_roundtrip:
  assumes "length payload < 65536" and "cn_in c = frame payload @ rest"
  shows "track_loop c active =
    (case process_payload active payload of (active', evs) \<Rightarrow>
       case track_loop (c\<lparr>cn_in := rest\<rparr>) active' of (a, evs', r, c') \<Rightarrow> (a, evs @ evs', r, c'))"
  using assms by (rule track_loop_one_frame)

definition sample_conn :: "string \<Rightarrow> conn" where
  "sample_conn s = \<lparr>cn_in = s, cn_end = EOF, cn_wres = [], cn_dres = [], cn_out = [], cn_open = True\<rparr>"

definition sample_line :: "string \<Rightarrow> string \<Rightarrow> string" where
  "sample_line serial state = serial @ [CHR 0x09] @ state @ [CHR 0x0A]"

theorem adb_frame_roundtrip_witness:
  "track_loop (sample_conn (frame (sample_line ''AB'' ''device''))) [] =
     ([''AB''], [online_ev ''AB''], StreamEnd EOF, close_conn (sample_conn []))"
proof -
  have p: "process_payload [] (sample_line ''AB'' ''device'') = ([''AB''], [online_ev ''AB''])"
    by code_simp
  have "track_loop (sample_conn (frame (sample_line ''AB'' ''device'') @ [])) [] =
    (case process_payload [] (sample_line ''AB'' ''device'') of (active', evs) \<Rightarrow>
       case track_loop ((sample_conn (frame (sample_line ''AB'' ''device'') @ []))\<lparr>cn_in := []\<rparr>) active' of
         (a, evs', r, c') \<Rightarrow> (a, evs @ evs', r, c'))"
    by (rule adb_frame_roundtrip) (simp_all add: sample_conn_def sample_line_def)
  then show ?thesis by (simp add: p track_loop_end sample_conn_def)
qed

text \<open>C3: over a whole stream of snapshots, the events a consumer receives rebuild, from nothing,
  exactly the devices that the last snapshot reports in the state \<^verbatim>\<open>device\<close>; every event is
  a real transition (online only for a device that was not online, offline only for one
  that was), and the loop ends when the stream ends.\<close>

theorem adb_events_follow_snapshots:
  assumes "payloads \<noteq> []" and "\<forall>p \<in> set payloads. length p < 65536"
    and "cn_in c = concat (map frame payloads)" and "track_loop c [] = (active', evs, r, c')"
  shows "fold apply_event evs {} = Collect (online_in (payload_entries (last payloads))) \<and>
    genuine {} evs \<and> r = StreamEnd (cn_end c) \<and> \<not> cn_open c'"
  using track_loop_snapshots[OF _ assms] track_loop_events[OF _ assms(4)] track_loop_closes[OF assms(4)]
  by simp_all

theorem adb_events_follow_snapshots_witness:
  "fold apply_event [online_ev ''AB'', online_ev ''CD'', offline_ev ''CD''] {} =
     Collect (online_in (payload_entries (sample_line ''AB'' ''device'')))"
proof -
  let ?ps = "[sample_line ''AB'' ''device'' @ sample_line ''CD'' ''device'', sample_line ''AB'' ''device'']"
  have l: "\<forall>p \<in> set ?ps. length p < 65536" by (simp add: sample_line_def)
  have t: "track_loop (sample_conn (concat (map frame ?ps))) [] =
      ([''AB''], [online_ev ''AB'', online_ev ''CD'', offline_ev ''CD''], StreamEnd EOF,
       close_conn (sample_conn []))"
    by code_simp
  have "fold apply_event [online_ev ''AB'', online_ev ''CD'', offline_ev ''CD''] {} =
      Collect (online_in (payload_entries (last ?ps)))"
    by (rule conjunct1[OF adb_events_follow_snapshots[OF _ l _ t]]) (simp_all add: sample_conn_def)
  then show ?thesis by (simp only: last.simps list.distinct if_False if_True simp_thms)
qed

text \<open>no device command leaks its connection: whenever one of the five commands got a
  connection at all, that connection is closed when the command returns, on success and
  on every error path.\<close>

theorem adb_commands_close_connection:
  "pred_option (\<lambda>c. \<not> cn_open c) (snd (ReversePort cl dial serial lp dp)) \<and>
   pred_option (\<lambda>c. \<not> cn_open c) (snd (LaunchApp cl dial serial pkg act)) \<and>
   pred_option (\<lambda>c. \<not> cn_open c) (snd (WakeDevice cl dial serial)) \<and>
   pred_option (\<lambda>c. \<not> cn_open c) (snd (SleepDevice cl dial serial)) \<and>
   pred_option (\<lambda>c. \<not> cn_open c) (snd (CloseApp cl dial serial pkg))"
  by (simp only: ReversePort_def LaunchApp_def WakeDevice_def SleepDevice_def CloseApp_def
      device_command_closed simp_thms)

text \<open>C29: on a connection whose writes succeed, launching the application succeeds exactly when
  the server answers \<^verbatim>\<open>OKAY\<close> twice, and then what went over the wire is the transport
  selection followed by the activity start for the given package, each behind the four hexadecimal
  digits of its own length. (Some of the example headers in the documents are not these lengths, see
  \<^verbatim>\<open>documented_frames\<close>: for the serial \<^verbatim>\<open>0123456789ABC\<close> the code sends \<^verbatim>\<open>001c\<close>, the documents have \<^verbatim>\<open>001f\<close>.)\<close>

theorem adb_launch_wire_protocol:
  assumes "dial (client_addr cl) = Inr c0" and "cn_wres c0 = []" and "cn_dres c0 = []"
  shows "(fst (LaunchApp cl dial serial pkg act) = None \<longleftrightarrow> has_prefix (cn_in c0) ''OKAYOKAY'') \<and>
    (\<forall>c. LaunchApp cl dial serial pkg act = (None, Some c) \<longrightarrow>
      cn_out c = cn_out c0 @ frame (''host:transport:'' @ serial) @
        frame (''shell:am start -n '' @ pkg @ ''/'' @ act))"
  unfolding LaunchApp_def
  using device_command_success[where dial = dial and cl = cl, OF assms] by blast

definition sample_dial :: dialer where
  "sample_dial a = (if a = ''127.0.0.1:5037'' then Inr (sample_conn ''OKAYOKAYStarting'') else Inl EOF)"

theorem adb_launch_wire_protocol_witness:
  "fst (LaunchApp (NewSocketADBClient [] 0) sample_dial ''S1'' ''p'' ''a'') = None \<and>
   map_option cn_out (snd (LaunchApp (NewSocketADBClient [] 0) sample_dial ''S1'' ''p'' ''a'')) =
     Some ''0011host:transport:S10015shell:am start -n p/a''"
proof -
  have a: "sample_dial (client_addr (NewSocketADBClient [] 0)) = Inr (sample_conn ''OKAYOKAYStarting'')"
    by (simp add: sample_dial_def client_addr_def NewSocketADBClient_def join_host_port_def itoa_def
        string_of_nat.simps)
  have "fst (LaunchApp (NewSocketADBClient [] 0) sample_dial ''S1'' ''p'' ''a'') = None"
    using adb_launch_wire_protocol[where dial = sample_dial and cl = "NewSocketADBClient [] 0", OF a]
    by (simp add: sample_conn_def has_prefix_def)
  moreover have "map_option cn_out (snd (LaunchApp (NewSocketADBClient [] 0) sample_dial ''S1'' ''p'' ''a'')) =
     Some ''0011host:transport:S10015shell:am start -n p/a''"
    by (simp add: LaunchApp_def device_command_def connectToDevice_def a sample_conn_def checkOkay_def
        read_full_def frame_def sprintf_04x_def to_hex.simps close_conn_def discard_rest_def)
  ultimately show ?thesis by blast
qed

end
