(* ===== verification/Engine.thy ===== *)
theory Engine
  imports Config_Loader Connect_Server Adb_Client
begin

text \<open>
  The daemon's engine (\<^verbatim>\<open>pkg/daemon/engine.go\<close>): it owns the polling interval and its reset
  channel, the set of connected Android devices, the cached lock, power and display states, and
  the two servers, and it turns every event of a monitor into broadcasts on both of them.

  What happens outside the process (ADB commands, the suspend command, calls of the
  managers) is a list of effects in the state; what the outside answers, the clock, which
  connections can be written to, and the protobuf struct conversion are in a record the
  handlers are given. Each handler is one step; the interleaving inside the two handlers that
  share the reset channel is the subject of \<open>Reset_Channel\<close>.
\<close>

section \<open>Messages, effects and state\<close>

datatype ws_msg =
    TelemetryMsg i64 SystemMetrics
  | NotificationMsg i64 NotificationEvent
  | MediaMsg i64 MediaEvent
  | SessionLockMsg i64 SessionLockEvent
  | PowerProfileMsg i64 PowerProfileState
  | DpmsMsg i64 DpmsEvent
  | RawMsg json
  | CustomMsg string i64 json
  | ReplyMsg reply

datatype effect =
    AdbWake string
  | AdbSleep string
  | AdbLaunch string string string
  | AdbReverse string int int
  | AdbCloseApp string string
  | ExecSuspend
  | SendDesktopNotification NotificationRequest
  | SendPlayerCommand string string margs
  | SwitchPowerProfile string

record 'h world =
  w_now :: i64
  w_up :: "nat \<Rightarrow> ws_msg \<Rightarrow> bool"
  w_newStruct :: "(string \<times> dval) list \<Rightarrow> 'h option"
  w_notify :: "NotificationRequest \<Rightarrow> string + u32"
  w_media :: "string \<Rightarrow> string \<Rightarrow> margs \<Rightarrow> string option"
  w_power :: "string \<Rightarrow> string option"

record 'h Engine =
  en_cfg :: Config
  en_interval :: i64
  en_resetChan :: "i64 chan"
  en_activeSerials :: "string list"
  en_lastLockState :: "SessionLockEvent option"
  en_lastPowerState :: "PowerProfileState option"
  en_lastDpmsState :: "DpmsEvent option"
  en_pool :: "ws_msg pool"
  en_srv :: "'h Server"
  en_effects :: "effect list"

text \<open>\<^verbatim>\<open>time.Duration(ms) * time.Millisecond\<close>: nanoseconds in 64 bits, with wrap-around.\<close>

definition duration_ms :: "int \<Rightarrow> i64" where
  "duration_ms ms = word_of_int ms * 1000000"

definition NewEngine :: "Config \<Rightarrow> 'h Engine" where
  "NewEngine cfg = \<lparr>en_cfg = cfg, en_interval = duration_ms (dc_UpdateIntervalMS (cf_Daemon cfg)),
     en_resetChan = make_chan 5, en_activeSerials = [], en_lastLockState = None, en_lastPowerState = None,
     en_lastDpmsState = None, en_pool = empty_pool, en_srv = NewConnectServer, en_effects = []\<rparr>"

definition add_effect :: "effect \<Rightarrow> 'h Engine \<Rightarrow> 'h Engine" where
  "add_effect x e = e\<lparr>en_effects := en_effects e @ [x]\<rparr>"

definition ws_broadcast :: "'h world \<Rightarrow> ws_msg \<Rightarrow> 'h Engine \<Rightarrow> 'h Engine" where
  "ws_broadcast w msg e = e\<lparr>en_pool := pool_Broadcast (w_up w) msg (en_pool e)\<rparr>"

definition rpc_broadcast :: "('h Server \<Rightarrow> 'h Server go) \<Rightarrow> 'h Engine \<Rightarrow> 'h Engine go" where
  "rpc_broadcast f e = ebind (f (en_srv e)) (\<lambda>srv. Inr (e\<lparr>en_srv := srv\<rparr>))"

section \<open>The polling interval\<close>

text \<open>The nested \<^verbatim>\<open>select\<close> statements, run without interruption. No code closes the reset channel, so
  no branch can panic.\<close>

definition reset_send :: "i64 \<Rightarrow> i64 chan \<Rightarrow> i64 chan" where
  "reset_send d c =
     (if length (ch_buf c) < ch_cap c then c\<lparr>ch_buf := ch_buf c @ [d]\<rparr>
      else let c1 = snd (try_recv c) in
           if length (ch_buf c1) < ch_cap c1 then c1\<lparr>ch_buf := ch_buf c1 @ [d]\<rparr> else c1)"

definition set_interval :: "i64 \<Rightarrow> 'h Engine \<Rightarrow> 'h Engine" where
  "set_interval d e = e\<lparr>en_interval := d, en_resetChan := reset_send d (en_resetChan e)\<rparr>"

definition handleConfigChange :: "int \<Rightarrow> 'h Engine \<Rightarrow> 'h Engine" where
  "handleConfigChange intervalMs e = set_interval (duration_ms intervalMs) e"

definition updateIntervalForLockState :: "bool \<Rightarrow> 'h Engine \<Rightarrow> 'h Engine" where
  "updateIntervalForLockState locked e =
     (let intervalMs = (if locked then dc_LockedUpdateIntervalMS (cf_Daemon (en_cfg e))
                        else dc_UpdateIntervalMS (cf_Daemon (en_cfg e)))
      in set_interval (duration_ms intervalMs) e)"

text \<open>\<^verbatim>\<open>time.NewTicker\<close> and \<^verbatim>\<open>Ticker.Reset\<close> panic on a period that is not positive.\<close>

definition set_ticker :: "i64 \<Rightarrow> i64 go" where
  "set_ticker d = (if sint d \<le> 0 then Inl NonPositiveTicker else Inr d)"

section \<open>Commands of the clients\<close>

definition handleAction :: "string \<Rightarrow> 'h Engine \<Rightarrow> 'h Engine" where
  "handleAction command e = (if command = ''suspend'' then add_effect ExecSuspend e else e)"

definition handleNotificationCommand :: "'h world \<Rightarrow> NotificationRequest \<Rightarrow> 'h Engine \<Rightarrow> (string + u32) \<times> 'h Engine" where
  "handleNotificationCommand w req e = (w_notify w req, add_effect (SendDesktopNotification req) e)"

definition handleMediaCommand :: "'h world \<Rightarrow> string \<Rightarrow> string \<Rightarrow> margs \<Rightarrow> 'h Engine \<Rightarrow> string option \<times> 'h Engine" where
  "handleMediaCommand w playerName command args e =
     (w_media w playerName command args, add_effect (SendPlayerCommand playerName command args) e)"

definition handlePowerProfileCommand :: "'h world \<Rightarrow> string \<Rightarrow> 'h Engine \<Rightarrow> string option \<times> 'h Engine" where
  "handlePowerProfileCommand w profile e = (w_power w profile, add_effect (SwitchPowerProfile profile) e)"

text \<open>The callbacks that the constructor hands to both servers.\<close>

definition engine_callbacks :: "'h world \<Rightarrow> 'h Engine callbacks" where
  "engine_callbacks w = \<lparr>onConfigChange = Some handleConfigChange, onAction = Some handleAction,
     onNotificationCommand = Some (handleNotificationCommand w), onMediaCommand = Some (handleMediaCommand w),
     onPowerProfileCommand = Some (handlePowerProfileCommand w)\<rparr>"

definition engine_pool_access :: "('h Engine, ws_msg) pool_access" where
  "engine_pool_access = \<lparr>get_pool = en_pool, put_pool = (\<lambda>p e. e\<lparr>en_pool := p\<rparr>), reply_msg = ReplyMsg\<rparr>"

definition engine_server_access :: "('h Engine, 'h) server_access" where
  "engine_server_access = \<lparr>get_srv = en_srv, put_srv = (\<lambda>srv e. e\<lparr>en_srv := srv\<rparr>)\<rparr>"

section \<open>State for new clients\<close>

definition write_to :: "'h world \<Rightarrow> nat \<Rightarrow> ws_msg \<Rightarrow> 'h Engine \<Rightarrow> 'h Engine" where
  "write_to w conn msg e = e\<lparr>en_pool := snd (writeJSON (w_up w) conn msg (en_pool e))\<rparr>"

definition handleClientConnect :: "'h world \<Rightarrow> nat \<Rightarrow> 'h Engine \<Rightarrow> 'h Engine" where
  "handleClientConnect w conn e =
     (let e1 = (case en_lastLockState e of Some s \<Rightarrow> write_to w conn (SessionLockMsg (w_now w) s) e | None \<Rightarrow> e);
          e2 = (case en_lastPowerState e1 of Some s \<Rightarrow> write_to w conn (PowerProfileMsg (w_now w) s) e1 | None \<Rightarrow> e1)
      in case en_lastDpmsState e2 of Some s \<Rightarrow> write_to w conn (DpmsMsg (w_now w) s) e2 | None \<Rightarrow> e2)"

definition getInitialSystemStates :: "'h world \<Rightarrow> 'h Engine \<Rightarrow> pbSystemState list" where
  "getInitialSystemStates w e =
     (case en_lastLockState e of Some s \<Rightarrow> [system_lock_msg (w_now w) s] | None \<Rightarrow> []) @
     (case en_lastPowerState e of Some s \<Rightarrow> [power_profile_msg (w_now w) s] | None \<Rightarrow> []) @
     (case en_lastDpmsState e of Some s \<Rightarrow> [dpms_msg (w_now w) s] | None \<Rightarrow> [])"

section \<open>Monitors\<close>

text \<open>The body of each monitor's loop for one event.\<close>

definition on_notification :: "'h world \<Rightarrow> NotificationEvent \<Rightarrow> 'h Engine \<Rightarrow> 'h Engine go" where
  "on_notification w ev e =
     rpc_broadcast (BroadcastNotification (w_newStruct w) ev) (ws_broadcast w (NotificationMsg (w_now w) ev) e)"

definition on_media :: "'h world \<Rightarrow> MediaEvent \<Rightarrow> 'h Engine \<Rightarrow> 'h Engine go" where
  "on_media w ev e = rpc_broadcast (BroadcastMediaState ev) (ws_broadcast w (MediaMsg (w_now w) ev) e)"

definition on_lock :: "'h world \<Rightarrow> SessionLockEvent \<Rightarrow> 'h Engine \<Rightarrow> 'h Engine go" where
  "on_lock w ev e =
     (let e1 = e\<lparr>en_lastLockState := Some ev\<rparr>;
          e2 = ws_broadcast w (SessionLockMsg (w_now w) ev) e1
      in ebind (rpc_broadcast (BroadcastSystemLock (w_now w) ev) e2)
           (\<lambda>e3. Inr (updateIntervalForLockState (Locked ev) e3)))"

definition on_power :: "'h world \<Rightarrow> PowerProfileState \<Rightarrow> 'h Engine \<Rightarrow> 'h Engine go" where
  "on_power w ev e =
     (let e1 = e\<lparr>en_lastPowerState := Some ev\<rparr>
      in rpc_broadcast (BroadcastPowerProfile (w_now w) ev) (ws_broadcast w (PowerProfileMsg (w_now w) ev) e1))"

text \<open>One ADB command per connected device, each in a goroutine of its own: the order of the effects
  among themselves is not determined, the list has one of the possible orders.\<close>

definition adb_screens :: "string \<Rightarrow> 'h Engine \<Rightarrow> 'h Engine" where
  "adb_screens state e =
     (if ac_NoAppControl (cf_ADB (en_cfg e)) then e
      else fold (\<lambda>serial. add_effect (if state = ''off'' then AdbSleep serial else AdbWake serial)) (en_activeSerials e) e)"

definition on_dpms :: "'h world \<Rightarrow> DpmsEvent \<Rightarrow> 'h Engine \<Rightarrow> 'h Engine go" where
  "on_dpms w ev e =
     (let e1 = e\<lparr>en_lastDpmsState := Some ev\<rparr>
      in ebind (rpc_broadcast (BroadcastDpms (w_now w) ev) (ws_broadcast w (DpmsMsg (w_now w) ev) e1))
           (\<lambda>e2. Inr (adb_screens (dp_State ev) e2)))"

text \<open>A monitor: a manager that cannot start ends it with the error, a closed channel or a cancelled
  context ends it without one.\<close>

fun run_monitor :: "('v \<Rightarrow> 's \<Rightarrow> 's go) \<Rightarrow> 'v list \<Rightarrow> 's \<Rightarrow> 's go" where
  "run_monitor body [] s = Inr s"
| "run_monitor body (ev # evs) s = ebind (body ev s) (run_monitor body evs)"

definition monitor :: "('v \<Rightarrow> 's \<Rightarrow> 's go) \<Rightarrow> string + 'v list \<Rightarrow> 's \<Rightarrow> (string option \<times> 's) go" where
  "monitor body started s =
     (case started of
        Inl err \<Rightarrow> Inr (Some err, s)
      | Inr evs \<Rightarrow> ebind (run_monitor body evs s) (\<lambda>s'. Inr (None, s')))"

definition runNotificationMonitor where "runNotificationMonitor w = monitor (on_notification w)"
definition runMPRISMonitor where "runMPRISMonitor w = monitor (on_media w)"
definition runLockMonitor where "runLockMonitor w = monitor (on_lock w)"
definition runPowerProfilesMonitor where "runPowerProfilesMonitor w = monitor (on_power w)"
definition runDpmsMonitor where "runDpmsMonitor w = monitor (on_dpms w)"

section \<open>Telemetry\<close>

text \<open>What the metrics reader returned: each reading with an error that is only logged; on an error the
  returned struct is used all the same.\<close>

record readings =
  rd_CPU :: "CPUMetrics \<times> string option"
  rd_RAM :: "RAMMetrics \<times> string option"
  rd_GPU :: "GPUMetrics \<times> string option"
  rd_Swap :: "SwapMetrics \<times> string option"
  rd_ZRAM :: "ZRAMMetrics \<times> string option"
  rd_Flags :: TelemetryFlags

definition sys_metrics :: "readings \<Rightarrow> SystemMetrics" where
  "sys_metrics r = \<lparr>sm_CPU = fst (rd_CPU r), sm_RAM = fst (rd_RAM r), sm_GPU = fst (rd_GPU r),
     sm_Swap = fst (rd_Swap r), sm_ZRAM = fst (rd_ZRAM r), sm_Flags = rd_Flags r\<rparr>"

text \<open>The readings of a round without errors.\<close>

definition readings_of :: "SystemMetrics \<Rightarrow> readings" where
  "readings_of m = \<lparr>rd_CPU = (sm_CPU m, None), rd_RAM = (sm_RAM m, None), rd_GPU = (sm_GPU m, None),
     rd_Swap = (sm_Swap m, None), rd_ZRAM = (sm_ZRAM m, None), rd_Flags = sm_Flags m\<rparr>"

lemma sys_metrics_readings_of [simp]: "sys_metrics (readings_of m) = m"
  by (simp add: sys_metrics_def readings_of_def)

definition telemetry_start :: "'h Engine \<Rightarrow> i64 go" where
  "telemetry_start e = set_ticker (en_interval e)"

definition telemetry_reset :: "i64 \<Rightarrow> 'h Engine \<Rightarrow> (i64 \<times> 'h Engine) go" where
  "telemetry_reset period e =
     (case try_recv (en_resetChan e) of
        (None, _) \<Rightarrow> Inr (period, e)
      | (Some d, c) \<Rightarrow> ebind (set_ticker d) (\<lambda>p. Inr (p, e\<lparr>en_resetChan := c\<rparr>)))"

definition telemetry_tick :: "'h world \<Rightarrow> readings \<Rightarrow> 'h Engine \<Rightarrow> 'h Engine go" where
  "telemetry_tick w r e =
     (let sysMetrics = sys_metrics r
      in rpc_broadcast (BroadcastTelemetry (w_now w) sysMetrics) (ws_broadcast w (TelemetryMsg (w_now w) sysMetrics) e))"

section \<open>Android devices\<close>

text \<open>\<^verbatim>\<open>bootstrapDevice\<close>: a failing command is logged and the next one is tried.\<close>

definition bootstrapDevice :: "string \<Rightarrow> 'h Engine \<Rightarrow> 'h Engine" where
  "bootstrapDevice serial e =
     (let e1 = (if ac_NoAppControl (cf_ADB (en_cfg e)) then e
                else add_effect (AdbLaunch serial (ac_TargetPackage (cf_ADB (en_cfg e))) (ac_TargetActivity (cf_ADB (en_cfg e))))
                       (add_effect (AdbWake serial) e))
      in add_effect (AdbReverse serial (sc_Port (cf_Server (en_cfg e))) (sc_Port (cf_Server (en_cfg e)))) e1)"

definition on_device :: "DeviceEvent \<Rightarrow> 'h Engine \<Rightarrow> 'h Engine" where
  "on_device ev e =
     (case ev_State ev of
        StateOnline \<Rightarrow> bootstrapDevice (ev_Serial ev) (e\<lparr>en_activeSerials := List.insert (ev_Serial ev) (en_activeSerials e)\<rparr>)
      | StateOffline \<Rightarrow> e\<lparr>en_activeSerials := removeAll (ev_Serial ev) (en_activeSerials e)\<rparr>)"

text \<open>\<^verbatim>\<open>trackADBDevices\<close> on what \<^verbatim>\<open>TrackDevices\<close> gave: an error, or the events until its channel was closed.
  The flag says whether the stream was established.\<close>

definition trackADBDevices :: "adb_error + DeviceEvent list \<Rightarrow> 'h Engine \<Rightarrow> (bool \<times> adb_error option) \<times> 'h Engine" where
  "trackADBDevices r e =
     (case r of
        Inl err \<Rightarrow> ((False, Some err), e)
      | Inr evs \<Rightarrow> ((True, None), fold on_device evs e))"

text \<open>\<^verbatim>\<open>runADBTracker\<close>, over the outcomes of the successive attempts. After each attempt the context may
  have been cancelled, and it may be cancelled while waiting; the result is the list of
  delays that were started, and whether the loop has returned.\<close>

record adb_round =
  ar_result :: "adb_error + DeviceEvent list"
  ar_cancelled :: bool
  ar_cancelledWaiting :: bool

definition adbRetryMin :: int where "adbRetryMin = 1000000000"
definition adbRetryMax :: int where "adbRetryMax = 30000000000"

fun adb_tracker :: "adb_round list \<Rightarrow> int \<Rightarrow> 'h Engine \<Rightarrow> int list \<times> bool \<times> 'h Engine" where
  "adb_tracker [] backoff e = ([], False, e)"
| "adb_tracker (r # rs) backoff e =
     (case trackADBDevices (ar_result r) e of
        ((established, err), e1) \<Rightarrow>
          if ar_cancelled r then ([], True, e1)
          else let e2 = e1\<lparr>en_activeSerials := []\<rparr>;
                   delay = (if established then adbRetryMin else backoff)
               in if ar_cancelledWaiting r then ([delay], True, e2)
                  else case adb_tracker rs (min (delay * 2) adbRetryMax) e2 of
                         (delays, done, e3) \<Rightarrow> (delay # delays, done, e3))"

definition runADBTracker :: "adb_round list \<Rightarrow> 'h Engine \<Rightarrow> int list \<times> bool \<times> 'h Engine" where
  "runADBTracker rs e = adb_tracker rs adbRetryMin e"

definition cleanupDevices :: "'h Engine \<Rightarrow> 'h Engine" where
  "cleanupDevices e =
     (if ac_NoAppControl (cf_ADB (en_cfg e)) then e
      else fold (\<lambda>serial. add_effect (AdbCloseApp serial (ac_TargetPackage (cf_ADB (en_cfg e))))) (en_activeSerials e) e)"

text \<open>The end of \<^verbatim>\<open>Start\<close>: the first error a component reported, or the cancelled context.\<close>

definition engine_stop :: "string option \<Rightarrow> 'h Engine \<Rightarrow> string option \<times> 'h Engine" where
  "engine_stop err e = (err, cleanupDevices e)"

section \<open>Frame rules\<close>

lemma add_effect_sel [simp]:
  "en_cfg (add_effect x e) = en_cfg e" "en_interval (add_effect x e) = en_interval e"
  "en_resetChan (add_effect x e) = en_resetChan e" "en_activeSerials (add_effect x e) = en_activeSerials e"
  "en_lastLockState (add_effect x e) = en_lastLockState e" "en_lastPowerState (add_effect x e) = en_lastPowerState e"
  "en_lastDpmsState (add_effect x e) = en_lastDpmsState e" "en_pool (add_effect x e) = en_pool e"
  "en_srv (add_effect x e) = en_srv e" "en_effects (add_effect x e) = en_effects e @ [x]"
  by (simp_all add: add_effect_def)

lemma fold_add_effect:
  "fold (\<lambda>x. add_effect (f x)) xs e = e\<lparr>en_effects := en_effects e @ map f xs\<rparr>"
  by (induction xs arbitrary: e) (simp_all add: add_effect_def)

lemma ws_broadcast_sel [simp]:
  "en_cfg (ws_broadcast w m e) = en_cfg e" "en_interval (ws_broadcast w m e) = en_interval e"
  "en_resetChan (ws_broadcast w m e) = en_resetChan e" "en_activeSerials (ws_broadcast w m e) = en_activeSerials e"
  "en_lastLockState (ws_broadcast w m e) = en_lastLockState e" "en_lastPowerState (ws_broadcast w m e) = en_lastPowerState e"
  "en_lastDpmsState (ws_broadcast w m e) = en_lastDpmsState e" "en_srv (ws_broadcast w m e) = en_srv e"
  "en_pool (ws_broadcast w m e) = pool_Broadcast (w_up w) m (en_pool e)" "en_effects (ws_broadcast w m e) = en_effects e"
  by (simp_all add: ws_broadcast_def)

lemma set_interval_sel [simp]:
  "en_cfg (set_interval d e) = en_cfg e" "en_interval (set_interval d e) = d"
  "en_resetChan (set_interval d e) = reset_send d (en_resetChan e)" "en_activeSerials (set_interval d e) = en_activeSerials e"
  "en_lastLockState (set_interval d e) = en_lastLockState e" "en_lastPowerState (set_interval d e) = en_lastPowerState e"
  "en_lastDpmsState (set_interval d e) = en_lastDpmsState e" "en_srv (set_interval d e) = en_srv e"
  "en_pool (set_interval d e) = en_pool e" "en_effects (set_interval d e) = en_effects e"
  by (simp_all add: set_interval_def)

lemma write_to_sel [simp]:
  "en_cfg (write_to w c m e) = en_cfg e" "en_interval (write_to w c m e) = en_interval e"
  "en_resetChan (write_to w c m e) = en_resetChan e" "en_activeSerials (write_to w c m e) = en_activeSerials e"
  "en_lastLockState (write_to w c m e) = en_lastLockState e" "en_lastPowerState (write_to w c m e) = en_lastPowerState e"
  "en_lastDpmsState (write_to w c m e) = en_lastDpmsState e" "en_srv (write_to w c m e) = en_srv e"
  "en_effects (write_to w c m e) = en_effects e"
  "en_pool (write_to w c m e) = snd (writeJSON (w_up w) c m (en_pool e))"
  by (simp_all add: write_to_def)

lemma adb_screens_eq:
  "adb_screens state e =
     (if ac_NoAppControl (cf_ADB (en_cfg e)) then e
      else e\<lparr>en_effects := en_effects e @ map (if state = ''off'' then AdbSleep else AdbWake) (en_activeSerials e)\<rparr>)"
  unfolding adb_screens_def fold_add_effect by simp

lemma cleanupDevices_eq:
  "cleanupDevices e =
     (if ac_NoAppControl (cf_ADB (en_cfg e)) then e
      else e\<lparr>en_effects := en_effects e @
         map (\<lambda>s. AdbCloseApp s (ac_TargetPackage (cf_ADB (en_cfg e)))) (en_activeSerials e)\<rparr>)"
  unfolding cleanupDevices_def fold_add_effect by simp

lemma rpc_broadcast_Inr:
  "rpc_broadcast f e = Inr e' \<longleftrightarrow> (\<exists>srv. f (en_srv e) = Inr srv \<and> e' = e\<lparr>en_srv := srv\<rparr>)"
  by (auto simp: rpc_broadcast_def ebind_eq_Inr)

lemma on_device_serials:
  "en_activeSerials (on_device ev e) =
     (case ev_State ev of StateOnline \<Rightarrow> List.insert (ev_Serial ev) (en_activeSerials e)
      | StateOffline \<Rightarrow> removeAll (ev_Serial ev) (en_activeSerials e))"
  by (simp add: on_device_def bootstrapDevice_def Let_def split: DeviceState.split)

section \<open>Device tracking\<close>

definition bootstrap_effects :: "Config \<Rightarrow> string \<Rightarrow> effect list" where
  "bootstrap_effects cfg serial =
     (if ac_NoAppControl (cf_ADB cfg) then []
      else [AdbWake serial, AdbLaunch serial (ac_TargetPackage (cf_ADB cfg)) (ac_TargetActivity (cf_ADB cfg))]) @
     [AdbReverse serial (sc_Port (cf_Server cfg)) (sc_Port (cf_Server cfg))]"

definition online_serials :: "DeviceEvent list \<Rightarrow> string list" where
  "online_serials evs = map ev_Serial (filter (\<lambda>ev. ev_State ev = StateOnline) evs)"

lemma bootstrapDevice_eq:
  "bootstrapDevice s e = e\<lparr>en_effects := en_effects e @ bootstrap_effects (en_cfg e) s\<rparr>"
  by (simp add: bootstrapDevice_def bootstrap_effects_def Let_def add_effect_def)

lemma on_device_effects:
  "en_cfg (on_device ev e) = en_cfg e"
  "en_effects (on_device ev e) = en_effects e @ concat (map (bootstrap_effects (en_cfg e)) (online_serials [ev]))"
  by (simp_all add: on_device_def bootstrapDevice_eq online_serials_def split: DeviceState.split)

lemma fold_on_device_cfg [simp]: "en_cfg (fold on_device evs e) = en_cfg e"
  by (induction evs arbitrary: e) (simp_all add: on_device_effects)

lemma fold_on_device_effects:
  "en_effects (fold on_device evs e) = en_effects e @ concat (map (bootstrap_effects (en_cfg e)) (online_serials evs))"
  by (induction evs arbitrary: e) (auto simp: on_device_effects online_serials_def)

lemma fold_on_device_serials:
  "set (en_activeSerials (fold on_device evs e)) = fold apply_event evs (set (en_activeSerials e))"
proof (induction evs arbitrary: e)
  case (Cons ev evs)
  have "set (en_activeSerials (on_device ev e)) = apply_event ev (set (en_activeSerials e))"
    by (auto simp: on_device_serials apply_event_def split: DeviceState.split)
  with Cons show ?case by simp
qed simp

lemma TrackDevices_handshake:
  assumes "dial (client_addr cl) = Inr c" and "cn_wres c = []" and "cn_dres c = []" and "cn_in c = ''OKAY'' @ rest"
  shows "TrackDevices cl dial =
    Inr (track_loop (c\<lparr>cn_out := cn_out c @ frame ''host:track-devices'', cn_in := rest\<rparr>) [])"
proof -
  have "checkOkay (c\<lparr>cn_out := cn_out c @ frame ''host:track-devices''\<rparr>) =
      (None, c\<lparr>cn_out := cn_out c @ frame ''host:track-devices'', cn_in := rest\<rparr>)"
    using checkOkay_okay[of "c\<lparr>cn_out := cn_out c @ frame ''host:track-devices''\<rparr>" rest] assms(4) by simp
  then show ?thesis using assms(1-3) by (simp add: TrackDevices_def)
qed

text \<open>C2: the engine's set of devices follows the ADB server: once the server accepts the tracking
  request, tracking is established, and after the snapshots it streams the engine knows exactly
  the devices that are online in the last one. Along the way each device is bootstrapped
  once each time it came online, and nothing else is sent to a device.\<close>

theorem engine_serials_follow_adb_server:
  assumes "dial (client_addr cl) = Inr c" and "cn_wres c = []" and "cn_dres c = []"
    and "cn_in c = ''OKAY'' @ concat (map frame payloads)"
    and "payloads \<noteq> []" and "\<forall>p \<in> set payloads. length p < 65536" and "en_activeSerials e = []"
  shows "\<exists>active evs r c' e'. TrackDevices cl dial = Inr (active, evs, r, c') \<and>
    trackADBDevices (Inr evs) e = ((True, None), e') \<and>
    set (en_activeSerials e') = Collect (online_in (payload_entries (last payloads))) \<and>
    genuine {} evs \<and>
    en_effects e' = en_effects e @ concat (map (bootstrap_effects (en_cfg e)) (online_serials evs))"
proof -
  let ?c = "c\<lparr>cn_out := cn_out c @ frame ''host:track-devices'', cn_in := concat (map frame payloads)\<rparr>"
  obtain active evs r c' where tl: "track_loop ?c [] = (active, evs, r, c')" by (cases "track_loop ?c []") auto
  have "TrackDevices cl dial = Inr (active, evs, r, c')"
    using TrackDevices_handshake[where dial = dial, OF assms(1-4)] tl by simp
  moreover have "set active = Collect (online_in (payload_entries (last payloads)))"
    using track_loop_snapshots[OF _ assms(5,6) _ tl] by simp
  moreover have "fold apply_event evs {} = set active" "genuine {} evs"
    using track_loop_events[OF _ tl] by simp_all
  ultimately show ?thesis
    using assms(7) by (simp add: trackADBDevices_def fold_on_device_serials fold_on_device_effects)
qed

definition sample_config :: Config where
  "sample_config = DefaultConfig \<lparr>pe_vars = [], pe_home = None, pe_tmp = ''/tmp''\<rparr>"

theorem engine_serials_follow_adb_server_witness:
  "\<exists>active evs r c' e'. TrackDevices (NewSocketADBClient [] 0)
      (\<lambda>a. Inr (sample_conn (''OKAY'' @ concat (map frame [sample_line ''AB'' ''device'', []])))) = Inr (active, evs, r, c') \<and>
    trackADBDevices (Inr evs) (NewEngine sample_config :: unit Engine) = ((True, None), e') \<and>
    set (en_activeSerials e') = Collect (online_in (payload_entries (last [sample_line ''AB'' ''device'', []]))) \<and>
    genuine {} evs \<and>
    en_effects e' = en_effects (NewEngine sample_config :: unit Engine) @
      concat (map (bootstrap_effects (en_cfg (NewEngine sample_config :: unit Engine))) (online_serials evs))"
  by (rule engine_serials_follow_adb_server[where c = "sample_conn (''OKAY'' @ concat (map frame [sample_line ''AB'' ''device'', []]))"])
     (simp_all add: sample_conn_def sample_line_def NewEngine_def)

section \<open>Reconnecting\<close>

text \<open>The number of attempts since the last established stream (or since the start).\<close>

fun retry_counts :: "bool list \<Rightarrow> nat \<Rightarrow> nat list" where
  "retry_counts [] k = []"
| "retry_counts (est # ests) k = (let k' = (if est then 0 else k) in k' # retry_counts ests (Suc k'))"

definition retry_delay :: "nat \<Rightarrow> int" where
  "retry_delay k = min (1000000000 * 2 ^ k) 30000000000"

definition established :: "adb_round \<Rightarrow> bool" where
  "established r = (case ar_result r of Inl _ \<Rightarrow> False | Inr _ \<Rightarrow> True)"

lemma retry_delay_Suc: "min (retry_delay k * 2) adbRetryMax = retry_delay (Suc k)"
  by (simp add: retry_delay_def adbRetryMax_def)

lemma retry_delay_0: "retry_delay 0 = adbRetryMin"
  by (simp add: retry_delay_def adbRetryMin_def)

lemma fst_trackADBDevices: "fst (fst (trackADBDevices (ar_result r) e)) = established r"
  by (simp add: trackADBDevices_def established_def split: sum.split)

lemma adb_tracker_uncancelled:
  "list_all (\<lambda>r. \<not> ar_cancelled r \<and> \<not> ar_cancelledWaiting r) rs \<Longrightarrow>
   fst (adb_tracker rs (retry_delay k) e) = map retry_delay (retry_counts (map established rs) k)"
proof (induction rs arbitrary: k e)
  case (Cons r rs)
  obtain est err e1 where t: "trackADBDevices (ar_result r) e = ((est, err), e1)"
    by (cases "trackADBDevices (ar_result r) e") auto
  then have est: "established r = est" using fst_trackADBDevices[of r e] by simp
  let ?k = "if est then 0 else k"
  have d: "(if est then adbRetryMin else retry_delay k) = retry_delay ?k" by (simp add: retry_delay_0)
  have "fst (adb_tracker rs (retry_delay (Suc ?k)) (e1\<lparr>en_activeSerials := []\<rparr>)) =
      map retry_delay (retry_counts (map established rs) (Suc ?k))"
    using Cons.IH Cons.prems by simp
  then show ?case
    using Cons.prems by (simp add: t est Let_def d retry_delay_Suc split_beta del: if_split)
qed simp

lemma adb_tracker_serials:
  "list_all (\<lambda>r. \<not> ar_cancelled r \<and> \<not> ar_cancelledWaiting r) rs \<Longrightarrow> rs \<noteq> [] \<Longrightarrow>
   en_activeSerials (snd (snd (adb_tracker rs b e))) = []"
proof (induction rs arbitrary: b e)
  case (Cons r rs)
  then show ?case by (cases "rs = []") (simp_all add: Let_def split_beta)
qed simp

text \<open>C12: while the daemon runs, attempts to reach the ADB server are separated by an exponential
  backoff: the delay after the \<open>k\<close>-th unsuccessful attempt in a row since the last established
  stream is \<open>2\<^sup>k\<close> seconds, at most thirty, and one second after a stream that was established.
  No device is remembered across an interruption: when the tracker waits, the engine
  knows no device.\<close>

theorem adb_retry_backoff:
  assumes "list_all (\<lambda>r. \<not> ar_cancelled r \<and> \<not> ar_cancelledWaiting r) rs" and "rs \<noteq> []"
  shows "fst (runADBTracker rs e) = map retry_delay (retry_counts (map established rs) 0) \<and>
    en_activeSerials (snd (snd (runADBTracker rs e))) = []"
  using adb_tracker_uncancelled[OF assms(1), of 0 e] adb_tracker_serials[OF assms, of adbRetryMin e]
  by (simp add: runADBTracker_def retry_delay_0)

theorem adb_retry_backoff_witness:
  "let failed = \<lparr>ar_result = Inl (DeadlineError EOF), ar_cancelled = False, ar_cancelledWaiting = False\<rparr>;
       streamed = \<lparr>ar_result = Inr [online_ev ''AB''], ar_cancelled = False, ar_cancelledWaiting = False\<rparr>
   in fst (runADBTracker [failed, failed, streamed, failed] (NewEngine sample_config :: unit Engine)) =
        [1000000000, 2000000000, 1000000000, 2000000000]"
  unfolding Let_def
  by (subst adb_retry_backoff[THEN conjunct1]) (simp_all add: established_def retry_delay_def)

end
