(* ===== verification/Reset_Channel.thy ===== *)
theory Reset_Channel
  imports Engine
begin

text \<open>
  The channel through which a changed polling interval reaches the telemetry loop, with every
  memory and channel access of \<^verbatim>\<open>handleConfigChange\<close> and \<^verbatim>\<open>updateIntervalForLockState\<close> as a step of its own:
  both are called from several goroutines (one per WebSocket client and per RPC, and the lock
  monitor), and the telemetry loop receives at any moment. The steps of a caller: store the
  interval under the mutex, try to send, on a full channel try to drain one value, and try to
  send again.
\<close>

section \<open>The steps\<close>

datatype pc = PStore i64 | PSend i64 | PDrain i64 | PResend i64 | PDone

record reset_state =
  rs_interval :: i64
  rs_buf :: "i64 list"
  rs_period :: i64
  rs_callers :: "pc list"

fun pc_step :: "pc \<Rightarrow> i64 \<Rightarrow> i64 list \<Rightarrow> pc \<times> i64 \<times> i64 list" where
  "pc_step (PStore d) iv buf = (PSend d, d, buf)"
| "pc_step (PSend d) iv buf = (if length buf < 5 then (PDone, iv, buf @ [d]) else (PDrain d, iv, buf))"
| "pc_step (PDrain d) iv buf = (PResend d, iv, tl buf)"
| "pc_step (PResend d) iv buf = (PDone, iv, if length buf < 5 then buf @ [d] else buf)"
| "pc_step PDone iv buf = (PDone, iv, buf)"

definition caller_step :: "nat \<Rightarrow> reset_state \<Rightarrow> reset_state" where
  "caller_step i s =
     (case pc_step (rs_callers s ! i) (rs_interval s) (rs_buf s) of
        (p, iv, buf) \<Rightarrow> s\<lparr>rs_interval := iv, rs_buf := buf, rs_callers := (rs_callers s)[i := p]\<rparr>)"

definition reset_init :: "i64 \<Rightarrow> reset_state" where
  "reset_init d = \<lparr>rs_interval = d, rs_buf = [], rs_period = d, rs_callers = []\<rparr>"

text \<open>A run: new calls (whose values are collected), steps of callers, and receives of the telemetry
  loop, in any order.\<close>

inductive reset_run :: "reset_state \<Rightarrow> i64 list \<Rightarrow> reset_state \<Rightarrow> bool" where
  nil: "reset_run s [] s"
| call: "reset_run s ds s' \<Longrightarrow> reset_run s (ds @ [d]) (s'\<lparr>rs_callers := rs_callers s' @ [PStore d]\<rparr>)"
| caller: "reset_run s ds s' \<Longrightarrow> i < length (rs_callers s') \<Longrightarrow> reset_run s ds (caller_step i s')"
| receive: "reset_run s ds s' \<Longrightarrow> rs_buf s' = d # buf \<Longrightarrow> reset_run s ds (s'\<lparr>rs_period := d, rs_buf := buf\<rparr>)"

text \<open>The same as an executable schedule: one action per step, a step of a caller that does not exist and
  a receive from the empty channel changing nothing.\<close>

datatype reset_act = Call i64 | Caller nat | Receive

fun reset_step :: "reset_act \<Rightarrow> reset_state \<Rightarrow> reset_state" where
  "reset_step (Call d) s = s\<lparr>rs_callers := rs_callers s @ [PStore d]\<rparr>"
| "reset_step (Caller i) s = (if i < length (rs_callers s) then caller_step i s else s)"
| "reset_step Receive s = (case rs_buf s of [] \<Rightarrow> s | d # buf \<Rightarrow> s\<lparr>rs_period := d, rs_buf := buf\<rparr>)"

fun reset_exec :: "reset_act list \<Rightarrow> reset_state \<Rightarrow> reset_state" where
  "reset_exec [] s = s"
| "reset_exec (a # as) s = reset_exec as (reset_step a s)"

fun requested :: "reset_act list \<Rightarrow> i64 list" where
  "requested [] = []"
| "requested (Call d # as) = d # requested as"
| "requested (a # as) = requested as"

section \<open>Safety and progress\<close>

fun pc_ok :: "(i64 \<Rightarrow> bool) \<Rightarrow> pc \<Rightarrow> bool" where
  "pc_ok P (PStore d) = P d"
| "pc_ok P (PSend d) = P d"
| "pc_ok P (PDrain d) = P d"
| "pc_ok P (PResend d) = P d"
| "pc_ok P PDone = True"

text \<open>The channel stays within its capacity, and every value anywhere satisfies what the initial
  interval and every requested interval satisfy.\<close>

definition reset_ok :: "(i64 \<Rightarrow> bool) \<Rightarrow> reset_state \<Rightarrow> bool" where
  "reset_ok P s \<longleftrightarrow> length (rs_buf s) \<le> 5 \<and> P (rs_interval s) \<and> P (rs_period s) \<and>
     list_all P (rs_buf s) \<and> list_all (pc_ok P) (rs_callers s)"

lemma list_all_tl: "list_all P xs \<Longrightarrow> list_all P (tl xs)"
  by (cases xs) auto

lemma pc_step_ok:
  assumes "pc_step p iv buf = (p', iv', buf')" and "pc_ok P p" and "P iv" and "list_all P buf" and "length buf \<le> 5"
  shows "pc_ok P p' \<and> P iv' \<and> list_all P buf' \<and> length buf' \<le> 5"
  using assms by (cases p) (auto simp: list_all_tl split: if_splits)

lemma caller_step_ok:
  assumes "reset_ok P s" and "i < length (rs_callers s)"
  shows "reset_ok P (caller_step i s)"
proof -
  obtain p iv buf where st: "pc_step (rs_callers s ! i) (rs_interval s) (rs_buf s) = (p, iv, buf)"
    by (cases "pc_step (rs_callers s ! i) (rs_interval s) (rs_buf s)") auto
  have "pc_ok P (rs_callers s ! i)" using assms by (simp add: reset_ok_def list_all_length)
  from pc_step_ok[OF st this] assms(1) have "pc_ok P p" "P iv" "list_all P buf" "length buf \<le> 5"
    by (auto simp: reset_ok_def)
  with assms st show ?thesis by (auto simp: caller_step_def reset_ok_def list_all_length nth_list_update)
qed

lemma reset_run_ok: "reset_run s ds s' \<Longrightarrow> reset_ok P s \<Longrightarrow> list_all P ds \<Longrightarrow> reset_ok P s'"
  by (induction rule: reset_run.induct) (auto simp: caller_step_ok, auto simp: reset_ok_def)

text \<open>How many steps a caller still has to make.\<close>

fun pc_rank :: "pc \<Rightarrow> nat" where
  "pc_rank (PStore d) = 4"
| "pc_rank (PSend d) = 3"
| "pc_rank (PDrain d) = 2"
| "pc_rank (PResend d) = 1"
| "pc_rank PDone = 0"

lemma pc_step_rank: "p \<noteq> PDone \<Longrightarrow> pc_rank (fst (pc_step p iv buf)) < pc_rank p"
  by (cases p) auto

lemma caller_step_pc:
  assumes "i < length (rs_callers s)"
  shows "rs_callers (caller_step i s) ! i = fst (pc_step (rs_callers s ! i) (rs_interval s) (rs_buf s))"
  using assms by (simp add: caller_step_def split_beta)

lemma caller_step_other: "i \<noteq> j \<Longrightarrow> rs_callers (caller_step i s) ! j = rs_callers s ! j"
  by (simp add: caller_step_def split_beta)

lemma caller_step_length [simp]: "length (rs_callers (caller_step i s)) = length (rs_callers s)"
  by (simp add: caller_step_def split_beta)

lemma pc_rank_0: "pc_rank p = 0 \<longleftrightarrow> p = PDone"
  by (cases p) auto

lemma pc_step_rank_le: "pc_rank (fst (pc_step p iv buf)) \<le> pc_rank p - 1"
  by (cases p) auto

lemma reset_step_run:
  assumes "reset_run s ds s'"
  shows "reset_run s (ds @ requested [a]) (reset_step a s')"
proof (cases a)
  case (Call d) with assms show ?thesis by (simp add: reset_run.call)
next
  case (Caller i) with assms show ?thesis by (simp add: reset_run.caller)
next
  case Receive with assms show ?thesis by (auto intro: reset_run.receive split: list.splits)
qed

lemma requested_Cons: "requested (a # as) = requested [a] @ requested as"
  by (cases a) auto

lemma reset_exec_run: "reset_run s ds s' \<Longrightarrow> reset_run s (ds @ requested as) (reset_exec as s')"
proof (induction as arbitrary: ds s')
  case (Cons a as)
  from Cons.IH[OF reset_step_run[OF Cons.prems, of a]] show ?case
    by (subst requested_Cons) simp
qed simp

text \<open>Calls are only added, and a caller's own steps are the only ones that move it.\<close>

lemma reset_step_length: "i < length (rs_callers s) \<Longrightarrow> i < length (rs_callers (reset_step a s))"
  by (cases a) (auto split: list.splits)

lemma reset_step_other:
  "i < length (rs_callers s) \<Longrightarrow> a \<noteq> Caller i \<Longrightarrow> rs_callers (reset_step a s) ! i = rs_callers s ! i"
  by (cases a) (auto simp: nth_append caller_step_other split: list.splits)

lemma reset_exec_rank:
  "i < length (rs_callers s) \<Longrightarrow>
   pc_rank (rs_callers (reset_exec as s) ! i) \<le> pc_rank (rs_callers s ! i) - count_list as (Caller i)"
proof (induction as arbitrary: s)
  case (Cons a as)
  note ih = Cons.IH[OF reset_step_length[OF Cons.prems, of a]]
  show ?case
  proof (cases "a = Caller i")
    case True
    then have "pc_rank (rs_callers (reset_step a s) ! i) \<le> pc_rank (rs_callers s ! i) - 1"
      using Cons.prems pc_step_rank_le by (simp add: caller_step_pc del: One_nat_def)
    with ih True show ?thesis by simp
  next
    case False
    with ih reset_step_other[OF Cons.prems False] show ?thesis by simp
  qed
qed simp

text \<open>What holds between a caller's steps while no other caller moves: from the store on the interval is
  the new one, after the drain there is room for a resend, and at the end the new value is the
  last in the channel, or already the period of the ticker.\<close>

definition pc_sound :: "i64 \<Rightarrow> nat \<Rightarrow> reset_state \<Rightarrow> bool" where
  "pc_sound d i s \<longleftrightarrow> length (rs_buf s) \<le> 5 \<and>
     (case rs_callers s ! i of
        PStore v \<Rightarrow> v = d
      | PSend v \<Rightarrow> v = d \<and> rs_interval s = d
      | PDrain v \<Rightarrow> v = d \<and> rs_interval s = d
      | PResend v \<Rightarrow> v = d \<and> rs_interval s = d \<and> length (rs_buf s) < 5
      | PDone \<Rightarrow> rs_interval s = d \<and> last (rs_period s # rs_buf s) = d)"

lemma pc_sound_receive: "pc_sound d i s \<Longrightarrow> pc_sound d i (reset_step Receive s)"
  by (cases "rs_callers s ! i") (auto simp: pc_sound_def split: list.splits)

lemma pc_sound_caller:
  assumes "pc_sound d i s" and "i < length (rs_callers s)"
  shows "pc_sound d i (reset_step (Caller i) s)"
  using assms by (cases "rs_callers s ! i") (auto simp: pc_sound_def caller_step_def)

lemma reset_exec_sound:
  "pc_sound d i s \<Longrightarrow> i < length (rs_callers s) \<Longrightarrow> list_all (\<lambda>a. a = Caller i \<or> a = Receive) as \<Longrightarrow>
   pc_sound d i (reset_exec as s)"
proof (induction as arbitrary: s)
  case (Cons a as)
  have "pc_sound d i (reset_step a s)" using Cons.prems pc_sound_receive pc_sound_caller by auto
  from Cons.IH[OF this reset_step_length[OF Cons.prems(2)]] Cons.prems(3) show ?case by simp
qed simp

section \<open>Properties\<close>

text \<open>however callers and the telemetry loop interleave, the channel never holds more than its five
  values, and the ticker's period and the stored interval are always the initial interval or
  one that was requested.\<close>

theorem interval_changes_are_requested:
  assumes "reset_run (reset_init d0) ds s"
  shows "length (rs_buf s) \<le> 5 \<and> rs_period s \<in> set (d0 # ds) \<and> rs_interval s \<in> set (d0 # ds) \<and>
    set (rs_buf s) \<subseteq> set (d0 # ds)"
proof -
  have "reset_ok (\<lambda>d. d \<in> set (d0 # ds)) s"
    by (rule reset_run_ok[OF assms]) (auto simp: reset_ok_def reset_init_def list_all_iff)
  then show ?thesis by (auto simp: reset_ok_def list_all_iff)
qed

theorem interval_changes_are_requested_witness:
  "reset_run (reset_init 5) [7] ((caller_step 0 ((reset_init 5)\<lparr>rs_callers := [PStore 7]\<rparr>))) \<and>
   rs_interval (caller_step 0 ((reset_init 5)\<lparr>rs_callers := [PStore 7]\<rparr>)) \<in> {5, 7}"
proof -
  have run: "reset_run (reset_init 5) [7] (caller_step 0 ((reset_init 5)\<lparr>rs_callers := [PStore 7]\<rparr>))"
    using reset_run.caller[OF reset_run.call[OF reset_run.nil[of "reset_init 5"], of 7], of 0]
    by (simp add: reset_init_def)
  then show ?thesis using interval_changes_are_requested[OF run] by simp
qed

text \<open>C27: a change of the interval finishes and takes effect, without ever waiting. Take any history of
  interval changes, a caller about to change the interval to \<^term>\<open>d\<close>, and any further schedule of new
  calls, steps of callers and receives of the telemetry loop. Once that caller has been given four
  steps of its own in it, it has returned; the channel holds at most its five values; and the stored
  interval, the period of the ticker and every value waiting in the channel are the initial interval
  or one that was requested. If moreover no other caller makes a step in the schedule, so that only
  the telemetry loop interferes, at whatever moments, then the stored interval is \<^term>\<open>d\<close>, and \<^term>\<open>d\<close> is what the
  ticker's period is or becomes when the channel has been drained.\<close>

theorem interval_change_finishes_and_applies:
  assumes "reset_run (reset_init d0) ds s" and "i < length (rs_callers s)" and "rs_callers s ! i = PStore d"
    and "4 \<le> count_list acts (Caller i)"
  shows "rs_callers (reset_exec acts s) ! i = PDone \<and> length (rs_buf (reset_exec acts s)) \<le> 5 \<and>
    {rs_interval (reset_exec acts s), rs_period (reset_exec acts s)} \<union> set (rs_buf (reset_exec acts s))
      \<subseteq> set (d0 # ds @ requested acts) \<and>
    (list_all (\<lambda>a. a = Caller i \<or> a = Receive) acts \<longrightarrow>
       rs_interval (reset_exec acts s) = d \<and> last (rs_period (reset_exec acts s) # rs_buf (reset_exec acts s)) = d)"
proof -
  have ok: "reset_ok (\<lambda>v. v \<in> set (d0 # ds @ requested acts)) (reset_exec acts s)"
    by (rule reset_run_ok[OF reset_exec_run[OF assms(1)]]) (auto simp: reset_ok_def reset_init_def list_all_iff)
  have "pc_rank (rs_callers (reset_exec acts s) ! i) \<le> 4 - count_list acts (Caller i)"
    using reset_exec_rank[OF assms(2), of acts] assms(3) by simp
  then have don: "rs_callers (reset_exec acts s) ! i = PDone" using assms(4) by (simp add: pc_rank_0)
  have "reset_ok (\<lambda>v. True) s"
    by (rule reset_run_ok[OF assms(1)]) (auto simp: reset_ok_def reset_init_def list_all_iff)
  then have "pc_sound d i s" using assms(3) by (simp add: pc_sound_def reset_ok_def)
  have alone: "rs_interval (reset_exec acts s) = d \<and> last (rs_period (reset_exec acts s) # rs_buf (reset_exec acts s)) = d"
    if "list_all (\<lambda>a. a = Caller i \<or> a = Receive) acts"
    using reset_exec_sound[OF \<open>pc_sound d i s\<close> assms(2) that] don by (simp add: pc_sound_def)
  from ok have "{rs_interval (reset_exec acts s), rs_period (reset_exec acts s)} \<union> set (rs_buf (reset_exec acts s))
      \<subseteq> set (d0 # ds @ requested acts)" and "length (rs_buf (reset_exec acts s)) \<le> 5"
    unfolding reset_ok_def list_all_iff by blast+
  with don alone show ?thesis by blast
qed

theorem interval_change_finishes_and_applies_witness:
  "let s = (reset_init 5)\<lparr>rs_callers := [PStore 7]\<rparr>;
       s' = reset_exec [Caller 0, Receive, Caller 0, Receive, Caller 0, Caller 0] s
   in rs_callers s' ! 0 = PDone \<and> rs_interval s' = 7 \<and> last (rs_period s' # rs_buf s') = 7"
proof -
  have run: "reset_run (reset_init 5) [7] ((reset_init 5)\<lparr>rs_callers := [PStore 7]\<rparr>)"
    using reset_run.call[OF reset_run.nil[of "reset_init 5"], of 7] by (simp add: reset_init_def)
  have "rs_callers ((reset_init 5)\<lparr>rs_callers := [PStore 7]\<rparr>) ! 0 = PStore 7" and
    "4 \<le> count_list [Caller 0, Receive, Caller 0, Receive, Caller 0, Caller 0] (Caller 0)" and
    "list_all (\<lambda>a. a = Caller 0 \<or> a = Receive) [Caller 0, Receive, Caller 0, Receive, Caller 0, Caller 0]"
    by simp_all
  with interval_change_finishes_and_applies[OF run, of 0 7 "[Caller 0, Receive, Caller 0, Receive, Caller 0, Caller 0]"]
  show ?thesis unfolding Let_def by (simp del: reset_exec.simps last.simps)
qed

text \<open>a caller that is not interrupted does exactly what the engine's handlers do in one step: four
  of its steps store the interval and leave the channel as \<^const>\<open>reset_send\<close> does.\<close>

theorem uninterrupted_caller_refines_reset_send:
  assumes "i < length (rs_callers s)" and "rs_callers s ! i = PStore d"
  shows "(caller_step i ^^ 4) s =
    s\<lparr>rs_interval := d, rs_buf := ch_buf (reset_send d \<lparr>ch_cap = 5, ch_buf = rs_buf s, ch_closed = False\<rparr>),
      rs_callers := (rs_callers s)[i := PDone]\<rparr>"
proof -
  have four: "(caller_step i ^^ 4) s = caller_step i (caller_step i (caller_step i (caller_step i s)))"
    by (simp add: numeral_eq_Suc)
  have "(caller_step i ^^ 4) s = s\<lparr>rs_interval := d,
      rs_buf := (if length (rs_buf s) < 5 then rs_buf s @ [d]
                 else if length (tl (rs_buf s)) < 5 then tl (rs_buf s) @ [d] else tl (rs_buf s)),
      rs_callers := (rs_callers s)[i := PDone]\<rparr>"
    unfolding four using assms by (cases "length (rs_buf s) < 5") (simp_all add: caller_step_def)
  also have "(if length (rs_buf s) < 5 then rs_buf s @ [d]
       else if length (tl (rs_buf s)) < 5 then tl (rs_buf s) @ [d] else tl (rs_buf s)) =
      ch_buf (reset_send d \<lparr>ch_cap = 5, ch_buf = rs_buf s, ch_closed = False\<rparr>)"
    by (cases "rs_buf s") (simp_all add: reset_send_def try_recv_def)
  finally show ?thesis .
qed

theorem uninterrupted_caller_refines_reset_send_witness:
  "rs_buf ((caller_step 0 ^^ 4) \<lparr>rs_interval = 1, rs_buf = [1, 2, 3, 4, 5], rs_period = 1, rs_callers = [PStore 9]\<rparr>) =
     [2, 3, 4, 5, 9]"
  by (subst uninterrupted_caller_refines_reset_send[where d = 9]) (simp_all add: reset_send_def try_recv_def)

text \<open>two overlapping calls can leave the ticker with the older request for good: for any two
  requests there is a run in which both calls have finished and the channel is drained, the
  stored interval is the second request, and the ticker still has the first. The drain in the
  handlers does not prevent it; it does not even come into play.\<close>

theorem overlapping_calls_can_lose_the_newest:
  "\<exists>s. reset_run (reset_init d0) [a, b] s \<and> rs_callers s = [PDone, PDone] \<and> rs_buf s = [] \<and>
     rs_interval s = b \<and> rs_period s = a"
proof -
  have r0: "reset_run (reset_init d0) [a, b] \<lparr>rs_interval = d0, rs_buf = [], rs_period = d0, rs_callers = [PStore a, PStore b]\<rparr>"
    using reset_run.call[OF reset_run.call[OF reset_run.nil[of "reset_init d0"], of a], of b] by (simp add: reset_init_def)
  note r1 = reset_run.caller[OF r0, of 0, simplified caller_step_def, simplified]
  note r2 = reset_run.caller[OF r1, of 1, simplified caller_step_def, simplified]
  note r3 = reset_run.caller[OF r2, of 1, simplified caller_step_def, simplified]
  note r4 = reset_run.caller[OF r3, of 0, simplified caller_step_def, simplified]
  note r5 = reset_run.receive[OF r4, of b "[a]", simplified]
  note r6 = reset_run.receive[OF r5, of a "[]", simplified]
  show ?thesis by (rule exI, rule conjI, rule r6) simp
qed

end
