(* ===== verification/Command_Listener.thy ===== *)
theory Command_Listener
  imports Engine
begin

text \<open>
  The local command socket (\<^verbatim>\<open>pkg/daemon/command_listener.go\<close>): deciding whether the socket may be
  taken over, decoding a trigger request, updating the cached states and the Android screens,
  broadcasting on both servers, and the response. The request arrives as a JSON value, or
  as \<^term>\<open>None\<close> when its bytes are not JSON; the text of a decoding error comes from the library.
\<close>

section \<open>Decoding\<close>

definition decode_SessionLockEvent :: "json \<Rightarrow> SessionLockEvent \<Rightarrow> SessionLockEvent option" where
  "decode_SessionLockEvent = decode_record [(''locked'', fld decode_bool Locked (\<lambda>x s. s\<lparr>Locked := x\<rparr>))]"

definition decode_DpmsEvent :: "json \<Rightarrow> DpmsEvent \<Rightarrow> DpmsEvent option" where
  "decode_DpmsEvent = decode_record [(''state'', fld decode_string dp_State (\<lambda>x s. s\<lparr>dp_State := x\<rparr>))]"

definition decode_PowerProfile :: "json \<Rightarrow> PowerProfile \<Rightarrow> PowerProfile option" where
  "decode_PowerProfile = decode_record [(''profile'', fld decode_string Profile (\<lambda>x s. s\<lparr>Profile := x\<rparr>))]"

definition decode_PowerProfileState :: "json \<Rightarrow> PowerProfileState \<Rightarrow> PowerProfileState option" where
  "decode_PowerProfileState = decode_record
     [(''active_profile'', fld decode_string ActiveProfile (\<lambda>x s. s\<lparr>ActiveProfile := x\<rparr>)),
      (''available_profiles'', fld (fresh (decode_slice (\<lambda>j. decode_PowerProfile j \<lparr>Profile = []\<rparr>))) AvailableProfiles
         (\<lambda>x s. s\<lparr>AvailableProfiles := x\<rparr>))]"

text \<open>A value of a hint map, which holds \<^verbatim>\<open>interface{}\<close>.\<close>

fun dval_of_json :: "json \<Rightarrow> dval" where
  "dval_of_json JNull = DOther ''nil''"
| "dval_of_json (JBool b) = DBool b"
| "dval_of_json (JInt n) = DF64 (rnd (of_int n))"
| "dval_of_json (JDec x) = DF64 x"
| "dval_of_json (JStr s) = DStr s"
| "dval_of_json (JArr js) = DArr (map dval_of_json js)"
| "dval_of_json (JObj kvs) = DMap (fold (\<lambda>kv m. AList.update (fst kv) (dval_of_json (snd kv)) m) kvs [])"

definition decode_event_hints :: "json \<Rightarrow> (string \<times> dval) list option \<Rightarrow> (string \<times> dval) list option option" where
  "decode_event_hints j old =
     (case j of JNull \<Rightarrow> Some None
      | JObj kvs \<Rightarrow>
          if any_ok j
          then Some (Some (fold (\<lambda>kv m. AList.update (fst kv) (dval_of_json (snd kv)) m) kvs (case old of None \<Rightarrow> [] | Some m \<Rightarrow> m)))
          else None
      | _ \<Rightarrow> None)"

definition zeroNotificationEvent :: NotificationEvent where
  "zeroNotificationEvent = \<lparr>ne_AppName = [], ne_ReplacesID = 0, ne_AppIcon = [], ne_AppIconBase64 = [], ne_Summary = [],
     ne_Body = [], ne_Actions = [], ne_Hints = None, ne_ExpireTimeout = 0\<rparr>"

definition decode_NotificationEvent :: "json \<Rightarrow> NotificationEvent \<Rightarrow> NotificationEvent option" where
  "decode_NotificationEvent = decode_record
     [(''app_name'', fld decode_string ne_AppName (\<lambda>x s. s\<lparr>ne_AppName := x\<rparr>)),
      (''replaces_id'', fld decode_u32 ne_ReplacesID (\<lambda>x s. s\<lparr>ne_ReplacesID := x\<rparr>)),
      (''app_icon'', fld decode_string ne_AppIcon (\<lambda>x s. s\<lparr>ne_AppIcon := x\<rparr>)),
      (''app_icon_base64'', fld decode_string ne_AppIconBase64 (\<lambda>x s. s\<lparr>ne_AppIconBase64 := x\<rparr>)),
      (''summary'', fld decode_string ne_Summary (\<lambda>x s. s\<lparr>ne_Summary := x\<rparr>)),
      (''body'', fld decode_string ne_Body (\<lambda>x s. s\<lparr>ne_Body := x\<rparr>)),
      (''actions'', fld (fresh decode_strings) ne_Actions (\<lambda>x s. s\<lparr>ne_Actions := x\<rparr>)),
      (''hints'', fld decode_event_hints ne_Hints (\<lambda>x s. s\<lparr>ne_Hints := x\<rparr>)),
      (''expire_timeout'', fld decode_i32 ne_ExpireTimeout (\<lambda>x s. s\<lparr>ne_ExpireTimeout := x\<rparr>))]"

definition decode_PlayerMetadata :: "json \<Rightarrow> PlayerMetadata \<Rightarrow> PlayerMetadata option" where
  "decode_PlayerMetadata = decode_record
     [(''track_id'', fld decode_string pm_TrackID (\<lambda>x s. s\<lparr>pm_TrackID := x\<rparr>)),
      (''title'', fld decode_string pm_Title (\<lambda>x s. s\<lparr>pm_Title := x\<rparr>)),
      (''artist'', fld (fresh decode_strings) pm_Artist (\<lambda>x s. s\<lparr>pm_Artist := x\<rparr>)),
      (''album'', fld decode_string pm_Album (\<lambda>x s. s\<lparr>pm_Album := x\<rparr>)),
      (''art_url'', fld decode_string pm_ArtURL (\<lambda>x s. s\<lparr>pm_ArtURL := x\<rparr>)),
      (''length_microseconds'', fld decode_i64 pm_LengthMicro (\<lambda>x s. s\<lparr>pm_LengthMicro := x\<rparr>))]"

definition zeroPlayer :: PlayerState where
  "zeroPlayer = \<lparr>ps_PlayerName = [], ps_Identity = [], ps_DesktopEntry = [], ps_PlaybackStatus = [], ps_Volume = Fin 0,
     ps_PositionMicro = 0, ps_Metadata = zeroMetadata\<rparr>"

definition decode_PlayerState :: "json \<Rightarrow> PlayerState \<Rightarrow> PlayerState option" where
  "decode_PlayerState = decode_record
     [(''player_name'', fld decode_string ps_PlayerName (\<lambda>x s. s\<lparr>ps_PlayerName := x\<rparr>)),
      (''identity'', fld decode_string ps_Identity (\<lambda>x s. s\<lparr>ps_Identity := x\<rparr>)),
      (''desktop_entry'', fld decode_string ps_DesktopEntry (\<lambda>x s. s\<lparr>ps_DesktopEntry := x\<rparr>)),
      (''playback_status'', fld decode_string ps_PlaybackStatus (\<lambda>x s. s\<lparr>ps_PlaybackStatus := x\<rparr>)),
      (''volume'', fld decode_f64 ps_Volume (\<lambda>x s. s\<lparr>ps_Volume := x\<rparr>)),
      (''position_microseconds'', fld decode_i64 ps_PositionMicro (\<lambda>x s. s\<lparr>ps_PositionMicro := x\<rparr>)),
      (''metadata'', fld decode_PlayerMetadata ps_Metadata (\<lambda>x s. s\<lparr>ps_Metadata := x\<rparr>))]"

definition decode_MediaEvent :: "json \<Rightarrow> MediaEvent \<Rightarrow> MediaEvent option" where
  "decode_MediaEvent = decode_record
     [(''active_players'', fld (fresh (decode_slice (\<lambda>j. decode_PlayerState j zeroPlayer))) ActivePlayers (\<lambda>x s. s\<lparr>ActivePlayers := x\<rparr>))]"

definition decode_CPUMetrics :: "json \<Rightarrow> CPUMetrics \<Rightarrow> CPUMetrics option" where
  "decode_CPUMetrics = decode_record
     [(''usage_percent'', fld decode_f64 cpu_UsagePercent (\<lambda>x s. s\<lparr>cpu_UsagePercent := x\<rparr>)),
      (''cores_usage_percent'', fld (fresh (decode_slice (\<lambda>j. decode_f64 j (Fin 0)))) cpu_CoresUsagePercent (\<lambda>x s. s\<lparr>cpu_CoresUsagePercent := x\<rparr>)),
      (''temp_celsius'', fld decode_f64 cpu_TempCelsius (\<lambda>x s. s\<lparr>cpu_TempCelsius := x\<rparr>)),
      (''freq_mhz'', fld decode_f64 cpu_FreqMHz (\<lambda>x s. s\<lparr>cpu_FreqMHz := x\<rparr>)),
      (''power_watts'', fld decode_f64 cpu_PowerWatts (\<lambda>x s. s\<lparr>cpu_PowerWatts := x\<rparr>))]"

definition decode_RAMMetrics :: "json \<Rightarrow> RAMMetrics \<Rightarrow> RAMMetrics option" where
  "decode_RAMMetrics = decode_record
     [(''used_bytes'', fld decode_u64 ram_UsedBytes (\<lambda>x s. s\<lparr>ram_UsedBytes := x\<rparr>)),
      (''total_bytes'', fld decode_u64 ram_TotalBytes (\<lambda>x s. s\<lparr>ram_TotalBytes := x\<rparr>)),
      (''percentage'', fld decode_f64 ram_Percentage (\<lambda>x s. s\<lparr>ram_Percentage := x\<rparr>))]"

definition decode_SwapMetrics :: "json \<Rightarrow> SwapMetrics \<Rightarrow> SwapMetrics option" where
  "decode_SwapMetrics = decode_record
     [(''used_bytes'', fld decode_u64 swap_UsedBytes (\<lambda>x s. s\<lparr>swap_UsedBytes := x\<rparr>)),
      (''total_bytes'', fld decode_u64 swap_TotalBytes (\<lambda>x s. s\<lparr>swap_TotalBytes := x\<rparr>)),
      (''percentage'', fld decode_f64 swap_Percentage (\<lambda>x s. s\<lparr>swap_Percentage := x\<rparr>))]"

definition decode_ZRAMMetrics :: "json \<Rightarrow> ZRAMMetrics \<Rightarrow> ZRAMMetrics option" where
  "decode_ZRAMMetrics = decode_record
     [(''orig_data_size_bytes'', fld decode_u64 zram_OrigDataSizeBytes (\<lambda>x s. s\<lparr>zram_OrigDataSizeBytes := x\<rparr>)),
      (''compr_data_size_bytes'', fld decode_u64 zram_ComprDataSizeBytes (\<lambda>x s. s\<lparr>zram_ComprDataSizeBytes := x\<rparr>)),
      (''mem_used_total_bytes'', fld decode_u64 zram_MemUsedTotalBytes (\<lambda>x s. s\<lparr>zram_MemUsedTotalBytes := x\<rparr>)),
      (''total_bytes'', fld decode_u64 zram_TotalBytes (\<lambda>x s. s\<lparr>zram_TotalBytes := x\<rparr>)),
      (''compression_ratio'', fld decode_f64 zram_CompressionRatio (\<lambda>x s. s\<lparr>zram_CompressionRatio := x\<rparr>))]"

definition decode_GPUMetrics :: "json \<Rightarrow> GPUMetrics \<Rightarrow> GPUMetrics option" where
  "decode_GPUMetrics = decode_record
     [(''usage_percent'', fld decode_f64 gpu_UsagePercent (\<lambda>x s. s\<lparr>gpu_UsagePercent := x\<rparr>)),
      (''temp_celsius'', fld decode_f64 gpu_TempCelsius (\<lambda>x s. s\<lparr>gpu_TempCelsius := x\<rparr>)),
      (''vram_used_bytes'', fld decode_u64 gpu_VramUsedBytes (\<lambda>x s. s\<lparr>gpu_VramUsedBytes := x\<rparr>)),
      (''vram_total_bytes'', fld decode_u64 gpu_VramTotalBytes (\<lambda>x s. s\<lparr>gpu_VramTotalBytes := x\<rparr>)),
      (''freq_mhz'', fld decode_f64 gpu_FreqMHz (\<lambda>x s. s\<lparr>gpu_FreqMHz := x\<rparr>)),
      (''power_watts'', fld decode_f64 gpu_PowerWatts (\<lambda>x s. s\<lparr>gpu_PowerWatts := x\<rparr>)),
      (''vram_temp_celsius'', fld decode_f64 gpu_VramTempCelsius (\<lambda>x s. s\<lparr>gpu_VramTempCelsius := x\<rparr>)),
      (''vram_freq_mhz'', fld decode_f64 gpu_VramFreqMHz (\<lambda>x s. s\<lparr>gpu_VramFreqMHz := x\<rparr>))]"

definition decode_TelemetryFlags :: "json \<Rightarrow> TelemetryFlags \<Rightarrow> TelemetryFlags option" where
  "decode_TelemetryFlags = decode_record
     [(''cpu_usage_supported'', fld decode_bool fl_CPUUsageSupported (\<lambda>x s. s\<lparr>fl_CPUUsageSupported := x\<rparr>)),
      (''cpu_cores_usage_supported'', fld decode_bool fl_CPUCoresUsageSupported (\<lambda>x s. s\<lparr>fl_CPUCoresUsageSupported := x\<rparr>)),
      (''cpu_temp_supported'', fld decode_bool fl_CPUTempSupported (\<lambda>x s. s\<lparr>fl_CPUTempSupported := x\<rparr>)),
      (''cpu_freq_supported'', fld decode_bool fl_CPUFreqSupported (\<lambda>x s. s\<lparr>fl_CPUFreqSupported := x\<rparr>)),
      (''cpu_power_supported'', fld decode_bool fl_CPUPowerSupported (\<lambda>x s. s\<lparr>fl_CPUPowerSupported := x\<rparr>)),
      (''ram_supported'', fld decode_bool fl_RAMSupported (\<lambda>x s. s\<lparr>fl_RAMSupported := x\<rparr>)),
      (''swap_supported'', fld decode_bool fl_SwapSupported (\<lambda>x s. s\<lparr>fl_SwapSupported := x\<rparr>)),
      (''zram_supported'', fld decode_bool fl_ZRAMSupported (\<lambda>x s. s\<lparr>fl_ZRAMSupported := x\<rparr>)),
      (''gpu_supported'', fld decode_bool fl_GPUSupported (\<lambda>x s. s\<lparr>fl_GPUSupported := x\<rparr>)),
      (''gpu_usage_supported'', fld decode_bool fl_GPUUsageSupported (\<lambda>x s. s\<lparr>fl_GPUUsageSupported := x\<rparr>)),
      (''gpu_temp_supported'', fld decode_bool fl_GPUTempSupported (\<lambda>x s. s\<lparr>fl_GPUTempSupported := x\<rparr>)),
      (''gpu_vram_supported'', fld decode_bool fl_GPUVramSupported (\<lambda>x s. s\<lparr>fl_GPUVramSupported := x\<rparr>)),
      (''gpu_freq_supported'', fld decode_bool fl_GPUFreqSupported (\<lambda>x s. s\<lparr>fl_GPUFreqSupported := x\<rparr>)),
      (''gpu_power_supported'', fld decode_bool fl_GPUPowerSupported (\<lambda>x s. s\<lparr>fl_GPUPowerSupported := x\<rparr>)),
      (''gpu_vram_temp_supported'', fld decode_bool fl_GPUVramTempSupported (\<lambda>x s. s\<lparr>fl_GPUVramTempSupported := x\<rparr>)),
      (''gpu_vram_freq_supported'', fld decode_bool fl_GPUVramFreqSupported (\<lambda>x s. s\<lparr>fl_GPUVramFreqSupported := x\<rparr>))]"

definition decode_SystemMetrics :: "json \<Rightarrow> SystemMetrics \<Rightarrow> SystemMetrics option" where
  "decode_SystemMetrics = decode_record
     [(''cpu'', fld decode_CPUMetrics sm_CPU (\<lambda>x s. s\<lparr>sm_CPU := x\<rparr>)),
      (''ram'', fld decode_RAMMetrics sm_RAM (\<lambda>x s. s\<lparr>sm_RAM := x\<rparr>)),
      (''gpu'', fld decode_GPUMetrics sm_GPU (\<lambda>x s. s\<lparr>sm_GPU := x\<rparr>)),
      (''swap'', fld decode_SwapMetrics sm_Swap (\<lambda>x s. s\<lparr>sm_Swap := x\<rparr>)),
      (''zram'', fld decode_ZRAMMetrics sm_ZRAM (\<lambda>x s. s\<lparr>sm_ZRAM := x\<rparr>)),
      (''flags'', fld decode_TelemetryFlags sm_Flags (\<lambda>x s. s\<lparr>sm_Flags := x\<rparr>))]"

section \<open>Requests\<close>

record UDSRequest =
  uq_Type :: string
  uq_Data :: "json option"

record UDSResponse =
  ur_Success :: bool
  ur_ClientCount :: nat
  ur_Error :: string

definition decode_UDSRequest :: "json \<Rightarrow> UDSRequest \<Rightarrow> UDSRequest option" where
  "decode_UDSRequest = decode_record
     [(''type'', fld decode_string uq_Type (\<lambda>x s. s\<lparr>uq_Type := x\<rparr>)),
      (''data'', fld (\<lambda>j old. Some (Some j)) uq_Data (\<lambda>x s. s\<lparr>uq_Data := x\<rparr>))]"

datatype uds_event =
    ULock SessionLockEvent
  | UDpms DpmsEvent
  | UNotification NotificationEvent
  | UMedia MediaEvent
  | UTelemetry SystemMetrics
  | UPower PowerProfileState
  | URaw json
  | UCustom string json

text \<open>The first \<^verbatim>\<open>switch\<close>: the data must be present and of the shape the type asks for.\<close>

definition uds_decode :: "string \<Rightarrow> json \<Rightarrow> uds_event option" where
  "uds_decode ty j =
     (if ty = ''session_lock'' then map_option ULock (decode_SessionLockEvent j \<lparr>Locked = False\<rparr>)
      else if ty = ''dpms'' then map_option UDpms (decode_DpmsEvent j \<lparr>dp_State = []\<rparr>)
      else if ty = ''notification_event'' then map_option UNotification (decode_NotificationEvent j zeroNotificationEvent)
      else if ty = ''media_state'' then map_option UMedia (decode_MediaEvent j \<lparr>ActivePlayers = []\<rparr>)
      else if ty = ''telemetry'' then map_option UTelemetry (decode_SystemMetrics j zeroSystemMetrics)
      else if ty = ''power_profile_state'' then
        map_option UPower (decode_PowerProfileState j \<lparr>ActiveProfile = [], AvailableProfiles = []\<rparr>)
      else if ty = ''raw'' then map_option URaw (decode_any j)
      else map_option (UCustom ty) (decode_any j))"

definition uds_error :: "string \<Rightarrow> string" where
  "uds_error ty =
     (if ty \<in> {''session_lock'', ''dpms'', ''notification_event'', ''media_state'', ''telemetry'', ''power_profile_state'', ''raw''}
      then ''failed to decode '' @ ty @ '' data: ''
      else ''failed to decode raw '' @ ty @ '' data: '')"

text \<open>What a decoded event changes before it is broadcast.\<close>

definition uds_cache :: "uds_event \<Rightarrow> 'h Engine \<Rightarrow> 'h Engine" where
  "uds_cache u e =
     (case u of
        ULock ev \<Rightarrow> e\<lparr>en_lastLockState := Some ev\<rparr>
      | UDpms ev \<Rightarrow> adb_screens (dp_State ev) (e\<lparr>en_lastDpmsState := Some ev\<rparr>)
      | UPower ev \<Rightarrow> e\<lparr>en_lastPowerState := Some ev\<rparr>
      | _ \<Rightarrow> e)"

definition uds_message :: "i64 \<Rightarrow> uds_event \<Rightarrow> ws_msg" where
  "uds_message now u =
     (case u of
        ULock ev \<Rightarrow> SessionLockMsg now ev
      | UDpms ev \<Rightarrow> DpmsMsg now ev
      | UNotification ev \<Rightarrow> NotificationMsg now ev
      | UMedia ev \<Rightarrow> MediaMsg now ev
      | UTelemetry ev \<Rightarrow> TelemetryMsg now ev
      | UPower ev \<Rightarrow> PowerProfileMsg now ev
      | URaw j \<Rightarrow> RawMsg j
      | UCustom ty j \<Rightarrow> CustomMsg ty now j)"

text \<open>The second \<^verbatim>\<open>switch\<close>: it decodes the same data again, so with the same result.\<close>

definition uds_rpc :: "'h world \<Rightarrow> uds_event \<Rightarrow> 'h Engine \<Rightarrow> 'h Engine go" where
  "uds_rpc w u e =
     (case u of
        ULock ev \<Rightarrow> rpc_broadcast (BroadcastSystemLock (w_now w) ev) e
      | UDpms ev \<Rightarrow> rpc_broadcast (BroadcastDpms (w_now w) ev) e
      | UNotification ev \<Rightarrow> rpc_broadcast (BroadcastNotification (w_newStruct w) ev) e
      | UMedia ev \<Rightarrow> rpc_broadcast (BroadcastMediaState ev) e
      | UTelemetry ev \<Rightarrow> rpc_broadcast (BroadcastTelemetry (w_now w) ev) e
      | UPower ev \<Rightarrow> rpc_broadcast (BroadcastPowerProfile (w_now w) ev) e
      | _ \<Rightarrow> Inr e)"

definition uds_failure :: "string \<Rightarrow> UDSResponse" where
  "uds_failure msg = \<lparr>ur_Success = False, ur_ClientCount = 0, ur_Error = msg\<rparr>"

definition handleCommandConnection ::
  "'h world \<Rightarrow> string \<Rightarrow> json option \<Rightarrow> 'h Engine \<Rightarrow> (UDSResponse \<times> 'h Engine) go" where
  "handleCommandConnection w jsonErr parsed e =
     (case Option.bind parsed (\<lambda>j. decode_UDSRequest j \<lparr>uq_Type = [], uq_Data = None\<rparr>) of
        None \<Rightarrow> Inr (uds_failure (''failed to decode request JSON: '' @ jsonErr), e)
      | Some req \<Rightarrow>
          (case Option.bind (uq_Data req) (uds_decode (uq_Type req)) of
             None \<Rightarrow> Inr (uds_failure (uds_error (uq_Type req) @ jsonErr), e)
           | Some u \<Rightarrow>
               ebind (uds_rpc w u (ws_broadcast w (uds_message (w_now w) u) (uds_cache u e)))
                 (\<lambda>e'. Inr (\<lparr>ur_Success = True, ur_ClientCount = pool_Size (en_pool e'), ur_Error = []\<rparr>, e'))))"

section \<open>The accept loop\<close>

text \<open>What \<^verbatim>\<open>Accept\<close> returns: a connection with the request on it (and the text of the error a malformed one gives),
  an error after which the loop goes on, or the error of a closed listener or cancelled context, which ends it. Each
  connection is handled by a goroutine of its own; here in the order of their arrival. The result
  is the responses and whether the loop has returned.\<close>

datatype accept = Connection "json option" string | AcceptError | ListenerClosed

fun command_loop :: "'h world \<Rightarrow> accept list \<Rightarrow> 'h Engine \<Rightarrow> (UDSResponse list \<times> bool \<times> 'h Engine) go" where
  "command_loop w [] e = Inr ([], False, e)"
| "command_loop w (ListenerClosed # as) e = Inr ([], True, e)"
| "command_loop w (AcceptError # as) e = command_loop w as e"
| "command_loop w (Connection parsed jsonErr # as) e =
     ebind (handleCommandConnection w jsonErr parsed e) (\<lambda>(r, e1).
     ebind (command_loop w as e1) (\<lambda>(rs, done, e2). Inr (r # rs, done, e2)))"

section \<open>Taking over the socket\<close>

text \<open>\<^verbatim>\<open>runCommandSocket\<close> up to its accept loop. Whether the file exists, whether someone answers on it,
  and how removing it and listening turn out is given; the outcome says whether the file was
  removed.\<close>

datatype socket_start = SocketDisabled | SocketFailed bool string | Listening bool

definition runCommandSocket :: "string \<Rightarrow> bool \<Rightarrow> bool \<Rightarrow> string option \<Rightarrow> string option \<Rightarrow> socket_start" where
  "runCommandSocket socketPath present answered removeErr listenErr =
     (if socketPath = [] then SocketDisabled
      else if present \<and> answered
        then SocketFailed False (''socket file '' @ socketPath @ '' is already in use by a running daemon instance'')
      else case (if present then removeErr else None) of
             Some err \<Rightarrow> SocketFailed False (''failed to remove stale socket file '' @ socketPath @ '': '' @ err)
           | None \<Rightarrow>
               (case listenErr of
                  Some err \<Rightarrow> SocketFailed present (''failed to listen on Unix domain socket '' @ socketPath @ '': '' @ err)
                | None \<Rightarrow> Listening present))"

definition removed_file :: "socket_start \<Rightarrow> bool" where
  "removed_file r = (case r of SocketDisabled \<Rightarrow> False | SocketFailed removed _ \<Rightarrow> removed | Listening removed \<Rightarrow> removed)"

text \<open>a daemon takes a socket over only from a dead one: the file is removed exactly if it is there, nobody
  answers on it and the removal succeeds, and the daemon listens exactly if in addition to that (or
  to the file's absence) the path is configured and listening succeeds. A socket on
  which a running daemon answers is neither removed nor listened on.\<close>

theorem socket_takeover_is_safe:
  "let r = runCommandSocket path present answered removeErr listenErr in
   (removed_file r \<longleftrightarrow> path \<noteq> [] \<and> present \<and> \<not> answered \<and> removeErr = None) \<and>
   ((\<exists>removed. r = Listening removed) \<longleftrightarrow>
      path \<noteq> [] \<and> (if present then \<not> answered \<and> removeErr = None else True) \<and> listenErr = None)"
  by (auto simp: runCommandSocket_def removed_file_def Let_def split: option.split)

end
