(* ===== verification/Engine_System.thy ===== *)
theory Engine_System
  imports Command_Listener
begin

text \<open>
  The running daemon as a system of steps: every event of a monitor, every tick and reset of the
  telemetry loop, every device event, every frame, call, stream step and local trigger is one
  operation on the ticker's period and the engine. The invariant covers both servers, the reset
  channel, the ticker and the effects on the devices; it shows that no sequence of
  operations panics, and carries the properties of the whole.
\<close>

section \<open>Operations\<close>

datatype service = TelemetryService | NotificationService | MediaService | SystemService

datatype 'h engine_op =
    OLock SessionLockEvent
  | ODpms DpmsEvent
  | OPower PowerProfileState
  | ONotification NotificationEvent
  | OMedia MediaEvent
  | OTick readings
  | OReset
  | ODevice DeviceEvent
  | OAdbLost
  | OConnect nat
  | OFrame nat string
  | ODisconnect nat
  | OTrigger "json option"
  | OStream service i32
  | OServe service nat bool
  | OCancel service nat
  | ONotify "'h pbNotificationRequest option"
  | OMediaCommand pbSendMediaCommandRequest
  | OAction string
  | OSetPower string
  | OCleanup

definition on_stream :: "service \<Rightarrow> (pbTelemetryPayload stream_sys \<Rightarrow> pbTelemetryPayload stream_sys go) \<Rightarrow>
  ('h pbNotificationEvent stream_sys \<Rightarrow> 'h pbNotificationEvent stream_sys go) \<Rightarrow>
  (pbMediaPlayerState list stream_sys \<Rightarrow> pbMediaPlayerState list stream_sys go) \<Rightarrow>
  (pbSystemState stream_sys \<Rightarrow> pbSystemState stream_sys go) \<Rightarrow> 'h Server \<Rightarrow> 'h Server go" where
  "on_stream svc ft fn fm fs srv =
     (case svc of
        TelemetryService \<Rightarrow> ebind (ft (sv_telemetry srv)) (\<lambda>t. Inr (srv\<lparr>sv_telemetry := t\<rparr>))
      | NotificationService \<Rightarrow> ebind (fn (sv_notification srv)) (\<lambda>t. Inr (srv\<lparr>sv_notification := t\<rparr>))
      | MediaService \<Rightarrow> ebind (fm (sv_media srv)) (\<lambda>t. Inr (srv\<lparr>sv_media := t\<rparr>))
      | SystemService \<Rightarrow> ebind (fs (sv_system srv)) (\<lambda>t. Inr (srv\<lparr>sv_system := t\<rparr>)))"

definition server_serve :: "service \<Rightarrow> nat \<Rightarrow> bool \<Rightarrow> 'h Server \<Rightarrow> 'h Server go" where
  "server_serve svc ch sent =
     on_stream svc (stream_serve ch sent) (stream_serve ch sent) (stream_serve ch sent) (stream_serve ch sent)"

definition server_cancel :: "service \<Rightarrow> nat \<Rightarrow> 'h Server \<Rightarrow> 'h Server go" where
  "server_cancel svc ch =
     on_stream svc (stream_cancel ch) (stream_cancel ch) (stream_cancel ch) (stream_cancel ch)"

definition open_stream :: "'h world \<Rightarrow> service \<Rightarrow> i32 \<Rightarrow> 'h Engine \<Rightarrow> 'h Engine" where
  "open_stream w svc intervalMs e =
     (case svc of
        TelemetryService \<Rightarrow> snd (StreamTelemetry engine_server_access (engine_callbacks w) intervalMs e)
      | NotificationService \<Rightarrow> e\<lparr>en_srv := snd (StreamNotifications (en_srv e))\<rparr>
      | MediaService \<Rightarrow> e\<lparr>en_srv := snd (StreamMediaState (en_srv e))\<rparr>
      | SystemService \<Rightarrow> snd (StreamSystemState engine_server_access (Some (getInitialSystemStates w)) e))"

text \<open>A new connection has a number that was not used before.\<close>

definition connect_client :: "'h world \<Rightarrow> nat \<Rightarrow> 'h Engine \<Rightarrow> 'h Engine" where
  "connect_client w c e =
     (if c \<in> set (pl_conns (en_pool e)) \<or> c \<in> set (pl_closed (en_pool e)) then e
      else handleClientConnect w c (e\<lparr>en_pool := pool_Insert c (en_pool e)\<rparr>))"

text \<open>What the step functions take from outside besides the \<open>world\<close>: the JSON lexer and the conversion of
  hint structs to maps.\<close>

record 'h outside =
  o_world :: "'h world"
  o_parse :: "string \<Rightarrow> json option"
  o_jsonErr :: string
  o_asMap :: "'h \<Rightarrow> (string \<times> hint) list"

definition engine_step :: "'h outside \<Rightarrow> 'h engine_op \<Rightarrow> 'h Engine \<Rightarrow> 'h Engine go" where
  "engine_step x opr e =
     (let w = o_world x; cb = engine_callbacks w in
      case opr of
        OLock ev \<Rightarrow> on_lock w ev e
      | ODpms ev \<Rightarrow> on_dpms w ev e
      | OPower ev \<Rightarrow> on_power w ev e
      | ONotification ev \<Rightarrow> on_notification w ev e
      | OMedia ev \<Rightarrow> on_media w ev e
      | OTick r \<Rightarrow> telemetry_tick w r e
      | OReset \<Rightarrow> Inr e
      | ODevice ev \<Rightarrow> Inr (on_device ev e)
      | OAdbLost \<Rightarrow> Inr (e\<lparr>en_activeSerials := []\<rparr>)
      | OConnect c \<Rightarrow> Inr (connect_client w c e)
      | OFrame c bytes \<Rightarrow> Inr (handle_frame engine_pool_access cb (o_parse x) (w_up w) c bytes e)
      | ODisconnect c \<Rightarrow> Inr (e\<lparr>en_pool := pool_Remove c (en_pool e)\<rparr>)
      | OTrigger j \<Rightarrow> ebind (handleCommandConnection w (o_jsonErr x) j e) (\<lambda>(r, e'). Inr e')
      | OStream svc iv \<Rightarrow> Inr (open_stream w svc iv e)
      | OServe svc ch sent \<Rightarrow> rpc_broadcast (server_serve svc ch sent) e
      | OCancel svc ch \<Rightarrow> rpc_broadcast (server_cancel svc ch) e
      | ONotify n \<Rightarrow> Inr (snd (SendNotification (o_asMap x) cb n e))
      | OMediaCommand req \<Rightarrow> Inr (snd (SendMediaCommand cb req e))
      | OAction c \<Rightarrow> Inr (snd (ExecuteSystemAction cb c e))
      | OSetPower p \<Rightarrow> Inr (snd (SetPowerProfile cb p e))
      | OCleanup \<Rightarrow> Inr (cleanupDevices e))"

text \<open>The telemetry loop's receive is the one operation that involves the ticker.\<close>

definition engine_exec :: "'h outside \<Rightarrow> 'h engine_op \<Rightarrow> i64 \<times> 'h Engine \<Rightarrow> (i64 \<times> 'h Engine) go" where
  "engine_exec x opr st =
     (case st of (period, e) \<Rightarrow>
        (case opr of
           OReset \<Rightarrow> telemetry_reset period e
         | _ \<Rightarrow> ebind (engine_step x opr e) (\<lambda>e'. Inr (period, e'))))"

section \<open>The parts of the invariant\<close>

subsection \<open>Intervals\<close>

lemma sint_duration_ms:
  assumes "0 < ms" and "ms \<le> 9223372036854"
  shows "sint (duration_ms ms) = ms * 1000000"
proof -
  have "duration_ms ms = word_of_int (ms * 1000000)" by (simp add: duration_ms_def)
  moreover have "sint (word_of_int (ms * 1000000) :: i64) = ms * 1000000"
    unfolding sint_sbintrunc' using assms by (intro signed_take_bit_int_eq_self) simp_all
  ultimately show ?thesis by simp
qed

definition positive_intervals :: "Config \<Rightarrow> bool" where
  "positive_intervals cfg \<longleftrightarrow>
     0 < dc_UpdateIntervalMS (cf_Daemon cfg) \<and> dc_UpdateIntervalMS (cf_Daemon cfg) \<le> 9223372036854 \<and>
     0 < dc_LockedUpdateIntervalMS (cf_Daemon cfg) \<and> dc_LockedUpdateIntervalMS (cf_Daemon cfg) \<le> 9223372036854"

text \<open>The reset channel within its capacity, only positive intervals, and the newest request last in
  the channel, or already with the ticker when the channel is empty.\<close>

definition interval_ok :: "i64 \<Rightarrow> i64 \<Rightarrow> i64 chan \<Rightarrow> bool" where
  "interval_ok period interval c \<longleftrightarrow>
     ch_cap c = 5 \<and> length (ch_buf c) \<le> 5 \<and> 0 < sint period \<and> 0 < sint interval \<and>
     list_all (\<lambda>d. 0 < sint d) (ch_buf c) \<and> last (period # ch_buf c) = interval"

lemma interval_ok_send:
  assumes "interval_ok period iv c" and "0 < sint d"
  shows "interval_ok period d (reset_send d c)"
proof (cases "length (ch_buf c) < 5")
  case True
  with assms show ?thesis by (auto simp: interval_ok_def reset_send_def)
next
  case False
  with assms(1) obtain y ys where "ch_buf c = y # ys" by (cases "ch_buf c") (auto simp: interval_ok_def)
  with False assms show ?thesis by (auto simp: interval_ok_def reset_send_def try_recv_def Let_def)
qed

lemma interval_ok_receive:
  assumes "interval_ok period iv c" and "ch_buf c = d # buf"
  shows "0 < sint d \<and> interval_ok d iv (c\<lparr>ch_buf := buf\<rparr>)"
  using assms by (auto simp: interval_ok_def split: if_splits)

lemma sint_i32_bound: "sint (iv :: i32) \<le> 9223372036854"
  using sint_lt[of iv] by simp

subsection \<open>Devices\<close>

text \<open>The effects that touch the application or the screen of a device.\<close>

definition controls_app :: "effect \<Rightarrow> bool" where
  "controls_app x = (case x of AdbWake _ \<Rightarrow> True | AdbSleep _ \<Rightarrow> True | AdbLaunch _ _ _ \<Rightarrow> True | AdbCloseApp _ _ \<Rightarrow> True | _ \<Rightarrow> False)"

definition effects_ok :: "Config \<Rightarrow> effect list \<Rightarrow> bool" where
  "effects_ok cfg xs \<longleftrightarrow> (ac_NoAppControl (cf_ADB cfg) \<longrightarrow> list_all (\<lambda>x. \<not> controls_app x) xs)"

lemma effects_ok_append: "effects_ok cfg (xs @ ys) \<longleftrightarrow> effects_ok cfg xs \<and> effects_ok cfg ys"
  by (auto simp: effects_ok_def)

lemma effects_ok_bootstrap: "effects_ok cfg (bootstrap_effects cfg s)"
  by (simp add: effects_ok_def bootstrap_effects_def controls_app_def)

subsection \<open>The invariant\<close>

definition engine_ok :: "Config \<Rightarrow> i64 \<times> 'h Engine \<Rightarrow> bool" where
  "engine_ok cfg st = (case st of (period, e) \<Rightarrow>
     en_cfg e = cfg \<and> positive_intervals cfg \<and> interval_ok period (en_interval e) (en_resetChan e) \<and>
     server_ok (en_srv e) \<and> pool_ok (en_pool e) \<and> effects_ok cfg (en_effects e) \<and> distinct (en_activeSerials e))"

text \<open>How the invariant reacts to the pieces the handlers are made of.\<close>

named_theorems engine_intros \<open>preservation of the invariant by the building blocks\<close>

lemma engine_ok_caches [simp]:
  "engine_ok cfg (p, e\<lparr>en_lastLockState := a\<rparr>) = engine_ok cfg (p, e)"
  "engine_ok cfg (p, e\<lparr>en_lastPowerState := b\<rparr>) = engine_ok cfg (p, e)"
  "engine_ok cfg (p, e\<lparr>en_lastDpmsState := c\<rparr>) = engine_ok cfg (p, e)"
  by (simp_all add: engine_ok_def)

lemma engine_ok_serials: "engine_ok cfg (p, e) \<Longrightarrow> distinct xs \<Longrightarrow> engine_ok cfg (p, e\<lparr>en_activeSerials := xs\<rparr>)"
  by (simp add: engine_ok_def)

lemma engine_ok_pool: "engine_ok cfg (p, e) \<Longrightarrow> pool_ok q \<Longrightarrow> engine_ok cfg (p, e\<lparr>en_pool := q\<rparr>)"
  by (simp add: engine_ok_def)

lemma engine_ok_srv: "engine_ok cfg (p, e) \<Longrightarrow> server_ok srv \<Longrightarrow> engine_ok cfg (p, e\<lparr>en_srv := srv\<rparr>)"
  by (simp add: engine_ok_def)

lemma engine_okD:
  assumes "engine_ok cfg (p, e)"
  shows "server_ok (en_srv e)" "pool_ok (en_pool e)" "distinct (en_activeSerials e)" "positive_intervals (en_cfg e)"
    "interval_ok p (en_interval e) (en_resetChan e)" "effects_ok cfg (en_effects e)" "en_cfg e = cfg"
  using assms by (simp_all add: engine_ok_def)

lemma engine_ok_ws_broadcast [engine_intros]: "engine_ok cfg (p, e) \<Longrightarrow> engine_ok cfg (p, ws_broadcast w m e)"
  by (simp add: engine_ok_def pool_ok_Broadcast)

lemma engine_ok_write_to [engine_intros]: "engine_ok cfg (p, e) \<Longrightarrow> engine_ok cfg (p, write_to w c m e)"
  by (simp add: engine_ok_def pool_ok_write)

lemma engine_ok_effects: "engine_ok cfg (p, e) \<Longrightarrow> effects_ok cfg xs \<Longrightarrow> engine_ok cfg (p, e\<lparr>en_effects := en_effects e @ xs\<rparr>)"
  by (simp add: engine_ok_def effects_ok_append)

lemma engine_ok_add_effect: "engine_ok cfg (p, e) \<Longrightarrow> \<not> controls_app x \<Longrightarrow> engine_ok cfg (p, add_effect x e)"
  using engine_ok_effects[of cfg p e "[x]"] by (simp add: add_effect_def effects_ok_def)

lemma engine_ok_screens [engine_intros]: "engine_ok cfg (p, e) \<Longrightarrow> engine_ok cfg (p, adb_screens st e)"
  unfolding adb_screens_eq by (auto intro!: engine_ok_effects simp: effects_ok_def engine_okD(7))

lemma engine_ok_cleanup [engine_intros]: "engine_ok cfg (p, e) \<Longrightarrow> engine_ok cfg (p, cleanupDevices e)"
  unfolding cleanupDevices_eq by (auto intro!: engine_ok_effects simp: effects_ok_def engine_okD(7))

lemma engine_ok_device [engine_intros]: "engine_ok cfg (p, e) \<Longrightarrow> engine_ok cfg (p, on_device ev e)"
  by (auto simp: on_device_def bootstrapDevice_eq engine_ok_def effects_ok_append effects_ok_bootstrap distinct_removeAll
      split: DeviceState.split)

lemma engine_ok_set_interval: "engine_ok cfg (p, e) \<Longrightarrow> 0 < sint d \<Longrightarrow> engine_ok cfg (p, set_interval d e)"
  using interval_ok_send by (auto simp: engine_ok_def)

lemma engine_ok_config: "engine_ok cfg (p, e) \<Longrightarrow> 0 < ms \<Longrightarrow> ms \<le> 9223372036854 \<Longrightarrow> engine_ok cfg (p, handleConfigChange ms e)"
  by (simp add: handleConfigChange_def engine_ok_set_interval sint_duration_ms)

lemma engine_ok_lock_interval [engine_intros]: "engine_ok cfg (p, e) \<Longrightarrow> engine_ok cfg (p, updateIntervalForLockState l e)"
  using engine_okD(4)[of cfg p e]
  by (simp add: updateIntervalForLockState_def Let_def engine_ok_set_interval sint_duration_ms positive_intervals_def)

subsection \<open>Steps on the ConnectRPC server\<close>

definition server_safe :: "('h Server \<Rightarrow> 'h Server go) \<Rightarrow> bool" where
  "server_safe f \<longleftrightarrow> (\<forall>srv. server_ok srv \<longrightarrow> (\<exists>srv'. f srv = Inr srv' \<and> server_ok srv'))"

lemma rpc_broadcast_safe:
  assumes "server_safe f" and "engine_ok cfg (p, e)"
  shows "\<exists>e'. rpc_broadcast f e = Inr e' \<and> engine_ok cfg (p, e')"
proof -
  obtain srv where "f (en_srv e) = Inr srv" "server_ok srv"
    using assms engine_okD(1)[OF assms(2)] by (auto simp: server_safe_def)
  then show ?thesis using engine_ok_srv[OF assms(2)] by (auto simp: rpc_broadcast_Inr)
qed

lemma server_safe_broadcasts [simp]:
  "server_safe (BroadcastTelemetry now m)" "server_safe (BroadcastNotification ns n)" "server_safe (BroadcastMediaState ev)"
  "server_safe (BroadcastSystemLock now l)" "server_safe (BroadcastDpms now d)" "server_safe (BroadcastPowerProfile now q)"
  using broadcasts_ok by (auto simp: server_safe_def system_broadcast_defs)

lemma on_stream_safe:
  assumes "\<And>s. stream_ok s \<Longrightarrow> \<exists>s'. ft s = Inr s' \<and> stream_ok s'" "\<And>s. stream_ok s \<Longrightarrow> \<exists>s'. fn s = Inr s' \<and> stream_ok s'"
    "\<And>s. stream_ok s \<Longrightarrow> \<exists>s'. fm s = Inr s' \<and> stream_ok s'" "\<And>s. stream_ok s \<Longrightarrow> \<exists>s'. fs s = Inr s' \<and> stream_ok s'"
  shows "server_safe (on_stream svc ft fn fm fs)"
proof -
  have "\<exists>srv'. on_stream svc ft fn fm fs srv = Inr srv' \<and> server_ok srv'" if "server_ok srv" for srv
    using that assms(1)[of "sv_telemetry srv"] assms(2)[of "sv_notification srv"] assms(3)[of "sv_media srv"]
      assms(4)[of "sv_system srv"]
    by (cases svc) (auto simp: on_stream_def server_ok_def)
  then show ?thesis by (simp add: server_safe_def)
qed

lemma server_safe_streams [simp]: "server_safe (server_serve svc ch sent)" "server_safe (server_cancel svc ch)"
  unfolding server_serve_def server_cancel_def
  by (intro on_stream_safe stream_serve_ok stream_cancel_ok; assumption)+

lemma stream_ok_opened: "stream_ok s \<Longrightarrow> stream_ok (stream_greet ch xs (snd (stream_open s)))"
  by (intro stream_ok_greet stream_ok_open)

lemma server_ok_upd:
  assumes "server_ok srv"
  shows "stream_ok t \<Longrightarrow> server_ok (srv\<lparr>sv_telemetry := t\<rparr>)" "stream_ok n \<Longrightarrow> server_ok (srv\<lparr>sv_notification := n\<rparr>)"
    "stream_ok m \<Longrightarrow> server_ok (srv\<lparr>sv_media := m\<rparr>)" "stream_ok s \<Longrightarrow> server_ok (srv\<lparr>sv_system := s\<rparr>)"
  using assms by (simp_all add: server_ok_def)

lemma server_okD:
  assumes "server_ok srv"
  shows "stream_ok (sv_telemetry srv)" "stream_ok (sv_notification srv)" "stream_ok (sv_media srv)" "stream_ok (sv_system srv)"
  using assms by (simp_all add: server_ok_def)

lemma engine_ok_StreamTelemetry:
  assumes "engine_ok cfg (p, e)"
  shows "engine_ok cfg (p, snd (StreamTelemetry engine_server_access (engine_callbacks w) iv e))"
proof -
  let ?e = "if sint iv > 0 then handleConfigChange (sint iv) e else e"
  have ok: "engine_ok cfg (p, ?e)" using engine_ok_config[OF assms] sint_i32_bound[of iv] assms by auto
  have "snd (StreamTelemetry engine_server_access (engine_callbacks w) iv e) =
      ?e\<lparr>en_srv := (en_srv ?e)\<lparr>sv_telemetry :=
        stream_greet (fst (stream_open (sv_telemetry (en_srv ?e)))) [] (snd (stream_open (sv_telemetry (en_srv ?e))))\<rparr>\<rparr>"
    by (simp add: StreamTelemetry_def engine_callbacks_def engine_server_access_def Let_def split_beta)
  then show ?thesis
    by (simp only: ok engine_ok_srv server_ok_upd(1) engine_okD(1)[OF ok] server_okD(1) stream_ok_opened)
qed

lemma engine_ok_StreamSystemState:
  assumes "engine_ok cfg (p, e)"
  shows "engine_ok cfg (p, snd (StreamSystemState engine_server_access init e))"
proof -
  note ok = engine_okD(1)[OF assms]
  show ?thesis
    using engine_ok_srv[OF assms server_ok_upd(4)[OF ok stream_ok_opened[OF server_okD(4)[OF ok]]]]
    by (simp add: StreamSystemState_def engine_server_access_def Let_def split_beta)
qed

lemma engine_ok_open_stream:
  assumes "engine_ok cfg (p, e)"
  shows "engine_ok cfg (p, open_stream w svc iv e)"
proof -
  note ok = engine_okD(1)[OF assms]
  note opened = engine_ok_srv[OF assms server_ok_upd(2)[OF ok stream_ok_opened[OF server_okD(2)[OF ok]]]]
    engine_ok_srv[OF assms server_ok_upd(3)[OF ok stream_ok_opened[OF server_okD(3)[OF ok]]]]
  show ?thesis
    using engine_ok_StreamTelemetry[OF assms] engine_ok_StreamSystemState[OF assms] opened
    by (cases svc) (simp_all add: open_stream_def StreamNotifications_def StreamMediaState_def split_beta)
qed

subsection \<open>Steps of the WebSocket side\<close>

lemma engine_ok_connect: "engine_ok cfg (p, e) \<Longrightarrow> engine_ok cfg (p, connect_client w c e)"
  by (auto simp: connect_client_def handleClientConnect_def Let_def split: option.split
      intro!: engine_intros engine_ok_pool pool_ok_Insert engine_okD(2))

lemma engine_ok_commands:
  assumes "engine_ok cfg (p, e)"
  shows "engine_ok cfg (p, handleAction c e)" "engine_ok cfg (p, snd (handleNotificationCommand w r e))"
    "engine_ok cfg (p, snd (handleMediaCommand w pl cmd args e))" "engine_ok cfg (p, snd (handlePowerProfileCommand w pr e))"
  using assms engine_ok_add_effect[OF assms]
  by (simp_all add: handleAction_def handleNotificationCommand_def handleMediaCommand_def handlePowerProfileCommand_def controls_app_def)

lemma engine_ok_dispatch:
  assumes "engine_ok cfg (p, e)"
  shows "engine_ok cfg (p, snd (dispatch (engine_callbacks w) m e))"
proof -
  have conf: "engine_ok cfg (p, handleConfigChange (clamp_interval i) e)" for i
    using engine_ok_config[OF assms] clamp_interval_bounds[of i] by simp
  show ?thesis
    using assms conf engine_ok_commands[OF assms]
    by (auto simp: dispatch_def engine_callbacks_def split_beta split: option.split)
qed

lemma engine_ok_frame:
  assumes "engine_ok cfg (p, e)"
  shows "engine_ok cfg (p, handle_frame engine_pool_access (engine_callbacks w) parse up c bytes e)"
proof (cases "Option.bind (parse bytes) unmarshal_inbound")
  case None
  then show ?thesis using assms by (simp add: handle_frame_def)
next
  case (Some m)
  obtain r e1 where d: "dispatch (engine_callbacks w) m e = (r, e1)" by fastforce
  then have ok: "engine_ok cfg (p, e1)" using engine_ok_dispatch[OF assms, of w m] by simp
  show ?thesis
    using Some d ok engine_ok_pool[OF ok pool_ok_write[OF engine_okD(2)[OF ok]]]
    by (auto simp: handle_frame_def engine_pool_access_def split: option.split)
qed

subsection \<open>Local triggers\<close>

lemma uds_rpc_safe: "engine_ok cfg (p, e) \<Longrightarrow> \<exists>e'. uds_rpc w u e = Inr e' \<and> engine_ok cfg (p, e')"
  by (cases u) (auto simp: uds_rpc_def intro!: rpc_broadcast_safe)

lemma engine_ok_uds_cache: "engine_ok cfg (p, e) \<Longrightarrow> engine_ok cfg (p, uds_cache u e)"
  by (auto simp: uds_cache_def intro!: engine_intros split: uds_event.split)

lemma handleCommandConnection_safe:
  assumes "engine_ok cfg (p, e)"
  shows "\<exists>e'. ebind (handleCommandConnection w je j e) (\<lambda>(r, e'). Inr e') = Inr e' \<and> engine_ok cfg (p, e')"
proof -
  have "\<exists>e'. uds_rpc w u (ws_broadcast w m (uds_cache u e)) = Inr e' \<and> engine_ok cfg (p, e')" for u m
    by (intro uds_rpc_safe engine_intros engine_ok_uds_cache assms)
  then show ?thesis using assms by (fastforce simp: handleCommandConnection_def ebind_eq_Inr split: option.split)
qed

section \<open>No operation panics\<close>

lemma engine_step_safe:
  assumes ok: "engine_ok cfg (p, e)"
  shows "\<exists>e'. engine_step x opr e = Inr e' \<and> engine_ok cfg (p, e')"
proof -
  let ?w = "o_world x"
  have lock: "\<exists>e'. on_lock w ev e = Inr e' \<and> engine_ok cfg (p, e')" for w ev
  proof -
    obtain e3 where "rpc_broadcast (BroadcastSystemLock (w_now w) ev)
        (ws_broadcast w (SessionLockMsg (w_now w) ev) (e\<lparr>en_lastLockState := Some ev\<rparr>)) = Inr e3" "engine_ok cfg (p, e3)"
      using rpc_broadcast_safe[OF server_safe_broadcasts(4)] engine_intros(1) ok by (metis engine_ok_caches(1))
    then show ?thesis using engine_ok_lock_interval by (simp add: on_lock_def Let_def)
  qed
  have dpms: "\<exists>e'. on_dpms w ev e = Inr e' \<and> engine_ok cfg (p, e')" for w ev
  proof -
    obtain e3 where "rpc_broadcast (BroadcastDpms (w_now w) ev)
        (ws_broadcast w (DpmsMsg (w_now w) ev) (e\<lparr>en_lastDpmsState := Some ev\<rparr>)) = Inr e3" "engine_ok cfg (p, e3)"
      using rpc_broadcast_safe[OF server_safe_broadcasts(5)] engine_intros(1) ok by (metis engine_ok_caches(3))
    then show ?thesis using engine_ok_screens by (simp add: on_dpms_def Let_def)
  qed
  show ?thesis
    using ok lock dpms engine_ok_commands[OF ok]
    by (cases opr)
       (auto simp: engine_step_def Let_def on_power_def on_notification_def on_media_def telemetry_tick_def
          SendNotification_def SendMediaCommand_def ExecuteSystemAction_def SetPowerProfile_def engine_callbacks_def split_beta
          engine_ok_frame[unfolded engine_callbacks_def] engine_ok_connect
          engine_ok_serials engine_ok_open_stream handleCommandConnection_safe pool_ok_Remove engine_okD(2)
          split: option.split sum.split prod.split
          intro!: rpc_broadcast_safe engine_intros engine_ok_pool)
qed

text \<open>The accept loop answers every connection made before the listener was closed, one response each,
  whatever accepting fails with in between.\<close>

lemma command_loop_answers:
  "engine_ok cfg (p, e) \<Longrightarrow>
   \<exists>rs e'. command_loop w as e = Inr (rs, ListenerClosed \<in> set as, e') \<and> engine_ok cfg (p, e') \<and>
     length rs = length (filter (\<lambda>a. a \<noteq> AcceptError) (takeWhile (\<lambda>a. a \<noteq> ListenerClosed) as))"
proof (induction w as e rule: command_loop.induct)
  case (4 w parsed jsonErr as e)
  obtain r e1 where h: "handleCommandConnection w jsonErr parsed e = Inr (r, e1)" "engine_ok cfg (p, e1)"
    using handleCommandConnection_safe[OF 4(2), of w jsonErr parsed] by (auto simp: ebind_eq_Inr)
  from 4(1)[OF h(2)] h(1) show ?case by (auto simp: ebind_eq_Inr)
qed simp_all

lemma engine_exec_safe:
  assumes "engine_ok cfg st"
  shows "\<exists>st'. engine_exec x opr st = Inr st' \<and> engine_ok cfg st'"
proof -
  obtain p e where st: "st = (p, e)" by fastforce
  have ok: "engine_ok cfg (p, e)" using assms st by simp
  have reset: "\<exists>st'. telemetry_reset p e = Inr st' \<and> engine_ok cfg st'"
  proof (cases "ch_buf (en_resetChan e)")
    case Nil
    then show ?thesis using ok by (simp add: telemetry_reset_def try_recv_def)
  next
    case (Cons d buf)
    from interval_ok_receive[OF engine_okD(5)[OF ok] Cons] show ?thesis
      using ok Cons by (simp add: telemetry_reset_def try_recv_def set_ticker_def engine_ok_def)
  qed
  obtain e' where "engine_step x opr e = Inr e'" "engine_ok cfg (p, e')" using engine_step_safe[OF ok] by blast
  then show ?thesis using reset st by (cases opr) (auto simp: engine_exec_def)
qed

interpretation daemon: safe_system "engine_exec x" "engine_ok cfg" for x cfg
  by unfold_locales (rule engine_exec_safe)

text \<open>The daemon right after its telemetry loop has created the ticker.\<close>

definition boot :: "Config \<Rightarrow> (i64 \<times> 'h Engine) go" where
  "boot cfg = (let e = NewEngine cfg in ebind (telemetry_start e) (\<lambda>p. Inr (p, e)))"

lemma boot_ok:
  assumes "positive_intervals cfg"
  shows "boot cfg = Inr (duration_ms (dc_UpdateIntervalMS (cf_Daemon cfg)), NewEngine cfg)"
    and "engine_ok cfg (duration_ms (dc_UpdateIntervalMS (cf_Daemon cfg)), NewEngine cfg)"
  using assms sint_duration_ms[of "dc_UpdateIntervalMS (cf_Daemon cfg)"]
  by (simp_all add: boot_def Let_def telemetry_start_def set_ticker_def NewEngine_def engine_ok_def interval_ok_def
      effects_ok_def positive_intervals_def)

lemma boot_runs:
  assumes "positive_intervals cfg"
  shows "\<exists>st. ebind (boot cfg) (run_ops (engine_exec x) ops) = Inr st"
proof -
  obtain st where "run_ops (engine_exec x) ops (duration_ms (dc_UpdateIntervalMS (cf_Daemon cfg)), NewEngine cfg) = Inr st"
    using daemon.run_safe[OF boot_ok(2)[OF assms]] by blast
  then show ?thesis by (simp add: boot_ok(1)[OF assms])
qed

lemma boot_run:
  assumes "positive_intervals cfg" and "ebind (boot cfg) (run_ops (engine_exec x) ops) = Inr st"
  shows "engine_ok cfg st"
  using assms(2) daemon.run_keeps[OF boot_ok(2)[OF assms(1)]] by (simp add: boot_ok(1)[OF assms(1)])

section \<open>Cached states\<close>

text \<open>A value that some operations announce and that the state remembers: after any run it is the last
  one announced.\<close>

locale last_value_cache =
  fixes exec :: "'op \<Rightarrow> 's \<Rightarrow> 's go"
    and news :: "'op \<Rightarrow> 'v option"
    and cached :: "'s \<Rightarrow> 'v option"
  assumes exec_cached: "exec opr s = Inr s' \<Longrightarrow> cached s' = (case news opr of Some v \<Rightarrow> Some v | None \<Rightarrow> cached s)"
begin

lemma run_cached:
  "run_ops exec ops s = Inr s' \<Longrightarrow>
   cached s' = (case List.map_filter news ops of [] \<Rightarrow> cached s | v # vs \<Rightarrow> Some (last (v # vs)))"
proof (induction ops arbitrary: s)
  case (Cons opr ops)
  from Cons.prems obtain s1 where s1: "exec opr s = Inr s1" "run_ops exec ops s1 = Inr s'" by (auto simp: ebind_eq_Inr)
  show ?case using Cons.IH[OF s1(2)] exec_cached[OF s1(1)]
    by (auto simp: List.map_filter_simps split: option.splits list.splits)
qed (simp add: List.map_filter_simps)

end

text \<open>The events that a local trigger announces.\<close>

definition trigger_event :: "json option \<Rightarrow> uds_event option" where
  "trigger_event j =
     Option.bind (Option.bind j (\<lambda>j. decode_UDSRequest j \<lparr>uq_Type = [], uq_Data = None\<rparr>))
       (\<lambda>req. Option.bind (uq_Data req) (uds_decode (uq_Type req)))"

lemma handleCommandConnection_event:
  "handleCommandConnection w je j e =
     (case trigger_event j of
        None \<Rightarrow> Inr (uds_failure (case Option.bind j (\<lambda>j. decode_UDSRequest j \<lparr>uq_Type = [], uq_Data = None\<rparr>) of
            None \<Rightarrow> ''failed to decode request JSON: '' @ je | Some req \<Rightarrow> uds_error (uq_Type req) @ je), e)
      | Some u \<Rightarrow> ebind (uds_rpc w u (ws_broadcast w (uds_message (w_now w) u) (uds_cache u e)))
          (\<lambda>e'. Inr (\<lparr>ur_Success = True, ur_ClientCount = pool_Size (en_pool e'), ur_Error = []\<rparr>, e')))"
  by (simp add: handleCommandConnection_def trigger_event_def del: Option.bind_assoc split: option.split)

lemma uds_error_not_Nil [simp]: "uds_error ty \<noteq> []"
  by (simp add: uds_error_def)

definition lock_news :: "'h engine_op \<Rightarrow> SessionLockEvent option" where
  "lock_news opr = (case opr of OLock ev \<Rightarrow> Some ev
     | OTrigger j \<Rightarrow> (case trigger_event j of Some (ULock ev) \<Rightarrow> Some ev | _ \<Rightarrow> None) | _ \<Rightarrow> None)"

definition power_news :: "'h engine_op \<Rightarrow> PowerProfileState option" where
  "power_news opr = (case opr of OPower ev \<Rightarrow> Some ev
     | OTrigger j \<Rightarrow> (case trigger_event j of Some (UPower ev) \<Rightarrow> Some ev | _ \<Rightarrow> None) | _ \<Rightarrow> None)"

definition dpms_news :: "'h engine_op \<Rightarrow> DpmsEvent option" where
  "dpms_news opr = (case opr of ODpms ev \<Rightarrow> Some ev
     | OTrigger j \<Rightarrow> (case trigger_event j of Some (UDpms ev) \<Rightarrow> Some ev | _ \<Rightarrow> None) | _ \<Rightarrow> None)"

text \<open>The three caches together, for the frame arguments.\<close>

definition caches :: "'h Engine \<Rightarrow> SessionLockEvent option \<times> PowerProfileState option \<times> DpmsEvent option" where
  "caches e = (en_lastLockState e, en_lastPowerState e, en_lastDpmsState e)"

lemma caches_simps [simp]:
  "caches (ws_broadcast w m e) = caches e" "caches (write_to w c m e) = caches e" "caches (add_effect x e) = caches e"
  "caches (set_interval d e) = caches e" "caches (e\<lparr>en_pool := q\<rparr>) = caches e" "caches (e\<lparr>en_srv := srv\<rparr>) = caches e"
  "caches (e\<lparr>en_activeSerials := xs\<rparr>) = caches e" "caches (adb_screens st e) = caches e" "caches (cleanupDevices e) = caches e"
  "caches (e\<lparr>en_lastLockState := l\<rparr>) = (l, snd (caches e))"
  "caches (e\<lparr>en_lastPowerState := q'\<rparr>) = (fst (caches e), q', snd (snd (caches e)))"
  "caches (e\<lparr>en_lastDpmsState := d'\<rparr>) = (fst (caches e), fst (snd (caches e)), d')"
  "caches (e\<lparr>en_effects := es\<rparr>) = caches e" "caches (e\<lparr>en_resetChan := rc\<rparr>) = caches e"
  by (simp_all add: caches_def adb_screens_eq cleanupDevices_eq)

lemma caches_handlers [simp]:
  "caches (on_device ev e) = caches e"
  "caches (handleConfigChange ms e) = caches e" "caches (updateIntervalForLockState l e) = caches e"
  "caches (handleClientConnect w c e) = caches e" "caches (connect_client w c e) = caches e"
  "caches (handleAction cmd e) = caches e"
  "caches (snd (handleNotificationCommand w r e)) = caches e" "caches (snd (handleMediaCommand w a b m e)) = caches e"
  "caches (snd (handlePowerProfileCommand w pr e)) = caches e"
  by (simp_all add: on_device_def bootstrapDevice_eq handleConfigChange_def updateIntervalForLockState_def Let_def
      handleClientConnect_def connect_client_def handleAction_def handleNotificationCommand_def handleMediaCommand_def
      handlePowerProfileCommand_def split: DeviceState.split option.split)

lemma caches_rpc: "rpc_broadcast f e = Inr e' \<Longrightarrow> caches e' = caches e"
  by (auto simp: rpc_broadcast_Inr)

lemma caches_dispatch [simp]: "caches (snd (dispatch (engine_callbacks w) m e)) = caches e"
  by (auto simp: dispatch_def engine_callbacks_def split_beta split: option.split)

lemma caches_dispatch_eq: "dispatch (engine_callbacks w) m e = (r, e') \<Longrightarrow> caches e' = caches e"
  using caches_dispatch[of w m e] by simp

lemma caches_frame [simp]:
  "caches (handle_frame engine_pool_access (engine_callbacks w) parse up c bytes e) = caches e"
  by (auto simp: handle_frame_def engine_pool_access_def split: option.split prod.split dest!: caches_dispatch_eq)

lemma caches_open_stream [simp]: "caches (open_stream w svc iv e) = caches e"
  by (cases svc) (auto simp: open_stream_def StreamTelemetry_def StreamSystemState_def engine_server_access_def
      engine_callbacks_def Let_def split_beta)

lemma caches_commands [simp]:
  "caches (snd (SendNotification am (engine_callbacks w) n e)) = caches e"
  "caches (snd (SendMediaCommand (engine_callbacks w) req e)) = caches e"
  "caches (snd (ExecuteSystemAction (engine_callbacks w) cmd e)) = caches e"
  "caches (snd (SetPowerProfile (engine_callbacks w) pr e)) = caches e"
  by (simp_all add: SendNotification_def SendMediaCommand_def ExecuteSystemAction_def SetPowerProfile_def engine_callbacks_def
      Let_def handleNotificationCommand_def handleMediaCommand_def handlePowerProfileCommand_def split: option.split sum.split)

definition learn :: "'h engine_op \<Rightarrow> SessionLockEvent option \<times> PowerProfileState option \<times> DpmsEvent option \<Rightarrow>
    SessionLockEvent option \<times> PowerProfileState option \<times> DpmsEvent option" where
  "learn opr c = (case c of (l, q, d) \<Rightarrow>
     (case lock_news opr of Some v \<Rightarrow> Some v | None \<Rightarrow> l,
      case power_news opr of Some v \<Rightarrow> Some v | None \<Rightarrow> q,
      case dpms_news opr of Some v \<Rightarrow> Some v | None \<Rightarrow> d))"

lemma caches_trigger:
  assumes "handleCommandConnection w je j e = Inr (r, e')"
  shows "caches e' = (case trigger_event j of None \<Rightarrow> caches e | Some u \<Rightarrow> caches (uds_cache u e))"
proof -
  have rpc: "caches e2 = caches e1" if "uds_rpc w u e1 = Inr e2" for u e1 e2
    using that caches_rpc by (cases u) (auto simp: uds_rpc_def)
  show ?thesis using assms
    by (auto simp: handleCommandConnection_def trigger_event_def ebind_eq_Inr simp del: Option.bind_assoc
        split: option.splits dest!: rpc)
qed

lemma caches_uds: "caches (uds_cache u e) = (case caches e of (l, q, d) \<Rightarrow>
    (case u of ULock ev \<Rightarrow> (Some ev, q, d) | UPower ev \<Rightarrow> (l, Some ev, d) | UDpms ev \<Rightarrow> (l, q, Some ev) | _ \<Rightarrow> (l, q, d)))"
  by (cases "caches e") (simp add: uds_cache_def split: uds_event.split)

lemma caches_exec:
  assumes "engine_exec x opr st = Inr st'"
  shows "caches (snd st') = learn opr (caches (snd st))"
proof -
  obtain p e where st: "st = (p, e)" by fastforce
  obtain l q d where c: "caches e = (l, q, d)" by (cases "caches e")
  note news = lock_news_def power_news_def dpms_news_def
  show ?thesis
  proof (cases opr)
    case OReset
    then show ?thesis using assms st c
      by (auto simp: engine_exec_def telemetry_reset_def ebind_eq_Inr learn_def news split: prod.splits option.splits)
  next
    case (OTrigger j)
    then obtain r e' where "handleCommandConnection (o_world x) (o_jsonErr x) j e = Inr (r, e')" "st' = (p, e')"
      using assms st by (auto simp: engine_exec_def engine_step_def Let_def ebind_eq_Inr)
    then show ?thesis
      using caches_trigger[of "o_world x" "o_jsonErr x" j e r e'] c OTrigger st
      by (auto simp: learn_def news caches_uds split: option.splits uds_event.splits)
  qed (use assms st c in \<open>auto simp: engine_exec_def engine_step_def Let_def learn_def news ebind_eq_Inr on_lock_def
        on_dpms_def on_power_def on_notification_def on_media_def telemetry_tick_def dest!: caches_rpc\<close>)
qed

definition announced :: "('op \<Rightarrow> 'v option) \<Rightarrow> 'op list \<Rightarrow> 'v option" where
  "announced news ops = (case List.map_filter news ops of [] \<Rightarrow> None | v # vs \<Rightarrow> Some (last (v # vs)))"

lemma caches_fst_snd:
  "en_lastLockState e = fst (caches e)" "en_lastPowerState e = fst (snd (caches e))" "en_lastDpmsState e = snd (snd (caches e))"
  by (simp_all add: caches_def)

interpretation lock_cache: last_value_cache "engine_exec x" lock_news "\<lambda>st. en_lastLockState (snd st)" for x
  by unfold_locales (auto simp: caches_fst_snd learn_def split: prod.splits option.splits dest!: caches_exec)

interpretation power_cache: last_value_cache "engine_exec x" power_news "\<lambda>st. en_lastPowerState (snd st)" for x
  by unfold_locales (auto simp: caches_fst_snd learn_def split: prod.splits option.splits dest!: caches_exec)

interpretation dpms_cache: last_value_cache "engine_exec x" dpms_news "\<lambda>st. en_lastDpmsState (snd st)" for x
  by unfold_locales (auto simp: caches_fst_snd learn_def split: prod.splits option.splits dest!: caches_exec)

lemma boot_caches:
  assumes "ebind (boot cfg) (run_ops (engine_exec x) ops) = Inr st"
  shows "en_lastLockState (snd st) = announced lock_news ops" "en_lastPowerState (snd st) = announced power_news ops"
    "en_lastDpmsState (snd st) = announced dpms_news ops"
proof -
  from assms obtain p where run: "run_ops (engine_exec x) ops (p, NewEngine cfg) = Inr st"
    by (auto simp: boot_def Let_def ebind_eq_Inr)
  show "en_lastLockState (snd st) = announced lock_news ops" "en_lastPowerState (snd st) = announced power_news ops"
    "en_lastDpmsState (snd st) = announced dpms_news ops"
    using lock_cache.run_cached[OF run] power_cache.run_cached[OF run] dpms_cache.run_cached[OF run]
    by (simp_all add: announced_def NewEngine_def split: list.split)
qed

definition option_list :: "'a option \<Rightarrow> 'a list" where
  "option_list x = (case x of None \<Rightarrow> [] | Some a \<Rightarrow> [a])"

lemma option_list_simps [simp]: "option_list None = []" "option_list (Some a) = [a]"
  by (simp_all add: option_list_def)

lemma connect_sends:
  assumes "c \<notin> set (pl_conns (en_pool e))" and "c \<notin> set (pl_closed (en_pool e))" and "\<And>m. w_up w c m"
  shows "pl_sent (en_pool (connect_client w c e)) = pl_sent (en_pool e) @ map (\<lambda>m. (c, m))
    (map (SessionLockMsg (w_now w)) (option_list (en_lastLockState e)) @
     map (PowerProfileMsg (w_now w)) (option_list (en_lastPowerState e)) @
     map (DpmsMsg (w_now w)) (option_list (en_lastDpmsState e)))"
  using assms
  by (auto simp: connect_client_def handleClientConnect_def Let_def writeJSON_def pool_Insert_def split: option.split)

text \<open>What a new handler of the system stream does first.\<close>

lemma subscriber_is_greeted:
  assumes "engine_ok cfg (period, e)"
    and "StreamSystemState engine_server_access (Some (getInitialSystemStates w)) e = (ch, e')"
    and "list_all (\<lambda>opr. opr \<noteq> SServe ch False) sops"
  shows "\<exists>t. run_ops stream_exec sops (sv_system (en_srv e')) = Inr t \<and>
    greeting (getInitialSystemStates w e) ch (count_list sops (SServe ch True)) t"
proof -
  note ok = server_okD(4)[OF engine_okD(1)[OF assms(1)]]
  obtain s where op: "stream_open (sv_system (en_srv e)) = (ch, s)"
      and e': "sv_system (en_srv e') = stream_greet ch (getInitialSystemStates w e) s"
    using assms(2) by (auto simp: StreamSystemState_def engine_server_access_def getInitialSystemStates_def Let_def split: prod.splits)
  have "stream_ok (sv_system (en_srv e'))" using stream_ok_opened[OF ok, of ch] op e' by simp
  then obtain t where t: "run_ops stream_exec sops (sv_system (en_srv e')) = Inr t"
    using stream.run_safe by blast
  with greeting_run[OF greeting_opened[OF ok op] _ assms(3)] e' show ?thesis by simp
qed

section \<open>Properties\<close>

text \<open>C1: the engine and the two servers it drives never panic (the goroutines of the D-Bus managers that
  feed it are outside this run; three of their panics are the subject of theorems of their own). From a configuration with positive intervals it boots, and any
  sequence of monitor events, ticks, resets, device events, client connections, frames with
  arbitrary bytes, stream subscriptions with any requested interval, failing and succeeding
  sends, calls and local triggers with arbitrary content runs to the end: no send on a closed
  channel, no double close, no ticker with a period that is not positive.\<close>

theorem daemon_never_panics:
  assumes "positive_intervals cfg"
  shows "\<exists>st. ebind (boot cfg) (run_ops (engine_exec x) ops) = Inr st"
  using assms by (rule boot_runs)

definition sample_world :: "unit world" where
  "sample_world = \<lparr>w_now = 1700000000, w_up = (\<lambda>c m. True), w_newStruct = (\<lambda>h. None), w_notify = (\<lambda>r. Inr 1),
     w_media = (\<lambda>p c a. None), w_power = (\<lambda>p. None)\<rparr>"

definition sample_outside :: "unit outside" where
  "sample_outside = \<lparr>o_world = sample_world, o_parse = (\<lambda>s. None), o_jsonErr = [], o_asMap = (\<lambda>h. [])\<rparr>"

lemma sample_positive: "positive_intervals sample_config"
  by (simp add: positive_intervals_def sample_config_def DefaultConfig_def Let_def)

theorem daemon_never_panics_witness:
  "\<exists>st. ebind (boot sample_config) (run_ops (engine_exec sample_outside)
     [OConnect 1, OStream TelemetryService 0, OLock \<lparr>Locked = True\<rparr>, OReset, OServe TelemetryService 0 False, ODisconnect 1]) = Inr st"
  by (rule daemon_never_panics[OF sample_positive])

text \<open>the daemon boots exactly if the configured interval is a positive number of nanoseconds: a zero or
  negative interval, or one so large that the conversion to nanoseconds wraps to such a value,
  is not rejected by any validation and panics when the ticker is created.\<close>

theorem boot_needs_positive_interval:
  "(\<exists>st. boot cfg = Inr st) \<longleftrightarrow> 0 < sint (duration_ms (dc_UpdateIntervalMS (cf_Daemon cfg)))"
  by (auto simp: boot_def Let_def telemetry_start_def set_ticker_def NewEngine_def ebind_eq_Inr split: if_splits)

text \<open>C26: the ticker follows the newest request, provided that the calls that change the interval do not
  overlap: each call of a handler is one step of the run, while the telemetry loop receives between
  any two of them. Then, whenever the telemetry loop has drained the reset channel, the ticker runs
  with the interval that was set last, and while values are waiting the last of them is that
  interval. Without the proviso it is false of the code:
  \<^verbatim>\<open>Reset_Channel.overlapping_calls_can_lose_the_newest\<close> is a run of two overlapping calls after which
  the ticker keeps the older request.\<close>

theorem ticker_follows_newest_request:
  assumes "positive_intervals cfg" and "ebind (boot cfg) (run_ops (engine_exec x) ops) = Inr (period, e)"
  shows "last (period # ch_buf (en_resetChan e)) = en_interval e \<and> length (ch_buf (en_resetChan e)) \<le> 5 \<and>
    0 < sint period"
  using boot_run[OF assms] by (simp add: engine_ok_def interval_ok_def)

theorem ticker_follows_newest_request_witness:
  "\<exists>period e. ebind (boot sample_config) (run_ops (engine_exec sample_outside)
     [OLock \<lparr>Locked = True\<rparr>, OLock \<lparr>Locked = False\<rparr>, OReset, OReset]) = Inr (period, e) \<and>
     last (period # ch_buf (en_resetChan e)) = en_interval e"
proof -
  obtain st where st: "ebind (boot sample_config) (run_ops (engine_exec sample_outside)
     [OLock \<lparr>Locked = True\<rparr>, OLock \<lparr>Locked = False\<rparr>, OReset, OReset]) = Inr st"
    using boot_runs[OF sample_positive] by blast
  obtain period e where "st = (period, e)" by fastforce
  with st ticker_follows_newest_request[OF sample_positive, of sample_outside _ period e] show ?thesis by blast
qed

text \<open>with the option that disables application control, no sequence of events makes the daemon wake,
  sleep, launch or close anything on a device; the only thing it ever does there is to set
  up the reverse tunnel.\<close>

theorem no_app_control_is_respected:
  assumes "positive_intervals cfg" and "ac_NoAppControl (cf_ADB cfg)"
    and "ebind (boot cfg) (run_ops (engine_exec x) ops) = Inr (period, e)"
  shows "list_all (\<lambda>y. \<not> controls_app y) (en_effects e)"
  using boot_run[OF assms(1,3)] assms(2) by (simp add: engine_ok_def effects_ok_def)

theorem no_app_control_is_respected_witness:
  "let cfg = sample_config\<lparr>cf_ADB := (cf_ADB sample_config)\<lparr>ac_NoAppControl := True\<rparr>\<rparr> in
   \<exists>period e. ebind (boot cfg) (run_ops (engine_exec sample_outside)
     [ODevice (online_ev ''AB''), ODpms \<lparr>dp_State = ''off''\<rparr>, OCleanup]) = Inr (period, e) \<and>
     list_all (\<lambda>y. \<not> controls_app y) (en_effects e)"
proof -
  let ?cfg = "sample_config\<lparr>cf_ADB := (cf_ADB sample_config)\<lparr>ac_NoAppControl := True\<rparr>\<rparr>"
  have pos: "positive_intervals ?cfg" using sample_positive by (simp add: positive_intervals_def)
  obtain period e where st: "ebind (boot ?cfg) (run_ops (engine_exec sample_outside)
     [ODevice (online_ev ''AB''), ODpms \<lparr>dp_State = ''off''\<rparr>, OCleanup]) = Inr (period, e)"
    using boot_runs[OF pos] by (metis surj_pair)
  with no_app_control_is_respected[OF pos _ st] show ?thesis by (simp add: Let_def)
qed

text \<open>C7: every new client starts from the current state. After any history, a client that connects over
  the WebSocket is sent exactly the last announced lock, power and display states, in this
  order and each only if there was one, whether a monitor or a local trigger announced
  it. A ConnectRPC client that subscribes to the system stream at that moment is sent the same
  states first: whatever happens on the stream from then on (broadcasts, other handlers, the
  cancellation of the request), as long as no send to this client fails, the \<open>k\<close>-th send is the \<open>k\<close>-th of those
  states, and no broadcast is sent to it before it has got all of them.\<close>

theorem new_clients_get_current_state:
  assumes "positive_intervals cfg" and "ebind (boot cfg) (run_ops (engine_exec x) ops) = Inr (period, e)"
    and "c \<notin> set (pl_conns (en_pool e))" and "c \<notin> set (pl_closed (en_pool e))" and "\<And>m. w_up w c m"
    and "StreamSystemState engine_server_access (Some (getInitialSystemStates w)) e = (ch, e')"
    and "list_all (\<lambda>opr. opr \<noteq> SServe ch False) sops"
    and states: "states = map (system_lock_msg (w_now w)) (option_list (announced lock_news ops)) @
      map (power_profile_msg (w_now w)) (option_list (announced power_news ops)) @
      map (dpms_msg (w_now w)) (option_list (announced dpms_news ops))"
  shows "pl_sent (en_pool (connect_client w c e)) = pl_sent (en_pool e) @ map (\<lambda>m. (c, m))
      (map (SessionLockMsg (w_now w)) (option_list (announced lock_news ops)) @
       map (PowerProfileMsg (w_now w)) (option_list (announced power_news ops)) @
       map (DpmsMsg (w_now w)) (option_list (announced dpms_news ops))) \<and>
    (\<exists>t. run_ops stream_exec sops (sv_system (en_srv e')) = Inr t \<and>
       ss_greeted t ! ch = take (count_list sops (SServe ch True)) states \<and>
       (ss_sent t ! ch = [] \<or> ss_greeted t ! ch = states))"
proof -
  have cached: "getInitialSystemStates w e = states"
    using boot_caches[OF assms(2)] by (simp add: states getInitialSystemStates_def option_list_def split: option.split)
  have "pl_sent (en_pool (connect_client w c e)) = pl_sent (en_pool e) @ map (\<lambda>m. (c, m))
      (map (SessionLockMsg (w_now w)) (option_list (announced lock_news ops)) @
       map (PowerProfileMsg (w_now w)) (option_list (announced power_news ops)) @
       map (DpmsMsg (w_now w)) (option_list (announced dpms_news ops)))"
    using connect_sends[OF assms(3-5)] boot_caches[OF assms(2)] by simp
  moreover obtain t where "run_ops stream_exec sops (sv_system (en_srv e')) = Inr t"
      "greeting states ch (count_list sops (SServe ch True)) t"
    using subscriber_is_greeted[OF boot_run[OF assms(1,2)] assms(6,7)] cached by metis
  ultimately show ?thesis by (auto simp: greeting_def)
qed

theorem new_clients_get_current_state_witness:
  "\<exists>period e ch e' t. ebind (boot sample_config) (run_ops (engine_exec sample_outside)
       [OLock \<lparr>Locked = True\<rparr>, OLock \<lparr>Locked = False\<rparr>]) = Inr (period, e) \<and>
     StreamSystemState engine_server_access (Some (getInitialSystemStates sample_world)) e = (ch, e') \<and>
     run_ops stream_exec [SServe ch True] (sv_system (en_srv e')) = Inr t \<and>
     ss_greeted t ! ch = [system_lock_msg 1700000000 \<lparr>Locked = False\<rparr>]"
proof -
  obtain period e where st: "ebind (boot sample_config) (run_ops (engine_exec sample_outside)
      [OLock \<lparr>Locked = True\<rparr>, OLock \<lparr>Locked = False\<rparr>]) = Inr (period, e)"
    using boot_runs[OF sample_positive] by (metis surj_pair)
  obtain c where c: "c \<notin> set (pl_conns (en_pool e)) \<union> set (pl_closed (en_pool e))"
    using ex_new_if_finite[OF infinite_UNIV_nat] by (metis finite_Un finite_set)
  obtain ch e' where sub: "StreamSystemState engine_server_access (Some (getInitialSystemStates sample_world)) e = (ch, e')"
    by (cases "StreamSystemState engine_server_access (Some (getInitialSystemStates sample_world)) e") auto
  have "\<exists>t. run_ops stream_exec [SServe ch True] (sv_system (en_srv e')) = Inr t \<and>
     ss_greeted t ! ch = [system_lock_msg 1700000000 \<lparr>Locked = False\<rparr>]"
    using new_clients_get_current_state[OF sample_positive st _ _ _ sub _ refl, of c "[SServe ch True]"] c
    by (auto simp: announced_def List.map_filter_simps lock_news_def power_news_def dpms_news_def sample_world_def
        simp del: run_ops.simps)
  with st sub show ?thesis by blast
qed

end
