(* ===== verification/Go_Numbers.thy ===== *)
theory Go_Numbers
  imports Go_Float Go_Strings
begin

text \<open>
  Arithmetic on \<^verbatim>\<open>float64\<close>, \<^verbatim>\<open>math.Round\<close>, \<^verbatim>\<open>strconv.ParseFloat\<close> and \<^verbatim>\<open>time.Duration.Seconds\<close>, and the string functions
  that the readers of sysfs use. Every result is rounded as in \<^const>\<open>rnd\<close>.
\<close>

section \<open>Arithmetic\<close>

fun f64_neg :: "f64 \<Rightarrow> f64" where
  "f64_neg (Fin a) = Fin (- a)"
| "f64_neg PInf = NInf"
| "f64_neg NInf = PInf"
| "f64_neg NaN = NaN"

fun f64_add :: "f64 \<Rightarrow> f64 \<Rightarrow> f64" where
  "f64_add (Fin a) (Fin b) = rnd (a + b)"
| "f64_add NaN y = NaN"
| "f64_add x NaN = NaN"
| "f64_add PInf NInf = NaN"
| "f64_add NInf PInf = NaN"
| "f64_add PInf y = PInf"
| "f64_add NInf y = NInf"
| "f64_add x PInf = PInf"
| "f64_add x NInf = NInf"

definition f64_sub :: "f64 \<Rightarrow> f64 \<Rightarrow> f64" where
  "f64_sub x y = f64_add x (f64_neg y)"

definition f64_inf :: "rat \<Rightarrow> f64" where
  "f64_inf s = (if s < 0 then NInf else if s = 0 then NaN else PInf)"

fun f64_sign :: "f64 \<Rightarrow> rat" where
  "f64_sign (Fin a) = a"
| "f64_sign PInf = 1"
| "f64_sign NInf = - 1"
| "f64_sign NaN = 0"

fun f64_mul :: "f64 \<Rightarrow> f64 \<Rightarrow> f64" where
  "f64_mul (Fin a) (Fin b) = rnd (a * b)"
| "f64_mul NaN y = NaN"
| "f64_mul x NaN = NaN"
| "f64_mul x y = f64_inf (f64_sign x * f64_sign y)"

text \<open>Division; a zero divisor counts as positive, as the sign of a zero is not kept.\<close>

fun f64_div :: "f64 \<Rightarrow> f64 \<Rightarrow> f64" where
  "f64_div (Fin a) (Fin b) = (if b = 0 then f64_inf a else rnd (a / b))"
| "f64_div NaN y = NaN"
| "f64_div x NaN = NaN"
| "f64_div (Fin a) y = Fin 0"
| "f64_div x (Fin b) = f64_inf (f64_sign x * (if b < 0 then - 1 else 1))"
| "f64_div x y = NaN"

text \<open>\<^verbatim>\<open>x <= y\<close>, false as soon as a NaN is involved.\<close>

definition f64_le :: "f64 \<Rightarrow> f64 \<Rightarrow> bool" where
  "f64_le x y = (x \<noteq> NaN \<and> y \<noteq> NaN \<and> \<not> f64_less y x)"

text \<open>\<^verbatim>\<open>math.Round\<close>: half away from zero, exact.\<close>

definition math_round :: "f64 \<Rightarrow> f64" where
  "math_round x = (case x of
     Fin q \<Rightarrow> Fin (of_int (if 0 \<le> q then \<lfloor>q + 1 / 2\<rfloor> else - \<lfloor>1 / 2 - q\<rfloor>)) | _ \<Rightarrow> x)"

text \<open>The idiom \<^verbatim>\<open>math.Round(x*100) / 100\<close>.\<close>

definition round2 :: "f64 \<Rightarrow> f64" where
  "round2 x = f64_div (math_round (f64_mul x (Fin 100))) (Fin 100)"

text \<open>\<^verbatim>\<open>Duration.Seconds\<close> of a duration in nanoseconds.\<close>

definition duration_seconds :: "int \<Rightarrow> f64" where
  "duration_seconds ns = f64_add (f64_of_int (ns div 1000000000)) (f64_div (f64_of_int (ns mod 1000000000)) (Fin 1000000000))"

section \<open>Parsing\<close>

text \<open>Reading digits in a base: the number, how many digits followed the point, whether a digit was seen,
  and what is left. An underscore is skipped; a second point ends the number.\<close>

definition base_digit :: "nat \<Rightarrow> char \<Rightarrow> nat option" where
  "base_digit base c = (case hex_val c of None \<Rightarrow> None | Some d \<Rightarrow> if d < base then Some d else None)"

fun read_mantissa :: "nat \<Rightarrow> bool \<Rightarrow> nat \<Rightarrow> nat \<Rightarrow> bool \<Rightarrow> string \<Rightarrow> nat \<times> nat \<times> bool \<times> string" where
  "read_mantissa base dot m fd seen [] = (m, fd, seen, [])"
| "read_mantissa base dot m fd seen (c # cs) =
     (if c = CHR ''_'' then read_mantissa base dot m fd seen cs
      else if c = CHR ''.'' then (if dot then (m, fd, seen, c # cs) else read_mantissa base True m fd seen cs)
      else case base_digit base c of
             Some d \<Rightarrow> read_mantissa base dot (base * m + d) (if dot then Suc fd else fd) True cs
           | None \<Rightarrow> (m, fd, seen, c # cs))"

text \<open>The digits of an exponent; from ten thousand on further digits are ignored.\<close>

fun read_exponent :: "nat \<Rightarrow> string \<Rightarrow> nat \<times> string" where
  "read_exponent e [] = (e, [])"
| "read_exponent e (c # cs) =
     (if c = CHR ''_'' then read_exponent e cs
      else case digit_val c of
             Some d \<Rightarrow> read_exponent (if e < 10000 then 10 * e + d else e) cs
           | None \<Rightarrow> (e, c # cs))"

definition strip_sign :: "string \<Rightarrow> bool \<times> string" where
  "strip_sign s = (case s of c # cs \<Rightarrow> if c = CHR ''-'' then (True, cs) else if c = CHR ''+'' then (False, cs) else (False, s) | [] \<Rightarrow> (False, []))"

text \<open>Underscores must separate digits, one may follow a base prefix.\<close>

fun underscores_from :: "bool \<Rightarrow> char \<Rightarrow> string \<Rightarrow> bool" where
  "underscores_from hex i [] = (i \<noteq> CHR ''_'')"
| "underscores_from hex i (c # cs) =
     (if base_digit (if hex then 16 else 10) c \<noteq> None then underscores_from hex (CHR ''0'') cs
      else if c = CHR ''_'' then (i = CHR ''0'' \<and> underscores_from hex (CHR ''_'') cs)
      else i \<noteq> CHR ''_'' \<and> underscores_from hex (CHR ''!'') cs)"

definition underscores_ok :: "string \<Rightarrow> bool" where
  "underscores_ok s =
     (case snd (strip_sign s) of
        a # b # t \<Rightarrow>
          if a = CHR ''0'' \<and> lower_char b \<in> {CHR ''b'', CHR ''o'', CHR ''x''}
          then underscores_from (lower_char b = CHR ''x'') (CHR ''0'') t
          else underscores_from False (CHR ''^'') (a # b # t)
      | t \<Rightarrow> underscores_from False (CHR ''^'') t)"

text \<open>The exponent part: absent for a decimal number, required after a hexadecimal one.\<close>

definition read_exp_part :: "char \<Rightarrow> string \<Rightarrow> (int \<times> string) option" where
  "read_exp_part expChar s =
     (case s of
        c # cs \<Rightarrow>
          if lower_char c = expChar then
            (case strip_sign cs of (neg, t) \<Rightarrow>
               (case t of
                  d # _ \<Rightarrow> if digit_val d = None then None
                          else (case read_exponent 0 t of (e, rest) \<Rightarrow> Some (if neg then - int e else int e, rest))
                | [] \<Rightarrow> None))
          else if expChar = CHR ''p'' then None else Some (0, s)
      | [] \<Rightarrow> if expChar = CHR ''p'' then None else Some (0, []))"

definition rat_pow :: "rat \<Rightarrow> int \<Rightarrow> rat" where
  "rat_pow b k = (if 0 \<le> k then b ^ nat k else 1 / b ^ nat (- k))"

text \<open>\<^verbatim>\<open>strconv.ParseFloat(s, 64)\<close>; \<^term>\<open>None\<close> is a syntax or range error.\<close>

definition read_float :: "string \<Rightarrow> f64 option" where
  "read_float s =
     (case strip_sign s of (neg, t) \<Rightarrow>
        (let hex = (case t of a # b # _ \<Rightarrow> a = CHR ''0'' \<and> lower_char b = CHR ''x'' | _ \<Rightarrow> False);
             base = (if hex then 16 else 10) in
         case read_mantissa base False 0 0 False (if hex then drop 2 t else t) of
           (m, fd, seen, rest) \<Rightarrow>
             if \<not> seen then None
             else case read_exp_part (if hex then CHR ''p'' else CHR ''e'') rest of
                    Some (e, []) \<Rightarrow>
                      if \<not> underscores_ok s then None
                      else (let v = of_nat m / of_nat base ^ fd * rat_pow (if hex then 2 else 10) e in
                            case rnd (if neg then - v else v) of Fin q \<Rightarrow> Some (Fin q) | _ \<Rightarrow> None)
                  | _ \<Rightarrow> None))"

definition parse_float :: "string \<Rightarrow> f64 option" where
  "parse_float s =
     (let (neg, t) = strip_sign (to_lower s) in
      if t = ''inf'' \<or> t = ''infinity'' then Some (if neg then NInf else PInf)
      else if to_lower s = ''nan'' then Some NaN
      else read_float s)"

section \<open>More strings\<close>

text \<open>\<^verbatim>\<open>strings.Replace(s, p, r, 1)\<close> and \<^verbatim>\<open>strings.ReplaceAll(s, p, r)\<close> for a pattern that is not empty, and \<^verbatim>\<open>strings.Trim\<close>.\<close>

fun replace_first :: "string \<Rightarrow> string \<Rightarrow> string \<Rightarrow> string" where
  "replace_first p r [] = []"
| "replace_first p r (c # cs) = (if has_prefix (c # cs) p then r @ drop (length p) (c # cs) else c # replace_first p r cs)"

function replace_all :: "string \<Rightarrow> string \<Rightarrow> string \<Rightarrow> string" where
  "replace_all p r [] = []"
| "replace_all p r (c # cs) =
     (if p \<noteq> [] \<and> has_prefix (c # cs) p then r @ replace_all p r (drop (length p) (c # cs))
      else c # replace_all p r cs)"
  by pat_completeness auto
termination by (relation "measure (\<lambda>(p, r, s). length s)") auto

definition str_trim :: "string \<Rightarrow> string \<Rightarrow> string" where
  "str_trim cutset s = rev (dropWhile (\<lambda>c. c \<in> set cutset) (rev (dropWhile (\<lambda>c. c \<in> set cutset) s)))"

section \<open>Facts\<close>

lemma rat_trunc_of_int [simp]: "rat_trunc (of_int n) = n"
  by (simp add: rat_trunc_def)

lemma rnd_not_NaN [simp]: "rnd x \<noteq> NaN"
  by (simp add: rnd_def Let_def)

lemma f64_le_0_iff: "f64_le (Fin 0) x \<longleftrightarrow> x = PInf \<or> (\<exists>q. x = Fin q \<and> 0 \<le> q)"
  by (cases x) (auto simp: f64_le_def)

lemma digits_of_number:
  "digit_val c = Some d \<Longrightarrow> hex_val c = Some d \<and> d < 10 \<and> c \<noteq> CHR ''_'' \<and> c \<noteq> CHR ''.'' \<and> c \<noteq> CHR ''-'' \<and> c \<noteq> CHR ''+''"
  by (auto simp: digit_val_def hex_val_def Let_def split: if_splits)

lemma read_mantissa_digits:
  "digits_val m s = Some n \<Longrightarrow> read_mantissa 10 False m 0 seen s = (n, 0, seen \<or> s \<noteq> [], [])"
proof (induction s arbitrary: m seen)
  case (Cons c cs)
  then obtain d where d: "digit_val c = Some d" and n: "digits_val (10 * m + d) cs = Some n"
    by (auto split: option.splits)
  from Cons.IH[OF n] digits_of_number[OF d] show ?case by (simp add: base_digit_def)
qed simp

lemma underscores_digits:
  "digits_val m s = Some n \<Longrightarrow> i \<noteq> CHR ''_'' \<Longrightarrow> underscores_from False i s"
proof (induction s arbitrary: m i)
  case (Cons c cs)
  then obtain d where d: "digit_val c = Some d" and n: "digits_val (10 * m + d) cs = Some n"
    by (auto split: option.splits)
  from Cons.IH[OF n] digits_of_number[OF d] show ?case by (simp add: base_digit_def)
qed simp

end
