(* ===== verification/Float_Rounding.thy ===== *)
theory Float_Rounding
  imports Go_Numbers
begin

text \<open>
  What rounding guarantees: it keeps the sign, it is monotone, and powers of two within the range are
  exact. The facts carry the bounds of the telemetry readings.
\<close>

lemma round_even_cases: "round_even x = \<lfloor>x\<rfloor> \<and> x - of_int \<lfloor>x\<rfloor> \<le> 1 / 2 \<or> round_even x = \<lfloor>x\<rfloor> + 1 \<and> x - of_int \<lfloor>x\<rfloor> \<ge> 1 / 2"
  by (auto simp: round_even_def Let_def)

lemma round_even_mono:
  assumes "x \<le> y"
  shows "round_even x \<le> round_even y"
proof (cases "\<lfloor>x\<rfloor> = \<lfloor>y\<rfloor>")
  case True
  then show ?thesis using assms by (auto simp: round_even_def Let_def)
next
  case False
  with floor_mono[OF assms] have "\<lfloor>x\<rfloor> + 1 \<le> \<lfloor>y\<rfloor>" by simp
  with round_even_cases[of x] round_even_cases[of y] show ?thesis by linarith
qed

lemma pow2_powi: "pow2 k = 2 powi k"
  by (simp add: pow2_def power_int_def inverse_eq_divide power_one_over)

lemma pow2_pos [simp]: "0 < pow2 k"
  by (simp add: pow2_def)

lemma pow2_add: "pow2 (i + j) = pow2 i * pow2 j"
  by (simp add: pow2_powi power_int_add)

lemma pow2_nonneg [simp]: "0 \<le> pow2 k"
  by (simp add: less_imp_le)

lemma pow2_less_iff: "pow2 i < pow2 j \<longleftrightarrow> i < j"
proof -
  have "pow2 i < pow2 j" if "i < j" for i j
    using that by (simp add: pow2_powi power_int_strict_increasing)
  then show ?thesis by (metis linorder_neqE less_asym)
qed

lemma pow2_mono: "i \<le> j \<Longrightarrow> pow2 i \<le> pow2 j"
  by (simp add: pow2_powi power_int_increasing)

lemma pow2_nat: "pow2 (int k) = 2 ^ k"
  by (simp add: pow2_def)

lemma bitlen_range: "0 < n \<Longrightarrow> pow2 (bitlen n - 1) \<le> of_int n \<and> of_int n < pow2 (bitlen n)"
  using bitlen_bounds[of n] bitlen_nonneg[of n] 
  by (auto simp: pow2_def)

lemma ilog2_range:
  assumes "0 < x"
  shows "pow2 (ilog2 x) \<le> x" and "x < pow2 (ilog2 x + 1)"
proof -
  obtain n d where q: "quotient_of x = (n, d)" by (cases "quotient_of x")
  then have d: "0 < d" and x: "x = of_int n / of_int d"
    using quotient_of_denom_pos quotient_of_div by auto
  with assms have n: "0 < n" by (simp add: zero_less_divide_iff)
  let ?k = "bitlen n - bitlen d"
  have k1: "pow2 (?k - 1) \<le> x"
  proof -
    have "pow2 (?k - 1) * of_int d \<le> pow2 (?k - 1) * pow2 (bitlen d)"
      using bitlen_range[OF d] by (simp add: less_imp_le)
    also have "\<dots> = pow2 (bitlen n - 1)" by (simp add: pow2_add[symmetric])
    also have "\<dots> \<le> of_int n" using bitlen_range[OF n] by simp
    finally show ?thesis using d by (simp add: x le_divide_eq)
  qed
  have k2: "x < pow2 (?k + 1)"
  proof -
    have "of_int n < pow2 (bitlen n)" using bitlen_range[OF n] by simp
    also have "\<dots> = pow2 (?k + 1) * pow2 (bitlen d - 1)" by (simp add: pow2_add[symmetric])
    also have "\<dots> \<le> pow2 (?k + 1) * of_int d" using bitlen_range[OF d] by simp
    finally show ?thesis using d by (simp add: x divide_less_eq)
  qed
  from k1 k2 show "pow2 (ilog2 x) \<le> x" "x < pow2 (ilog2 x + 1)"
    by (auto simp: ilog2_def q Let_def)
qed

lemma ilog2_mono:
  assumes "0 < x" "x \<le> y"
  shows "ilog2 x \<le> ilog2 y"
proof (rule ccontr)
  assume "\<not> ?thesis"
  then have "pow2 (ilog2 y + 1) \<le> pow2 (ilog2 x)" by (intro pow2_mono) simp
  with ilog2_range[OF assms(1)] ilog2_range[of y] assms show False by simp
qed


text \<open>The magnitude a positive number is rounded to.\<close>

definition rnd_exp :: "rat \<Rightarrow> int" where
  "rnd_exp x = max (ilog2 x - 52) (- 1074)"

definition rnd_mag :: "rat \<Rightarrow> rat" where
  "rnd_mag x = of_int (round_even (x / pow2 (rnd_exp x))) * pow2 (rnd_exp x)"

lemma rnd_pos: "0 < x \<Longrightarrow> rnd x = (if 2 ^ 1024 \<le> rnd_mag x then PInf else Fin (rnd_mag x))"
  by (simp add: rnd_def rnd_mag_def rnd_exp_def Let_def)

lemma round_even_of_int [simp]: "round_even (of_int n) = n"
  by (simp add: round_even_def Let_def)

lemma of_int_le_round_even: "of_int n \<le> x \<Longrightarrow> n \<le> round_even x"
  using round_even_mono[of "of_int n" x] by simp

lemma round_even_le_of_int: "x \<le> of_int n \<Longrightarrow> round_even x \<le> n"
  using round_even_mono[of x "of_int n"] by simp

lemma rnd_mag_upper:
  assumes "x \<le> of_int n * pow2 (rnd_exp x)"
  shows "rnd_mag x \<le> of_int n * pow2 (rnd_exp x)"
proof -
  have "x / pow2 (rnd_exp x) \<le> of_int n" using assms by (simp add: divide_le_eq)
  then show ?thesis unfolding rnd_mag_def by (simp add: round_even_le_of_int)
qed

lemma rnd_mag_lower:
  assumes "of_int n * pow2 (rnd_exp x) \<le> x"
  shows "of_int n * pow2 (rnd_exp x) \<le> rnd_mag x"
proof -
  have "of_int n \<le> x / pow2 (rnd_exp x)" using assms by (simp add: le_divide_eq)
  then show ?thesis unfolding rnd_mag_def by (simp add: of_int_le_round_even)
qed

lemma rnd_mag_mono:
  assumes "0 < x" and "x \<le> y"
  shows "rnd_mag x \<le> rnd_mag y"
proof (cases "rnd_exp x = rnd_exp y")
  case True
  have "x / pow2 (rnd_exp y) \<le> y / pow2 (rnd_exp y)" using assms by (simp add: divide_right_mono less_imp_le)
  then show ?thesis unfolding rnd_mag_def True by (simp add: round_even_mono)
next
  case False
  have "rnd_exp x \<le> rnd_exp y" using ilog2_mono[OF assms] by (simp add: rnd_exp_def)
  with False have lt: "rnd_exp x + 1 \<le> rnd_exp y" and ey: "rnd_exp y = ilog2 y - 52"
    by (auto simp: rnd_exp_def)
  have p: "of_int (2 ^ 53) = pow2 53" "of_int (2 ^ 52) = pow2 52" by (simp_all add: pow2_def)
  have "x \<le> pow2 (ilog2 x + 1)" using ilog2_range(2)[OF assms(1)] by simp
  also have "\<dots> \<le> pow2 (53 + rnd_exp x)" by (rule pow2_mono) (simp add: rnd_exp_def)
  finally have "rnd_mag x \<le> pow2 53 * pow2 (rnd_exp x)"
    using rnd_mag_upper[of x "2 ^ 53"] unfolding p pow2_add by blast
  also have "\<dots> \<le> pow2 52 * pow2 (rnd_exp y)"
    unfolding pow2_add[symmetric] using lt by (intro pow2_mono) simp
  also have "\<dots> \<le> rnd_mag y"
    using rnd_mag_lower[of "2 ^ 52" y, unfolded p, folded pow2_add] ilog2_range(1)[of y] assms ey
    by (simp add: pow2_add[symmetric])
  finally show ?thesis .
qed

lemma rnd_mag_nonneg: "0 < x \<Longrightarrow> 0 \<le> rnd_mag x"
  using rnd_mag_lower[of 0 x] by simp

lemma rnd_mag_pow2:
  assumes "- 1000 \<le> k"
  shows "rnd_mag (pow2 k) = pow2 k"
proof -
  have l: "ilog2 (pow2 k) = k"
  proof (rule antisym)
    show "ilog2 (pow2 k) \<le> k"
      using ilog2_range(1)[of "pow2 k"] by (metis linorder_not_less pow2_less_iff pow2_pos)
    show "k \<le> ilog2 (pow2 k)"
      using ilog2_range(2)[of "pow2 k"] by (simp add: pow2_less_iff)
  qed
  have e: "rnd_exp (pow2 k) = k - 52" using assms by (simp add: rnd_exp_def l)
  have "pow2 k = of_int (2 ^ 52) * pow2 (k - 52)"
    using pow2_add[of 52 "k - 52"] by (simp add: pow2_def[of 52])
  then have "pow2 k / pow2 (k - 52) = of_int (2 ^ 52)" using pow2_pos[of "k - 52"] by (simp add: divide_eq_eq del: pow2_pos)
  then show ?thesis unfolding rnd_mag_def e by (simp only: round_even_of_int) (metis \<open>pow2 k = of_int (2 ^ 52) * pow2 (k - 52)\<close>)
qed

section \<open>Rounding of non-negative numbers\<close>

lemma rnd_nonneg: "0 \<le> x \<Longrightarrow> f64_le (Fin 0) (rnd x)"
  using rnd_mag_nonneg[of x] by (cases "x = 0") (auto simp: rnd_pos f64_le_0_iff, simp add: rnd_def)

text \<open>A number up to a power of two is rounded to a finite number up to that power.\<close>

lemma rnd_bounded:
  assumes "0 \<le> x" and "x \<le> pow2 k" and "- 1000 \<le> k" and "k < 1024"
  obtains y where "rnd x = Fin y" and "0 \<le> y" and "y \<le> pow2 k"
proof (cases "x = 0")
  case True
  show ?thesis by (rule that[of 0]) (simp_all add: True rnd_def)
next
  case False
  with assms(1) have x: "0 < x" by simp
  have b: "rnd_mag x \<le> pow2 k" using rnd_mag_mono[OF x assms(2)] rnd_mag_pow2[OF assms(3)] by simp
  also have "\<dots> < 2 ^ 1024"
    using assms(4) pow2_less_iff[of k 1024] pow2_nat[of 1024] by simp
  finally show ?thesis using that[of "rnd_mag x"] b rnd_mag_nonneg[OF x] x by (simp add: rnd_pos)
qed

lemma rnd_mono:
  assumes "0 \<le> x" and "x \<le> y" and "rnd x = Fin a" and "rnd y = Fin b"
  shows "a \<le> b"
proof (cases "x = 0")
  case True
  with assms show ?thesis using rnd_nonneg[of y] by (auto simp: f64_le_0_iff rnd_def)
next
  case False
  with assms(1) have x: "0 < x" by simp
  then show ?thesis using assms rnd_mag_mono[OF x assms(2)] by (auto simp: rnd_pos split: if_splits)
qed

section \<open>Whole numbers and the rounding error\<close>

lemma rnd_mag_int:
  assumes "0 < n" and "n \<le> 2 ^ 53"
  shows "rnd_mag (of_int n) = of_int n"
proof (cases "n = 2 ^ 53")
  case True
  then show ?thesis using rnd_mag_pow2[of 53] by (simp add: pow2_def)
next
  case False
  let ?x = "of_int n :: rat"
  have "?x < pow2 53" using assms(2) False by (simp add: pow2_def order.not_eq_order_implies_strict)
  then have l: "ilog2 ?x \<le> 52"
    using ilog2_range(1)[of ?x] assms(1) pow2_less_iff[of "ilog2 ?x" 53] by simp
  have l0: "0 \<le> ilog2 ?x"
    using ilog2_range(2)[of ?x] assms(1) pow2_less_iff[of 0 "ilog2 ?x + 1"] by (simp add: pow2_def[of 0])
  have e: "rnd_exp ?x = ilog2 ?x - 52" using l0 by (simp add: rnd_exp_def)
  let ?m = "n * 2 ^ nat (52 - ilog2 ?x)"
  have p: "pow2 (ilog2 ?x - 52) = 1 / 2 ^ nat (52 - ilog2 ?x)" using l by (auto simp: pow2_def)
  have "?x / pow2 (ilog2 ?x - 52) = of_int ?m" by (simp add: p)
  then show ?thesis unfolding rnd_mag_def e by (simp only: round_even_of_int) (simp add: p)
qed

lemma rnd_int:
  assumes "0 \<le> n" and "n \<le> 2 ^ 53"
  shows "rnd (of_int n) = Fin (of_int n)"
proof (cases "n = 0")
  case False
  have "of_int n \<le> (2 ^ 53 :: rat)" using assms(2) by (metis of_int_le_iff of_int_numeral of_int_power)
  also have "\<dots> < 2 ^ 1024" by (rule power_strict_increasing) simp_all
  finally show ?thesis using False assms rnd_mag_int[of n] by (simp add: rnd_pos)
qed (simp add: rnd_def)

lemma rnd_up_to_int:
  assumes "0 \<le> x" and "x \<le> of_int n" and "n \<le> 2 ^ 53"
  obtains y where "rnd x = Fin y" and "0 \<le> y" and "y \<le> of_int n"
proof -
  have "0 \<le> (of_int n :: rat)" using assms by linarith
  then have n: "0 \<le> n" by simp
  have "of_int n \<le> (2 ^ 53 :: rat)" using assms(3) by (metis of_int_le_iff of_int_numeral of_int_power)
  then have "x \<le> pow2 53" using assms(2) by (simp add: pow2_def)
  then obtain y where y: "rnd x = Fin y" "0 \<le> y" using rnd_bounded[OF assms(1), of 53] by auto
  show ?thesis by (rule that[OF y]) (rule rnd_mono[OF assms(1,2) y(1) rnd_int[OF n assms(3)]])
qed

lemma round_even_error: "\<bar>of_int (round_even x) - x\<bar> \<le> 1 / 2"
  using round_even_cases[of x] floor_correct[of x] by auto

lemma rnd_error:
  assumes "pow2 (- 1000) \<le> x" and "rnd x = Fin y"
  shows "\<bar>y - x\<bar> \<le> x / 2 ^ 53"
proof -
  have x: "0 < x" using assms(1) pow2_pos[of "- 1000"] by (simp add: less_le_trans del: pow2_pos)
  have y: "y = rnd_mag x" using assms(2) x by (simp add: rnd_pos split: if_splits)
  let ?p = "pow2 (rnd_exp x)"
  have "pow2 (- 1000) < pow2 (ilog2 x + 1)" using assms(1) ilog2_range(2)[OF x] by simp
  then have e: "rnd_exp x = ilog2 x - 52" by (simp add: pow2_less_iff rnd_exp_def)
  have "pow2 (ilog2 x) = pow2 52 * ?p" by (simp add: e pow2_add[symmetric])
  then have p: "2 ^ 52 * ?p \<le> x" using ilog2_range(1)[OF x] by (simp add: pow2_def[of 52])
  have "y - x = (of_int (round_even (x / ?p)) - x / ?p) * ?p" using pow2_pos[of "rnd_exp x"] by (simp add: y rnd_mag_def left_diff_distrib del: pow2_pos)
  then have "\<bar>y - x\<bar> = \<bar>of_int (round_even (x / ?p)) - x / ?p\<bar> * ?p" by (simp add: abs_mult)
  also have "\<dots> \<le> 1 / 2 * ?p" by (rule mult_right_mono[OF round_even_error]) simp
  also have "\<dots> \<le> x / 2 ^ 53" using p by simp
  finally show ?thesis .
qed

end
