(* ===== verification/Mpris_Mock.thy ===== *)
theory Mpris_Mock
  imports Mpris_Types Go_Chan Float_Rounding
begin

text \<open>
  The emulated media player (\<^verbatim>\<open>pkg/mpris/mock_manager.go\<close>): three tracks, a playback status, a position
  that advances once a second, and the commands. The conversions of the dynamically typed
  command arguments are shared with the D-Bus manager.
\<close>

section \<open>Arguments\<close>

text \<open>The type switches on an argument: a value of another type leaves the variable at zero.\<close>

definition arg_i64 :: "marg \<Rightarrow> i64" where
  "arg_i64 a = (case a of AInt64 v \<Rightarrow> v | AFloat64 x \<Rightarrow> f64_to_i64 x | AInt v \<Rightarrow> v | _ \<Rightarrow> 0)"

definition arg_f64 :: "marg \<Rightarrow> f64" where
  "arg_f64 a = (case a of AFloat64 x \<Rightarrow> x | AFloat32 x \<Rightarrow> x | AInt v \<Rightarrow> f64_of_int (sint v) | _ \<Rightarrow> Fin 0)"

definition arg_string :: "marg \<Rightarrow> string" where
  "arg_string a = (case a of AString s \<Rightarrow> s | _ \<Rightarrow> [])"

section \<open>State and commands\<close>

record MockMPRISManager =
  mk_status :: PlaybackStatus
  mk_volume :: f64
  mk_positionMicro :: i64
  mk_trackIndex :: nat
  mk_eventsChan :: "MediaEvent chan option"
  mk_started :: bool

definition mock_tracks :: "PlayerMetadata list" where
  "mock_tracks =
     [\<lparr>pm_TrackID = ''spotify:track:4PTG3Z6ehGkBFm5zOHYGaS'', pm_Title = ''Stayin'' @ [CHR 0x27] @ '' Alive'', pm_Artist = [''Bee Gees''],
       pm_Album = ''Saturday Night Fever'', pm_ArtURL = ''https://images.example.com/stayinalive.jpg'', pm_LengthMicro = 284000000\<rparr>,
      \<lparr>pm_TrackID = ''spotify:track:512G3Z6ehGkBFm5zOHYGaS'', pm_Title = ''Billie Jean'', pm_Artist = [''Michael Jackson''],
       pm_Album = ''Thriller'', pm_ArtURL = ''https://images.example.com/billiejean.jpg'', pm_LengthMicro = 294000000\<rparr>,
      \<lparr>pm_TrackID = ''spotify:track:615G3Z6ehGkBFm5zOHYGaS'', pm_Title = ''Take On Me'', pm_Artist = [''a-ha''],
       pm_Album = ''Hunting High and Low'', pm_ArtURL = ''https://images.example.com/takeonme.jpg'', pm_LengthMicro = 225000000\<rparr>]"

definition NewMockMPRISManager :: MockMPRISManager where
  "NewMockMPRISManager = \<lparr>mk_status = StatusPlaying, mk_volume = rnd (85 / 100), mk_positionMicro = 45000000,
     mk_trackIndex = 0, mk_eventsChan = None, mk_started = False\<rparr>"

definition track_length :: "MockMPRISManager \<Rightarrow> i64" where
  "track_length m = pm_LengthMicro (mock_tracks ! mk_trackIndex m)"

definition broadcastStateLocked :: "MockMPRISManager \<Rightarrow> MockMPRISManager go" where
  "broadcastStateLocked m =
     (case mk_eventsChan m of
        None \<Rightarrow> Inr m
      | Some c \<Rightarrow>
          if mk_trackIndex m < length mock_tracks then
            (let state = \<lparr>ps_PlayerName = ''spotify'', ps_Identity = ''Spotify'', ps_DesktopEntry = ''spotify'',
                   ps_PlaybackStatus = mk_status m, ps_Volume = mk_volume m, ps_PositionMicro = mk_positionMicro m,
                   ps_Metadata = mock_tracks ! mk_trackIndex m\<rparr>
             in ebind (try_send \<lparr>ActivePlayers = [state]\<rparr> c) (\<lambda>(c', _). Inr (m\<lparr>mk_eventsChan := Some c'\<rparr>)))
          else Inl (IndexOutOfRange (int (mk_trackIndex m))))"

definition mock_mpris_Start :: "MockMPRISManager \<Rightarrow> MockMPRISManager go" where
  "mock_mpris_Start m =
     (if mk_started m then Inr m
      else broadcastStateLocked (m\<lparr>mk_eventsChan := Some (make_chan 50), mk_started := True\<rparr>))"

text \<open>One second of the simulation.\<close>

definition mock_mpris_tick :: "MockMPRISManager \<Rightarrow> MockMPRISManager go" where
  "mock_mpris_tick m =
     (if mk_started m \<and> mk_status m = StatusPlaying then
        (let m1 = m\<lparr>mk_positionMicro := mk_positionMicro m + 1000000\<rparr> in
         if mk_trackIndex m1 < length mock_tracks then
           (let m2 = (if sint (track_length m1) \<le> sint (mk_positionMicro m1)
                      then m1\<lparr>mk_trackIndex := (mk_trackIndex m1 + 1) mod length mock_tracks, mk_positionMicro := 0\<rparr>
                      else m1)
            in broadcastStateLocked m2)
         else Inl (IndexOutOfRange (int (mk_trackIndex m1))))
      else Inr m)"

definition clamp_position :: "i64 \<Rightarrow> i64 \<Rightarrow> i64" where
  "clamp_position len pos = (if sint pos < 0 then 0 else if sint len < sint pos then len else pos)"

definition mock_update :: "string \<Rightarrow> margs \<Rightarrow> MockMPRISManager \<Rightarrow> MockMPRISManager option" where
  "mock_update command args m =
     (if command = ''play'' then Some (m\<lparr>mk_status := StatusPlaying\<rparr>)
      else if command = ''pause'' then Some (m\<lparr>mk_status := StatusPaused\<rparr>)
      else if command = ''play_pause'' then
        Some (m\<lparr>mk_status := (if mk_status m = StatusPlaying then StatusPaused else StatusPlaying)\<rparr>)
      else if command = ''stop'' then Some (m\<lparr>mk_status := StatusStopped, mk_positionMicro := 0\<rparr>)
      else if command = ''next'' then
        Some (m\<lparr>mk_trackIndex := (mk_trackIndex m + 1) mod length mock_tracks, mk_positionMicro := 0\<rparr>)
      else if command = ''previous'' then
        Some (m\<lparr>mk_trackIndex := (mk_trackIndex m + length mock_tracks - 1) mod length mock_tracks, mk_positionMicro := 0\<rparr>)
      else if command = ''seek'' then
        Some (case map_of args ''offset_microseconds'' of
                None \<Rightarrow> m
              | Some v \<Rightarrow> m\<lparr>mk_positionMicro := clamp_position (track_length m) (mk_positionMicro m + arg_i64 v)\<rparr>)
      else if command = ''set_position'' then
        Some (case map_of args ''position_microseconds'' of
                None \<Rightarrow> m
              | Some v \<Rightarrow> m\<lparr>mk_positionMicro := clamp_position (track_length m) (arg_i64 v)\<rparr>)
      else if command = ''set_volume'' then
        Some (case map_of args ''volume'' of None \<Rightarrow> m | Some v \<Rightarrow> m\<lparr>mk_volume := clamp_unit (arg_f64 v)\<rparr>)
      else None)"

definition mock_SendCommand :: "string \<Rightarrow> margs \<Rightarrow> MockMPRISManager \<Rightarrow> (string option \<times> MockMPRISManager) go" where
  "mock_SendCommand command args m =
     (if \<not> mk_started m then Inr (Some ''mock MPRIS manager not started'', m)
      else case mock_update command args m of
             None \<Rightarrow> Inr (Some (''unsupported mock command: '' @ command), m)
           | Some m1 \<Rightarrow> ebind (broadcastStateLocked m1) (\<lambda>m2. Inr (None, m2)))"

section \<open>The invariant\<close>

definition mock_mpris_ok :: "MockMPRISManager \<Rightarrow> bool" where
  "mock_mpris_ok m \<longleftrightarrow> mk_trackIndex m < 3 \<and> 0 \<le> sint (mk_positionMicro m) \<and>
     sint (mk_positionMicro m) \<le> sint (track_length m) \<and>
     (mk_volume m = NaN \<or> (\<exists>q. mk_volume m = Fin q \<and> 0 \<le> q \<and> q \<le> 1)) \<and>
     (\<forall>c. mk_eventsChan m = Some c \<longrightarrow> \<not> ch_closed c \<and> chan_ok c)"

lemma length_mock_tracks [simp]: "length mock_tracks = 3"
  by (simp add: mock_tracks_def)

lemma track_length_bounds: "mk_trackIndex m < 3 \<Longrightarrow> 0 \<le> sint (track_length m) \<and> sint (track_length m) \<le> 294000000"
proof -
  assume "mk_trackIndex m < 3"
  then have "mk_trackIndex m \<in> {0, 1, 2}" by auto
  then show ?thesis by (auto simp: track_length_def mock_tracks_def)
qed

lemma clamp_position_bounds:
  "0 \<le> sint len \<Longrightarrow> 0 \<le> sint (clamp_position len pos) \<and> sint (clamp_position len pos) \<le> sint len"
  by (simp add: clamp_position_def)

datatype mock_mpris_op = KStart | KTick | KCommand string margs

fun mock_mpris_exec :: "mock_mpris_op \<Rightarrow> MockMPRISManager \<Rightarrow> MockMPRISManager go" where
  "mock_mpris_exec KStart m = mock_mpris_Start m"
| "mock_mpris_exec KTick m = mock_mpris_tick m"
| "mock_mpris_exec (KCommand command args) m = ebind (mock_SendCommand command args m) (\<lambda>(r, m'). Inr m')"

lemma mock_broadcast_ok:
  assumes "mock_mpris_ok m"
  shows "\<exists>m'. broadcastStateLocked m = Inr m' \<and> mock_mpris_ok m'"
proof (cases "mk_eventsChan m")
  case (Some c)
  with assms show ?thesis
    by (auto simp: broadcastStateLocked_def mock_mpris_ok_def try_send_def chan_ok_def track_length_def)
qed (use assms in \<open>simp add: broadcastStateLocked_def\<close>)

lemma mock_mpris_ok_track:
  "mock_mpris_ok m \<Longrightarrow> mock_mpris_ok (m\<lparr>mk_trackIndex := n mod 3, mk_positionMicro := 0\<rparr>)"
  using track_length_bounds[of "m\<lparr>mk_trackIndex := n mod 3, mk_positionMicro := 0\<rparr>"]
  by (simp add: mock_mpris_ok_def)

lemma mock_mpris_ok_position:
  "mock_mpris_ok m \<Longrightarrow> mock_mpris_ok (m\<lparr>mk_positionMicro := clamp_position (track_length m) pos\<rparr>)"
  using track_length_bounds[of m] clamp_position_bounds[of "track_length m" pos]
  by (auto simp: mock_mpris_ok_def track_length_def)

lemma mock_mpris_ok_status: "mock_mpris_ok (m\<lparr>mk_status := st\<rparr>) = mock_mpris_ok m"
  by (simp add: mock_mpris_ok_def track_length_def)

lemma mock_mpris_ok_stop: "mock_mpris_ok m \<Longrightarrow> mock_mpris_ok (m\<lparr>mk_status := st, mk_positionMicro := 0\<rparr>)"
  using track_length_bounds[of m] by (simp add: mock_mpris_ok_def track_length_def)

lemma mock_mpris_ok_volume: "mock_mpris_ok m \<Longrightarrow> mock_mpris_ok (m\<lparr>mk_volume := clamp_unit v\<rparr>)"
  using clamp_unit_cases[of v] by (auto simp: mock_mpris_ok_def track_length_def)

lemmas mock_mpris_ok_updates =
  mock_mpris_ok_track mock_mpris_ok_position mock_mpris_ok_status mock_mpris_ok_stop mock_mpris_ok_volume

lemma mock_update_ok: "mock_mpris_ok m \<Longrightarrow> mock_update command args m = Some m' \<Longrightarrow> mock_mpris_ok m'"
  by (auto simp: mock_update_def mock_mpris_ok_updates split: if_splits option.splits)

lemma sint_plus_small:
  assumes "0 \<le> sint (x :: i64)" and "sint x \<le> 294000000"
  shows "sint (x + 1000000) = sint x + 1000000"
  using assms unfolding sint_word_ariths by (simp add: signed_take_bit_int_eq_self)

lemma mock_tick_ok:
  assumes "mock_mpris_ok m"
  shows "\<exists>m'. mock_mpris_tick m = Inr m' \<and> mock_mpris_ok m'"
proof -
  let ?m1 = "m\<lparr>mk_positionMicro := mk_positionMicro m + 1000000\<rparr>"
  have b: "0 \<le> sint (mk_positionMicro m)" "sint (mk_positionMicro m) \<le> 294000000" "mk_trackIndex m < 3"
    using assms track_length_bounds[of m] by (auto simp: mock_mpris_ok_def)
  have len: "track_length ?m1 = track_length m" by (simp add: track_length_def)
  have "mock_mpris_ok ?m1" if "\<not> sint (track_length ?m1) \<le> sint (mk_positionMicro ?m1)"
    using that assms sint_plus_small[OF b(1,2)] b(1) by (simp add: mock_mpris_ok_def len)
  moreover have "mock_mpris_ok (?m1\<lparr>mk_trackIndex := n mod 3, mk_positionMicro := 0\<rparr>)" for n
    using mock_mpris_ok_track[OF assms, of n] by simp
  ultimately show ?thesis
    using assms b(3) mock_broadcast_ok by (auto simp: mock_mpris_tick_def Let_def)
qed

lemma mock_start_ok: "mock_mpris_ok m \<Longrightarrow> \<exists>m'. mock_mpris_Start m = Inr m' \<and> mock_mpris_ok m'"
  using mock_broadcast_ok[of "m\<lparr>mk_eventsChan := Some (make_chan 50), mk_started := True\<rparr>"]
  by (auto simp: mock_mpris_Start_def mock_mpris_ok_def track_length_def)

lemma mock_command_ok:
  assumes "mock_mpris_ok m"
  shows "\<exists>r m'. mock_SendCommand command args m = Inr (r, m') \<and> mock_mpris_ok m'"
proof (cases "mock_update command args m")
  case (Some m1)
  with mock_broadcast_ok[OF mock_update_ok[OF assms Some]] assms show ?thesis by (auto simp: mock_SendCommand_def)
qed (use assms in \<open>simp add: mock_SendCommand_def\<close>)

interpretation mock_mpris: safe_system mock_mpris_exec mock_mpris_ok
proof
  fix m opr
  assume ok: "mock_mpris_ok m"
  show "\<exists>m'. mock_mpris_exec opr m = Inr m' \<and> mock_mpris_ok m'"
  proof (cases opr)
    case (KCommand command args)
    then show ?thesis using mock_command_ok[OF ok, of command args] by auto
  qed (simp_all add: mock_start_ok[OF ok] mock_tick_ok[OF ok])
qed

lemma new_mock_mpris_ok: "mock_mpris_ok NewMockMPRISManager"
proof -
  have "\<exists>q. rnd (85 / 100) = Fin q \<and> 0 \<le> q \<and> q \<le> 1"
    by (rule rnd_bounded[of "85 / 100" 0]) (simp_all add: pow2_def)
  then show ?thesis by (simp add: mock_mpris_ok_def NewMockMPRISManager_def track_length_def mock_tracks_def)
qed

text \<open>the emulated player stays in bounds under any sequence of starts, ticks and commands with any arguments:
  nothing panics, the track index is valid, the position lies within the track (also when adding
  an offset wraps around), the volume is between 0 and 1 or was requested as not a number,
  and the event channel stays open and within its capacity.\<close>

theorem mock_player_stays_in_bounds:
  "\<exists>m. run_ops mock_mpris_exec ops NewMockMPRISManager = Inr m \<and> mk_trackIndex m < length mock_tracks \<and>
     0 \<le> sint (mk_positionMicro m) \<and> sint (mk_positionMicro m) \<le> sint (track_length m) \<and>
     (mk_volume m = NaN \<or> (\<exists>q. mk_volume m = Fin q \<and> 0 \<le> q \<and> q \<le> 1)) \<and>
     pred_option (\<lambda>c. \<not> ch_closed c \<and> chan_ok c) (mk_eventsChan m)"
  using mock_mpris.run_safe[OF new_mock_mpris_ok, of ops] by (auto simp: mock_mpris_ok_def pred_option_def)

end
