(* ===== verification/Artwork_Extractor.thy ===== *)
theory Artwork_Extractor
  imports Go_Base64 Connect_Server
begin

text \<open>
  Cover art (\<^verbatim>\<open>pkg/mpris/artwork_extractor.go\<close>): a local file named by a URI or an absolute path becomes
  an inline data URL, with a cache, a bounded wait for the file to appear and a size limit. The
  file system is given as functions: whether a directory exists, what each attempt to stat the
  file returns (size and whether it is a directory), and the file's content.
\<close>

section \<open>Paths and URLs\<close>

text \<open>\<^verbatim>\<open>url.PathUnescape\<close>; \<^term>\<open>None\<close> for a malformed escape.\<close>

fun path_unescape :: "string \<Rightarrow> string option" where
  "path_unescape [] = Some []"
| "path_unescape (c # cs) =
     (if c = CHR ''%'' then
        (case cs of
           a # b # rest \<Rightarrow>
             (case (hex_val a, hex_val b) of
                (Some x, Some y) \<Rightarrow> map_option (\<lambda>s. char_of (16 * x + y) # s) (path_unescape rest)
              | _ \<Rightarrow> None)
         | _ \<Rightarrow> None)
      else map_option (\<lambda>s. c # s) (path_unescape cs))"

section \<open>Extraction\<close>

record art_files =
  af_dir :: "string \<Rightarrow> bool"
  af_stat :: "string \<Rightarrow> nat \<Rightarrow> (int \<times> bool) option"
  af_read :: "string \<Rightarrow> string option"

type_synonym art_cache = "(string \<times> string) list"

definition local_path :: "string \<Rightarrow> string option" where
  "local_path artURL =
     (if has_prefix artURL ''file://'' then Some (trim_prefix artURL ''file://'')
      else if has_prefix artURL ''file:'' then Some (trim_prefix artURL ''file:'')
      else if path_is_abs artURL then Some artURL
      else None)"

text \<open>The retry loop: at most six attempts, ended early by a non-empty file; the result is that of the
  last attempt that was made.\<close>

fun retry_stat :: "(nat \<Rightarrow> (int \<times> bool) option) \<Rightarrow> nat \<Rightarrow> nat \<Rightarrow> (int \<times> bool) option" where
  "retry_stat f i 0 = None"
| "retry_stat f i (Suc n) =
     (case f i of
        Some (sz, dir) \<Rightarrow> if sz > 0 \<and> \<not> dir \<or> n = 0 then Some (sz, dir) else retry_stat f (Suc i) n
      | None \<Rightarrow> if n = 0 then None else retry_stat f (Suc i) n)"

definition art_mime :: "string \<Rightarrow> string" where
  "art_mime path =
     (let ext = to_lower (path_ext path) in
      if ext = ''.png'' then ''data:image/png;base64,''
      else if ext = ''.jpg'' \<or> ext = ''.jpeg'' then ''data:image/jpeg;base64,''
      else if ext = ''.svg'' then ''data:image/svg+xml;base64,''
      else if ext = ''.gif'' then ''data:image/gif;base64,''
      else if ext = ''.webp'' then ''data:image/webp;base64,''
      else ''data:image/png;base64,'')"

definition art_clean :: "string \<Rightarrow> string" where
  "art_clean lp = path_clean (case path_unescape lp of Some u \<Rightarrow> u | None \<Rightarrow> lp)"

text \<open>Steps 4 to 8 of the method: the file as a data URL, if it may be inlined.\<close>

definition art_load :: "art_files \<Rightarrow> string \<Rightarrow> string option" where
  "art_load fs cleanPath =
     (if \<not> af_dir fs (path_dir cleanPath) then None
      else case retry_stat (af_stat fs cleanPath) 0 6 of
             None \<Rightarrow> None
           | Some (sz, dir) \<Rightarrow>
               if dir then None
               else if sz > 2097152 then None
               else map_option (\<lambda>data. art_mime cleanPath @ b64_encode data) (af_read fs cleanPath))"

definition art_Extract :: "art_files \<Rightarrow> string \<Rightarrow> art_cache \<Rightarrow> string \<times> art_cache" where
  "art_Extract fs artURL cache =
     (if artURL = [] then ([], cache)
      else case local_path artURL of
        None \<Rightarrow> (artURL, cache)
      | Some lp \<Rightarrow>
          (case map_of cache (art_clean lp) of
             Some v \<Rightarrow> (v, cache)
           | None \<Rightarrow>
               (case art_load fs (art_clean lp) of
                  None \<Rightarrow> ([], cache)
                | Some result \<Rightarrow> (result, (art_clean lp, result) # cache))))"

section \<open>Properties\<close>

lemma decode_mime: "decodeBase64Image (art_mime p @ b64_encode d) = (d, [])"
proof -
  have dec: "decodeBase64Image (''data:'' @ m @ '';base64,'' @ b64_encode d) = (d, [])"
    if "CHR '','' \<notin> set m" for m
    using that by (rule decode_data_url)
  show ?thesis
    using dec[of "''image/png''"] dec[of "''image/jpeg''"] dec[of "''image/svg+xml''"] dec[of "''image/gif''"] dec[of "''image/webp''"]
    by (simp add: art_mime_def Let_def)
qed

lemma decodeBase64Image_Nil: "decodeBase64Image [] = ([], [])"
  by (simp add: decodeBase64Image_def)

text \<open>What a cache that only the extractor has filled holds: the inlined content of files.\<close>

definition art_cache_ok :: "art_cache \<Rightarrow> bool" where
  "art_cache_ok cache \<longleftrightarrow> list_all (\<lambda>(p, v). \<exists>data. v = art_mime p @ b64_encode data) cache"

lemma art_Extract_cases:
  assumes "art_cache_ok cache" and "art_Extract fs url cache = (v, cache')"
  shows "art_cache_ok cache' \<and>
    (v = [] \<and> cache' = cache \<or> v = url \<and> local_path url = None \<and> cache' = cache \<or> (\<exists>p data. v = art_mime p @ b64_encode data))"
proof -
  have hit: "\<exists>data. w = art_mime p @ b64_encode data" if "map_of cache p = Some w" for p w
    using assms(1) map_of_SomeD[OF that] by (auto simp: art_cache_ok_def list_all_iff)
  have load: "\<exists>data. w = art_mime p @ b64_encode data" if "art_load fs p = Some w" for p w
    using that by (auto simp: art_load_def split: if_splits option.splits prod.splits)
  show ?thesis
    using assms hit load
    by (auto simp: art_Extract_def art_cache_ok_def split: if_splits option.splits) blast+
qed

lemma retry_stat_some: "retry_stat f i n = Some r \<Longrightarrow> \<exists>j < i + n. f j = Some r"
proof (induction n arbitrary: i)
  case (Suc n)
  from Suc.prems consider "f i = Some r" | "retry_stat f (Suc i) n = Some r"
    by (auto split: option.splits if_splits prod.splits)
  then show ?case
  proof cases
    case 1
    then show ?thesis by (intro exI[of _ i]) simp
  next
    case 2
    from Suc.IH[OF this] show ?thesis by auto
  qed
qed simp

text \<open>What a file may be inlined from: one of at most six looks at the path says that it is not a directory
  and reports at most 2 MB.\<close>

lemma art_load_some:
  assumes "art_load fs p = Some v"
  shows "\<exists>i sz data. i < 6 \<and> af_stat fs p i = Some (sz, False) \<and> sz \<le> 2097152 \<and> af_read fs p = Some data \<and>
    v = art_mime p @ b64_encode data"
proof -
  obtain sz data where d: "retry_stat (af_stat fs p) 0 6 = Some (sz, False)" "sz \<le> 2097152" "af_read fs p = Some data"
      "v = art_mime p @ b64_encode data"
    using assms by (auto simp: art_load_def split: if_splits option.splits prod.splits)
  from retry_stat_some[OF d(1)] d(2-) show ?thesis by auto
qed

text \<open>What names a local file: a \<^verbatim>\<open>file:\<close> URL or an absolute path, by its first characters.\<close>

definition names_local_file :: "string \<Rightarrow> bool" where
  "names_local_file url \<longleftrightarrow> take 5 url = ''file:'' \<or> take 1 url = ''/''"

lemma local_path_iff: "local_path url = None \<longleftrightarrow> \<not> names_local_file url"
proof -
  have "take 5 url = ''file:''" if "take 7 url = ''file://''"
  proof -
    have "take 5 (take 7 url) = take 5 ''file://''" by (simp only: that)
    then show ?thesis by simp
  qed
  then show ?thesis by (auto simp: local_path_def names_local_file_def has_prefix_def path_is_abs_def numeral_eq_Suc)
qed

lemma local_path_some:
  assumes "local_path url = Some lp"
  shows "url = lp \<or> url = ''file:'' @ lp \<or> url = ''file://'' @ lp"
proof -
  have "p @ drop (length p) url = url" if "take (length p) url = p" for p
    using append_take_drop_id[of "length p" url] that by simp
  from this[of "''file:''"] this[of "''file://''"] show ?thesis
    using assms by (auto simp: local_path_def trim_prefix_def has_prefix_def split: if_splits)
qed

text \<open>C34: covers that are local files are inlined or dropped. If a player announces a URL that begins with
  \<^verbatim>\<open>file:\<close> or an absolute path, then what is passed on to the clients is never that URL or path. It is
  nothing, or the data URL kept from an earlier extraction of the same cleaned path, or the data URL
  of the present content of that path, which is then not a directory and reports at most 2 MB;
  the ConnectRPC side recovers bytes and no URL from it; and once there is a data URL it is
  answered again from then on, whatever has become of the file. Every other announced text (a web
  address, a relative path, a scheme in capitals) is passed on unchanged.\<close>

theorem local_artwork_is_inlined_or_dropped:
  assumes "art_cache_ok cache" and "art_Extract fs url cache = (v, cache')"
  shows "art_cache_ok cache' \<and>
    (if names_local_file url
     then snd (decodeBase64Image v) = [] \<and> v \<noteq> url \<and> (v = [] \<or> art_Extract fs' url cache' = (v, cache')) \<and>
       (\<exists>lp. (url = lp \<or> url = ''file:'' @ lp \<or> url = ''file://'' @ lp) \<and>
          (v = [] \<or> map_of cache (art_clean lp) = Some v \<or>
           (\<exists>i sz data. i < 6 \<and> af_stat fs (art_clean lp) i = Some (sz, False) \<and> sz \<le> 2097152 \<and>
              af_read fs (art_clean lp) = Some data \<and> v = art_mime (art_clean lp) @ b64_encode data)))
     else v = url \<and> cache' = cache)"
proof (cases "local_path url")
  case None
  then show ?thesis using assms local_path_iff[of url] by (auto simp: art_Extract_def split: if_splits)
next
  case (Some lp)
  then have loc: "names_local_file url" using local_path_iff[of url] by simp
  then have ne: "url \<noteq> []" by (auto simp: names_local_file_def)
  note cs = art_Extract_cases[OF assms]
  have dec: "snd (decodeBase64Image v) = []"
    using cs Some decode_mime decodeBase64Image_Nil by auto
  have "art_mime p @ b64_encode d \<noteq> url" for p d
    using loc by (auto simp: names_local_file_def art_mime_def Let_def split: if_splits)
  then have "v \<noteq> url" using cs Some ne by auto
  moreover have "v = [] \<or> art_Extract fs' url cache' = (v, cache')"
    using assms(2) Some by (auto simp: art_Extract_def split: if_splits option.splits)
  moreover have "v = [] \<or> map_of cache (art_clean lp) = Some v \<or> art_load fs (art_clean lp) = Some v"
    using assms(2) Some by (auto simp: art_Extract_def split: if_splits option.splits)
  ultimately show ?thesis using cs dec loc local_path_some[OF Some] art_load_some by auto
qed

theorem local_artwork_is_inlined_or_dropped_witness:
  "let fs = \<lparr>af_dir = (\<lambda>d. d = ''/tmp''), af_stat = (\<lambda>p i. if i < 2 then None else Some (3, False)), af_read = (\<lambda>p. Some ''abc'')\<rparr>;
       url = ''file:///tmp/a%20b.jpg''
   in fst (art_Extract fs url []) = ''data:image/jpeg;base64,YWJj'' \<and> snd (decodeBase64Image (fst (art_Extract fs url []))) = []"
proof -
  let ?fs = "\<lparr>af_dir = (\<lambda>d. d = ''/tmp''), af_stat = (\<lambda>p i. if i < 2 then None else Some (3, False)), af_read = (\<lambda>p. Some ''abc'')\<rparr>"
  have e: "art_Extract ?fs ''file:///tmp/a%20b.jpg'' [] =
      (''data:image/jpeg;base64,YWJj'', [(''/tmp/a b.jpg'', ''data:image/jpeg;base64,YWJj'')])"
    by code_simp
  have l: "names_local_file ''file:///tmp/a%20b.jpg''" by code_simp
  show ?thesis using local_artwork_is_inlined_or_dropped[OF _ e, of ?fs] l e by (simp add: art_cache_ok_def)
qed

text \<open>The scheme is compared by case, though the case of a scheme has no meaning, and a relative path is
  not recognised as one: such text goes to the clients as it is.\<close>

lemma capital_scheme_is_passed_on:
  "art_Extract fs (''FILE://'' @ p) cache = (''FILE://'' @ p, cache)"
  "art_Extract fs ''covers/x.png'' cache = (''covers/x.png'', cache)"
  by (simp_all add: art_Extract_def local_path_def has_prefix_def path_is_abs_def)

end
