(* ===== verification/Mpris_Manager.thy ===== *)
theory Mpris_Manager
  imports Mpris_Mock Artwork_Extractor
begin

text \<open>
  The media player monitor (\<^verbatim>\<open>pkg/mpris/dbus_manager.go\<close>): the registry of players by their unique bus
  name, metadata parsing with the artwork caches, the resolution of a friendly player name,
  signal handling, position polling, the event channel and the commands sent to a player.
  The bus, the environment and the file system answer through the functions of a record.
\<close>

section \<open>The outside\<close>

record mpris_env =
  mb_names :: "string list option"
  mb_owner :: "string \<Rightarrow> string option"
  mb_prop :: "string \<Rightarrow> string \<Rightarrow> dval option"
  mb_pid :: "string \<Rightarrow> u32 option"
  mb_readlink :: "string \<Rightarrow> string option"
  mb_readfile :: "string \<Rightarrow> string option"
  mb_xdgDataDirs :: string
  mb_home :: "string option"
  mb_size :: "string \<Rightarrow> int option"
  mb_open :: "string \<Rightarrow> string option"
  mb_art :: art_files

section \<open>Friendly names\<close>

text \<open>\<^verbatim>\<open>strings.Title\<close>: the first letter of each word in upper case, where letters, digits and underscores do
  not separate words (for the bytes of ASCII; other bytes are kept).\<close>

definition is_separator :: "char \<Rightarrow> bool" where
  "is_separator c = (let n = (of_char c :: nat) in
     n < 128 \<and> \<not> (48 \<le> n \<and> n \<le> 57) \<and> \<not> (65 \<le> n \<and> n \<le> 90) \<and> \<not> (97 \<le> n \<and> n \<le> 122) \<and> n \<noteq> 95)"

definition upper_char :: "char \<Rightarrow> char" where
  "upper_char c = (let n = (of_char c :: nat) in if 97 \<le> n \<and> n \<le> 122 then char_of (n - 32) else c)"

fun title_from :: "bool \<Rightarrow> string \<Rightarrow> string" where
  "title_from start [] = []"
| "title_from start (c # cs) = (if start then upper_char c else c) # title_from (is_separator c) cs"

definition str_title :: "string \<Rightarrow> string" where
  "str_title s = title_from True s"

text \<open>The line loop over a desktop file: the first \<^verbatim>\<open>Name=\<close> inside the main section.\<close>

fun desktop_name :: "bool \<Rightarrow> string list \<Rightarrow> string" where
  "desktop_name inSection [] = []"
| "desktop_name inSection (l # ls) =
     (let line = trim_space l in
      if line = ''[Desktop Entry]'' then desktop_name True ls
      else if has_prefix line ''['' \<and> has_suffix line '']'' then desktop_name False ls
      else if inSection \<and> has_prefix line ''Name='' then trim_prefix line ''Name=''
      else desktop_name inSection ls)"

fun search_desktop :: "mpris_env \<Rightarrow> string \<Rightarrow> string list \<Rightarrow> string" where
  "search_desktop env desktopEntry [] = []"
| "search_desktop env desktopEntry (dir # dirs) =
     (let path = path_join [dir, ''applications'', desktopEntry @ ''.desktop''] in
      case mb_size env path of
        None \<Rightarrow> search_desktop env desktopEntry dirs
      | Some n \<Rightarrow>
          if n > 65536 then search_desktop env desktopEntry dirs
          else case mb_open env path of
                 None \<Rightarrow> search_desktop env desktopEntry dirs
               | Some content \<Rightarrow>
                   (let found = desktop_name False (split_on (CHR 0x0A) content) in
                    if found \<noteq> [] then found else search_desktop env desktopEntry dirs))"

definition getFriendlyNameFromDesktopEntry :: "mpris_env \<Rightarrow> string \<Rightarrow> string" where
  "getFriendlyNameFromDesktopEntry env desktopEntry =
     (if desktopEntry = [] then []
      else let dirs = (if mb_xdgDataDirs env \<noteq> [] then split_on (CHR '':'') (mb_xdgDataDirs env) else [''/usr/local/share'', ''/usr/share'']);
               searchDirs = (case mb_home env of Some h \<Rightarrow> path_join [h, ''.local/share''] # dirs | None \<Rightarrow> dirs)
           in search_desktop env desktopEntry searchDirs)"

definition getExecutableNameFromOwner :: "mpris_env \<Rightarrow> string \<Rightarrow> string" where
  "getExecutableNameFromOwner env owner =
     (if owner = [] then []
      else case mb_pid env owner of
        None \<Rightarrow> []
      | Some pid \<Rightarrow>
          (let pidStr = itoa (uint pid) in
           case mb_readlink env (''/proc/'' @ pidStr @ ''/exe'') of
             Some exePath \<Rightarrow> path_base exePath
           | None \<Rightarrow> (case mb_readfile env (''/proc/'' @ pidStr @ ''/comm'') of Some comm \<Rightarrow> trim_space comm | None \<Rightarrow> [])))"

definition resolve_friendly :: "mpris_env \<Rightarrow> string \<Rightarrow> string \<Rightarrow> string \<Rightarrow> string" where
  "resolve_friendly env identity desktopEntry owner =
     (if identity = [] \<or> to_lower identity \<in> {''firefox'', ''chromium'', ''chrome''} then
        (let resolved = getFriendlyNameFromDesktopEntry env desktopEntry in
         if resolved \<noteq> [] then resolved
         else let pidName = getExecutableNameFromOwner env owner in
           if pidName \<noteq> [] then
             (let resolved2 = getFriendlyNameFromDesktopEntry env pidName in
              if resolved2 \<noteq> [] then resolved2 else str_title pidName)
           else identity)
      else identity)"

section \<open>The manager\<close>

record DbusMPRISManager =
  mm_activePlayers :: "(string \<times> PlayerState) list"
  mm_ownerToService :: "(string \<times> string) list"
  mm_eventsChan :: "MediaEvent chan option"
  mm_started :: bool
  mm_artCache :: art_cache
  mm_trackArtCache :: "(string \<times> string) list"

definition NewDbusMPRISManager :: "bool \<Rightarrow> string + DbusMPRISManager" where
  "NewDbusMPRISManager sessionOk =
     (if sessionOk then Inr \<lparr>mm_activePlayers = [], mm_ownerToService = [], mm_eventsChan = None, mm_started = False,
        mm_artCache = [], mm_trackArtCache = []\<rparr>
      else Inl ''failed to connect to session bus for MPRIS commands'')"

text \<open>\<^verbatim>\<open>parseMetadata\<close>: each entry by its type switch; only the artwork changes the extractor's cache.\<close>

definition meta_string :: "(string \<times> dval) list \<Rightarrow> string \<Rightarrow> string" where
  "meta_string m k = (case map_of m k of Some v \<Rightarrow> str_or_empty v | None \<Rightarrow> [])"

definition meta_art :: "mpris_env \<Rightarrow> (string \<times> dval) list \<Rightarrow> art_cache \<Rightarrow> string \<times> art_cache" where
  "meta_art env meta cache =
     (case map_of meta ''mpris:artUrl'' of
        Some v \<Rightarrow> (case as_string v of Some rawURL \<Rightarrow> art_Extract (mb_art env) rawURL cache | None \<Rightarrow> ([], cache))
      | None \<Rightarrow> ([], cache))"

definition parseMetadata :: "mpris_env \<Rightarrow> (string \<times> dval) list \<Rightarrow> art_cache \<Rightarrow> PlayerMetadata \<times> art_cache" where
  "parseMetadata env meta cache =
     (let trackID = (case map_of meta ''mpris:trackid'' of Some (DStr s) \<Rightarrow> s | Some (DPath s) \<Rightarrow> s | _ \<Rightarrow> []);
          artist = (case map_of meta ''xesam:artist'' of Some (DStrs ss) \<Rightarrow> ss | Some (DStr s) \<Rightarrow> [s] | _ \<Rightarrow> []);
          (art, cache') = meta_art env meta cache;
          len = (case map_of meta ''mpris:length'' of
                   Some (DI64 w) \<Rightarrow> w | Some (DU64 w) \<Rightarrow> w | Some (DI32 w) \<Rightarrow> scast w | _ \<Rightarrow> 0)
      in (\<lparr>pm_TrackID = trackID, pm_Title = meta_string meta ''xesam:title'', pm_Artist = artist,
           pm_Album = meta_string meta ''xesam:album'', pm_ArtURL = art, pm_LengthMicro = len\<rparr>, cache'))"

definition getTrackKey :: "PlayerMetadata \<Rightarrow> string" where
  "getTrackKey m = pm_TrackID m @ ''|'' @ pm_Title m @ ''|'' @ pm_Album m @ ''|'' @ join_with (CHR '','') (pm_Artist m)"

text \<open>Remember the artwork of a track, or recall it.\<close>

definition resolve_track_art :: "PlayerMetadata \<Rightarrow> (string \<times> string) list \<Rightarrow> PlayerMetadata \<times> (string \<times> string) list" where
  "resolve_track_art meta cache =
     (let key = getTrackKey meta in
      if pm_ArtURL meta \<noteq> [] then (meta, AList.update key (pm_ArtURL meta) cache)
      else case map_of cache key of Some art \<Rightarrow> (meta\<lparr>pm_ArtURL := art\<rparr>, cache) | None \<Rightarrow> (meta, cache))"

definition mpris_broadcastState :: "DbusMPRISManager \<Rightarrow> DbusMPRISManager go" where
  "mpris_broadcastState m =
     (case mm_eventsChan m of
        None \<Rightarrow> Inr m
      | Some c \<Rightarrow> ebind (try_send \<lparr>ActivePlayers = map snd (mm_activePlayers m)\<rparr> c)
                   (\<lambda>(c', _). Inr (m\<lparr>mm_eventsChan := Some c'\<rparr>)))"

definition prop_f64 :: "f64 \<Rightarrow> dval option \<Rightarrow> f64" where
  "prop_f64 dflt r = (case r of None \<Rightarrow> dflt | Some (DF64 x) \<Rightarrow> x | Some _ \<Rightarrow> Fin 0)"

definition prop_string :: "string \<Rightarrow> dval option \<Rightarrow> string" where
  "prop_string dflt r = (case r of None \<Rightarrow> dflt | Some v \<Rightarrow> str_or_empty v)"

abbreviation "mpris_prefix \<equiv> ''org.mpris.MediaPlayer2.''"

text \<open>What \<^verbatim>\<open>fetchAndRegisterPlayer\<close> reads: the metadata, and the rest of the player's state.\<close>

definition fetch_metadata :: "mpris_env \<Rightarrow> string \<Rightarrow> art_cache \<Rightarrow> PlayerMetadata \<times> art_cache" where
  "fetch_metadata env serviceName cache =
     (case mb_prop env serviceName ''org.mpris.MediaPlayer2.Player.Metadata'' of
        Some v \<Rightarrow> (case as_map v of Some raw \<Rightarrow> parseMetadata env raw cache | None \<Rightarrow> (zeroMetadata, cache))
      | None \<Rightarrow> (zeroMetadata, cache))"

definition fetch_player :: "mpris_env \<Rightarrow> string \<Rightarrow> string \<Rightarrow> PlayerMetadata \<Rightarrow> PlayerState" where
  "fetch_player env serviceName owner metadata =
     (let get = mb_prop env serviceName;
          volume = prop_f64 (Fin 1) (get ''org.mpris.MediaPlayer2.Player.Volume'');
          status = (case get ''org.mpris.MediaPlayer2.Player.PlaybackStatus'' of Some (DStr s) \<Rightarrow> s | _ \<Rightarrow> StatusStopped);
          position = (case get ''org.mpris.MediaPlayer2.Player.Position'' of Some (DI64 w) \<Rightarrow> w | _ \<Rightarrow> 0);
          identity = prop_string [] (get ''org.mpris.MediaPlayer2.Identity'');
          desktopEntry = prop_string [] (get ''org.mpris.MediaPlayer2.DesktopEntry'');
          playerName = trim_prefix serviceName mpris_prefix;
          friendly = resolve_friendly env identity desktopEntry owner;
          desktopEntry' = (if desktopEntry = [] then hd (split_on (CHR ''.'') playerName) else desktopEntry);
          friendly' = (if friendly = [] then str_title desktopEntry' else friendly)
      in \<lparr>ps_PlayerName = playerName, ps_Identity = friendly', ps_DesktopEntry = desktopEntry',
          ps_PlaybackStatus = status, ps_Volume = volume, ps_PositionMicro = position, ps_Metadata = metadata\<rparr>)"

definition fetchAndRegisterPlayer :: "mpris_env \<Rightarrow> string \<Rightarrow> string \<Rightarrow> DbusMPRISManager \<Rightarrow> DbusMPRISManager" where
  "fetchAndRegisterPlayer env serviceName owner m =
     (case fetch_metadata env serviceName (mm_artCache m) of
        (metadata, artCache) \<Rightarrow>
          (case resolve_track_art metadata (mm_trackArtCache m) of
             (metadata', trackCache) \<Rightarrow>
               m\<lparr>mm_artCache := artCache, mm_trackArtCache := trackCache,
                 mm_activePlayers := AList.update owner (fetch_player env serviceName owner metadata') (mm_activePlayers m),
                 mm_ownerToService := AList.update owner serviceName (mm_ownerToService m)\<rparr>))"

definition register_name :: "mpris_env \<Rightarrow> string \<Rightarrow> DbusMPRISManager \<Rightarrow> DbusMPRISManager" where
  "register_name env name m =
     (if has_prefix name mpris_prefix
      then (case mb_owner env name of Some owner \<Rightarrow> fetchAndRegisterPlayer env name owner m | None \<Rightarrow> m)
      else m)"

definition bootstrapActivePlayers :: "mpris_env \<Rightarrow> DbusMPRISManager \<Rightarrow> DbusMPRISManager go" where
  "bootstrapActivePlayers env m =
     (case mb_names env of
        None \<Rightarrow> Inr m
      | Some names \<Rightarrow> mpris_broadcastState (fold (register_name env) names m))"

text \<open>\<^verbatim>\<open>Start\<close>: connecting the monitor or adding a match rule may fail, which undoes the start.\<close>

definition mpris_Start :: "mpris_env \<Rightarrow> string option \<Rightarrow> DbusMPRISManager \<Rightarrow> (string option \<times> DbusMPRISManager) go" where
  "mpris_Start env failure m =
     (if mm_started m then Inr (None, m)
      else let m1 = m\<lparr>mm_eventsChan := Some (make_chan 50), mm_started := True\<rparr> in
        (case failure of
           Some err \<Rightarrow> Inr (Some err, m1\<lparr>mm_started := False, mm_eventsChan := None\<rparr>)
         | None \<Rightarrow> ebind (bootstrapActivePlayers env m1) (\<lambda>m2. Inr (None, m2))))"

text \<open>The deferred \<^verbatim>\<open>close\<close> of the signal loop, which ends when the context is cancelled or the bus
  connection is lost. The field keeps the closed channel.\<close>

definition mpris_loop_exit :: "DbusMPRISManager \<Rightarrow> DbusMPRISManager go" where
  "mpris_loop_exit m =
     (case mm_eventsChan m of
        None \<Rightarrow> Inr m
      | Some c \<Rightarrow> ebind (close_chan c) (\<lambda>c'. Inr (m\<lparr>mm_eventsChan := Some c'\<rparr>)))"

definition apply_status :: "(string \<times> dval) list \<Rightarrow> bool \<times> PlayerState \<Rightarrow> bool \<times> PlayerState" where
  "apply_status props up = (case map_of props ''PlaybackStatus'' of
     Some (DStr s) \<Rightarrow> (True, (snd up)\<lparr>ps_PlaybackStatus := s\<rparr>) | _ \<Rightarrow> up)"

definition apply_volume :: "(string \<times> dval) list \<Rightarrow> bool \<times> PlayerState \<Rightarrow> bool \<times> PlayerState" where
  "apply_volume props up = (case map_of props ''Volume'' of
     Some (DF64 x) \<Rightarrow> (True, (snd up)\<lparr>ps_Volume := x\<rparr>) | _ \<Rightarrow> up)"

definition apply_metadata ::
  "mpris_env \<Rightarrow> (string \<times> dval) list \<Rightarrow> DbusMPRISManager \<Rightarrow> bool \<times> PlayerState \<Rightarrow> bool \<times> PlayerState \<times> art_cache \<times> (string \<times> string) list" where
  "apply_metadata env props m up =
     (case Option.bind (map_of props ''Metadata'') as_map of
        Some raw \<Rightarrow>
          (case parseMetadata env raw (mm_artCache m) of
             (newMeta, artCache) \<Rightarrow>
               (case resolve_track_art newMeta (mm_trackArtCache m) of
                  (newMeta', trackCache) \<Rightarrow> (True, (snd up)\<lparr>ps_Metadata := newMeta'\<rparr>, artCache, trackCache)))
      | None \<Rightarrow> (fst up, snd up, mm_artCache m, mm_trackArtCache m))"

definition mpris_properties :: "mpris_env \<Rightarrow> string \<Rightarrow> (string \<times> dval) list \<Rightarrow> DbusMPRISManager \<Rightarrow> DbusMPRISManager go" where
  "mpris_properties env sender props m =
     (case map_of (mm_activePlayers m) sender of
        None \<Rightarrow> Inr m
      | Some player \<Rightarrow>
          (case apply_metadata env props m (apply_volume props (apply_status props (False, player))) of
             (updated, player', artCache, trackCache) \<Rightarrow>
               (let m1 = m\<lparr>mm_activePlayers := AList.update sender player' (mm_activePlayers m),
                          mm_artCache := artCache, mm_trackArtCache := trackCache\<rparr>
                in if updated then mpris_broadcastState m1 else Inr m1)))"

definition mpris_handleDbusSignal :: "mpris_env \<Rightarrow> signal \<Rightarrow> DbusMPRISManager \<Rightarrow> DbusMPRISManager go" where
  "mpris_handleDbusSignal env sig m =
     (if sg_Name sig = ''org.freedesktop.DBus.NameOwnerChanged'' then
        (case sg_Body sig of
           v0 # v1 # v2 # _ \<Rightarrow>
             (let serviceName = str_or_empty v0; oldOwner = str_or_empty v1; newOwner = str_or_empty v2 in
              if \<not> has_prefix serviceName mpris_prefix then Inr m
              else if oldOwner \<noteq> [] \<and> newOwner = [] then
                mpris_broadcastState (m\<lparr>mm_activePlayers := AList.delete oldOwner (mm_activePlayers m),
                  mm_ownerToService := AList.delete oldOwner (mm_ownerToService m)\<rparr>)
              else if newOwner \<noteq> [] then mpris_broadcastState (fetchAndRegisterPlayer env serviceName newOwner m)
              else Inr m)
         | _ \<Rightarrow> Inr m)
      else if sg_Name sig = ''org.freedesktop.DBus.Properties.PropertiesChanged'' then
        (case sg_Body sig of
           v0 # v1 # _ \<Rightarrow>
             (if str_or_empty v0 \<noteq> ''org.mpris.MediaPlayer2.Player'' then Inr m
              else mpris_properties env (sg_Sender sig) (map_or_empty v1) m)
         | _ \<Rightarrow> Inr m)
      else Inr m)"

text \<open>The position poll, once a second: all playing players are asked, in the order of the registry.\<close>

definition poll_player :: "mpris_env \<Rightarrow> string \<times> string \<Rightarrow> bool \<times> DbusMPRISManager \<Rightarrow> bool \<times> DbusMPRISManager" where
  "poll_player env os st =
     (case mb_prop env (snd os) ''org.mpris.MediaPlayer2.Player.Position'' of
        Some (DI64 pos) \<Rightarrow>
          (case map_of (mm_activePlayers (snd st)) (fst os) of
             Some p \<Rightarrow> (True, (snd st)\<lparr>mm_activePlayers := AList.update (fst os) (p\<lparr>ps_PositionMicro := pos\<rparr>) (mm_activePlayers (snd st))\<rparr>)
           | None \<Rightarrow> st)
      | _ \<Rightarrow> st)"

definition playing_services :: "DbusMPRISManager \<Rightarrow> (string \<times> string) list" where
  "playing_services m =
     map (\<lambda>(owner, p). (owner, case map_of (mm_ownerToService m) owner of Some s \<Rightarrow> s | None \<Rightarrow> []))
       (filter (\<lambda>(owner, p). ps_PlaybackStatus p = StatusPlaying) (mm_activePlayers m))"

definition pollActivePlayerPositions :: "mpris_env \<Rightarrow> DbusMPRISManager \<Rightarrow> DbusMPRISManager go" where
  "pollActivePlayerPositions env m =
     (case fold (poll_player env) (playing_services m) (False, m) of
        (updated, m1) \<Rightarrow> if updated then mpris_broadcastState m1 else Inr m1)"

section \<open>Commands\<close>

datatype player_call =
    CallMethod string
  | CallSeek i64
  | CallSetPosition string i64
  | CallSetVolume f64

definition service_of :: "DbusMPRISManager \<Rightarrow> string \<Rightarrow> string" where
  "service_of m playerName =
     (let found = (case List.find (\<lambda>(owner, p). ps_PlayerName p = playerName) (mm_activePlayers m) of
                     Some (owner, p) \<Rightarrow> (case map_of (mm_ownerToService m) owner of Some s \<Rightarrow> s | None \<Rightarrow> [])
                   | None \<Rightarrow> [])
      in if found = [] then (if has_prefix playerName mpris_prefix then playerName else mpris_prefix @ playerName) else found)"

definition player_method :: "string \<Rightarrow> string option" where
  "player_method command =
     map_of [(''play'', ''Play''), (''pause'', ''Pause''), (''play_pause'', ''PlayPause''), (''stop'', ''Stop''),
       (''next'', ''Next''), (''previous'', ''Previous'')] command"

text \<open>The call a command leads to, or the error; a nil argument map is \<^term>\<open>None\<close>.\<close>

definition player_call_of :: "string \<Rightarrow> margs option \<Rightarrow> string + player_call" where
  "player_call_of command args =
     (case player_method command of
        Some meth \<Rightarrow> Inr (CallMethod meth)
      | None \<Rightarrow>
          if command = ''seek'' then
            (case args of
               None \<Rightarrow> Inl ''seek offset argument is required''
             | Some a \<Rightarrow> (case map_of a ''offset_microseconds'' of
                 None \<Rightarrow> Inl ''seek offset_microseconds argument is required''
               | Some v \<Rightarrow> Inr (CallSeek (arg_i64 v))))
          else if command = ''set_position'' then
            (case args of
               None \<Rightarrow> Inl ''set_position arguments are required''
             | Some a \<Rightarrow> (case map_of a ''position_microseconds'' of
                 None \<Rightarrow> Inl ''set_position position_microseconds argument is required''
               | Some v \<Rightarrow>
                   (let pos = (if sint (arg_i64 v) < 0 then 0 else arg_i64 v);
                        track = (case map_of a ''track_id'' of Some t \<Rightarrow> arg_string t | None \<Rightarrow> [])
                    in Inr (CallSetPosition track pos))))
          else if command = ''set_volume'' then
            (case args of
               None \<Rightarrow> Inl ''set_volume arguments are required''
             | Some a \<Rightarrow> (case map_of a ''volume'' of
                 None \<Rightarrow> Inl ''set_volume volume argument is required''
               | Some v \<Rightarrow> Inr (CallSetVolume (clamp_unit (arg_f64 v)))))
          else Inl (''unsupported MPRIS command: '' @ command))"

text \<open>\<^verbatim>\<open>SendCommand\<close>: the error, if any, and the call that was made.\<close>

definition mpris_SendCommand ::
  "(string \<Rightarrow> player_call \<Rightarrow> string option) \<Rightarrow> DbusMPRISManager \<Rightarrow> string \<Rightarrow> string \<Rightarrow> margs option \<Rightarrow>
     string option \<times> (string \<times> player_call) option" where
  "mpris_SendCommand bus m playerName command args =
     (let serviceName = service_of m playerName in
      case player_call_of command args of
        Inl err \<Rightarrow> (Some err, None)
      | Inr call \<Rightarrow> (bus serviceName call, Some (serviceName, call)))"

text \<open>\<^verbatim>\<open>Close\<close>: the connection for outgoing calls is closed, when there is one; no other field is touched. Closing a connection
  is code of the bus library.\<close>

definition mpris_Close :: "('c \<Rightarrow> string option \<times> 'c) \<Rightarrow> 'c option \<Rightarrow> string option \<times> 'c option" where
  "mpris_Close close_conn sendConn =
     (case sendConn of
        Some conn \<Rightarrow> (let (err, conn') = close_conn conn in (err, Some conn'))
      | None \<Rightarrow> (None, None))"

section \<open>The registry\<close>

text \<open>Both maps have the same owners, each once; a player's name is its service name without the prefix; the
  event channel is open and within its capacity.\<close>

definition registry_ok :: "(string \<times> PlayerState) list \<Rightarrow> (string \<times> string) list \<Rightarrow> bool" where
  "registry_ok ps os \<longleftrightarrow> distinct (map fst ps) \<and> distinct (map fst os) \<and> fst ` set ps = fst ` set os \<and>
     (\<forall>ow p. map_of ps ow = Some p \<longrightarrow> map_of os ow = Some (mpris_prefix @ ps_PlayerName p))"

definition mpris_ok :: "DbusMPRISManager \<Rightarrow> bool" where
  "mpris_ok m \<longleftrightarrow> registry_ok (mm_activePlayers m) (mm_ownerToService m) \<and> art_cache_ok (mm_artCache m) \<and>
     pred_option (\<lambda>c. \<not> ch_closed c \<and> chan_ok c) (mm_eventsChan m)"

lemma registry_ok_update:
  assumes "registry_ok ps os" and "svc = mpris_prefix @ ps_PlayerName p"
  shows "registry_ok (AList.update ow p ps) (AList.update ow svc os)"
  using assms by (auto simp: registry_ok_def distinct_update update_conv' dom_update image_Un)

lemma registry_ok_replace:
  assumes "registry_ok ps os" and "map_of ps ow = Some p0" and "ps_PlayerName p = ps_PlayerName p0"
  shows "registry_ok (AList.update ow p ps) os"
proof -
  have "ow \<in> fst ` set ps" using assms(2) by (auto dest: map_of_SomeD intro: rev_image_eqI)
  with assms show ?thesis by (auto simp: registry_ok_def distinct_update update_conv' dom_update)
qed

lemma keys_delete: "fst ` set (AList.delete k al) = fst ` set al - {k}"
  by (metis delete_keys set_map set_removeAll)

lemma registry_ok_delete:
  assumes "registry_ok ps os"
  shows "registry_ok (AList.delete ow ps) (AList.delete ow os)"
  using assms by (auto simp: registry_ok_def distinct_delete delete_conv' keys_delete)

lemma mpris_broadcast_ok:
  assumes "mpris_ok m"
  shows "\<exists>m'. mpris_broadcastState m = Inr m' \<and> mpris_ok m'"
  using assms
  by (cases "mm_eventsChan m") (auto simp: mpris_broadcastState_def mpris_ok_def try_send_def chan_ok_def)

lemma meta_art_cache: "art_cache_ok c \<Longrightarrow> art_cache_ok (snd (meta_art env raw c))"
  using art_Extract_cases[of c "mb_art env"]
  by (auto simp: meta_art_def split: option.split) (metis prod.collapse)

lemma parseMetadata_cache: "art_cache_ok c \<Longrightarrow> art_cache_ok (snd (parseMetadata env raw c))"
  using meta_art_cache[of c env raw] by (simp add: parseMetadata_def Let_def split_beta)

lemma fetch_metadata_cache: "art_cache_ok c \<Longrightarrow> art_cache_ok (snd (fetch_metadata env svc c))"
  by (auto simp: fetch_metadata_def parseMetadata_cache split: option.split)

lemma fetch_player_name: "ps_PlayerName (fetch_player env svc ow meta) = trim_prefix svc mpris_prefix"
  by (simp add: fetch_player_def Let_def)

lemma mpris_ok_register:
  assumes "mpris_ok m" and "has_prefix service mpris_prefix"
  shows "mpris_ok (fetchAndRegisterPlayer env service owner m)"
proof -
  have "service = mpris_prefix @ ps_PlayerName (fetch_player env service owner meta)" for meta
    unfolding fetch_player_name using trim_prefix_restores[OF assms(2)] by simp
  then have "registry_ok (AList.update owner (fetch_player env service owner meta) (mm_activePlayers m))
      (AList.update owner service (mm_ownerToService m))" for meta
    using assms(1) by (intro registry_ok_update) (auto simp: mpris_ok_def)
  then show ?thesis
    using assms(1) fetch_metadata_cache[of "mm_artCache m" env service]
    by (simp add: fetchAndRegisterPlayer_def mpris_ok_def split_beta)
qed

lemma apply_props_name:
  "ps_PlayerName (snd (apply_volume props (apply_status props up))) = ps_PlayerName (snd up)"
  by (simp add: apply_volume_def apply_status_def split: option.split dval.split)

lemma apply_metadata_facts:
  assumes "apply_metadata env props m up = (u, p, ac, tc)"
  shows "ps_PlayerName p = ps_PlayerName (snd up)" and "art_cache_ok (mm_artCache m) \<Longrightarrow> art_cache_ok ac"
  using assms parseMetadata_cache[of "mm_artCache m" env]
  by (auto simp: apply_metadata_def split_beta split: option.splits)

lemma mpris_properties_ok:
  assumes "mpris_ok m"
  shows "\<exists>m'. mpris_properties env sender props m = Inr m' \<and> mpris_ok m'"
proof (cases "map_of (mm_activePlayers m) sender")
  case None
  then show ?thesis using assms by (simp add: mpris_properties_def)
next
  case (Some player)
  obtain u p ac tc where am: "apply_metadata env props m (apply_volume props (apply_status props (False, player))) = (u, p, ac, tc)"
    by (cases "apply_metadata env props m (apply_volume props (apply_status props (False, player)))") auto
  have "ps_PlayerName p = ps_PlayerName player" using apply_metadata_facts(1)[OF am] apply_props_name[of props "(False, player)"] by simp
  then have "mpris_ok (m\<lparr>mm_activePlayers := AList.update sender p (mm_activePlayers m), mm_artCache := ac, mm_trackArtCache := tc\<rparr>)"
    using assms apply_metadata_facts(2)[OF am] registry_ok_replace[OF _ Some] by (simp add: mpris_ok_def)
  then show ?thesis using Some am mpris_broadcast_ok by (simp add: mpris_properties_def Let_def)
qed

lemma mpris_signal_ok:
  assumes "mpris_ok m"
  shows "\<exists>m'. mpris_handleDbusSignal env sig m = Inr m' \<and> mpris_ok m'"
proof -
  have del: "mpris_ok (m\<lparr>mm_activePlayers := AList.delete ow (mm_activePlayers m), mm_ownerToService := AList.delete ow (mm_ownerToService m)\<rparr>)" for ow
    using assms registry_ok_delete by (simp add: mpris_ok_def)
  show ?thesis
    using assms mpris_broadcast_ok[OF del] mpris_broadcast_ok[OF mpris_ok_register[OF assms]] mpris_properties_ok[OF assms]
    by (auto simp: mpris_handleDbusSignal_def Let_def split: list.split)
qed

lemma poll_player_ok: "mpris_ok (snd st) \<Longrightarrow> mpris_ok (snd (poll_player env os st))"
  by (auto simp: poll_player_def mpris_ok_def registry_ok_replace split: option.split dval.split)

lemma mpris_poll_ok:
  assumes "mpris_ok m"
  shows "\<exists>m'. pollActivePlayerPositions env m = Inr m' \<and> mpris_ok m'"
proof -
  have "mpris_ok (snd (fold (poll_player env) os st))" if "mpris_ok (snd st)" for os st
    using that by (induction os arbitrary: st) (auto simp: poll_player_ok)
  from this[of "(False, m)" "playing_services m"] show ?thesis
    using assms mpris_broadcast_ok by (auto simp: pollActivePlayerPositions_def split_beta)
qed

lemma mpris_start_ok:
  assumes "mpris_ok m"
  shows "\<exists>r m'. mpris_Start env failure m = Inr (r, m') \<and> mpris_ok m'"
proof -
  let ?m = "m\<lparr>mm_eventsChan := Some (make_chan 50), mm_started := True\<rparr>"
  have ok: "mpris_ok ?m" using assms by (simp add: mpris_ok_def)
  have "mpris_ok (fold (register_name env) ns m1)" if "mpris_ok m1" for ns m1
    using that by (induction ns arbitrary: m1) (auto simp: register_name_def mpris_ok_register split: option.split)
  from mpris_broadcast_ok[OF this[OF ok]] have "\<exists>m'. bootstrapActivePlayers env ?m = Inr m' \<and> mpris_ok m'"
    using ok by (simp add: bootstrapActivePlayers_def split: option.split)
  then show ?thesis
    using assms by (auto simp: mpris_Start_def Let_def mpris_ok_def split: option.split)
qed

section \<open>The running manager\<close>

text \<open>What happens while the signal loop runs: starts (which may fail), signals and polls, in any order, each
  with whatever the bus and the file system answer then.\<close>

datatype mpris_op =
    XStart mpris_env "string option"
  | XSignal mpris_env signal
  | XPoll mpris_env

fun mpris_exec :: "mpris_op \<Rightarrow> DbusMPRISManager \<Rightarrow> DbusMPRISManager go" where
  "mpris_exec (XStart env failure) m = ebind (mpris_Start env failure m) (\<lambda>(r, m'). Inr m')"
| "mpris_exec (XSignal env sig) m = mpris_handleDbusSignal env sig m"
| "mpris_exec (XPoll env) m = pollActivePlayerPositions env m"

interpretation players: safe_system mpris_exec mpris_ok
proof
  fix m opr
  assume "mpris_ok m"
  then show "\<exists>m'. mpris_exec opr m = Inr m' \<and> mpris_ok m'"
  proof (cases opr)
    case (XStart env failure)
    then show ?thesis using mpris_start_ok[OF \<open>mpris_ok m\<close>, of env failure] by auto
  qed (simp_all add: mpris_signal_ok mpris_poll_ok)
qed

lemma new_mpris_ok: "NewDbusMPRISManager b = Inr m \<Longrightarrow> mpris_ok m"
  by (auto simp: NewDbusMPRISManager_def mpris_ok_def registry_ok_def art_cache_ok_def split: if_splits)

text \<open>A manager with one playing player, and a bus on which that player answers.\<close>

definition sample_bus :: mpris_env where
  "sample_bus = \<lparr>mb_names = Some [''org.mpris.MediaPlayer2.vlc''], mb_owner = (\<lambda>_. Some '':1.7''),
     mb_prop = (\<lambda>_ prop. if prop = ''org.mpris.MediaPlayer2.Player.PlaybackStatus'' then Some (DStr ''Playing'')
        else if prop = ''org.mpris.MediaPlayer2.Player.Position'' then Some (DI64 5)
        else if prop = ''org.mpris.MediaPlayer2.Identity'' then Some (DStr ''VLC'') else None),
     mb_pid = (\<lambda>_. None), mb_readlink = (\<lambda>_. None), mb_readfile = (\<lambda>_. None), mb_xdgDataDirs = [], mb_home = None,
     mb_size = (\<lambda>_. None), mb_open = (\<lambda>_. None),
     mb_art = \<lparr>af_dir = (\<lambda>_. False), af_stat = (\<lambda>_ _. None), af_read = (\<lambda>_. None)\<rparr>\<rparr>"

definition sample_players :: DbusMPRISManager where
  "sample_players = \<lparr>mm_activePlayers = [('':1.7'', fetch_player sample_bus ''org.mpris.MediaPlayer2.vlc'' '':1.7'' zeroMetadata)],
     mm_ownerToService = [('':1.7'', ''org.mpris.MediaPlayer2.vlc'')], mm_eventsChan = Some (make_chan 50), mm_started = True,
     mm_artCache = [], mm_trackArtCache = []\<rparr>"

lemma registry_distinctD: "registry_ok ps os \<Longrightarrow> distinct (map fst ps)"
  by (simp add: registry_ok_def)

lemma registry_service: "registry_ok ps os \<Longrightarrow> map_of ps ow = Some p \<Longrightarrow> map_of os ow = Some (mpris_prefix @ ps_PlayerName p)"
  by (simp add: registry_ok_def)

lemma service_of_registered:
  assumes "mpris_ok m" and "map_of (mm_activePlayers m) ow = Some p"
  shows "service_of m (ps_PlayerName p) = mpris_prefix @ ps_PlayerName p"
proof -
  let ?ps = "mm_activePlayers m"
  have reg: "registry_ok ?ps (mm_ownerToService m)" using assms(1) by (simp add: mpris_ok_def)
  obtain ow' p' where f: "List.find (\<lambda>(owner, q). ps_PlayerName q = ps_PlayerName p) ?ps = Some (ow', p')"
    using map_of_SomeD[OF assms(2)]
    by (cases "List.find (\<lambda>(owner, q). ps_PlayerName q = ps_PlayerName p) ?ps") (auto simp: find_None_iff)
  then have "(ow', p') \<in> set ?ps" and n: "ps_PlayerName p' = ps_PlayerName p"
    by (auto simp: find_Some_iff) (metis nth_mem)
  then have "map_of ?ps ow' = Some p'" using registry_distinctD[OF reg] by simp
  from registry_service[OF reg this] show ?thesis using f n by (simp add: service_of_def)
qed

lemma poll_player_true: "fst (poll_player env os st) \<or> poll_player env os st = st"
  by (simp add: poll_player_def split: option.split dval.split)

lemma poll_player_sticky: "fst st \<Longrightarrow> fst (poll_player env os st)"
  by (simp add: poll_player_def split: option.split dval.split)

lemma polls_sticky: "fst st \<Longrightarrow> fst (fold (poll_player env) oss st)"
  by (induction oss arbitrary: st) (simp_all add: poll_player_sticky)

lemma poll_player_keeps: "mm_eventsChan (snd (poll_player env os st)) = mm_eventsChan (snd st)"
  "map_of (mm_activePlayers (snd st)) ow \<noteq> None \<Longrightarrow> map_of (mm_activePlayers (snd (poll_player env os st))) ow \<noteq> None"
  by (auto simp: poll_player_def update_conv' split: option.split dval.split)

lemma polls_keep_channel: "mm_eventsChan (snd (fold (poll_player env) oss st)) = mm_eventsChan (snd st)"
  by (induction oss arbitrary: st) (simp_all add: poll_player_keeps)

lemma polls_update:
  assumes "(ow, svc) \<in> set oss" and "mb_prop env svc ''org.mpris.MediaPlayer2.Player.Position'' = Some (DI64 pos)"
    and "map_of (mm_activePlayers (snd st)) ow \<noteq> None"
  shows "fst (fold (poll_player env) oss st)"
  using assms
proof (induction oss arbitrary: st)
  case (Cons os oss)
  show ?case
  proof (cases "os = (ow, svc)")
    case True
    then have "fst (poll_player env os st)" using Cons.prems by (auto simp: poll_player_def)
    then show ?thesis by (simp add: polls_sticky)
  next
    case False
    with Cons.prems(1) have "(ow, svc) \<in> set oss" by simp
    from Cons.IH[OF this Cons.prems(2) poll_player_keeps(2)[OF Cons.prems(3)]] show ?thesis by simp
  qed
qed simp

text \<open>whatever starts, signals and polls a new media manager goes through and whatever the bus answers, it does
  not panic, and every player in its registry is reached: a command for the player's name goes
  to the service that owns it.\<close>

theorem media_commands_reach_players:
  assumes "NewDbusMPRISManager sessionOk = Inr m0"
  shows "\<exists>m. run_ops mpris_exec ops m0 = Inr m \<and>
    (\<forall>owner p. map_of (mm_activePlayers m) owner = Some p \<longrightarrow>
       map_of (mm_ownerToService m) owner = Some (service_of m (ps_PlayerName p)))"
proof -
  obtain m where "run_ops mpris_exec ops m0 = Inr m" and ok: "mpris_ok m"
    using players.run_safe[OF new_mpris_ok[OF assms]] by blast
  moreover have "map_of (mm_ownerToService m) owner = Some (service_of m (ps_PlayerName p))"
    if "map_of (mm_activePlayers m) owner = Some p" for owner p
    using registry_service[OF _ that] service_of_registered[OF ok that] ok by (simp add: mpris_ok_def)
  ultimately show ?thesis by blast
qed

theorem media_commands_reach_players_witness:
  "\<exists>m. run_ops mpris_exec [XStart sample_bus None, XPoll sample_bus] (projr (NewDbusMPRISManager True)) = Inr m \<and>
    (\<forall>owner p. map_of (mm_activePlayers m) owner = Some p \<longrightarrow>
       map_of (mm_ownerToService m) owner = Some (service_of m (ps_PlayerName p)))"
  by (rule media_commands_reach_players[of True]) (simp add: NewDbusMPRISManager_def)

text \<open>C35: once the signal loop has ended (the bus connection is lost, or the shutdown begins), the event channel
  is closed but still stored, and the next position poll at which a playing player answers sends on
  it: the daemon panics.\<close>

theorem poll_after_signal_loop_panics:
  assumes "mpris_ok m" and "mm_eventsChan m \<noteq> None" and "mpris_loop_exit m = Inr m'"
    and "map_of (mm_activePlayers m) owner = Some p" and "ps_PlaybackStatus p = StatusPlaying"
    and "mb_prop env (mpris_prefix @ ps_PlayerName p) ''org.mpris.MediaPlayer2.Player.Position'' = Some (DI64 pos)"
  shows "pollActivePlayerPositions env m' = Inl SendOnClosedChannel"
proof -
  obtain c where c: "mm_eventsChan m = Some c" "\<not> ch_closed c" using assms(1,2) by (auto simp: mpris_ok_def)
  then have m': "m' = m\<lparr>mm_eventsChan := Some (c\<lparr>ch_closed := True\<rparr>)\<rparr>"
    using assms(3) by (simp add: mpris_loop_exit_def close_chan_def)
  have "registry_ok (mm_activePlayers m) (mm_ownerToService m)" using assms(1) by (simp add: mpris_ok_def)
  then have "(owner, mpris_prefix @ ps_PlayerName p) \<in> set (playing_services m')"
    using registry_service[OF _ assms(4)] map_of_SomeD[OF assms(4)] assms(5)
    by (force simp: m' playing_services_def)
  from polls_update[OF this assms(6)] have "fst (fold (poll_player env) (playing_services m') (False, m'))"
    using assms(4) by (simp add: m')
  then show ?thesis
    using polls_keep_channel[of env "playing_services m'" "(False, m')"]
    by (simp add: pollActivePlayerPositions_def split_beta mpris_broadcastState_def try_send_def m')
qed

lemma sample_players_ok: "mpris_ok sample_players"
  by (simp add: mpris_ok_def sample_players_def registry_ok_def fetch_player_name trim_prefix_def has_prefix_def art_cache_ok_def)

theorem poll_after_signal_loop_panics_witness:
  "pollActivePlayerPositions sample_bus (projr (mpris_loop_exit sample_players)) = Inl SendOnClosedChannel"
proof (rule poll_after_signal_loop_panics[where m = sample_players and owner = "'':1.7''" and pos = 5
      and p = "fetch_player sample_bus ''org.mpris.MediaPlayer2.vlc'' '':1.7'' zeroMetadata"])
  show "mpris_ok sample_players" by (rule sample_players_ok)
qed (simp_all add: sample_players_def mpris_loop_exit_def close_chan_def fetch_player_def Let_def sample_bus_def)

lemma fetchAndRegisterPlayer_players:
  "\<exists>p. mm_activePlayers (fetchAndRegisterPlayer env svc ow m) = AList.update ow p (mm_activePlayers m)"
  by (auto simp: fetchAndRegisterPlayer_def split: prod.split)

text \<open>when a player's name moves from one bus connection to another, the old entry stays: from then on the
  registry, and with it every broadcast, holds the player twice, once with a state that no longer
  changes.\<close>

theorem ownership_transfer_keeps_stale_player:
  assumes "mpris_ok m" and "map_of (mm_activePlayers m) old = Some p" and "has_prefix service mpris_prefix"
    and "new \<noteq> []" and "new \<noteq> old" and "sg_Name sig = ''org.freedesktop.DBus.NameOwnerChanged''"
    and "sg_Body sig = [DStr service, DStr old, DStr new]"
  shows "\<exists>m'. mpris_handleDbusSignal env sig m = Inr m' \<and> map_of (mm_activePlayers m') old = Some p \<and>
    map_of (mm_activePlayers m') new \<noteq> None"
proof -
  let ?m = "fetchAndRegisterPlayer env service new m"
  obtain m' where m': "mpris_broadcastState ?m = Inr m'"
    using mpris_broadcast_ok[OF mpris_ok_register[OF assms(1,3)]] by blast
  then have "mm_activePlayers m' = mm_activePlayers ?m"
    by (auto simp: mpris_broadcastState_def ebind_eq_Inr split: option.splits)
  with fetchAndRegisterPlayer_players[of env service new m] assms(2,5)
  have "map_of (mm_activePlayers m') old = Some p \<and> map_of (mm_activePlayers m') new \<noteq> None"
    by (auto simp: update_conv')
  then show ?thesis using assms(3,4,6,7) m' by (auto simp: mpris_handleDbusSignal_def str_or_empty_def as_string_def)
qed

theorem ownership_transfer_keeps_stale_player_witness:
  "\<exists>m'. mpris_handleDbusSignal sample_bus \<lparr>sg_Sender = ''org.freedesktop.DBus'', sg_Path = ''/'', sg_Name = ''org.freedesktop.DBus.NameOwnerChanged'',
       sg_Body = [DStr ''org.mpris.MediaPlayer2.vlc'', DStr '':1.7'', DStr '':1.9'']\<rparr> sample_players = Inr m' \<and>
     map_of (mm_activePlayers m') '':1.7'' = Some (fetch_player sample_bus ''org.mpris.MediaPlayer2.vlc'' '':1.7'' zeroMetadata) \<and>
     map_of (mm_activePlayers m') '':1.9'' \<noteq> None"
  by (rule ownership_transfer_keeps_stale_player[OF sample_players_ok, where service = "''org.mpris.MediaPlayer2.vlc''"])
     (simp_all add: sample_players_def has_prefix_def)

text \<open>the calls made on a player are within range: a volume lies between 0 and 1, unless the requested volume
  is not a number (then it is passed on as it is), and a position is not negative.\<close>

theorem media_calls_in_range:
  "case mpris_SendCommand bus m player command args of
     (_, Some (_, CallSetVolume v)) \<Rightarrow> v = NaN \<or> (\<exists>q. v = Fin q \<and> 0 \<le> q \<and> q \<le> 1)
   | (_, Some (_, CallSetPosition _ position)) \<Rightarrow> 0 \<le> sint position
   | _ \<Rightarrow> True"
proof -
  have "\<And>v. clamp_unit v = NaN \<or> (\<exists>q. clamp_unit v = Fin q \<and> 0 \<le> q \<and> q \<le> 1)" using clamp_unit_cases by blast
  then show ?thesis
    by (simp add: mpris_SendCommand_def Let_def player_call_of_def split: sum.split option.split)
qed

end
