(* ===== verification/Notification_Monitor.thy ===== *)
theory Notification_Monitor
  imports Notification_Manager "HOL-Library.Multiset"
begin

text \<open>
  The monitoring half of \<^verbatim>\<open>pkg/notifications/dbus_manager.go\<close>: a loop that decodes intercepted calls, one
  goroutine per call that extracts the icon and then offers the event to the output channel
  (blocking until there is room or the context is cancelled), and the consumer of
  that channel. The loop closes the channel when it ends.
\<close>

section \<open>The monitor\<close>

text \<open>\<open>nx_taken\<close> are the events the consumer received, \<open>nx_seen\<close> the calls the loop received; both only
  record what happened.\<close>

record notification_monitor =
  nx_pending :: "NotificationEvent list"
  nx_out :: "NotificationEvent chan"
  nx_running :: bool
  nx_cancelled :: bool
  nx_taken :: "NotificationEvent list"
  nx_seen :: "dval list list"

definition notification_Start :: "string option \<Rightarrow> string option \<Rightarrow> string + notification_monitor" where
  "notification_Start connectErr monitorErr =
     (case connectErr of
        Some err \<Rightarrow> Inl (''failed to connect to session bus for monitoring: '' @ err)
      | None \<Rightarrow>
          (case monitorErr of
             Some err \<Rightarrow> Inl (''failed to become monitor: '' @ err)
           | None \<Rightarrow> Inr \<lparr>nx_pending = [], nx_out = make_chan 50, nx_running = True, nx_cancelled = False,
                nx_taken = [], nx_seen = []\<rparr>))"

definition drop_at :: "nat \<Rightarrow> 'a list \<Rightarrow> 'a list" where
  "drop_at i xs = take i xs @ drop (Suc i) xs"

text \<open>A received call starts a goroutine; a goroutine that finds no room waits, one that finds the
  context cancelled may give up; the loop ends when the bus closes its channel or the context is
  cancelled.\<close>

datatype monitor_op =
    NReceive "dval list"
  | NDispatch nat
  | NGiveUp nat
  | NTake
  | NCancel
  | NExit

definition notification_receive ::
  "(string \<Rightarrow> string \<Rightarrow> (string \<times> dval) list \<Rightarrow> string) \<Rightarrow> dval list \<Rightarrow> notification_monitor \<Rightarrow> notification_monitor" where
  "notification_receive ex body m =
     (if nx_running m
      then m\<lparr>nx_pending := nx_pending m @ (case intercept ex body of Some ev \<Rightarrow> [ev] | None \<Rightarrow> []), nx_seen := nx_seen m @ [body]\<rparr>
      else m)"

definition notification_dispatch :: "nat \<Rightarrow> notification_monitor \<Rightarrow> notification_monitor go" where
  "notification_dispatch i m =
     (if i < length (nx_pending m) then
        ebind (try_send (nx_pending m ! i) (nx_out m)) (\<lambda>(c, sent).
          Inr (if sent then m\<lparr>nx_out := c, nx_pending := drop_at i (nx_pending m)\<rparr> else m))
      else Inr m)"

definition notification_exit :: "notification_monitor \<Rightarrow> notification_monitor go" where
  "notification_exit m =
     (if nx_running m then ebind (close_chan (nx_out m)) (\<lambda>c. Inr (m\<lparr>nx_out := c, nx_running := False\<rparr>)) else Inr m)"

definition notification_take :: "notification_monitor \<Rightarrow> notification_monitor" where
  "notification_take m =
     (case try_recv (nx_out m) of
        (Some ev, c) \<Rightarrow> m\<lparr>nx_out := c, nx_taken := nx_taken m @ [ev]\<rparr>
      | (None, _) \<Rightarrow> m)"

fun notification_exec ::
  "(string \<Rightarrow> string \<Rightarrow> (string \<times> dval) list \<Rightarrow> string) \<Rightarrow> monitor_op \<Rightarrow> notification_monitor \<Rightarrow> notification_monitor go" where
  "notification_exec ex (NReceive body) m = Inr (notification_receive ex body m)"
| "notification_exec ex (NDispatch i) m = notification_dispatch i m"
| "notification_exec ex (NGiveUp i) m =
     Inr (if nx_cancelled m \<and> i < length (nx_pending m) then m\<lparr>nx_pending := drop_at i (nx_pending m)\<rparr> else m)"
| "notification_exec ex NTake m = Inr (notification_take m)"
| "notification_exec ex NCancel m = Inr (m\<lparr>nx_cancelled := True\<rparr>)"
| "notification_exec ex NExit m = notification_exit m"

text \<open>The operations of a monitor whose bus is up and whose context is not cancelled.\<close>

definition steady :: "monitor_op \<Rightarrow> bool" where
  "steady opr = (case opr of NReceive _ \<Rightarrow> True | NDispatch _ \<Rightarrow> True | NGiveUp _ \<Rightarrow> True | NTake \<Rightarrow> True | _ \<Rightarrow> False)"

definition steady_exec where
  "steady_exec ex opr m = (if steady opr then notification_exec ex opr m else Inr m)"

text \<open>Nothing is lost: what was taken, what waits in the channel and what is still being processed
  are together the decodable calls.\<close>

definition monitor_ok ::
  "(string \<Rightarrow> string \<Rightarrow> (string \<times> dval) list \<Rightarrow> string) \<Rightarrow> notification_monitor \<Rightarrow> bool" where
  "monitor_ok ex m \<longleftrightarrow> nx_running m \<and> \<not> nx_cancelled m \<and> \<not> ch_closed (nx_out m) \<and> chan_ok (nx_out m) \<and> ch_cap (nx_out m) = 50 \<and>
     mset (nx_taken m) + mset (ch_buf (nx_out m)) + mset (nx_pending m) = mset (List.map_filter (intercept ex) (nx_seen m))"

lemma mset_drop_at: "i < length xs \<Longrightarrow> mset xs = add_mset (xs ! i) (mset (drop_at i xs))"
  by (metis (no_types, lifting) add_mset_add_single drop_at_def id_take_nth_drop mset.simps(2) mset_append union_mset_add_mset_right)

lemma notification_receive_ok: "monitor_ok ex m \<Longrightarrow> monitor_ok ex (notification_receive ex body m)"
  by (auto simp: monitor_ok_def notification_receive_def map_filter_def split: option.split)

lemma notification_dispatch_ok:
  assumes "monitor_ok ex m"
  shows "\<exists>m'. notification_dispatch i m = Inr m' \<and> monitor_ok ex m'"
proof (cases "i < length (nx_pending m)")
  case True
  have "mset (nx_pending m) = add_mset (nx_pending m ! i) (mset (drop_at i (nx_pending m)))"
    by (rule mset_drop_at[OF True])
  with assms True show ?thesis by (auto simp: notification_dispatch_def try_send_def monitor_ok_def chan_ok_def)
qed (use assms in \<open>simp add: notification_dispatch_def\<close>)

lemma notification_take_ok: "monitor_ok ex m \<Longrightarrow> monitor_ok ex (notification_take m)"
  by (auto simp: monitor_ok_def notification_take_def try_recv_def chan_ok_def split: list.split)

interpretation steady_monitor: safe_system "steady_exec ex" "monitor_ok ex" for ex
proof
  fix m opr
  assume ok: "monitor_ok ex m"
  then show "\<exists>m'. steady_exec ex opr m = Inr m' \<and> monitor_ok ex m'"
    using notification_receive_ok[OF ok] notification_dispatch_ok[OF ok] notification_take_ok[OF ok]
    by (cases opr) (auto simp: steady_exec_def steady_def monitor_ok_def)
qed

lemma notification_Start_ok: "notification_Start ce me = Inr m \<Longrightarrow> monitor_ok ex m"
  by (auto simp: notification_Start_def monitor_ok_def map_filter_def split: option.splits)

text \<open>while the bus is up and the daemon runs, no intercepted notification is lost or duplicated, however
  the icon extractions, the sends and the receives interleave: the events the daemon received,
  those in the channel and those still being processed are exactly the decoded calls,
  although not necessarily in their order, and nothing panics.\<close>

theorem notifications_not_lost:
  assumes "notification_Start ce me = Inr m"
  shows "\<exists>m'. run_ops (steady_exec ex) ops m = Inr m' \<and>
    mset (nx_taken m') + mset (ch_buf (nx_out m')) + mset (nx_pending m') =
      mset (List.map_filter (intercept ex) (nx_seen m'))"
  using steady_monitor.run_safe[OF notification_Start_ok[OF assms, of ex], of ops] by (auto simp: monitor_ok_def)

theorem notifications_not_lost_witness:
  "\<exists>m'. run_ops (steady_exec (\<lambda>_ _ _. [])) [NReceive (replicate 8 (DStr ''x'')), NDispatch 0, NTake]
      (projr (notification_Start None None)) = Inr m' \<and>
    mset (nx_taken m') + mset (ch_buf (nx_out m')) + mset (nx_pending m') =
      mset (List.map_filter (intercept (\<lambda>_ _ _. [])) (nx_seen m'))"
  by (rule notifications_not_lost[of None None]) (simp add: notification_Start_def)

text \<open>C36: when the loop ends because the bus connection is lost, with the context not cancelled, an icon
  extraction that finishes afterwards sends on the closed channel and the daemon panics. (With a
  cancelled context as well, the goroutine's \<^verbatim>\<open>select\<close> may notice the cancellation instead.)\<close>

theorem late_notification_panics:
  assumes "monitor_ok ex m" and "notification_exit m = Inr m'" and "i < length (nx_pending m)"
  shows "notification_dispatch i m' = Inl SendOnClosedChannel"
  using assms by (auto simp: monitor_ok_def notification_exit_def close_chan_def notification_dispatch_def try_send_def)

theorem late_notification_panics_witness:
  "run_ops (notification_exec (\<lambda>_ _ _. [])) [NReceive (replicate 8 (DStr ''x'')), NExit, NDispatch 0]
     (projr (notification_Start None None)) = Inl SendOnClosedChannel"
proof -
  let ?ex = "\<lambda>_ _ _. [] :: string"
  let ?m = "notification_receive ?ex (replicate 8 (DStr ''x'')) (projr (notification_Start None None))"
  have ok: "monitor_ok ?ex ?m"
    by (rule notification_receive_ok[OF notification_Start_ok[of None None]]) (simp add: notification_Start_def)
  have len: "0 < length (nx_pending ?m)"
    by (simp add: notification_receive_def notification_Start_def intercept_def numeral_eq_Suc)
  obtain m' where x: "notification_exit ?m = Inr m'"
    using ok by (auto simp: monitor_ok_def notification_exit_def close_chan_def)
  from late_notification_panics[OF ok x len] show ?thesis by (simp add: x)
qed

end
