(* ===== verification/Host_Reader.thy ===== *)
theory Host_Reader
  imports Metrics_Types Float_Rounding
begin

text \<open>
  The telemetry of a Linux host (\<^verbatim>\<open>pkg/metrics/host_reader.go\<close>): CPU usage from successive counter
  readings, temperatures, frequencies, RAPL power, memory, ZRAM, and GPU readings from
  \<^verbatim>\<open>nvidia-smi\<close> or sysfs, with the flags that say which of them the host supports. What the
  system library, the clock, the file system and the \<^verbatim>\<open>nvidia-smi\<close> process answer is in a record.
\<close>

section \<open>The host and the reader's state\<close>

record TimesStat =
  ts_User :: f64
  ts_System :: f64
  ts_Idle :: f64
  ts_Nice :: f64
  ts_Iowait :: f64
  ts_Irq :: f64
  ts_Softirq :: f64
  ts_Steal :: f64

record memory_stat =
  ms_Total :: u64
  ms_Used :: u64
  ms_UsedPercent :: f64

record host =
  ho_times :: "TimesStat list option"
  ho_coreTimes :: "TimesStat list option"
  ho_infoMhz :: "f64 list option"
  ho_virtualMemory :: "string + memory_stat"
  ho_swapMemory :: "string + memory_stat"
  ho_now :: int
  ho_glob :: "string \<Rightarrow> string list option"
  ho_read :: "string \<Rightarrow> string option"
  ho_stat :: "string \<Rightarrow> stat"
  ho_nvidia :: bool
  ho_smi :: "string + string"

record HostMetricsReader =
  hr_lastCPUTimes :: TimesStat
  hr_hasCPUTimes :: bool
  hr_lastCoresCPUTimes :: "TimesStat list"
  hr_hasCoresCPUTimes :: bool
  hr_lastEnergy :: u64
  hr_lastEnergyTime :: int
  hr_hasEnergy :: bool
  hr_flags :: TelemetryFlags

definition zeroTimes :: TimesStat where
  "zeroTimes = \<lparr>ts_User = Fin 0, ts_System = Fin 0, ts_Idle = Fin 0, ts_Nice = Fin 0, ts_Iowait = Fin 0,
     ts_Irq = Fin 0, ts_Softirq = Fin 0, ts_Steal = Fin 0\<rparr>"

definition NewHostMetricsReader :: "host \<Rightarrow> HostMetricsReader" where
  "NewHostMetricsReader h =
     (let r = \<lparr>hr_lastCPUTimes = zeroTimes, hr_hasCPUTimes = False, hr_lastCoresCPUTimes = [], hr_hasCoresCPUTimes = False,
            hr_lastEnergy = 0, hr_lastEnergyTime = 0, hr_hasEnergy = False, hr_flags = zeroFlags\<rparr>;
          r1 = (case ho_times h of Some (t # _) \<Rightarrow> r\<lparr>hr_lastCPUTimes := t, hr_hasCPUTimes := True\<rparr> | _ \<Rightarrow> r)
      in case ho_coreTimes h of
           Some (t # ts) \<Rightarrow> r1\<lparr>hr_lastCoresCPUTimes := t # ts, hr_hasCoresCPUTimes := True\<rparr>
         | _ \<Rightarrow> r1)"

text \<open>\<^verbatim>\<open>strconv.ParseFloat(strings.TrimSpace(string(bytes)), 64)\<close> of a file, and the same for \<^verbatim>\<open>ParseUint\<close>.\<close>

definition read_f64 :: "host \<Rightarrow> string \<Rightarrow> f64 option" where
  "read_f64 h path = Option.bind (ho_read h path) (\<lambda>b. parse_float (trim_space b))"

definition read_u64 :: "host \<Rightarrow> string \<Rightarrow> u64 option" where
  "read_u64 h path = Option.bind (ho_read h path) (\<lambda>b. parse_uint64 (trim_space b))"

definition supported :: "f64 option \<Rightarrow> f64 \<times> bool" where
  "supported r = (case r of Some v \<Rightarrow> (v, True) | None \<Rightarrow> (Fin 0, False))"

section \<open>CPU\<close>

definition busy_time :: "TimesStat \<Rightarrow> f64" where
  "busy_time t = f64_add (f64_add (f64_add (f64_add (f64_add (ts_User t) (ts_System t)) (ts_Nice t)) (ts_Irq t)) (ts_Softirq t)) (ts_Steal t)"

definition idle_time :: "TimesStat \<Rightarrow> f64" where
  "idle_time t = f64_add (ts_Idle t) (ts_Iowait t)"

definition calculateCPUUsage :: "TimesStat \<Rightarrow> TimesStat \<Rightarrow> f64" where
  "calculateCPUUsage prev current =
     (let lastBusy = busy_time prev; lastTotal = f64_add lastBusy (idle_time prev);
          currBusy = busy_time current; currTotal = f64_add currBusy (idle_time current);
          totalDiff = f64_sub currTotal lastTotal
      in if f64_le totalDiff (Fin 0) then Fin 0
         else f64_mul (f64_div (f64_sub currBusy lastBusy) totalDiff) (Fin 100))"

text \<open>The loop over the cores indexes the previous reading.\<close>

fun core_usages :: "TimesStat list \<Rightarrow> nat \<Rightarrow> TimesStat list \<Rightarrow> f64 list go" where
  "core_usages prev i [] = Inr []"
| "core_usages prev i (c # cs) =
     (if i < length prev
      then ebind (core_usages prev (Suc i) cs) (\<lambda>us. Inr (round2 (calculateCPUUsage (prev ! i) c) # us))
      else Inl (IndexOutOfRange (int i)))"

definition cpu_zone :: "string \<Rightarrow> bool" where
  "cpu_zone ty \<longleftrightarrow> contains_str ty ''x86_pkg_temp'' \<or> contains_str ty ''cpu-thermal'' \<or> contains_str ty ''coretemp''"

definition zone_temp :: "host \<Rightarrow> string \<Rightarrow> f64 option" where
  "zone_temp h zone =
     (case ho_read h (path_join [zone, ''type'']) of
        None \<Rightarrow> None
      | Some ty \<Rightarrow>
          if cpu_zone (trim_space ty)
          then map_option (\<lambda>v. f64_div v (Fin 1000)) (read_f64 h (path_join [zone, ''temp'']))
          else None)"

text \<open>A sensor whose label file exists and satisfies a condition.\<close>

definition labelled_temp :: "host \<Rightarrow> (string \<Rightarrow> bool) \<Rightarrow> string \<Rightarrow> f64 option" where
  "labelled_temp h wanted input =
     (let labelPath = replace_first ''_input'' ''_label'' input in
      if ho_stat h labelPath = Exists then
        (case ho_read h labelPath of
           None \<Rightarrow> None
         | Some b \<Rightarrow>
             if wanted (trim_space b) then map_option (\<lambda>v. f64_div v (Fin 1000)) (read_f64 h input) else None)
      else None)"

definition readCPUTemperature :: "host \<Rightarrow> f64 \<times> bool" where
  "readCPUTemperature h =
     supported
       (case Option.bind (ho_glob h ''/sys/class/thermal/thermal_zone*'') (first_some (zone_temp h)) of
          Some t \<Rightarrow> Some t
        | None \<Rightarrow>
            Option.bind (ho_glob h ''/sys/class/hwmon/hwmon*'')
              (first_some (\<lambda>hw. Option.bind (ho_glob h (path_join [hw, ''temp*_input'']))
                 (first_some (labelled_temp h (\<lambda>lbl. contains_str lbl ''Package'' \<or> contains_str lbl ''Core''))))))"

text \<open>The mean of the values that could be read.\<close>

definition mean_of :: "f64 list \<Rightarrow> f64 option" where
  "mean_of vs = (if vs = [] then None else Some (f64_div (fold (\<lambda>v t. f64_add t v) vs (Fin 0)) (f64_of_int (int (length vs)))))"

definition readCPUFrequency :: "host \<Rightarrow> f64 \<times> bool" where
  "readCPUFrequency h =
     supported
       (case Option.bind (ho_glob h ''/sys/devices/system/cpu/cpu*/cpufreq/scaling_cur_freq'')
               (\<lambda>files. mean_of (map (\<lambda>v. f64_div v (Fin 1000)) (List.map_filter (read_f64 h) files))) of
          Some f \<Rightarrow> Some f
        | None \<Rightarrow> Option.bind (ho_infoMhz h) (\<lambda>mhz. mean_of (filter (f64_less (Fin 0)) mhz)))"

text \<open>Power from the RAPL energy counter; a counter that went backwards gives no power.\<close>

definition energy_power :: "host \<Rightarrow> u64 \<Rightarrow> HostMetricsReader \<Rightarrow> f64" where
  "energy_power h energyVal r =
     (if hr_hasEnergy r \<and> hr_lastEnergyTime r < ho_now h then
        (let duration = duration_seconds (min (ho_now h - hr_lastEnergyTime r) (2 ^ 63 - 1)) in
         if f64_less (Fin 0) duration \<and> hr_lastEnergy r \<le> energyVal
         then f64_div (f64_of_int (uint (energyVal - hr_lastEnergy r))) (f64_mul duration (Fin 1000000))
         else Fin 0)
      else Fin 0)"

abbreviation "energyFile \<equiv> ''/sys/class/powercap/intel-rapl/intel-rapl:0/energy_uj''"

definition cpu_power :: "host \<Rightarrow> HostMetricsReader \<Rightarrow> f64 \<times> HostMetricsReader" where
  "cpu_power h r =
     (case ho_read h energyFile of
        None \<Rightarrow> (Fin 0, r\<lparr>hr_flags := (hr_flags r)\<lparr>fl_CPUPowerSupported := False\<rparr>\<rparr>)
      | Some b \<Rightarrow>
          (let r1 = r\<lparr>hr_flags := (hr_flags r)\<lparr>fl_CPUPowerSupported := True\<rparr>\<rparr> in
           case parse_uint64 (trim_space b) of
             None \<Rightarrow> (Fin 0, r1)
           | Some energyVal \<Rightarrow>
               (energy_power h energyVal r,
                r1\<lparr>hr_lastEnergy := energyVal, hr_lastEnergyTime := ho_now h, hr_hasEnergy := True\<rparr>)))"

definition cpu_total :: "host \<Rightarrow> HostMetricsReader \<Rightarrow> f64 \<times> HostMetricsReader" where
  "cpu_total h r =
     (case ho_times h of
        Some (now # _) \<Rightarrow>
          (if hr_hasCPUTimes r then calculateCPUUsage (hr_lastCPUTimes r) now else Fin 0,
           r\<lparr>hr_flags := (hr_flags r)\<lparr>fl_CPUUsageSupported := True\<rparr>, hr_lastCPUTimes := now, hr_hasCPUTimes := True\<rparr>)
      | _ \<Rightarrow> (Fin 0, r\<lparr>hr_flags := (hr_flags r)\<lparr>fl_CPUUsageSupported := False\<rparr>\<rparr>))"

definition cpu_cores :: "host \<Rightarrow> HostMetricsReader \<Rightarrow> (f64 list \<times> HostMetricsReader) go" where
  "cpu_cores h r =
     (case ho_coreTimes h of
        Some (t # ts) \<Rightarrow>
          ebind (if hr_hasCoresCPUTimes r \<and> length (t # ts) = length (hr_lastCoresCPUTimes r)
                 then core_usages (hr_lastCoresCPUTimes r) 0 (t # ts)
                 else Inr (replicate (length (t # ts)) (Fin 0)))
            (\<lambda>us. Inr (us, r\<lparr>hr_flags := (hr_flags r)\<lparr>fl_CPUCoresUsageSupported := True\<rparr>,
                             hr_lastCoresCPUTimes := t # ts, hr_hasCoresCPUTimes := True\<rparr>))
      | _ \<Rightarrow> Inr ([], r\<lparr>hr_flags := (hr_flags r)\<lparr>fl_CPUCoresUsageSupported := False\<rparr>\<rparr>))"

definition ReadCPU :: "host \<Rightarrow> HostMetricsReader \<Rightarrow> (CPUMetrics \<times> HostMetricsReader) go" where
  "ReadCPU h r =
     (case cpu_total h r of (usage, r1) \<Rightarrow>
        ebind (cpu_cores h r1) (\<lambda>(cores, r2).
          (case readCPUTemperature h of (temp, tempSupported) \<Rightarrow>
             (case readCPUFrequency h of (freq, freqSupported) \<Rightarrow>
                (let r3 = r2\<lparr>hr_flags := (hr_flags r2)\<lparr>fl_CPUTempSupported := tempSupported, fl_CPUFreqSupported := freqSupported\<rparr>\<rparr> in
                 case cpu_power h r3 of (watts, r4) \<Rightarrow>
                   Inr (\<lparr>cpu_UsagePercent = usage, cpu_CoresUsagePercent = cores, cpu_TempCelsius = temp,
                         cpu_FreqMHz = freq, cpu_PowerWatts = round2 watts\<rparr>, r4))))))"

section \<open>Memory\<close>

definition ReadRAM :: "host \<Rightarrow> HostMetricsReader \<Rightarrow> (RAMMetrics \<times> string option) \<times> HostMetricsReader" where
  "ReadRAM h r =
     (case ho_virtualMemory h of
        Inl err \<Rightarrow> ((zeroRAM, Some err), r\<lparr>hr_flags := (hr_flags r)\<lparr>fl_RAMSupported := False\<rparr>\<rparr>)
      | Inr v \<Rightarrow> ((\<lparr>ram_UsedBytes = ms_Used v, ram_TotalBytes = ms_Total v, ram_Percentage = ms_UsedPercent v\<rparr>, None),
                 r\<lparr>hr_flags := (hr_flags r)\<lparr>fl_RAMSupported := True\<rparr>\<rparr>))"

definition ReadSwap :: "host \<Rightarrow> HostMetricsReader \<Rightarrow> (SwapMetrics \<times> string option) \<times> HostMetricsReader" where
  "ReadSwap h r =
     (case ho_swapMemory h of
        Inl err \<Rightarrow> ((zeroSwap, Some err), r\<lparr>hr_flags := (hr_flags r)\<lparr>fl_SwapSupported := False\<rparr>\<rparr>)
      | Inr v \<Rightarrow> ((\<lparr>swap_UsedBytes = ms_Used v, swap_TotalBytes = ms_Total v, swap_Percentage = ms_UsedPercent v\<rparr>, None),
                 r\<lparr>hr_flags := (hr_flags r)\<lparr>fl_SwapSupported := True\<rparr>\<rparr>))"

text \<open>The sizes of one ZRAM device: disk, original, compressed, memory used.\<close>

definition zram_device :: "host \<Rightarrow> string \<Rightarrow> (u64 \<times> u64 \<times> u64 \<times> u64) option" where
  "zram_device h dir =
     (case read_u64 h (path_join [dir, ''disksize'']) of
        None \<Rightarrow> None
      | Some disksize \<Rightarrow>
          (case ho_read h (path_join [dir, ''mm_stat'']) of
             None \<Rightarrow> None
           | Some b \<Rightarrow>
               (case str_fields (trim_space b) of
                  f0 # f1 # f2 # _ \<Rightarrow>
                    (case (parse_uint64 f0, parse_uint64 f1, parse_uint64 f2) of
                       (Some orig, Some compr, Some used) \<Rightarrow> Some (disksize, orig, compr, used)
                     | _ \<Rightarrow> None)
                | _ \<Rightarrow> None)))"

definition zram_add :: "host \<Rightarrow> string \<Rightarrow> (u64 \<times> u64 \<times> u64 \<times> u64) \<times> bool \<Rightarrow> (u64 \<times> u64 \<times> u64 \<times> u64) \<times> bool" where
  "zram_add h dir acc =
     (case zram_device h dir of
        None \<Rightarrow> acc
      | Some (d, po, c, u) \<Rightarrow> (case acc of ((td, tpo, tc, tu), _) \<Rightarrow> ((td + d, tpo + po, tc + c, tu + u), True)))"

definition ReadZRAM :: "host \<Rightarrow> HostMetricsReader \<Rightarrow> ZRAMMetrics \<times> HostMetricsReader" where
  "ReadZRAM h r =
     (let unsupported = (zeroZRAM, r\<lparr>hr_flags := (hr_flags r)\<lparr>fl_ZRAMSupported := False\<rparr>\<rparr>) in
      case ho_glob h ''/sys/block/zram*'' of
        None \<Rightarrow> unsupported
      | Some matches \<Rightarrow>
          (case fold (zram_add h) matches ((0, 0, 0, 0), False) of
             ((disk, orig, compr, used), hasAny) \<Rightarrow>
               if matches = [] \<or> \<not> hasAny then unsupported
               else (\<lparr>zram_OrigDataSizeBytes = orig, zram_ComprDataSizeBytes = compr, zram_MemUsedTotalBytes = used,
                      zram_TotalBytes = disk,
                      zram_CompressionRatio =
                        (if 0 < compr then round2 (f64_div (f64_of_int (uint orig)) (f64_of_int (uint compr))) else Fin 0)\<rparr>,
                     r\<lparr>hr_flags := (hr_flags r)\<lparr>fl_ZRAMSupported := True\<rparr>\<rparr>)))"

section \<open>GPU\<close>

definition upd_some :: "'v option \<Rightarrow> ('v \<Rightarrow> 's \<Rightarrow> 's) \<Rightarrow> 's \<Rightarrow> 's" where
  "upd_some r f s = (case r of Some v \<Rightarrow> f v s | None \<Rightarrow> s)"

definition readNvidiaGPU :: "host \<Rightarrow> string + GPUMetrics" where
  "readNvidiaGPU h =
     (case ho_smi h of
        Inl err \<Rightarrow> Inl (''nvidia-smi execution failed: '' @ err)
      | Inr out \<Rightarrow>
          (let parts = split_on (CHR '','') (trim_space out);
               field_f64 = (\<lambda>i. if i < length parts then parse_float (trim_space (parts ! i)) else None);
               field_mib = (\<lambda>i. map_option (\<lambda>v. v * 1024 * 1024) (parse_uint64 (trim_space (parts ! i))))
           in if length parts < 4 then Inl (''unexpected nvidia-smi output format: '' @ out)
              else Inr
                (upd_some (field_f64 6) (\<lambda>v m. m\<lparr>gpu_VramFreqMHz := v\<rparr>)
                (upd_some (field_f64 5) (\<lambda>v m. m\<lparr>gpu_PowerWatts := v\<rparr>)
                (upd_some (field_f64 4) (\<lambda>v m. m\<lparr>gpu_FreqMHz := v\<rparr>)
                (upd_some (field_mib 3) (\<lambda>v m. m\<lparr>gpu_VramTotalBytes := v\<rparr>)
                (upd_some (field_mib 2) (\<lambda>v m. m\<lparr>gpu_VramUsedBytes := v\<rparr>)
                (upd_some (field_f64 1) (\<lambda>v m. m\<lparr>gpu_UsagePercent := v\<rparr>)
                (upd_some (field_f64 0) (\<lambda>v m. m\<lparr>gpu_TempCelsius := v\<rparr>) zeroGPU)))))))))"

abbreviation "deviceDir \<equiv> ''/sys/class/drm/card0/device''"

text \<open>The load line of \<^verbatim>\<open>pm_info\<close>.\<close>

definition pm_load :: "string \<Rightarrow> f64 option" where
  "pm_load line =
     (if contains_str line ''GPU Load'' then
        (case split_on (CHR '':'') line of
           _ # p1 # _ \<Rightarrow> parse_float (trim_space (replace_all ''%'' [] p1))
         | _ \<Rightarrow> None)
      else None)"

definition gpu_busy :: "host \<Rightarrow> f64 option" where
  "gpu_busy h =
     (case ho_read h (path_join [deviceDir, ''gpu_busy_percent'']) of
        Some b \<Rightarrow> parse_float (trim_space b)
      | None \<Rightarrow>
          (case ho_read h (path_join [deviceDir, ''pm_info'']) of
             Some b \<Rightarrow> first_some pm_load (split_on (CHR 0x0A) b)
           | None \<Rightarrow> None))"

text \<open>The first match of a pattern, and the value of its file.\<close>

definition glob_first :: "host \<Rightarrow> string \<Rightarrow> string option" where
  "glob_first h pattern = (case ho_glob h pattern of Some (f # _) \<Rightarrow> Some f | _ \<Rightarrow> None)"

definition gpu_temp :: "host \<Rightarrow> f64 option" where
  "gpu_temp h =
     map_option (\<lambda>v. f64_div v (Fin 1000))
       (Option.bind (glob_first h (path_join [deviceDir, ''hwmon'', ''hwmon*'', ''temp1_input''])) (read_f64 h))"

definition gpu_power :: "host \<Rightarrow> f64 option" where
  "gpu_power h =
     map_option (\<lambda>v. round2 (f64_div v (Fin 1000000)))
       (case glob_first h (path_join [deviceDir, ''hwmon'', ''hwmon*'', ''power1_average'']) of
          Some f \<Rightarrow> read_f64 h f
        | None \<Rightarrow> Option.bind (glob_first h (path_join [deviceDir, ''hwmon'', ''hwmon*'', ''power1_input''])) (read_f64 h))"

text \<open>The clock in a table of power levels, of which the active one is marked with a star.\<close>

definition dpm_line :: "string \<Rightarrow> f64 option" where
  "dpm_line line =
     (if contains_str line ''*'' then
        first_some (\<lambda>f. parse_float (str_trim ('': '' @ [CHR 0x09]) f))
          (str_fields (replace_all ''mhz'' [] (replace_all ''*'' [] (to_lower line))))
      else None)"

definition dpm_clock :: "string \<Rightarrow> f64 option" where
  "dpm_clock content = first_some dpm_line (split_on (CHR 0x0A) content)"

definition glob_some :: "host \<Rightarrow> (string \<Rightarrow> f64 option) \<Rightarrow> string \<Rightarrow> f64 option" where
  "glob_some h f pattern = Option.bind (ho_glob h pattern) (first_some f)"

definition readSysfsGPUFrequency :: "host \<Rightarrow> f64 \<times> bool" where
  "readSysfsGPUFrequency h =
     supported
       (first_some id
          [glob_some h (read_f64 h) ''/sys/class/drm/card*/device/gt_act_freq_mhz'',
           glob_some h (read_f64 h) ''/sys/class/drm/card*/gt_act_freq_mhz'',
           glob_some h (\<lambda>f. Option.bind (ho_read h f) dpm_clock) ''/sys/class/drm/card*/device/pp_dpm_sclk'',
           glob_some h (\<lambda>f. map_option (\<lambda>v. f64_div v (Fin 1000000)) (read_f64 h f))
             ''/sys/class/drm/card*/device/hwmon/hwmon*/freq1_input''])"

definition vram_label :: "string \<Rightarrow> bool" where
  "vram_label lbl = (let l = to_lower lbl in contains_str l ''mem'' \<or> contains_str l ''vram'' \<or> contains_str l ''junction'')"

definition readSysfsVRAMTemperature :: "host \<Rightarrow> f64 \<times> bool" where
  "readSysfsVRAMTemperature h =
     (case ho_glob h (path_join [deviceDir, ''hwmon'', ''hwmon*'', ''temp*_input'']) of
        Some (m0 # ms) \<Rightarrow>
          supported
            (case first_some (labelled_temp h vram_label) (m0 # ms) of
               Some t \<Rightarrow> Some t
             | None \<Rightarrow>
                 first_some (\<lambda>path. if ho_stat h path = Exists
                                    then map_option (\<lambda>v. f64_div v (Fin 1000)) (read_f64 h path) else None)
                   [path_join [path_dir m0, ''temp2_input''], path_join [path_dir m0, ''temp3_input'']])
      | _ \<Rightarrow> (Fin 0, False))"

definition readSysfsVRAMFrequency :: "host \<Rightarrow> f64 \<times> bool" where
  "readSysfsVRAMFrequency h =
     (let mclkPath = path_join [deviceDir, ''pp_dpm_mclk''] in
      supported
        (case (if ho_stat h mclkPath = Exists then Option.bind (ho_read h mclkPath) dpm_clock else None) of
           Some v \<Rightarrow> Some v
         | None \<Rightarrow> glob_some h (\<lambda>f. map_option (\<lambda>v. f64_div v (Fin 1000000)) (read_f64 h f))
                     (path_join [deviceDir, ''hwmon'', ''hwmon*'', ''freq2_input''])))"

definition readSysfsGPU :: "host \<Rightarrow> (GPUMetrics \<times> TelemetryFlags) option" where
  "readSysfsGPU h =
     (if ho_stat h deviceDir = NotExist then None
      else
        (let busy = supported (gpu_busy h);
             used = read_u64 h (path_join [deviceDir, ''mem_info_vram_used'']);
             total = read_u64 h (path_join [deviceDir, ''mem_info_vram_total'']);
             temp = supported (gpu_temp h);
             watts = supported (gpu_power h);
             freq = readSysfsGPUFrequency h;
             vtemp = readSysfsVRAMTemperature h;
             vfreq = readSysfsVRAMFrequency h
         in Some (\<lparr>gpu_UsagePercent = fst busy, gpu_TempCelsius = fst temp,
                   gpu_VramUsedBytes = (case used of Some v \<Rightarrow> v | None \<Rightarrow> 0),
                   gpu_VramTotalBytes = (case total of Some v \<Rightarrow> v | None \<Rightarrow> 0),
                   gpu_FreqMHz = fst freq, gpu_PowerWatts = fst watts,
                   gpu_VramTempCelsius = fst vtemp, gpu_VramFreqMHz = fst vfreq\<rparr>,
                  zeroFlags\<lparr>fl_GPUUsageSupported := snd busy, fl_GPUTempSupported := snd temp,
                    fl_GPUVramSupported := used \<noteq> None \<and> total \<noteq> None, fl_GPUFreqSupported := snd freq,
                    fl_GPUPowerSupported := snd watts, fl_GPUVramTempSupported := snd vtemp,
                    fl_GPUVramFreqSupported := snd vfreq\<rparr>)))"

definition set_gpu_flags :: "bool \<Rightarrow> TelemetryFlags \<Rightarrow> TelemetryFlags \<Rightarrow> TelemetryFlags" where
  "set_gpu_flags gpu src fl = fl\<lparr>fl_GPUSupported := gpu, fl_GPUUsageSupported := fl_GPUUsageSupported src,
     fl_GPUTempSupported := fl_GPUTempSupported src, fl_GPUVramSupported := fl_GPUVramSupported src,
     fl_GPUFreqSupported := fl_GPUFreqSupported src, fl_GPUPowerSupported := fl_GPUPowerSupported src,
     fl_GPUVramTempSupported := fl_GPUVramTempSupported src, fl_GPUVramFreqSupported := fl_GPUVramFreqSupported src\<rparr>"

definition nvidia_flags :: TelemetryFlags where
  "nvidia_flags = zeroFlags\<lparr>fl_GPUUsageSupported := True, fl_GPUTempSupported := True, fl_GPUVramSupported := True,
     fl_GPUFreqSupported := True, fl_GPUPowerSupported := True, fl_GPUVramTempSupported := False, fl_GPUVramFreqSupported := True\<rparr>"

definition ReadGPU :: "host \<Rightarrow> HostMetricsReader \<Rightarrow> GPUMetrics \<times> HostMetricsReader" where
  "ReadGPU h r =
     (case (if ho_nvidia h then readNvidiaGPU h else Inl []) of
        Inr m \<Rightarrow> (m, r\<lparr>hr_flags := set_gpu_flags True nvidia_flags (hr_flags r)\<rparr>)
      | Inl _ \<Rightarrow>
          (case readSysfsGPU h of
             Some (m, fl) \<Rightarrow> (m, r\<lparr>hr_flags := set_gpu_flags True fl (hr_flags r)\<rparr>)
           | None \<Rightarrow> (zeroGPU, r\<lparr>hr_flags := set_gpu_flags False zeroFlags (hr_flags r)\<rparr>)))"

definition GetFlags :: "HostMetricsReader \<Rightarrow> TelemetryFlags" where
  "GetFlags r = hr_flags r"

declare GetFlags_def [simp]

text \<open>One round of the telemetry loop, in its order, and the flags after it.\<close>

definition read_all :: "host \<Rightarrow> HostMetricsReader \<Rightarrow> (SystemMetrics \<times> HostMetricsReader) go" where
  "read_all h r =
     ebind (ReadCPU h r) (\<lambda>(cpu, r1).
       (case ReadRAM h r1 of ((ram, _), r2) \<Rightarrow>
          (case ReadGPU h r2 of (gpu, r3) \<Rightarrow>
             (case ReadSwap h r3 of ((swap, _), r4) \<Rightarrow>
                (case ReadZRAM h r4 of (zram, r5) \<Rightarrow>
                   Inr (\<lparr>sm_CPU = cpu, sm_RAM = ram, sm_GPU = gpu, sm_Swap = swap, sm_ZRAM = zram, sm_Flags = GetFlags r5\<rparr>, r5))))))"

end
