(* ===== verification/Host_Facts.thy ===== *)
theory Host_Facts
  imports Host_Reader
begin

text \<open>
  What the host's telemetry guarantees: no reading panics, usage and power are not negative, a
  reading that is flagged as unsupported is zero, and the ZRAM totals are sums; and where the
  readings are not what they should be.
\<close>

section \<open>CPU usage\<close>

text \<open>Two successive values of a counter that does not go backwards.\<close>

definition advances :: "int \<Rightarrow> f64 \<Rightarrow> f64 \<Rightarrow> bool" where
  "advances k a b \<longleftrightarrow> (\<exists>x y. a = Fin x \<and> b = Fin y \<and> 0 \<le> x \<and> x \<le> y \<and> y \<le> pow2 k)"

definition times_advance :: "TimesStat \<Rightarrow> TimesStat \<Rightarrow> bool" where
  "times_advance s t \<longleftrightarrow>
     advances 60 (ts_User s) (ts_User t) \<and> advances 60 (ts_System s) (ts_System t) \<and> advances 60 (ts_Idle s) (ts_Idle t) \<and>
     advances 60 (ts_Nice s) (ts_Nice t) \<and> advances 60 (ts_Iowait s) (ts_Iowait t) \<and> advances 60 (ts_Irq s) (ts_Irq t) \<and>
     advances 60 (ts_Softirq s) (ts_Softirq t) \<and> advances 60 (ts_Steal s) (ts_Steal t)"

lemma advances_Fin [simp]: "advances k (Fin x) (Fin y) \<longleftrightarrow> 0 \<le> x \<and> x \<le> y \<and> y \<le> pow2 k"
  by (auto simp: advances_def)

lemma advances_weaken: "advances j a b \<Longrightarrow> j \<le> k \<Longrightarrow> advances k a b"
  using order_trans[OF _ pow2_mono[of j k]] by (auto simp: advances_def)

lemma advances_add:
  assumes "advances k a b" and "advances k c d" and "0 \<le> k" and "k < 1000"
  shows "advances (k + 1) (f64_add a c) (f64_add b d)"
proof -
  from assms(1,2) obtain x y u v where ab: "a = Fin x" "b = Fin y" "0 \<le> x" "x \<le> y" "y \<le> pow2 k"
      and cd: "c = Fin u" "d = Fin v" "0 \<le> u" "u \<le> v" "v \<le> pow2 k"
    by (auto simp: advances_def)
  have two: "pow2 (k + 1) = pow2 k + pow2 k" by (simp add: pow2_add) (simp add: pow2_def)
  have "0 \<le> x + u" "x + u \<le> pow2 (k + 1)" "0 \<le> y + v" "y + v \<le> pow2 (k + 1)" using ab cd two by linarith+
  moreover have "- 1000 \<le> k + 1" "k + 1 < 1024" using assms(3,4) by simp_all
  ultimately obtain p q where p: "rnd (x + u) = Fin p" "0 \<le> p" and q: "rnd (y + v) = Fin q" "q \<le> pow2 (k + 1)"
    by (metis rnd_bounded)
  have "p \<le> q" using rnd_mono[OF _ _ p(1) q(1)] ab cd by simp
  with ab cd p q show ?thesis by (auto simp: advances_def)
qed

lemma advances_sub:
  assumes "advances k a b" and "0 \<le> k" and "k < 1024"
  shows "\<exists>z. f64_sub b a = Fin z \<and> 0 \<le> z"
proof -
  from assms(1) obtain x y where ab: "a = Fin x" "b = Fin y" "0 \<le> x" "x \<le> y" "y \<le> pow2 k"
    by (auto simp: advances_def)
  then obtain z where "rnd (y - x) = Fin z" "0 \<le> z"
    using rnd_bounded[of "y - x" k] assms(2,3) by force
  with ab show ?thesis by (simp add: f64_sub_def)
qed

lemma f64_mul_nonneg: "f64_le (Fin 0) x \<Longrightarrow> 0 < c \<Longrightarrow> f64_le (Fin 0) (f64_mul x (Fin c))"
  using rnd_nonneg[of "f64_sign x * c"] by (auto simp: f64_le_0_iff f64_inf_def)

lemma times_advance_sums:
  assumes "times_advance s t"
  shows "advances 65 (busy_time s) (busy_time t)" and "advances 66 (f64_add (busy_time s) (idle_time s)) (f64_add (busy_time t) (idle_time t))"
proof -
  note adv = assms[unfolded times_advance_def]
  have step: "advances (k + 1) (f64_add a c) (f64_add b d)" if "advances k a b" "advances 60 c d" "60 \<le> k" "k < 100" for k a b c d
    by (rule advances_add[OF that(1) advances_weaken[OF that(2,3)]]) (use that(3,4) in simp_all)
  have "advances 61 (f64_add (ts_User s) (ts_System s)) (f64_add (ts_User t) (ts_System t))"
    using step[of 60] adv by simp
  then have "advances 62 (f64_add (f64_add (ts_User s) (ts_System s)) (ts_Nice s)) (f64_add (f64_add (ts_User t) (ts_System t)) (ts_Nice t))"
    using step[of 61] adv by simp
  from step[OF this, of "ts_Irq s" "ts_Irq t"] adv
  have "advances 63 (f64_add (f64_add (f64_add (ts_User s) (ts_System s)) (ts_Nice s)) (ts_Irq s))
     (f64_add (f64_add (f64_add (ts_User t) (ts_System t)) (ts_Nice t)) (ts_Irq t))" by simp
  from step[OF this, of "ts_Softirq s" "ts_Softirq t"] adv
  have "advances 64 (f64_add (f64_add (f64_add (f64_add (ts_User s) (ts_System s)) (ts_Nice s)) (ts_Irq s)) (ts_Softirq s))
     (f64_add (f64_add (f64_add (f64_add (ts_User t) (ts_System t)) (ts_Nice t)) (ts_Irq t)) (ts_Softirq t))" by simp
  from step[OF this, of "ts_Steal s" "ts_Steal t"] adv
  show busy: "advances 65 (busy_time s) (busy_time t)" by (simp add: busy_time_def)
  have "advances 61 (idle_time s) (idle_time t)" using step[of 60] adv by (simp add: idle_time_def)
  then have "advances 65 (idle_time s) (idle_time t)" by (rule advances_weaken) simp
  from advances_add[OF busy this] show "advances 66 (f64_add (busy_time s) (idle_time s)) (f64_add (busy_time t) (idle_time t))" by simp
qed

text \<open>C25: as long as the counters of the system do not go backwards, the CPU usage is not negative and is a
  number, for the rounding of every intermediate sum, difference and quotient (counters up to \<open>2\<^sup>6\<^sup>0\<close>
  seconds).\<close>

theorem cpu_usage_not_negative:
  assumes "times_advance last_times current"
  shows "f64_le (Fin 0) (calculateCPUUsage last_times current)"
proof -
  obtain td where td: "f64_sub (f64_add (busy_time current) (idle_time current)) (f64_add (busy_time last_times) (idle_time last_times)) = Fin td" "0 \<le> td"
    using advances_sub[OF times_advance_sums(2)[OF assms]] by auto
  obtain bd where bd: "f64_sub (busy_time current) (busy_time last_times) = Fin bd" "0 \<le> bd"
    using advances_sub[OF times_advance_sums(1)[OF assms]] by auto
  have zero: "f64_le (Fin 0) (Fin 0)" by (simp add: f64_le_def)
  show ?thesis
    using td bd zero by (simp add: calculateCPUUsage_def Let_def f64_mul_nonneg rnd_nonneg)
qed

definition sample_times :: "rat \<Rightarrow> rat \<Rightarrow> TimesStat" where
  "sample_times user idle = zeroTimes\<lparr>ts_User := Fin user, ts_Idle := Fin idle\<rparr>"

theorem cpu_usage_not_negative_witness:
  "f64_le (Fin 0) (calculateCPUUsage (sample_times 1 2) (sample_times 3 4))"
  by (rule cpu_usage_not_negative) (simp add: times_advance_def sample_times_def zeroTimes_def pow2_def)

text \<open>How a sum is rounded, given the place of its last bit.\<close>

lemma rnd_eqI:
  assumes "pow2 (e + 52) \<le> x" and "x < pow2 (e + 53)" and "- 1074 \<le> e" and "e \<le> 900" and "round_even (x / pow2 e) = m"
  shows "rnd x = Fin (of_int m * pow2 e)"
proof -
  have x: "0 < x" using assms(1) pow2_pos less_le_trans by blast
  have "ilog2 x < e + 53" using le_less_trans[OF ilog2_range(1)[OF x] assms(2)] by (simp add: pow2_less_iff)
  moreover have "e + 52 < ilog2 x + 1" using le_less_trans[OF assms(1) ilog2_range(2)[OF x]] by (simp add: pow2_less_iff)
  ultimately have e: "rnd_exp x = e" using assms(3) by (simp add: rnd_exp_def)
  have "x \<le> of_int (2 ^ 53) * pow2 (rnd_exp x)" using assms(2) by (simp add: e pow2_add pow2_def[of 53])
  from rnd_mag_upper[OF this] have "rnd_mag x \<le> pow2 (e + 53)" by (simp add: e pow2_add pow2_def[of 53])
  also have "\<dots> < pow2 1024" using assms(4) by (simp add: pow2_less_iff)
  finally have "rnd_mag x < 2 ^ 1024" using pow2_nat[of 1024] by simp
  then show ?thesis using x assms(5) by (simp add: rnd_pos) (simp add: rnd_mag_def e)
qed

lemma round_evenI:
  assumes "\<bar>x - of_int m\<bar> < 1 / 2 \<or> \<bar>x - of_int m\<bar> = 1 / 2 \<and> even m"
  shows "round_even x = m"
proof -
  have "\<lfloor>x\<rfloor> = m \<or> \<lfloor>x\<rfloor> = m - 1" using assms by linarith
  then show ?thesis
  proof
    assume f: "\<lfloor>x\<rfloor> = m"
    show ?thesis using assms unfolding round_even_def Let_def f by (auto simp: abs_if split: if_splits)
  next
    assume f: "\<lfloor>x\<rfloor> = m - 1"
    show ?thesis using assms unfolding round_even_def Let_def f by (auto simp: abs_if split: if_splits)
  qed
qed

text \<open>The counters of the kernel, in hundredths of a second.\<close>

definition tick_times :: "int \<Rightarrow> int \<Rightarrow> TimesStat" where
  "tick_times user idle = zeroTimes\<lparr>ts_User := f64_div (Fin (of_int user)) (Fin 100), ts_Idle := f64_div (Fin (of_int idle)) (Fin 100)\<rparr>"

lemma rounded_ticks:
  "rnd (13 / 100) = Fin (1170935903116329 / 9007199254740992)"
  "rnd (18 / 100) = Fin (3242591731706757 / 18014398509481984)"
  "rnd (43 / 100) = Fin (7746191359077253 / 18014398509481984)"
  "rnd (1170935903116329 / 9007199254740992) = Fin (1170935903116329 / 9007199254740992)"
  "rnd (3242591731706757 / 18014398509481984) = Fin (3242591731706757 / 18014398509481984)"
  "rnd (7746191359077253 / 18014398509481984) = Fin (7746191359077253 / 18014398509481984)"
  "rnd (10088063165309911 / 18014398509481984) = Fin (1261007895663739 / 2251799813685248)"
  "rnd (5494391545392005 / 9007199254740992) = Fin (5494391545392005 / 9007199254740992)"
  "rnd (450359962737049 / 9007199254740992) = Fin (450359962737049 / 9007199254740992)"
  "rnd (900719925474099 / 18014398509481984) = Fin (900719925474099 / 18014398509481984)"
  "rnd (900719925474099 / 900719925474098) = Fin (4503599627370501 / 4503599627370496)"
  "rnd (112589990684262525 / 1125899906842624) = Fin (879609302220801 / 8796093022208)"
proof -
  show "rnd (13 / 100) = Fin (1170935903116329 / 9007199254740992)"
    using rnd_eqI[of "-55" "13 / 100" 4683743612465316] round_evenI[of "13 / 100 / pow2 (-55)" 4683743612465316] by (simp add: pow2_def)
  show "rnd (18 / 100) = Fin (3242591731706757 / 18014398509481984)"
    using rnd_eqI[of "-55" "18 / 100" 6485183463413514] round_evenI[of "18 / 100 / pow2 (-55)" 6485183463413514] by (simp add: pow2_def)
  show "rnd (43 / 100) = Fin (7746191359077253 / 18014398509481984)"
    using rnd_eqI[of "-54" "43 / 100" 7746191359077253] round_evenI[of "43 / 100 / pow2 (-54)" 7746191359077253] by (simp add: pow2_def)
  show "rnd (1170935903116329 / 9007199254740992) = Fin (1170935903116329 / 9007199254740992)"
    using rnd_eqI[of "-55" "1170935903116329 / 9007199254740992" 4683743612465316] round_evenI[of "1170935903116329 / 9007199254740992 / pow2 (-55)" 4683743612465316] by (simp add: pow2_def)
  show "rnd (3242591731706757 / 18014398509481984) = Fin (3242591731706757 / 18014398509481984)"
    using rnd_eqI[of "-55" "3242591731706757 / 18014398509481984" 6485183463413514] round_evenI[of "3242591731706757 / 18014398509481984 / pow2 (-55)" 6485183463413514] by (simp add: pow2_def)
  show "rnd (7746191359077253 / 18014398509481984) = Fin (7746191359077253 / 18014398509481984)"
    using rnd_eqI[of "-54" "7746191359077253 / 18014398509481984" 7746191359077253] round_evenI[of "7746191359077253 / 18014398509481984 / pow2 (-54)" 7746191359077253] by (simp add: pow2_def)
  show "rnd (10088063165309911 / 18014398509481984) = Fin (1261007895663739 / 2251799813685248)"
    using rnd_eqI[of "-53" "10088063165309911 / 18014398509481984" 5044031582654956] round_evenI[of "10088063165309911 / 18014398509481984 / pow2 (-53)" 5044031582654956] by (simp add: pow2_def)
  show "rnd (5494391545392005 / 9007199254740992) = Fin (5494391545392005 / 9007199254740992)"
    using rnd_eqI[of "-53" "5494391545392005 / 9007199254740992" 5494391545392005] round_evenI[of "5494391545392005 / 9007199254740992 / pow2 (-53)" 5494391545392005] by (simp add: pow2_def)
  show "rnd (450359962737049 / 9007199254740992) = Fin (450359962737049 / 9007199254740992)"
    using rnd_eqI[of "-57" "450359962737049 / 9007199254740992" 7205759403792784] round_evenI[of "450359962737049 / 9007199254740992 / pow2 (-57)" 7205759403792784] by (simp add: pow2_def)
  show "rnd (900719925474099 / 18014398509481984) = Fin (900719925474099 / 18014398509481984)"
    using rnd_eqI[of "-57" "900719925474099 / 18014398509481984" 7205759403792792] round_evenI[of "900719925474099 / 18014398509481984 / pow2 (-57)" 7205759403792792] by (simp add: pow2_def)
  show "rnd (900719925474099 / 900719925474098) = Fin (4503599627370501 / 4503599627370496)"
    using rnd_eqI[of "-52" "900719925474099 / 900719925474098" 4503599627370501] round_evenI[of "900719925474099 / 900719925474098 / pow2 (-52)" 4503599627370501] by (simp add: pow2_def)
  show "rnd (112589990684262525 / 1125899906842624) = Fin (879609302220801 / 8796093022208)"
    using rnd_eqI[of "-46" "112589990684262525 / 1125899906842624" 7036874417766408] round_evenI[of "112589990684262525 / 1125899906842624 / pow2 (-46)" 7036874417766408] by (simp add: pow2_def)
qed

text \<open>the usage is not limited to 100: with every tick between two readings spent in user mode, from 0.13 to 0.18
  seconds with the idle counter at 0.43, rounding the sums makes the busy time grow by more than the
  total, and more than 100 percent is reported.\<close>

theorem cpu_usage_can_exceed_100:
  "times_advance (tick_times 13 43) (tick_times 18 43) \<and>
   f64_less (Fin 100) (calculateCPUUsage (tick_times 13 43) (tick_times 18 43))"
proof -
  have t: "tick_times 13 43 = sample_times (1170935903116329 / 9007199254740992) (7746191359077253 / 18014398509481984)"
    "tick_times 18 43 = sample_times (3242591731706757 / 18014398509481984) (7746191359077253 / 18014398509481984)"
    by (simp_all add: tick_times_def sample_times_def rounded_ticks[simplified])
  have "calculateCPUUsage (tick_times 13 43) (tick_times 18 43) = Fin (879609302220801 / 8796093022208)"
    unfolding t by (simp add: calculateCPUUsage_def busy_time_def idle_time_def sample_times_def zeroTimes_def Let_def
        rounded_ticks[simplified] f64_sub_def f64_le_def)
  moreover have "times_advance (tick_times 13 43) (tick_times 18 43)"
    unfolding t by (simp add: times_advance_def sample_times_def zeroTimes_def pow2_def)
  ultimately show ?thesis by simp
qed

section \<open>Power\<close>

lemma f64_div_nonneg: "f64_le (Fin 0) x \<Longrightarrow> 0 < c \<Longrightarrow> f64_le (Fin 0) (f64_div x (Fin c))"
  using rnd_nonneg[of "f64_sign x / c"] by (auto simp: f64_le_0_iff f64_inf_def)

lemma math_round_nonneg: "f64_le (Fin 0) x \<Longrightarrow> f64_le (Fin 0) (math_round x)"
  by (auto simp: f64_le_0_iff math_round_def)

lemma round2_nonneg: "f64_le (Fin 0) x \<Longrightarrow> f64_le (Fin 0) (round2 x)"
  unfolding round2_def by (intro f64_div_nonneg math_round_nonneg f64_mul_nonneg) simp_all

lemma round2_zero [simp]: "round2 (Fin 0) = Fin 0"
proof -
  have "\<lfloor>1 / 2 :: rat\<rfloor> = 0" by (simp add: floor_eq_iff)
  then show ?thesis by (simp add: round2_def math_round_def rnd_def)
qed

lemma f64_of_int_nonneg: "0 \<le> n \<Longrightarrow> f64_le (Fin 0) (f64_of_int n)"
  by (simp add: f64_of_int_def rnd_nonneg)

text \<open>Values at least a given power of two.\<close>

lemma f64_le_Fin_iff: "f64_le (Fin c) x \<longleftrightarrow> x = PInf \<or> (\<exists>q. x = Fin q \<and> c \<le> q)"
  by (cases x) (auto simp: f64_le_def)

lemma rnd_ge_pow2:
  assumes "pow2 k \<le> x" and "- 1000 \<le> k"
  shows "f64_le (Fin (pow2 k)) (rnd x)"
proof -
  have "0 < x" using assms(1) pow2_pos less_le_trans by blast
  moreover have "pow2 k \<le> rnd_mag x" using rnd_mag_mono[OF pow2_pos assms(1)] rnd_mag_pow2[OF assms(2)] by simp
  ultimately show ?thesis by (simp add: rnd_pos f64_le_Fin_iff)
qed

lemma f64_add_ge_pow2:
  assumes "f64_le (Fin 0) x" and "f64_le (Fin 0) y" and "f64_le (Fin (pow2 k)) x \<or> f64_le (Fin (pow2 k)) y" and "- 1000 \<le> k"
  shows "f64_le (Fin (pow2 k)) (f64_add x y)"
proof (cases "\<exists>a b. x = Fin a \<and> y = Fin b")
  case True
  then obtain a b where "x = Fin a" "y = Fin b" by blast
  with assms show ?thesis by (auto simp: f64_le_Fin_iff[of _ "Fin _"] intro!: rnd_ge_pow2)
next
  case False
  with assms show ?thesis by (auto simp: f64_le_Fin_iff)
qed

lemma f64_of_int_bounded:
  assumes "0 \<le> n" and "n \<le> 2 ^ k" and "k < 1024"
  obtains z where "f64_of_int n = Fin z" and "0 \<le> z"
proof -
  have "(of_int n :: rat) \<le> pow2 (int k)"
    unfolding pow2_nat using assms(2) by (metis of_int_le_iff of_int_numeral of_int_power)
  then show ?thesis using rnd_bounded[of "of_int n" "int k"] assms that by (auto simp: f64_of_int_def)
qed

lemma duration_seconds_lower:
  assumes "0 < ns"
  shows "f64_le (Fin (pow2 (- 30))) (duration_seconds ns)"
proof -
  have p: "pow2 (- 30) = 1 / 1073741824" by (simp add: pow2_def)
  have nn: "0 \<le> ns div 1000000000" "0 \<le> ns mod 1000000000" using assms by (simp_all add: pos_imp_zdiv_nonneg_iff)
  have "1 \<le> ns div 1000000000 \<or> 1 \<le> ns mod 1000000000"
    using assms mult_div_mod_eq[of 1000000000 ns] nn by linarith
  then show ?thesis
  proof
    assume "1 \<le> ns div 1000000000"
    then have "pow2 (- 30) \<le> of_int (ns div 1000000000)" unfolding p by (simp add: order_trans[of _ 1])
    then show ?thesis unfolding duration_seconds_def f64_of_int_def
      using nn by (intro f64_add_ge_pow2 disjI1 rnd_ge_pow2 rnd_nonneg f64_div_nonneg) simp_all
  next
    assume m: "1 \<le> ns mod 1000000000"
    have "ns mod 1000000000 < 1000000000" by simp
    then have "ns mod 1000000000 \<le> 2 ^ 30" by (simp del: pos_mod_bound)
    then obtain z where z: "f64_of_int (ns mod 1000000000) = Fin z"
      using f64_of_int_bounded[of "ns mod 1000000000" 30] nn by auto
    have "pow2 0 \<le> (of_int (ns mod 1000000000) :: rat)" using m by (simp add: pow2_def)
    from rnd_ge_pow2[OF this] have "1 \<le> z" using z by (simp add: f64_of_int_def f64_le_Fin_iff pow2_def)
    then have "pow2 (- 30) \<le> z / 1000000000" unfolding p by simp
    then have "f64_le (Fin (pow2 (- 30))) (f64_div (f64_of_int (ns mod 1000000000)) (Fin 1000000000))"
      using rnd_ge_pow2 by (simp add: z)
    then show ?thesis unfolding duration_seconds_def
      using nn by (intro f64_add_ge_pow2 disjI2 f64_of_int_nonneg f64_div_nonneg) simp_all
  qed
qed

lemma energy_power_nonneg: "f64_le (Fin 0) (energy_power h e r)"
proof -
  have zero: "f64_le (Fin 0) (Fin 0)" by (simp add: f64_le_def)
  let ?d = "duration_seconds (min (ho_now h - hr_lastEnergyTime r) (2 ^ 63 - 1))"
  have "f64_le (Fin 0) (f64_div (f64_of_int (uint v)) (f64_mul ?d (Fin 1000000)))" if "hr_lastEnergyTime r < ho_now h" for v :: u64
  proof -
    obtain z where z: "f64_of_int (uint v) = Fin z" "0 \<le> z"
      using f64_of_int_bounded[of "uint v" 64] uint_lt2p[of v] by auto
    have "f64_le (Fin (pow2 (- 30))) ?d" using that by (intro duration_seconds_lower) simp
    then consider "?d = PInf" | q where "?d = Fin q" "pow2 (- 30) \<le> q" by (auto simp: f64_le_Fin_iff)
    then show ?thesis
    proof cases
      case 1
      then show ?thesis using z by (simp add: f64_inf_def f64_le_def)
    next
      case (2 q)
      have "0 \<le> q" using 2(2) pow2_pos[of "- 30"] by linarith
      then have "pow2 (- 30) \<le> q * 1000000" using 2(2) by linarith
      from rnd_ge_pow2[OF this] have "rnd (q * 1000000) = PInf \<or> (\<exists>y. rnd (q * 1000000) = Fin y \<and> pow2 (- 30) \<le> y)"
        by (simp add: f64_le_Fin_iff)
      moreover have "f64_le (Fin 0) (f64_div (Fin z) (Fin y))" if "pow2 (- 30) \<le> y" for y
        using that z(2) less_le_trans[OF pow2_pos that] by (simp add: rnd_nonneg)
      ultimately show ?thesis using z 2 by (auto simp: zero)
    qed
  qed
  then show ?thesis by (simp add: energy_power_def Let_def zero)
qed

lemma core_usages_total: "i + length cs \<le> length prev \<Longrightarrow> \<exists>us. core_usages prev i cs = Inr us \<and> length us = length cs"
proof (induction cs arbitrary: i)
  case (Cons c cs)
  have "Suc i + length cs \<le> length prev" using Cons.prems by simp
  from Cons.IH[OF this] obtain us where "core_usages prev (Suc i) cs = Inr us" "length us = length cs" by blast
  with Cons.prems show ?case by simp
qed simp

lemma cpu_cores_total:
  "\<exists>us r'. cpu_cores h r = Inr (us, r') \<and> length us = length (case ho_coreTimes h of Some ts \<Rightarrow> ts | None \<Rightarrow> [])"
proof (cases "ho_coreTimes h")
  case (Some ts)
  show ?thesis
  proof (cases ts)
    case (Cons t us)
    with core_usages_total[of 0 "t # us" "hr_lastCoresCPUTimes r"] Some show ?thesis
      by (auto simp: cpu_cores_def simp del: core_usages.simps)
  qed (simp add: cpu_cores_def Some)
qed (simp add: cpu_cores_def)

lemma ReadCPU_total:
  "\<exists>m r'. ReadCPU h r = Inr (m, r') \<and> f64_le (Fin 0) (cpu_PowerWatts m) \<and>
     length (cpu_CoresUsagePercent m) = length (case ho_coreTimes h of Some ts \<Rightarrow> ts | None \<Rightarrow> [])"
proof -
  obtain usage r1 where t: "cpu_total h r = (usage, r1)" by (cases "cpu_total h r")
  obtain us r2 where c: "cpu_cores h r1 = Inr (us, r2)" "length us = length (case ho_coreTimes h of Some ts \<Rightarrow> ts | None \<Rightarrow> [])"
    using cpu_cores_total by blast
  have "f64_le (Fin 0) (fst (cpu_power h r3))" for r3
    using energy_power_nonneg by (auto simp: cpu_power_def Let_def f64_le_def split: option.split)
  then show ?thesis using c round2_nonneg by (simp add: ReadCPU_def t split_beta Let_def)
qed

text \<open>reading the CPU never panics, whatever the host answers and whatever was read before (also when the number of
  cores changes): there is one usage per core the host reports, the power is not negative (a counter
  that wraps around or does not move gives no power, not a negative one), and the reading becomes the
  base of the next one.\<close>

theorem cpu_reading_total:
  "\<exists>m r'. ReadCPU h r = Inr (m, r') \<and> f64_le (Fin 0) (cpu_PowerWatts m) \<and>
     length (cpu_CoresUsagePercent m) = length (case ho_coreTimes h of Some ts \<Rightarrow> ts | None \<Rightarrow> [])"
  by (rule ReadCPU_total)

section \<open>Flags\<close>

text \<open>A reading that its flag calls unsupported is zero (or empty).\<close>

definition zero_unless :: "bool \<Rightarrow> bool \<Rightarrow> bool" where
  "zero_unless flag isZero \<longleftrightarrow> flag \<or> isZero"

lemma supported_zero [simp]: "zero_unless (snd (supported r)) (fst (supported r) = Fin 0)"
  by (simp add: supported_def zero_unless_def split: option.split)

lemma readings_zero [simp]:
  "zero_unless (snd (readCPUTemperature h)) (fst (readCPUTemperature h) = Fin 0)"
  "zero_unless (snd (readCPUFrequency h)) (fst (readCPUFrequency h) = Fin 0)"
  "zero_unless (snd (readSysfsGPUFrequency h)) (fst (readSysfsGPUFrequency h) = Fin 0)"
  "zero_unless (snd (readSysfsVRAMTemperature h)) (fst (readSysfsVRAMTemperature h) = Fin 0)"
  "zero_unless (snd (readSysfsVRAMFrequency h)) (fst (readSysfsVRAMFrequency h) = Fin 0)"
  by (simp_all add: readCPUTemperature_def readCPUFrequency_def readSysfsGPUFrequency_def readSysfsVRAMFrequency_def Let_def)
     (simp add: readSysfsVRAMTemperature_def zero_unless_def supported_def split: option.split list.split)

definition cpu_honest :: "TelemetryFlags \<Rightarrow> CPUMetrics \<Rightarrow> bool" where
  "cpu_honest fl c \<longleftrightarrow>
     zero_unless (fl_CPUUsageSupported fl) (cpu_UsagePercent c = Fin 0) \<and>
     zero_unless (fl_CPUCoresUsageSupported fl) (cpu_CoresUsagePercent c = []) \<and>
     zero_unless (fl_CPUTempSupported fl) (cpu_TempCelsius c = Fin 0) \<and>
     zero_unless (fl_CPUFreqSupported fl) (cpu_FreqMHz c = Fin 0) \<and>
     zero_unless (fl_CPUPowerSupported fl) (cpu_PowerWatts c = Fin 0)"

lemma cpu_total_honest:
  "cpu_total h r = (u, r') \<Longrightarrow> zero_unless (fl_CPUUsageSupported (hr_flags r')) (u = Fin 0)"
  by (auto simp: cpu_total_def zero_unless_def split: option.splits list.splits)

lemma cpu_cores_honest:
  "cpu_cores h r = Inr (us, r') \<Longrightarrow> zero_unless (fl_CPUCoresUsageSupported (hr_flags r')) (us = []) \<and>
     fl_CPUUsageSupported (hr_flags r') = fl_CPUUsageSupported (hr_flags r)"
  by (auto simp: cpu_cores_def zero_unless_def ebind_eq_Inr split: option.splits list.splits if_splits)

lemma cpu_power_honest:
  "cpu_power h r = (w, r') \<Longrightarrow> zero_unless (fl_CPUPowerSupported (hr_flags r')) (round2 w = Fin 0) \<and>
     fl_CPUUsageSupported (hr_flags r') = fl_CPUUsageSupported (hr_flags r) \<and>
     fl_CPUCoresUsageSupported (hr_flags r') = fl_CPUCoresUsageSupported (hr_flags r) \<and>
     fl_CPUTempSupported (hr_flags r') = fl_CPUTempSupported (hr_flags r) \<and>
     fl_CPUFreqSupported (hr_flags r') = fl_CPUFreqSupported (hr_flags r)"
  by (auto simp: cpu_power_def zero_unless_def Let_def split: option.splits)

lemma ReadCPU_honest:
  assumes "ReadCPU h r = Inr (m, r')"
  shows "cpu_honest (hr_flags r') m"
proof -
  obtain usage r1 where t: "cpu_total h r = (usage, r1)" by (cases "cpu_total h r")
  obtain us r2 where c: "cpu_cores h r1 = Inr (us, r2)" using cpu_cores_total by blast
  obtain w r4 where p: "cpu_power h (r2\<lparr>hr_flags := (hr_flags r2)\<lparr>fl_CPUTempSupported := snd (readCPUTemperature h),
      fl_CPUFreqSupported := snd (readCPUFrequency h)\<rparr>\<rparr>) = (w, r4)" by fastforce
  have m: "m = \<lparr>cpu_UsagePercent = usage, cpu_CoresUsagePercent = us, cpu_TempCelsius = fst (readCPUTemperature h),
      cpu_FreqMHz = fst (readCPUFrequency h), cpu_PowerWatts = round2 w\<rparr>" and r': "r' = r4"
    using assms by (simp_all add: ReadCPU_def t c p split_beta Let_def)
  show ?thesis
    using cpu_total_honest[OF t] cpu_cores_honest[OF c] cpu_power_honest[OF p] by (simp add: m r' cpu_honest_def)
qed

text \<open>Which flags a reading sets.\<close>

lemma reads_set_flags:
  "hr_flags (snd (ReadRAM h r)) = (hr_flags r)\<lparr>fl_RAMSupported := \<not> isl (ho_virtualMemory h)\<rparr>"
  "hr_flags (snd (ReadSwap h r)) = (hr_flags r)\<lparr>fl_SwapSupported := \<not> isl (ho_swapMemory h)\<rparr>"
  "\<exists>b. hr_flags (snd (ReadZRAM h r)) = (hr_flags r)\<lparr>fl_ZRAMSupported := b\<rparr>"
  "\<exists>b fl. hr_flags (snd (ReadGPU h r)) = set_gpu_flags b fl (hr_flags r)"
proof -
  show "\<exists>b. hr_flags (snd (ReadZRAM h r)) = (hr_flags r)\<lparr>fl_ZRAMSupported := b\<rparr>"
    by (simp add: ReadZRAM_def Let_def split_beta split: option.split) blast
  show "\<exists>b fl. hr_flags (snd (ReadGPU h r)) = set_gpu_flags b fl (hr_flags r)"
    by (simp add: ReadGPU_def split_beta split: sum.split option.split) blast
qed (simp_all add: ReadRAM_def ReadSwap_def isl_def split: sum.split)

lemma cpu_honest_frame:
  "cpu_honest (hr_flags (snd (ReadRAM h r))) c = cpu_honest (hr_flags r) c"
  "cpu_honest (hr_flags (snd (ReadGPU h r))) c = cpu_honest (hr_flags r) c"
  "cpu_honest (hr_flags (snd (ReadSwap h r))) c = cpu_honest (hr_flags r) c"
  "cpu_honest (hr_flags (snd (ReadZRAM h r))) c = cpu_honest (hr_flags r) c"
  using reads_set_flags(3,4)[of h r] by (auto simp: cpu_honest_def reads_set_flags(1,2) set_gpu_flags_def)

text \<open>The two numbers on video memory share one flag, and the reader keeps the one it could read when it
  could not read the other: without the flag only one of the two is sure to be zero.\<close>

definition vram_honest :: "TelemetryFlags \<Rightarrow> GPUMetrics \<Rightarrow> bool" where
  "vram_honest fl g \<longleftrightarrow> zero_unless (fl_GPUVramSupported fl) (gpu_VramUsedBytes g = 0 \<or> gpu_VramTotalBytes g = 0)"

lemma vram_number_left_behind:
  assumes "readSysfsGPU h = Some (m, fl)" and "read_u64 h (path_join [deviceDir, ''mem_info_vram_used'']) = Some v"
    and "read_u64 h (path_join [deviceDir, ''mem_info_vram_total'']) = None"
  shows "\<not> fl_GPUVramSupported fl \<and> gpu_VramUsedBytes m = v"
  using assms by (auto simp: readSysfsGPU_def Let_def split: if_splits)

definition gpu_honest :: "TelemetryFlags \<Rightarrow> GPUMetrics \<Rightarrow> bool" where
  "gpu_honest fl g \<longleftrightarrow>
     zero_unless (fl_GPUSupported fl) (g = zeroGPU) \<and>
     zero_unless (fl_GPUUsageSupported fl) (gpu_UsagePercent g = Fin 0) \<and>
     zero_unless (fl_GPUTempSupported fl) (gpu_TempCelsius g = Fin 0) \<and>
     vram_honest fl g \<and>
     zero_unless (fl_GPUFreqSupported fl) (gpu_FreqMHz g = Fin 0) \<and>
     zero_unless (fl_GPUPowerSupported fl) (gpu_PowerWatts g = Fin 0) \<and>
     zero_unless (fl_GPUVramTempSupported fl) (gpu_VramTempCelsius g = Fin 0) \<and>
     zero_unless (fl_GPUVramFreqSupported fl) (gpu_VramFreqMHz g = Fin 0)"

lemma upd_some_keeps: "(\<And>v t. sel (f v t) = sel t) \<Longrightarrow> sel (upd_some x f s) = sel s"
  by (simp add: upd_some_def split: option.split)

lemma nvidia_vram_temp: "readNvidiaGPU h = Inr m \<Longrightarrow> gpu_VramTempCelsius m = Fin 0"
  by (auto simp: readNvidiaGPU_def Let_def zeroGPU_def upd_some_keeps[where sel = gpu_VramTempCelsius] split: sum.splits if_splits)

lemma sysfs_honest:
  "readSysfsGPU h = Some (m, fl) \<Longrightarrow> gpu_honest (set_gpu_flags True fl fl') m"
  by (auto simp: readSysfsGPU_def Let_def gpu_honest_def vram_honest_def set_gpu_flags_def split: if_splits option.split)
     (auto simp: zero_unless_def split: option.splits)

lemma ReadGPU_honest: "gpu_honest (hr_flags (snd (ReadGPU h r))) (fst (ReadGPU h r))"
proof (cases "if ho_nvidia h then readNvidiaGPU h else Inl []")
  case (Inl err)
  then show ?thesis
    using sysfs_honest[of h] by (auto simp: ReadGPU_def split: option.split)
       (simp add: gpu_honest_def vram_honest_def set_gpu_flags_def zero_unless_def zeroGPU_def)
next
  case (Inr m)
  then have "readNvidiaGPU h = Inr m" by (simp split: if_splits)
  then show ?thesis
    using Inr nvidia_vram_temp by (simp add: ReadGPU_def gpu_honest_def vram_honest_def set_gpu_flags_def nvidia_flags_def zero_unless_def)
qed

lemma gpu_honest_frame:
  "gpu_honest (hr_flags (snd (ReadSwap h r))) g = gpu_honest (hr_flags r) g"
  "gpu_honest (hr_flags (snd (ReadZRAM h r))) g = gpu_honest (hr_flags r) g"
  using reads_set_flags(3)[of h r] by (auto simp: gpu_honest_def vram_honest_def reads_set_flags(1,2))

lemma ram_swap_frame:
  "fl_RAMSupported (hr_flags (snd (ReadGPU h r))) = fl_RAMSupported (hr_flags r)"
  "fl_RAMSupported (hr_flags (snd (ReadSwap h r))) = fl_RAMSupported (hr_flags r)"
  "fl_RAMSupported (hr_flags (snd (ReadZRAM h r))) = fl_RAMSupported (hr_flags r)"
  "fl_SwapSupported (hr_flags (snd (ReadZRAM h r))) = fl_SwapSupported (hr_flags r)"
  using reads_set_flags(3,4)[of h r] by (auto simp: reads_set_flags(1,2) set_gpu_flags_def)

lemma memory_honest:
  "zero_unless (fl_RAMSupported (hr_flags (snd (ReadRAM h r)))) (fst (fst (ReadRAM h r)) = zeroRAM)"
  "zero_unless (fl_SwapSupported (hr_flags (snd (ReadSwap h r)))) (fst (fst (ReadSwap h r)) = zeroSwap)"
  "zero_unless (fl_ZRAMSupported (hr_flags (snd (ReadZRAM h r)))) (fst (ReadZRAM h r) = zeroZRAM)"
  by (auto simp: ReadRAM_def ReadSwap_def ReadZRAM_def Let_def zero_unless_def split: sum.split option.split prod.split)

definition flags_honest :: "SystemMetrics \<Rightarrow> bool" where
  "flags_honest m \<longleftrightarrow> cpu_honest (sm_Flags m) (sm_CPU m) \<and> gpu_honest (sm_Flags m) (sm_GPU m) \<and>
     zero_unless (fl_RAMSupported (sm_Flags m)) (sm_RAM m = zeroRAM) \<and>
     zero_unless (fl_SwapSupported (sm_Flags m)) (sm_Swap m = zeroSwap) \<and>
     zero_unless (fl_ZRAMSupported (sm_Flags m)) (sm_ZRAM m = zeroZRAM)"

lemmas honest_frames = cpu_honest_frame gpu_honest_frame ram_swap_frame

text \<open>a round of readings always completes, and its flags are honest: every value whose flag says that the host does
  not support it is zero or empty, whatever the host answers and whatever was read before. The exception is
  video memory: of its two numbers one is left when only the other could not be read.\<close>

theorem unsupported_readings_are_zero:
  "\<exists>m r'. read_all h r = Inr (m, r') \<and> flags_honest m"
proof -
  obtain c r1 where c: "ReadCPU h r = Inr (c, r1)"
    using ReadCPU_total by blast
  obtain m r' where m: "read_all h r = Inr (m, r')" by (simp add: read_all_def c split_beta)
  have "flags_honest m"
    using m ReadCPU_honest[OF c] memory_honest ReadGPU_honest[of h]
    by (auto simp: read_all_def c split_beta flags_honest_def honest_frames)
  with m show ?thesis by blast
qed

section \<open>ZRAM\<close>

text \<open>the ZRAM totals are the sums, modulo \<open>2\<^sup>6\<^sup>4\<close>, over the devices whose files could be read and parsed, and
  ZRAM counts as supported exactly if there is such a device.\<close>

theorem zram_totals_are_sums:
  "let devices = List.map_filter (zram_device h) (case ho_glob h ''/sys/block/zram*'' of Some dirs \<Rightarrow> dirs | None \<Rightarrow> []);
       (z, r') = ReadZRAM h r
   in (fl_ZRAMSupported (hr_flags r') \<longleftrightarrow> devices \<noteq> []) \<and>
      zram_TotalBytes z = (\<Sum>(d, po, c, u)\<leftarrow>devices. d) \<and> zram_OrigDataSizeBytes z = (\<Sum>(d, po, c, u)\<leftarrow>devices. po) \<and>
      zram_ComprDataSizeBytes z = (\<Sum>(d, po, c, u)\<leftarrow>devices. c) \<and> zram_MemUsedTotalBytes z = (\<Sum>(d, po, c, u)\<leftarrow>devices. u)"
proof -
  have sums: "fold (zram_add h) dirs ((td, tpo, tc, tu), b) =
      (let devices = List.map_filter (zram_device h) dirs in
       ((td + (\<Sum>(d, po, c, u)\<leftarrow>devices. d), tpo + (\<Sum>(d, po, c, u)\<leftarrow>devices. po), tc + (\<Sum>(d, po, c, u)\<leftarrow>devices. c),
         tu + (\<Sum>(d, po, c, u)\<leftarrow>devices. u)), b \<or> devices \<noteq> []))" for dirs td tpo tc tu b
    by (induction dirs arbitrary: td tpo tc tu b) (auto simp: zram_add_def Let_def List.map_filter_simps add.assoc split: option.split)
  show ?thesis
    by (auto simp: ReadZRAM_def Let_def sums zeroZRAM_def List.map_filter_simps split: option.split)
qed

end
