(* ===== verification/Host_Clocks.thy ===== *)
theory Host_Clocks
  imports Host_Facts
begin

text \<open>
  The graphics clocks read from the tables of power levels (\<^verbatim>\<open>pp_dpm_sclk\<close>, \<^verbatim>\<open>pp_dpm_mclk\<close>).
\<close>

section \<open>Parsing a plain number\<close>

lemma digits_val_all: "digits_val m s = Some n \<Longrightarrow> c \<in> set s \<Longrightarrow> digit_val c \<noteq> None"
  by (induction s arbitrary: m) (auto split: option.splits)

lemma digit_val_range: "digit_val c \<noteq> None \<longleftrightarrow> 48 \<le> (of_char c :: nat) \<and> (of_char c :: nat) \<le> 57"
  by (simp add: digit_val_def Let_def)

lemma digit_char_facts:
  assumes "digit_val c \<noteq> None"
  shows "lower_char c = c" and "\<not> is_space c" and "c \<notin> {CHR ''*'', CHR ''m'', CHR '':'', CHR '' '', CHR 0x09, CHR ''x'', CHR ''b'', CHR ''o'', CHR ''i'', CHR ''n'', CHR ''-'', CHR ''+''}"
  using assms[unfolded digit_val_range] by (auto simp: lower_char_def is_space_def Let_def)

lemma parse_float_digits:
  assumes "digits_val 0 s = Some n" and "s \<noteq> []" and "n < 2 ^ 64"
  shows "parse_float s = Some (rnd (of_nat n))"
proof -
  obtain c cs where s: "s = c # cs" using assms(2) by (cases s) auto
  have dig: "digit_val d \<noteq> None" if "d \<in> set s" for d using digits_val_all[OF assms(1) that] .
  have low: "to_lower s = s" using digit_char_facts(1)[OF dig] by (simp add: to_lower_def map_idI)
  have c: "c \<notin> {CHR ''i'', CHR ''n'', CHR ''-'', CHR ''+''}" using digit_char_facts(3)[OF dig[of c]] s by auto
  then have strip: "strip_sign s = (False, s)" by (auto simp: strip_sign_def s)
  have b: "lower_char d \<notin> {CHR ''b'', CHR ''o'', CHR ''x''}" if "d \<in> set s" for d
    using digit_char_facts(3)[OF dig[OF that]] unfolding digit_char_facts(1)[OF dig[OF that]] by simp
  have us: "underscores_ok s" and nohex: "(case s of a # b # _ \<Rightarrow> a = CHR ''0'' \<and> lower_char b = CHR ''x'' | _ \<Rightarrow> False) = False"
  proof -
    have u: "underscores_from False (CHR ''^'') s" by (rule underscores_digits[OF assms(1)]) simp
    have "cs = [] \<or> (\<exists>d ds. cs = d # ds \<and> lower_char d \<notin> {CHR ''b'', CHR ''o'', CHR ''x''})"
      using b by (cases cs) (simp_all add: s)
    then show "underscores_ok s" "(case s of a # b # _ \<Rightarrow> a = CHR ''0'' \<and> lower_char b = CHR ''x'' | _ \<Rightarrow> False) = False"
      using u strip by (auto simp: underscores_ok_def s)
  qed
  obtain q where q: "rnd (of_nat n) = Fin q"
    using f64_of_int_bounded[of "int n" 64] assms(3) by (auto simp: f64_of_int_def)
  have "read_float s = Some (rnd (of_nat n))"
    using read_mantissa_digits[OF assms(1), of False] assms(2)
    by (simp add: read_float_def strip nohex us read_exp_part_def rat_pow_def q Let_def del: read_mantissa.simps)
  moreover have "s \<noteq> ''inf''" "s \<noteq> ''infinity''" "s \<noteq> ''nan''" using c s by auto
  ultimately show ?thesis by (simp add: parse_float_def low strip)
qed

section \<open>Power level tables\<close>

lemma has_prefix_hd: "p \<noteq> [] \<Longrightarrow> hd p \<noteq> c \<Longrightarrow> \<not> has_prefix (c # s) p"
  by (cases p) (auto simp: has_prefix_def)

lemma replace_all_skip: "p \<noteq> [] \<Longrightarrow> hd p \<notin> set s \<Longrightarrow> replace_all p r (s @ t) = s @ replace_all p r t"
  by (induction s) (auto simp: has_prefix_hd)

lemma str_trim_tail:
  assumes "w \<noteq> []" and "\<And>c. c \<in> set w \<Longrightarrow> c \<notin> set cutset" and "d \<in> set cutset"
  shows "str_trim cutset (w @ [d]) = w"
proof -
  have keep: "dropWhile (\<lambda>c. c \<in> set cutset) (v @ u) = v @ u" if "v \<noteq> []" "set v = set w" for v u
    using that assms(2) by (cases v) auto
  from keep[OF assms(1) refl, of "[d]"] keep[of "rev w" "[]"] assms(1,3) show ?thesis by (simp add: str_trim_def)
qed

lemma split_on_append: "split_on d (u @ d # v) = split_on d u @ split_on d v"
proof (induction u)
  case (Cons c u)
  then show ?case by (cases "split_on d u") auto
qed simp

lemma set_split_on: "set w \<subseteq> set s" if "w \<in> set (split_on d s)"
  using that by (induction s arbitrary: w) (force split: list.splits if_splits)+

lemma split_on_plain: "d \<notin> set u \<Longrightarrow> split_on d u = [u]"
  by (induction u) auto

lemma first_some_append: "first_some f (xs @ ys) = (case first_some f xs of Some y \<Rightarrow> Some y | None \<Rightarrow> first_some f ys)"
  by (induction xs) (auto split: option.split)

lemma str_fields_word:
  assumes "w \<noteq> []" and "\<forall>c \<in> set w. \<not> is_space c"
  shows "str_fields (w @ CHR '' '' # t) = w # str_fields (CHR '' '' # t)"
proof -
  have sp: "is_space (CHR '' '')" by code_simp
  obtain c cs where w: "w = c # cs" using assms(1) by (cases w) auto
  with assms(2) sp show ?thesis by (simp add: takeWhile_append dropWhile_append takeWhile_eq_all_conv)
qed

lemma dpm_line_level:
  assumes "CHR ''*'' \<in> set rest" and "n < 2 ^ 64"
  shows "dpm_line (string_of_nat n @ '': '' @ rest) = Some (rnd (of_nat n))"
proof -
  let ?ds = "string_of_nat n"
  have dig: "digit_val c \<noteq> None" if "c \<in> set ?ds" for c using digits_val_all[OF digits_val_string_of_nat that] .
  note facts = digit_char_facts[OF dig]
  have low: "to_lower (?ds @ '': '' @ rest) = ?ds @ '': '' @ to_lower rest"
    using facts(1) by (simp add: to_lower_def map_idI lower_char_def)
  have notin: "CHR ''*'' \<notin> set (?ds @ '': '')" "CHR ''m'' \<notin> set (?ds @ '': '')" using facts(3) by auto
  have star: "contains_str (?ds @ '': '' @ rest) ''*''"
    using assms(1) unfolding contains_str_iff by (metis append.assoc append_Cons append_Nil split_list)
  define tail where "tail = replace_all ''mhz'' [] (replace_all ''*'' [] (to_lower rest))"
  have "replace_all ''*'' [] (?ds @ '': '' @ to_lower rest) = (?ds @ '': '') @ replace_all ''*'' [] (to_lower rest)"
    using replace_all_skip[of "''*''" "?ds @ '': ''"] notin(1) by simp
  then have clean: "replace_all ''mhz'' [] (replace_all ''*'' [] (?ds @ '': '' @ to_lower rest)) = (?ds @ '':'') @ CHR '' '' # tail"
    using replace_all_skip[of "''mhz''" "?ds @ '': ''"] notin(2) by (simp add: tail_def)
  have col: "\<not> is_space (CHR '':'')" by code_simp
  have fields: "str_fields ((?ds @ '':'') @ CHR '' '' # tail) = (?ds @ '':'') # str_fields (CHR '' '' # tail)"
    using facts(2) col by (intro str_fields_word) auto
  have trim: "str_trim ('': '' @ [CHR 0x09]) (?ds @ '':'') = ?ds"
    using facts(3) by (intro str_trim_tail) auto
  show ?thesis
    using parse_float_digits[OF digits_val_string_of_nat string_of_nat_not_Nil assms(2)]
    by (simp add: dpm_line_def star low clean fields trim del: str_fields.simps append.simps append_assoc)
qed

lemma no_star_no_clock: "CHR ''*'' \<notin> set line \<Longrightarrow> dpm_line line = None"
  by (auto simp: dpm_line_def contains_str_iff)

text \<open>the clock read from a table of power levels is the index of the active level, not its frequency: the first
  field of the marked line, the level's number followed by a colon, is trimmed to a number and
  taken as the clock. This holds for both the graphics and the memory clock, for any
  frequencies in the table.\<close>

theorem amd_clock_is_level_index:
  assumes "CHR ''*'' \<notin> set earlier" and "CHR ''*'' \<in> set rest" and "CHR 0x0A \<notin> set rest" and "n < 2 ^ 64"
  shows "dpm_clock (earlier @ CHR 0x0A # string_of_nat n @ '': '' @ rest @ CHR 0x0A # later) = Some (rnd (of_nat n))"
proof -
  have dig: "digit_val c \<noteq> None" if "c \<in> set (string_of_nat n)" for c using digits_val_all[OF digits_val_string_of_nat that] .
  have nl: "CHR 0x0A \<notin> set (string_of_nat n @ '': '' @ rest)"
  proof -
    have "is_space (CHR 0x0A)" by code_simp
    then show ?thesis using assms(3) digit_char_facts(2)[OF dig] by auto
  qed
  have "first_some dpm_line (split_on (CHR 0x0A) earlier) = None"
    using assms(1) unfolding first_some_None by (meson no_star_no_clock set_split_on subsetD)
  then show ?thesis
    unfolding dpm_clock_def split_on_append first_some_append
    using split_on_append[of "CHR 0x0A" "string_of_nat n @ '': '' @ rest" later] split_on_plain[OF nl] dpm_line_level[OF assms(2,4)]
    by simp
qed

theorem amd_clock_is_level_index_witness:
  "dpm_clock (''0: 500Mhz'' @ CHR 0x0A # string_of_nat 1 @ '': '' @ ''2100Mhz *'' @ CHR 0x0A # []) = Some (rnd 1)"
  using amd_clock_is_level_index[of "''0: 500Mhz''" "''2100Mhz *''" 1 "[]"] by simp

end
