(* ===== verification/Go_Utf8.thy ===== *)
theory Go_Utf8
  imports Go_Strings
begin

text \<open>
  The UTF-8 decoding that \<^verbatim>\<open>encoding/json\<close> applies to the strings it writes: every byte that does
  not start a well-formed sequence is replaced by the replacement character U+FFFD.
\<close>

definition byte_in :: "nat \<Rightarrow> nat \<Rightarrow> char \<Rightarrow> bool" where
  "byte_in lo hi c \<longleftrightarrow> lo \<le> (of_char c :: nat) \<and> (of_char c :: nat) \<le> hi"

text \<open>The length of the well-formed sequence a byte list starts with, as in the table of
  \<^verbatim>\<open>unicode/utf8\<close>: no overlong forms, no surrogates, nothing above U+10FFFF.\<close>

definition utf8_len :: "char \<Rightarrow> nat" where
  "utf8_len a =
     (if byte_in 0 0x7F a then 1 else if byte_in 0xC2 0xDF a then 2 else if byte_in 0xE0 0xEF a then 3
      else if byte_in 0xF0 0xF4 a then 4 else 0)"

definition utf8_second :: "char \<Rightarrow> char \<Rightarrow> bool" where
  "utf8_second a b =
     byte_in (if byte_in 0xE0 0xE0 a then 0xA0 else if byte_in 0xF0 0xF0 a then 0x90 else 0x80)
             (if byte_in 0xED 0xED a then 0x9F else if byte_in 0xF4 0xF4 a then 0x8F else 0xBF) b"

definition utf8_tail :: "char \<Rightarrow> string \<Rightarrow> bool" where
  "utf8_tail a t = (case t of [] \<Rightarrow> True | b # r \<Rightarrow> utf8_second a b \<and> list_all (byte_in 0x80 0xBF) r)"

definition utf8_head :: "string \<Rightarrow> nat option" where
  "utf8_head s =
     (case s of
        [] \<Rightarrow> None
      | a # t \<Rightarrow> let n = utf8_len a in
          if 0 < n \<and> n \<le> length s \<and> utf8_tail a (take (n - 1) t) then Some n else None)"

definition replacement_char :: string where
  "replacement_char = [CHR 0xEF, CHR 0xBF, CHR 0xBD]"

lemma utf8_head_range: "utf8_head s = Some n \<Longrightarrow> 0 < n \<and> n \<le> length s"
  by (auto simp: utf8_head_def Let_def split: list.splits if_splits)

function coerce_utf8 :: "string \<Rightarrow> string" where
  "coerce_utf8 s =
     (if s = [] then []
      else case utf8_head s of
        Some n \<Rightarrow> take n s @ coerce_utf8 (drop n s)
      | None \<Rightarrow> replacement_char @ coerce_utf8 (tl s))"
  by auto
termination
  by (relation "measure length") (auto dest: utf8_head_range simp: diff_less)

function valid_utf8 :: "string \<Rightarrow> bool" where
  "valid_utf8 s =
     (s = [] \<or> (case utf8_head s of Some n \<Rightarrow> valid_utf8 (drop n s) | None \<Rightarrow> False))"
  by auto
termination
  by (relation "measure length") (auto dest: utf8_head_range simp: diff_less)

declare coerce_utf8.simps [simp del] valid_utf8.simps [simp del]

lemma coerce_valid [simp]: "valid_utf8 s \<Longrightarrow> coerce_utf8 s = s"
proof (induction s rule: valid_utf8.induct)
  case (1 s)
  show ?case
  proof (cases "s = []")
    case False
    with 1(2) obtain n where "utf8_head s = Some n" "valid_utf8 (drop n s)"
      by (auto simp: valid_utf8.simps[of s] split: option.splits)
    with 1(1) False show ?thesis by (simp add: coerce_utf8.simps[of s])
  qed (simp add: coerce_utf8.simps)
qed

lemma utf8_head_append: "utf8_head s = Some n \<Longrightarrow> utf8_head (s @ t) = Some n"
  by (auto simp: utf8_head_def Let_def min_def split: list.splits if_splits)

lemma valid_utf8_append: "valid_utf8 s \<Longrightarrow> valid_utf8 t \<Longrightarrow> valid_utf8 (s @ t)"
proof (induction s rule: valid_utf8.induct)
  case (1 s)
  show ?case
  proof (cases "s = []")
    case False
    with 1(2) obtain n where n: "utf8_head s = Some n" "valid_utf8 (drop n s)"
      by (auto simp: valid_utf8.simps[of s] split: option.splits)
    then have "valid_utf8 (drop n s @ t)" using 1 False by auto
    then show ?thesis using utf8_head_append[OF n(1), of t] utf8_head_range[OF n(1)]
      by (simp add: valid_utf8.simps[of "s @ t"])
  qed (use 1 in simp)
qed

lemma utf8_head_take: "utf8_head s = Some n \<Longrightarrow> utf8_head (take n s) = Some n"
  by (auto simp: utf8_head_def Let_def take_Cons' split: list.splits if_splits)

text \<open>Whatever the program puts into a message, the written text is well formed.\<close>

lemma coerce_is_valid: "valid_utf8 (coerce_utf8 s)"
proof (induction s rule: coerce_utf8.induct)
  case (1 s)
  have r: "valid_utf8 replacement_char" by code_simp
  show ?case
  proof (cases "s = []")
    case False
    show ?thesis
    proof (cases "utf8_head s")
      case None
      with 1 False show ?thesis by (simp add: coerce_utf8.simps[of s] valid_utf8_append r)
    next
      case (Some n)
      have "valid_utf8 (take n s)"
        using utf8_head_take[OF Some] by (simp add: valid_utf8.simps)
      with 1 False Some show ?thesis by (simp add: coerce_utf8.simps[of s] valid_utf8_append)
    qed
  qed (simp add: coerce_utf8.simps valid_utf8.simps)
qed

end
