(* ===== verification/Json_Encode.thy ===== *)
theory Json_Encode
  imports Command_Listener Go_Utf8
begin

text \<open>
  \<^verbatim>\<open>json.Marshal\<close> for the structs that travel over the local command socket, and the contract between
  an encoder and the decoder of the same type. Encoding fails on a float that is not finite;
  strings are made well-formed UTF-8; an empty slice becomes \<^verbatim>\<open>null\<close>, as Go writes a nil slice,
  which is the only empty slice the command line encodes (of the daemon's own messages only whether
  they can be encoded is taken from here: their slices may be empty and not nil); an \<^verbatim>\<open>omitempty\<close> field that is empty is left out. A whole float below 1e21 is
  written without a fraction, which reads back as an integer literal.
\<close>

section \<open>Encoders\<close>

type_synonym encoded = "string + json"

fun json_fields :: "(string \<times> encoded) list \<Rightarrow> string + (string \<times> json) list" where
  "json_fields [] = Inr []"
| "json_fields ((k, v) # kvs) = ebind v (\<lambda>j. ebind (json_fields kvs) (\<lambda>js. Inr ((k, j) # js)))"

definition json_object :: "(string \<times> encoded) list \<Rightarrow> encoded" where
  "json_object kvs = ebind (json_fields kvs) (\<lambda>js. Inr (JObj js))"

definition encode_string :: "string \<Rightarrow> encoded" where
  "encode_string s = Inr (JStr (coerce_utf8 s))"

definition encode_bool :: "bool \<Rightarrow> encoded" where
  "encode_bool b = Inr (JBool b)"

definition encode_uint :: "'a::len word \<Rightarrow> encoded" where
  "encode_uint w = Inr (JInt (uint w))"

definition encode_sint :: "'a::len word \<Rightarrow> encoded" where
  "encode_sint w = Inr (JInt (sint w))"

definition encode_f64 :: "f64 \<Rightarrow> encoded" where
  "encode_f64 x =
     (case x of
        Fin q \<Rightarrow> Inr (if of_int \<lfloor>q\<rfloor> = q \<and> \<bar>q\<bar> < 10 ^ 21 then JInt \<lfloor>q\<rfloor> else JDec (Fin q))
      | PInf \<Rightarrow> Inl ''json: unsupported value: +Inf''
      | NInf \<Rightarrow> Inl ''json: unsupported value: -Inf''
      | NaN \<Rightarrow> Inl ''json: unsupported value: NaN'')"

fun encode_elems :: "('a \<Rightarrow> encoded) \<Rightarrow> 'a list \<Rightarrow> string + json list" where
  "encode_elems f [] = Inr []"
| "encode_elems f (x # xs) = ebind (f x) (\<lambda>j. ebind (encode_elems f xs) (\<lambda>js. Inr (j # js)))"

definition encode_slice :: "('a \<Rightarrow> encoded) \<Rightarrow> 'a list \<Rightarrow> encoded" where
  "encode_slice f xs = (if xs = [] then Inr JNull else ebind (encode_elems f xs) (\<lambda>js. Inr (JArr js)))"

definition encode_SessionLockEvent :: "SessionLockEvent \<Rightarrow> encoded" where
  "encode_SessionLockEvent ev = json_object [(''locked'', encode_bool (Locked ev))]"

definition encode_DpmsEvent :: "DpmsEvent \<Rightarrow> encoded" where
  "encode_DpmsEvent ev = json_object [(''state'', encode_string (dp_State ev))]"

definition encode_PowerProfile :: "PowerProfile \<Rightarrow> encoded" where
  "encode_PowerProfile p = json_object [(''profile'', encode_string (Profile p))]"

definition encode_PowerProfileState :: "PowerProfileState \<Rightarrow> encoded" where
  "encode_PowerProfileState st = json_object
     [(''active_profile'', encode_string (ActiveProfile st)),
      (''available_profiles'', encode_slice encode_PowerProfile (AvailableProfiles st))]"

text \<open>The only hint maps that are encoded are nil and empty.\<close>

definition encode_empty_hints :: "(string \<times> dval) list option \<Rightarrow> encoded" where
  "encode_empty_hints h = (case h of None \<Rightarrow> Inr JNull | Some _ \<Rightarrow> Inr (JObj []))"

definition encode_NotificationEvent :: "NotificationEvent \<Rightarrow> encoded" where
  "encode_NotificationEvent ev = json_object
     ([(''app_name'', encode_string (ne_AppName ev)), (''replaces_id'', encode_uint (ne_ReplacesID ev)),
       (''app_icon'', encode_string (ne_AppIcon ev))]
      @ (if ne_AppIconBase64 ev = [] then [] else [(''app_icon_base64'', encode_string (ne_AppIconBase64 ev))])
      @ [(''summary'', encode_string (ne_Summary ev)), (''body'', encode_string (ne_Body ev)),
         (''actions'', encode_slice encode_string (ne_Actions ev)), (''hints'', encode_empty_hints (ne_Hints ev)),
         (''expire_timeout'', encode_sint (ne_ExpireTimeout ev))])"

definition encode_PlayerMetadata :: "PlayerMetadata \<Rightarrow> encoded" where
  "encode_PlayerMetadata m = json_object
     [(''track_id'', encode_string (pm_TrackID m)), (''title'', encode_string (pm_Title m)),
      (''artist'', encode_slice encode_string (pm_Artist m)), (''album'', encode_string (pm_Album m)),
      (''art_url'', encode_string (pm_ArtURL m)), (''length_microseconds'', encode_sint (pm_LengthMicro m))]"

definition encode_PlayerState :: "PlayerState \<Rightarrow> encoded" where
  "encode_PlayerState p = json_object
     [(''player_name'', encode_string (ps_PlayerName p)), (''identity'', encode_string (ps_Identity p)),
      (''desktop_entry'', encode_string (ps_DesktopEntry p)), (''playback_status'', encode_string (ps_PlaybackStatus p)),
      (''volume'', encode_f64 (ps_Volume p)), (''position_microseconds'', encode_sint (ps_PositionMicro p)),
      (''metadata'', encode_PlayerMetadata (ps_Metadata p))]"

definition encode_MediaEvent :: "MediaEvent \<Rightarrow> encoded" where
  "encode_MediaEvent ev = json_object [(''active_players'', encode_slice encode_PlayerState (ActivePlayers ev))]"

definition encode_CPUMetrics :: "CPUMetrics \<Rightarrow> encoded" where
  "encode_CPUMetrics m = json_object
     [(''usage_percent'', encode_f64 (cpu_UsagePercent m)),
      (''cores_usage_percent'', encode_slice encode_f64 (cpu_CoresUsagePercent m)),
      (''temp_celsius'', encode_f64 (cpu_TempCelsius m)), (''freq_mhz'', encode_f64 (cpu_FreqMHz m)),
      (''power_watts'', encode_f64 (cpu_PowerWatts m))]"

definition encode_RAMMetrics :: "RAMMetrics \<Rightarrow> encoded" where
  "encode_RAMMetrics m = json_object
     [(''used_bytes'', encode_uint (ram_UsedBytes m)), (''total_bytes'', encode_uint (ram_TotalBytes m)),
      (''percentage'', encode_f64 (ram_Percentage m))]"

definition encode_SwapMetrics :: "SwapMetrics \<Rightarrow> encoded" where
  "encode_SwapMetrics m = json_object
     [(''used_bytes'', encode_uint (swap_UsedBytes m)), (''total_bytes'', encode_uint (swap_TotalBytes m)),
      (''percentage'', encode_f64 (swap_Percentage m))]"

definition encode_ZRAMMetrics :: "ZRAMMetrics \<Rightarrow> encoded" where
  "encode_ZRAMMetrics m = json_object
     [(''orig_data_size_bytes'', encode_uint (zram_OrigDataSizeBytes m)),
      (''compr_data_size_bytes'', encode_uint (zram_ComprDataSizeBytes m)),
      (''mem_used_total_bytes'', encode_uint (zram_MemUsedTotalBytes m)),
      (''total_bytes'', encode_uint (zram_TotalBytes m)),
      (''compression_ratio'', encode_f64 (zram_CompressionRatio m))]"

definition encode_GPUMetrics :: "GPUMetrics \<Rightarrow> encoded" where
  "encode_GPUMetrics m = json_object
     [(''usage_percent'', encode_f64 (gpu_UsagePercent m)), (''temp_celsius'', encode_f64 (gpu_TempCelsius m)),
      (''vram_used_bytes'', encode_uint (gpu_VramUsedBytes m)), (''vram_total_bytes'', encode_uint (gpu_VramTotalBytes m)),
      (''freq_mhz'', encode_f64 (gpu_FreqMHz m)), (''power_watts'', encode_f64 (gpu_PowerWatts m)),
      (''vram_temp_celsius'', encode_f64 (gpu_VramTempCelsius m)), (''vram_freq_mhz'', encode_f64 (gpu_VramFreqMHz m))]"

definition encode_TelemetryFlags :: "TelemetryFlags \<Rightarrow> encoded" where
  "encode_TelemetryFlags f = json_object
     [(''cpu_usage_supported'', encode_bool (fl_CPUUsageSupported f)),
      (''cpu_cores_usage_supported'', encode_bool (fl_CPUCoresUsageSupported f)),
      (''cpu_temp_supported'', encode_bool (fl_CPUTempSupported f)), (''cpu_freq_supported'', encode_bool (fl_CPUFreqSupported f)),
      (''cpu_power_supported'', encode_bool (fl_CPUPowerSupported f)), (''ram_supported'', encode_bool (fl_RAMSupported f)),
      (''swap_supported'', encode_bool (fl_SwapSupported f)), (''zram_supported'', encode_bool (fl_ZRAMSupported f)),
      (''gpu_supported'', encode_bool (fl_GPUSupported f)), (''gpu_usage_supported'', encode_bool (fl_GPUUsageSupported f)),
      (''gpu_temp_supported'', encode_bool (fl_GPUTempSupported f)), (''gpu_vram_supported'', encode_bool (fl_GPUVramSupported f)),
      (''gpu_freq_supported'', encode_bool (fl_GPUFreqSupported f)), (''gpu_power_supported'', encode_bool (fl_GPUPowerSupported f)),
      (''gpu_vram_temp_supported'', encode_bool (fl_GPUVramTempSupported f)),
      (''gpu_vram_freq_supported'', encode_bool (fl_GPUVramFreqSupported f))]"

definition encode_SystemMetrics :: "SystemMetrics \<Rightarrow> encoded" where
  "encode_SystemMetrics m = json_object
     [(''cpu'', encode_CPUMetrics (sm_CPU m)), (''ram'', encode_RAMMetrics (sm_RAM m)), (''gpu'', encode_GPUMetrics (sm_GPU m)),
      (''swap'', encode_SwapMetrics (sm_Swap m)), (''zram'', encode_ZRAMMetrics (sm_ZRAM m)),
      (''flags'', encode_TelemetryFlags (sm_Flags m))]"

definition encode_UDSRequest :: "UDSRequest \<Rightarrow> encoded" where
  "encode_UDSRequest req = json_object
     [(''type'', encode_string (uq_Type req)), (''data'', Inr (case uq_Data req of None \<Rightarrow> JNull | Some j \<Rightarrow> j))]"

definition encode_UDSResponse :: "UDSResponse \<Rightarrow> encoded" where
  "encode_UDSResponse r = json_object
     ([(''success'', encode_bool (ur_Success r)), (''client_count'', Inr (JInt (int (ur_ClientCount r))))]
      @ (if ur_Error r = [] then [] else [(''error'', encode_string (ur_Error r))]))"

definition decode_UDSResponse :: "json \<Rightarrow> UDSResponse \<Rightarrow> UDSResponse option" where
  "decode_UDSResponse = decode_record
     [(''success'', fld decode_bool ur_Success (\<lambda>x s. s\<lparr>ur_Success := x\<rparr>)),
      (''client_count'', fld (\<lambda>j old. map_option nat (decode_int j (int old))) ur_ClientCount (\<lambda>x s. s\<lparr>ur_ClientCount := x\<rparr>)),
      (''error'', fld decode_string ur_Error (\<lambda>x s. s\<lparr>ur_Error := x\<rparr>))]"

section \<open>The contract of an encoder and a decoder\<close>

text \<open>A value in the domain of the codec is encoded, and decoding the result into the zero value gives
  it back.\<close>

locale json_codec =
  fixes enc :: "'a \<Rightarrow> encoded"
    and dec :: "json \<Rightarrow> 'a \<Rightarrow> 'a option"
    and zero :: 'a
    and ok :: "'a \<Rightarrow> bool"
  assumes roundtrip: "ok x \<Longrightarrow> \<exists>j. enc x = Inr j \<and> dec j zero = Some x"
begin

lemma elems_roundtrip:
  "list_all ok xs \<Longrightarrow> \<exists>js. encode_elems enc xs = Inr js \<and> decode_list (\<lambda>j. dec j zero) js = Some xs"
proof (induction xs)
  case (Cons x xs)
  then obtain j js where "enc x = Inr j" "dec j zero = Some x" "encode_elems enc xs = Inr js"
      "decode_list (\<lambda>j. dec j zero) js = Some xs"
    using roundtrip[of x] by auto
  then show ?case by auto
qed simp

definition form :: "'a \<Rightarrow> json" where
  "form x = projr (enc x)"

lemma enc_form: "ok x \<Longrightarrow> enc x = Inr (form x)" and dec_form: "ok x \<Longrightarrow> dec (form x) zero = Some x"
  using roundtrip[of x] by (auto simp: form_def)

lemma slice_roundtrip:
  assumes "list_all ok xs"
  shows "\<exists>j. encode_slice enc xs = Inr j \<and> fresh (decode_slice (\<lambda>j. dec j zero)) j [] = Some xs"
  using elems_roundtrip[OF assms] by (auto simp: encode_slice_def decode_slice_def fresh_def)

end

text \<open>A codec whose values are also sent as the elements of a slice.\<close>

locale json_element = json_codec

sublocale json_element \<subseteq> slice: json_codec "encode_slice enc" "fresh (decode_slice (\<lambda>j. dec j zero))" "[]" "list_all ok"
  by unfold_locales (rule slice_roundtrip)

text \<open>A struct whose fields are all present, in the order of its table.\<close>

fun apply_fields :: "(json \<Rightarrow> 's \<Rightarrow> 's option) list \<Rightarrow> json list \<Rightarrow> 's \<Rightarrow> 's option" where
  "apply_fields (u # us) (j # js) s = Option.bind (u j s) (apply_fields us js)"
| "apply_fields _ _ s = Some s"

lemma decode_fields_aligned:
  assumes "distinct (map fst tbl)" and "map fst kvs = map fst ys" and "set ys \<subseteq> set tbl"
  shows "decode_fields (map fst tbl) (\<lambda>f j s. case map_of tbl f of Some u \<Rightarrow> u j s | None \<Rightarrow> Some s) kvs s =
     apply_fields (map snd ys) (map snd kvs) s"
  using assms(2,3)
proof (induction ys arbitrary: kvs s)
  case (Cons y ys)
  then obtain v kvs' where kvs: "kvs = (fst y, v) # kvs'" "map fst kvs' = map fst ys" by (cases kvs) auto
  have y: "map_of tbl (fst y) = Some (snd y)" "fst y \<in> set (map fst tbl)"
    using Cons.prems(2) assms(1) by (auto intro: map_of_is_SomeI)
  have "decode_fields (map fst tbl) (\<lambda>f j s. case map_of tbl f of Some u \<Rightarrow> u j s | None \<Rightarrow> Some s) kvs' s' =
     apply_fields (map snd ys) (map snd kvs') s'" for s'
    by (rule Cons.IH) (use kvs Cons.prems(2) in auto)
  with y show ?case by (simp add: kvs(1) del: set_map split: option.split)
qed simp

lemma decode_record_aligned:
  assumes "distinct (map fst tbl)" and "map fst kvs = map fst tbl"
  shows "decode_record tbl (JObj kvs) s = apply_fields (map snd tbl) (map snd kvs) s"
  using decode_fields_aligned[OF assms(1,2) subset_refl] by (simp add: decode_record_def decode_struct_def)

section \<open>The codecs of the message types\<close>

text \<open>A float the program can hold.\<close>

definition finite_float :: "f64 \<Rightarrow> bool" where
  "finite_float x = (case x of Fin q \<Rightarrow> rnd q = Fin q | _ \<Rightarrow> False)"

interpretation string_codec: json_element encode_string decode_string "[]" valid_utf8
  by unfold_locales (simp add: encode_string_def decode_string_def)

interpretation bool_codec: json_codec encode_bool decode_bool False "\<lambda>_. True"
  by unfold_locales (simp add: encode_bool_def decode_bool_def)

lemma uint_less_64: "uint (w :: 64 word) < 2 ^ 64" and uint_less_32: "uint (v :: 32 word) < 2 ^ 32"
  using uint_lt2p[of w] uint_lt2p[of v] by simp_all

interpretation u32_codec: json_codec "encode_uint :: u32 \<Rightarrow> encoded" decode_u32 0 "\<lambda>_. True"
proof
  fix x :: u32
  show "\<exists>j. encode_uint x = Inr j \<and> decode_u32 j 0 = Some x"
    using uint_less_32[of x] by (simp add: encode_uint_def decode_u32_def decode_ranged_def)
qed

interpretation u64_codec: json_codec "encode_uint :: u64 \<Rightarrow> encoded" decode_u64 0 "\<lambda>_. True"
proof
  fix x :: u64
  show "\<exists>j. encode_uint x = Inr j \<and> decode_u64 j 0 = Some x"
    using uint_less_64[of x] by (simp add: encode_uint_def decode_u64_def decode_ranged_def)
qed

interpretation i32_codec: json_codec "encode_sint :: i32 \<Rightarrow> encoded" decode_i32 0 "\<lambda>_. True"
proof
  fix x :: i32
  show "\<exists>j. encode_sint x = Inr j \<and> decode_i32 j 0 = Some x"
    using sint_greater_eq[of x] sint_less[of x] by (simp add: encode_sint_def decode_i32_def decode_ranged_def)
qed

interpretation i64_codec: json_codec "encode_sint :: i64 \<Rightarrow> encoded" decode_i64 0 "\<lambda>_. True"
proof
  fix x :: i64
  show "\<exists>j. encode_sint x = Inr j \<and> decode_i64 j 0 = Some x"
    using sint_greater_eq[of x] sint_less[of x] by (simp add: encode_sint_def decode_i64_def decode_ranged_def)
qed

interpretation f64_codec: json_element encode_f64 decode_f64 "Fin 0" finite_float
proof
  fix x assume "finite_float x"
  then obtain q where q: "x = Fin q" "rnd q = Fin q" by (auto simp: finite_float_def split: f64.splits)
  have "decode_f64 (JInt \<lfloor>q\<rfloor>) (Fin 0) = Some (Fin q)" if "of_int \<lfloor>q\<rfloor> = q"
  proof -
    have "rnd (of_int \<lfloor>q\<rfloor>) = Fin q" using that q(2) by metis
    then show ?thesis by (simp only: decode_f64_def json.case finite_f64_def f64.case)
  qed
  moreover have "decode_f64 (JDec (Fin q)) (Fin 0) = Some (Fin q)" by (simp add: decode_f64_def finite_f64_def)
  ultimately show "\<exists>j. encode_f64 x = Inr j \<and> decode_f64 j (Fin 0) = Some x" by (simp add: encode_f64_def q(1))
qed

text \<open>A struct codec follows from the codecs of its fields.\<close>

lemmas codec_simps = json_object_def decode_record_aligned fld_def
  string_codec.enc_form string_codec.dec_form string_codec.slice.enc_form string_codec.slice.dec_form
  bool_codec.enc_form bool_codec.dec_form u32_codec.enc_form u32_codec.dec_form u64_codec.enc_form u64_codec.dec_form
  i32_codec.enc_form i32_codec.dec_form i64_codec.enc_form i64_codec.dec_form
  f64_codec.enc_form f64_codec.dec_form f64_codec.slice.enc_form f64_codec.slice.dec_form

interpretation lock_codec: json_codec encode_SessionLockEvent decode_SessionLockEvent "\<lparr>Locked = False\<rparr>" "\<lambda>_. True"
  by unfold_locales (simp add: encode_SessionLockEvent_def decode_SessionLockEvent_def codec_simps)

interpretation dpms_codec: json_codec encode_DpmsEvent decode_DpmsEvent "\<lparr>dp_State = []\<rparr>" "\<lambda>ev. valid_utf8 (dp_State ev)"
  by unfold_locales (simp add: encode_DpmsEvent_def decode_DpmsEvent_def codec_simps)

interpretation profile_codec: json_element encode_PowerProfile decode_PowerProfile "\<lparr>Profile = []\<rparr>" "\<lambda>p. valid_utf8 (Profile p)"
  by unfold_locales (simp add: encode_PowerProfile_def decode_PowerProfile_def codec_simps)

definition power_state_ok :: "PowerProfileState \<Rightarrow> bool" where
  "power_state_ok st \<longleftrightarrow> valid_utf8 (ActiveProfile st) \<and> list_all (\<lambda>p. valid_utf8 (Profile p)) (AvailableProfiles st)"

interpretation power_codec: json_codec encode_PowerProfileState decode_PowerProfileState
  "\<lparr>ActiveProfile = [], AvailableProfiles = []\<rparr>" power_state_ok
  by unfold_locales (simp add: encode_PowerProfileState_def decode_PowerProfileState_def power_state_ok_def codec_simps
      profile_codec.slice.enc_form profile_codec.slice.dec_form)

definition metadata_ok :: "PlayerMetadata \<Rightarrow> bool" where
  "metadata_ok m \<longleftrightarrow> valid_utf8 (pm_TrackID m) \<and> valid_utf8 (pm_Title m) \<and> list_all valid_utf8 (pm_Artist m) \<and>
     valid_utf8 (pm_Album m) \<and> valid_utf8 (pm_ArtURL m)"

interpretation metadata_codec: json_codec encode_PlayerMetadata decode_PlayerMetadata zeroMetadata metadata_ok
  by unfold_locales (simp add: encode_PlayerMetadata_def decode_PlayerMetadata_def decode_strings_def metadata_ok_def
      zeroMetadata_def codec_simps)

definition player_ok :: "PlayerState \<Rightarrow> bool" where
  "player_ok p \<longleftrightarrow> valid_utf8 (ps_PlayerName p) \<and> valid_utf8 (ps_Identity p) \<and> valid_utf8 (ps_DesktopEntry p) \<and>
     valid_utf8 (ps_PlaybackStatus p) \<and> finite_float (ps_Volume p) \<and> metadata_ok (ps_Metadata p)"

interpretation player_codec: json_element encode_PlayerState decode_PlayerState zeroPlayer player_ok
  by unfold_locales (simp add: encode_PlayerState_def decode_PlayerState_def player_ok_def zeroPlayer_def codec_simps
      metadata_codec.enc_form metadata_codec.dec_form)

interpretation media_codec: json_codec encode_MediaEvent decode_MediaEvent "\<lparr>ActivePlayers = []\<rparr>" "\<lambda>ev. list_all player_ok (ActivePlayers ev)"
  by unfold_locales (simp add: encode_MediaEvent_def decode_MediaEvent_def codec_simps
      player_codec.slice.enc_form player_codec.slice.dec_form)

definition cpu_ok :: "CPUMetrics \<Rightarrow> bool" where
  "cpu_ok m \<longleftrightarrow> finite_float (cpu_UsagePercent m) \<and> list_all finite_float (cpu_CoresUsagePercent m) \<and>
     finite_float (cpu_TempCelsius m) \<and> finite_float (cpu_FreqMHz m) \<and> finite_float (cpu_PowerWatts m)"

definition gpu_ok :: "GPUMetrics \<Rightarrow> bool" where
  "gpu_ok m \<longleftrightarrow> finite_float (gpu_UsagePercent m) \<and> finite_float (gpu_TempCelsius m) \<and> finite_float (gpu_FreqMHz m) \<and>
     finite_float (gpu_PowerWatts m) \<and> finite_float (gpu_VramTempCelsius m) \<and> finite_float (gpu_VramFreqMHz m)"

definition metrics_ok :: "SystemMetrics \<Rightarrow> bool" where
  "metrics_ok m \<longleftrightarrow> cpu_ok (sm_CPU m) \<and> finite_float (ram_Percentage (sm_RAM m)) \<and> gpu_ok (sm_GPU m) \<and>
     finite_float (swap_Percentage (sm_Swap m)) \<and> finite_float (zram_CompressionRatio (sm_ZRAM m))"

interpretation cpu_codec: json_codec encode_CPUMetrics decode_CPUMetrics zeroCPU cpu_ok
  by unfold_locales (simp add: encode_CPUMetrics_def decode_CPUMetrics_def cpu_ok_def zeroCPU_def codec_simps)

interpretation ram_codec: json_codec encode_RAMMetrics decode_RAMMetrics zeroRAM "\<lambda>m. finite_float (ram_Percentage m)"
  by unfold_locales (simp add: encode_RAMMetrics_def decode_RAMMetrics_def zeroRAM_def codec_simps)

interpretation swap_codec: json_codec encode_SwapMetrics decode_SwapMetrics zeroSwap "\<lambda>m. finite_float (swap_Percentage m)"
  by unfold_locales (simp add: encode_SwapMetrics_def decode_SwapMetrics_def zeroSwap_def codec_simps)

interpretation zram_codec: json_codec encode_ZRAMMetrics decode_ZRAMMetrics zeroZRAM "\<lambda>m. finite_float (zram_CompressionRatio m)"
  by unfold_locales (simp add: encode_ZRAMMetrics_def decode_ZRAMMetrics_def zeroZRAM_def codec_simps)

interpretation gpu_codec: json_codec encode_GPUMetrics decode_GPUMetrics zeroGPU gpu_ok
  by unfold_locales (simp add: encode_GPUMetrics_def decode_GPUMetrics_def gpu_ok_def zeroGPU_def codec_simps)

interpretation flags_codec: json_codec encode_TelemetryFlags decode_TelemetryFlags zeroFlags "\<lambda>_. True"
  by unfold_locales (simp add: encode_TelemetryFlags_def decode_TelemetryFlags_def zeroFlags_def codec_simps)

interpretation metrics_codec: json_codec encode_SystemMetrics decode_SystemMetrics zeroSystemMetrics metrics_ok
  by unfold_locales (simp add: encode_SystemMetrics_def decode_SystemMetrics_def metrics_ok_def zeroSystemMetrics_def codec_simps
      cpu_codec.enc_form cpu_codec.dec_form ram_codec.enc_form ram_codec.dec_form gpu_codec.enc_form gpu_codec.dec_form
      swap_codec.enc_form swap_codec.dec_form zram_codec.enc_form zram_codec.dec_form flags_codec.enc_form flags_codec.dec_form)

text \<open>A notification's icon field may be left out, so its fields are not aligned with the table.\<close>

definition empty_hints :: "(string \<times> dval) list option \<Rightarrow> bool" where
  "empty_hints h \<longleftrightarrow> h = None \<or> h = Some []"

definition notification_ok :: "NotificationEvent \<Rightarrow> bool" where
  "notification_ok ev \<longleftrightarrow> valid_utf8 (ne_AppName ev) \<and> valid_utf8 (ne_AppIcon ev) \<and> valid_utf8 (ne_AppIconBase64 ev) \<and>
     valid_utf8 (ne_Summary ev) \<and> valid_utf8 (ne_Body ev) \<and> list_all valid_utf8 (ne_Actions ev) \<and> empty_hints (ne_Hints ev)"

interpretation hints_codec: json_codec encode_empty_hints decode_event_hints None empty_hints
  by unfold_locales (auto simp: empty_hints_def encode_empty_hints_def decode_event_hints_def)

interpretation notification_codec: json_codec encode_NotificationEvent decode_NotificationEvent zeroNotificationEvent notification_ok
proof
  fix ev assume ok: "notification_ok ev"
  show "\<exists>j. encode_NotificationEvent ev = Inr j \<and> decode_NotificationEvent j zeroNotificationEvent = Some ev"
  proof (cases "ne_AppIconBase64 ev = []")
    case True
    with ok show ?thesis
      by (simp add: encode_NotificationEvent_def decode_NotificationEvent_def decode_strings_def notification_ok_def
        zeroNotificationEvent_def codec_simps hints_codec.enc_form hints_codec.dec_form decode_record_def decode_struct_def)
  next
    case False
    with ok show ?thesis
      by (simp add: encode_NotificationEvent_def decode_NotificationEvent_def decode_strings_def notification_ok_def
        zeroNotificationEvent_def codec_simps hints_codec.enc_form hints_codec.dec_form)
  qed
qed

interpretation response_codec: json_codec encode_UDSResponse decode_UDSResponse
  "\<lparr>ur_Success = False, ur_ClientCount = 0, ur_Error = []\<rparr>" "\<lambda>r. ur_ClientCount r < 2 ^ 63 \<and> valid_utf8 (ur_Error r)"
proof
  fix r :: UDSResponse assume ok: "ur_ClientCount r < 2 ^ 63 \<and> valid_utf8 (ur_Error r)"
  have n: "decode_int (JInt (int (ur_ClientCount r))) x = Some (int (ur_ClientCount r))" for x
    using ok by (simp add: decode_int_def decode_ranged_def)
  show "\<exists>j. encode_UDSResponse r = Inr j \<and>
      decode_UDSResponse j \<lparr>ur_Success = False, ur_ClientCount = 0, ur_Error = []\<rparr> = Some r"
    using ok n by (cases "ur_Error r = []")
      (simp_all add: encode_UDSResponse_def decode_UDSResponse_def codec_simps decode_record_def decode_struct_def)
qed

end
