(* ===== verification/Trigger_Cli.thy ===== *)
theory Trigger_Cli
  imports Json_Encode Engine_System Go_Numbers
begin

text \<open>
  The \<^verbatim>\<open>trigger\<close> command line (\<^verbatim>\<open>cmd/trigger.go\<close>): how each subcommand builds its event from the
  flags, the request it sends to the socket of the daemon and what it makes of the answer;
  and the round trip from a command to the event the daemon acts on. Reading JSON text (the
  \<^verbatim>\<open>--data\<close> flag of \<^verbatim>\<open>raw\<close>) and the socket are parameters.
\<close>

section \<open>Flags\<close>

record notification_flags =
  notifAppName :: string
  notifReplacesID :: u32
  notifAppIcon :: string
  notifSummary :: string
  notifBody :: string
  notifActions :: string
  notifExpireTimeout :: i32

record media_flags =
  mediaPlayerName :: string
  mediaStatus :: string
  mediaVolume :: f64
  mediaPositionMicro :: i64
  mediaTrackID :: string
  mediaTitle :: string
  mediaArtist :: string
  mediaAlbum :: string
  mediaArtURL :: string
  mediaLengthMicro :: i64

record telemetry_flags =
  telCPUUsage :: f64
  telCPUCoresUsage :: string
  telCPUTemp :: f64
  telCPUFreq :: f64
  telCPUPower :: f64
  telRAMUsed :: u64
  telRAMTotal :: u64
  telRAMPerc :: f64
  telGPUUsage :: f64
  telGPUTemp :: f64
  telGPUFreq :: f64
  telGPUMemUsed :: u64
  telGPUMemTotal :: u64
  telGPUPower :: f64
  telGPUVramTemp :: f64
  telGPUVramFreq :: f64
  telCPUUsageSupported :: bool
  telCPUCoresUsageSupported :: bool
  telCPUTempSupported :: bool
  telCPUFreqSupported :: bool
  telCPUPowerSupported :: bool
  telRAMSupported :: bool
  telGPUSupported :: bool
  telGPUUsageSupported :: bool
  telGPUTempSupported :: bool
  telGPUVramSupported :: bool
  telGPUFreqSupported :: bool
  telGPUPowerSupported :: bool
  telGPUVramTempSupported :: bool
  telGPUVramFreqSupported :: bool

datatype trigger_cmd =
    LockCmd
  | UnlockCmd
  | DpmsCmd string
  | NotificationCmd notification_flags
  | MediaCmd media_flags
  | TelemetryCmd telemetry_flags
  | PowerCmd string string
  | RawCmd string string

text \<open>The values of the flags that are not given.\<close>

definition default_notification_flags :: notification_flags where
  "default_notification_flags = \<lparr>notifAppName = ''pc-dashboard'', notifReplacesID = 0, notifAppIcon = ''dialog-information'',
     notifSummary = ''Alert'', notifBody = ''System trigger action simulated.'', notifActions = [], notifExpireTimeout = - 1\<rparr>"

definition default_media_flags :: media_flags where
  "default_media_flags = \<lparr>mediaPlayerName = ''spotify'', mediaStatus = ''Playing'', mediaVolume = rnd (3 / 4),
     mediaPositionMicro = 45000000, mediaTrackID = ''spotify:track:uds-track'', mediaTitle = ''UDS Trigger Track'',
     mediaArtist = ''Antigravity,Agent'', mediaAlbum = ''UDS Testing Album'', mediaArtURL = ''https://localhost/art.png'',
     mediaLengthMicro = 180000000\<rparr>"

definition default_telemetry_flags :: telemetry_flags where
  "default_telemetry_flags = \<lparr>telCPUUsage = rnd (51 / 2), telCPUCoresUsage = ''10.0,20.0,30.0,40.0'', telCPUTemp = rnd 45,
     telCPUFreq = rnd 2500, telCPUPower = rnd 35, telRAMUsed = 8 * 1024 * 1024 * 1024, telRAMTotal = 16 * 1024 * 1024 * 1024,
     telRAMPerc = Fin 0, telGPUUsage = rnd 15, telGPUTemp = rnd 50, telGPUFreq = rnd 1200, telGPUMemUsed = 2 * 1024 * 1024 * 1024,
     telGPUMemTotal = 8 * 1024 * 1024 * 1024, telGPUPower = rnd 75, telGPUVramTemp = rnd 55, telGPUVramFreq = rnd 1500,
     telCPUUsageSupported = True, telCPUCoresUsageSupported = True, telCPUTempSupported = True, telCPUFreqSupported = True,
     telCPUPowerSupported = True, telRAMSupported = True, telGPUSupported = True, telGPUUsageSupported = True,
     telGPUTempSupported = True, telGPUVramSupported = True, telGPUFreqSupported = True, telGPUPowerSupported = True,
     telGPUVramTempSupported = True, telGPUVramFreqSupported = True\<rparr>"

definition default_power_cmd :: trigger_cmd where
  "default_power_cmd = PowerCmd ''balanced'' ''power-saver,balanced,performance''"

section \<open>Building the events\<close>

text \<open>The comma separated lists: artists and actions keep their empty elements, cores and profiles do not.\<close>

definition comma_list :: "string \<Rightarrow> string list" where
  "comma_list s = (if s = [] then [] else map trim_space (split_on CHR '','' s))"

definition comma_words :: "string \<Rightarrow> string list" where
  "comma_words s = filter (\<lambda>w. w \<noteq> []) (comma_list s)"

definition notification_of_flags :: "notification_flags \<Rightarrow> NotificationEvent" where
  "notification_of_flags f =
     \<lparr>ne_AppName = notifAppName f, ne_ReplacesID = notifReplacesID f, ne_AppIcon = notifAppIcon f, ne_AppIconBase64 = [],
      ne_Summary = notifSummary f, ne_Body = notifBody f, ne_Actions = comma_list (notifActions f), ne_Hints = Some [],
      ne_ExpireTimeout = notifExpireTimeout f\<rparr>"

definition media_of_flags :: "media_flags \<Rightarrow> MediaEvent" where
  "media_of_flags f = \<lparr>ActivePlayers =
     [\<lparr>ps_PlayerName = mediaPlayerName f, ps_Identity = [], ps_DesktopEntry = [], ps_PlaybackStatus = mediaStatus f,
       ps_Volume = mediaVolume f, ps_PositionMicro = mediaPositionMicro f,
       ps_Metadata = \<lparr>pm_TrackID = mediaTrackID f, pm_Title = mediaTitle f, pm_Artist = comma_list (mediaArtist f),
         pm_Album = mediaAlbum f, pm_ArtURL = mediaArtURL f, pm_LengthMicro = mediaLengthMicro f\<rparr>\<rparr>]\<rparr>"

definition ram_percentage :: "telemetry_flags \<Rightarrow> f64" where
  "ram_percentage f =
     (if telRAMPerc f = Fin 0 \<and> telRAMTotal f > 0
      then f64_mul (f64_div (f64_of_int (uint (telRAMUsed f))) (f64_of_int (uint (telRAMTotal f)))) (Fin 100)
      else telRAMPerc f)"

definition cores_of_flag :: "string \<Rightarrow> f64 list" where
  "cores_of_flag s = List.map_filter parse_float (comma_words s)"

definition telemetry_of_flags :: "telemetry_flags \<Rightarrow> SystemMetrics" where
  "telemetry_of_flags f =
     \<lparr>sm_CPU = \<lparr>cpu_UsagePercent = telCPUUsage f, cpu_CoresUsagePercent = cores_of_flag (telCPUCoresUsage f),
        cpu_TempCelsius = telCPUTemp f, cpu_FreqMHz = telCPUFreq f, cpu_PowerWatts = telCPUPower f\<rparr>,
      sm_RAM = \<lparr>ram_UsedBytes = telRAMUsed f, ram_TotalBytes = telRAMTotal f, ram_Percentage = ram_percentage f\<rparr>,
      sm_GPU = \<lparr>gpu_UsagePercent = telGPUUsage f, gpu_TempCelsius = telGPUTemp f, gpu_VramUsedBytes = telGPUMemUsed f,
        gpu_VramTotalBytes = telGPUMemTotal f, gpu_FreqMHz = telGPUFreq f, gpu_PowerWatts = telGPUPower f,
        gpu_VramTempCelsius = telGPUVramTemp f, gpu_VramFreqMHz = telGPUVramFreq f\<rparr>,
      sm_Swap = zeroSwap, sm_ZRAM = zeroZRAM,
      sm_Flags = zeroFlags\<lparr>fl_CPUUsageSupported := telCPUUsageSupported f, fl_CPUCoresUsageSupported := telCPUCoresUsageSupported f,
        fl_CPUTempSupported := telCPUTempSupported f, fl_CPUFreqSupported := telCPUFreqSupported f,
        fl_CPUPowerSupported := telCPUPowerSupported f, fl_RAMSupported := telRAMSupported f,
        fl_GPUSupported := telGPUSupported f, fl_GPUUsageSupported := telGPUUsageSupported f,
        fl_GPUTempSupported := telGPUTempSupported f, fl_GPUVramSupported := telGPUVramSupported f,
        fl_GPUFreqSupported := telGPUFreqSupported f, fl_GPUPowerSupported := telGPUPowerSupported f,
        fl_GPUVramTempSupported := telGPUVramTempSupported f, fl_GPUVramFreqSupported := telGPUVramFreqSupported f\<rparr>\<rparr>"

definition power_of_flags :: "string \<Rightarrow> string \<Rightarrow> PowerProfileState" where
  "power_of_flags active available =
     \<lparr>ActiveProfile = active, AvailableProfiles = map (\<lambda>p. \<lparr>Profile = p\<rparr>) (comma_words available)\<rparr>"

section \<open>Requests\<close>

text \<open>\<^verbatim>\<open>json.Unmarshal\<close> into a \<^verbatim>\<open>map[string]interface{}\<close>, and failing that into a \<^verbatim>\<open>[]interface{}\<close>.\<close>

definition raw_accepted :: "json option \<Rightarrow> bool" where
  "raw_accepted j = (case j of
      Some JNull \<Rightarrow> True
    | Some (JObj kvs) \<Rightarrow> any_ok (JObj kvs)
    | Some (JArr js) \<Rightarrow> any_ok (JArr js)
    | _ \<Rightarrow> False)"

definition typed_request :: "string \<Rightarrow> encoded \<Rightarrow> string + UDSRequest" where
  "typed_request ty data = ebind data (\<lambda>j. Inr \<lparr>uq_Type = ty, uq_Data = Some j\<rparr>)"

text \<open>The \<^verbatim>\<open>RunE\<close> functions of the subcommands, up to sending the request.\<close>

definition LockCmd_RunE :: "string + UDSRequest" where
  "LockCmd_RunE = typed_request ''session_lock'' (encode_SessionLockEvent \<lparr>Locked = True\<rparr>)"

definition UnlockCmd_RunE :: "string + UDSRequest" where
  "UnlockCmd_RunE = typed_request ''session_lock'' (encode_SessionLockEvent \<lparr>Locked = False\<rparr>)"

definition DpmsCmd_RunE :: "string \<Rightarrow> string + UDSRequest" where
  "DpmsCmd_RunE dpmsState =
     (let state = to_lower dpmsState in
      if state \<noteq> ''on'' \<and> state \<noteq> ''off'' then Inl (''flag --state must be either 'on' or 'off'' @ [CHR 0x27])
      else typed_request ''dpms'' (encode_DpmsEvent \<lparr>dp_State = state\<rparr>))"

definition NotificationCmd_RunE :: "notification_flags \<Rightarrow> string + UDSRequest" where
  "NotificationCmd_RunE f = typed_request ''notification_event'' (encode_NotificationEvent (notification_of_flags f))"

definition MediaCmd_RunE :: "media_flags \<Rightarrow> string + UDSRequest" where
  "MediaCmd_RunE f = typed_request ''media_state'' (encode_MediaEvent (media_of_flags f))"

definition TelemetryCmd_RunE :: "telemetry_flags \<Rightarrow> string + UDSRequest" where
  "TelemetryCmd_RunE f = typed_request ''telemetry'' (encode_SystemMetrics (telemetry_of_flags f))"

definition PowerCmd_RunE :: "string \<Rightarrow> string \<Rightarrow> string + UDSRequest" where
  "PowerCmd_RunE active available = typed_request ''power_profile_state'' (encode_PowerProfileState (power_of_flags active available))"

definition RawCmd_RunE :: "(string \<Rightarrow> json option) \<Rightarrow> (string \<Rightarrow> string) \<Rightarrow> string \<Rightarrow> string \<Rightarrow> string + UDSRequest" where
  "RawCmd_RunE parse lexErr rawType rawData =
     (if rawType = [] then Inl ''flag --type is required''
      else if rawData = [] then Inl ''flag --data is required''
      else if \<not> raw_accepted (parse rawData) then Inl (''flag --data must be a valid JSON string: '' @ lexErr rawData)
      else Inr \<lparr>uq_Type = rawType, uq_Data = parse rawData\<rparr>)"

definition trigger_request :: "(string \<Rightarrow> json option) \<Rightarrow> (string \<Rightarrow> string) \<Rightarrow> trigger_cmd \<Rightarrow> string + UDSRequest" where
  "trigger_request parse lexErr cmd =
     (case cmd of
        LockCmd \<Rightarrow> LockCmd_RunE
      | UnlockCmd \<Rightarrow> UnlockCmd_RunE
      | DpmsCmd state \<Rightarrow> DpmsCmd_RunE state
      | NotificationCmd f \<Rightarrow> NotificationCmd_RunE f
      | MediaCmd f \<Rightarrow> MediaCmd_RunE f
      | TelemetryCmd f \<Rightarrow> TelemetryCmd_RunE f
      | PowerCmd active available \<Rightarrow> PowerCmd_RunE active available
      | RawCmd ty data \<Rightarrow> RawCmd_RunE parse lexErr ty data)"

lemmas RunE_defs = LockCmd_RunE_def UnlockCmd_RunE_def DpmsCmd_RunE_def NotificationCmd_RunE_def MediaCmd_RunE_def
  TelemetryCmd_RunE_def PowerCmd_RunE_def RawCmd_RunE_def

text \<open>The socket: dialling a path gives an error or a connection, on which sending a request gives an error
  or the answer, itself JSON or an error of the decoder.\<close>

type_synonym uds_conn = "json \<Rightarrow> string + (string + json)"

definition default_socket :: "process_env \<Rightarrow> string" where
  "default_socket en =
     (let xdgRuntime = getenv en ''XDG_RUNTIME_DIR'' in
      if xdgRuntime \<noteq> [] then path_join [xdgRuntime, ''pc-dashboard-server.sock'']
      else path_join [pe_tmp en, ''pc-dashboard-server.sock''])"

definition send_failed :: "string \<Rightarrow> string" where
  "send_failed err = ''failed to send trigger request: '' @ err"

text \<open>\<^verbatim>\<open>sendUDSRequest\<close>: on success the type of the event and the number of clients are printed.\<close>

definition sendUDSRequest ::
  "process_env \<Rightarrow> (string \<Rightarrow> string + uds_conn) \<Rightarrow> string \<Rightarrow> string \<Rightarrow> UDSRequest \<Rightarrow> string + string \<times> nat" where
  "sendUDSRequest en dial decErr flag req =
     (let socketPath = (if flag = [] then default_socket en else flag) in
      case dial socketPath of
        Inl err \<Rightarrow> Inl (''failed to connect to daemon command socket at '' @ socketPath @ '' (is the daemon running?): '' @ err)
      | Inr conn \<Rightarrow>
         (case encode_UDSRequest req of
            Inl err \<Rightarrow> Inl (send_failed err)
          | Inr j \<Rightarrow>
             (case conn j of
                Inl err \<Rightarrow> Inl (send_failed err)
              | Inr answer \<Rightarrow>
                 (case answer of
                    Inl err \<Rightarrow> Inl (''failed to decode response from daemon: '' @ err)
                  | Inr rj \<Rightarrow>
                     (case decode_UDSResponse rj \<lparr>ur_Success = False, ur_ClientCount = 0, ur_Error = []\<rparr> of
                        None \<Rightarrow> Inl (''failed to decode response from daemon: '' @ decErr)
                      | Some resp \<Rightarrow>
                          if \<not> ur_Success resp then Inl (''daemon failed to process trigger: '' @ ur_Error resp)
                          else Inr (uq_Type req, ur_ClientCount resp))))))"

definition TriggerCmd ::
  "process_env \<Rightarrow> (string \<Rightarrow> string + uds_conn) \<Rightarrow> (string \<Rightarrow> json option) \<Rightarrow> (string \<Rightarrow> string) \<Rightarrow> string \<Rightarrow> string
     \<Rightarrow> trigger_cmd \<Rightarrow> string + string \<times> nat" where
  "TriggerCmd en dial parse lexErr decErr flag cmd = ebind (trigger_request parse lexErr cmd) (sendUDSRequest en dial decErr flag)"


section \<open>From a command to the event the daemon acts on\<close>

lemma response_decoded:
  assumes "ur_ClientCount r < 2 ^ 63" and "valid_utf8 (ur_Error r)"
  shows "\<exists>j. encode_UDSResponse r = Inr j \<and> decode_UDSResponse j \<lparr>ur_Success = False, ur_ClientCount = 0, ur_Error = []\<rparr> = Some r"
  using response_codec.roundtrip assms by blast

lemma valid_utf8_Nil [simp]: "valid_utf8 []"
  by (simp add: valid_utf8.simps)

lemma request_decoded:
  assumes "encode_string ty = Inr (JStr ty)"
  shows "\<exists>j. encode_UDSRequest \<lparr>uq_Type = ty, uq_Data = Some d\<rparr> = Inr j \<and> trigger_event (Some j) = uds_decode ty d"
  using assms by (simp add: encode_UDSRequest_def json_object_def trigger_event_def decode_UDSRequest_def
      decode_record_aligned fld_def decode_string_def)

text \<open>The event a command stands for, and the flags that can be sent as they are: well-formed text and
  finite numbers.\<close>

definition cli_event :: "(string \<Rightarrow> json option) \<Rightarrow> trigger_cmd \<Rightarrow> uds_event option" where
  "cli_event parse cmd =
     (case cmd of
        LockCmd \<Rightarrow> Some (ULock \<lparr>Locked = True\<rparr>)
      | UnlockCmd \<Rightarrow> Some (ULock \<lparr>Locked = False\<rparr>)
      | DpmsCmd flag \<Rightarrow> if to_lower flag \<in> {''on'', ''off''} then Some (UDpms \<lparr>dp_State = to_lower flag\<rparr>) else None
      | NotificationCmd f \<Rightarrow> Some (UNotification (notification_of_flags f))
      | MediaCmd f \<Rightarrow> Some (UMedia (media_of_flags f))
      | TelemetryCmd f \<Rightarrow> Some (UTelemetry (telemetry_of_flags f))
      | PowerCmd active available \<Rightarrow> Some (UPower (power_of_flags active available))
      | RawCmd ty data \<Rightarrow> if data \<noteq> [] \<and> raw_accepted (parse data) then Option.bind (parse data) (uds_decode ty) else None)"

definition cli_ok :: "trigger_cmd \<Rightarrow> bool" where
  "cli_ok cmd =
     (case cmd of
        NotificationCmd f \<Rightarrow> notification_ok (notification_of_flags f)
      | MediaCmd f \<Rightarrow> list_all player_ok (ActivePlayers (media_of_flags f))
      | TelemetryCmd f \<Rightarrow> metrics_ok (telemetry_of_flags f)
      | PowerCmd active available \<Rightarrow> power_state_ok (power_of_flags active available)
      | RawCmd ty data \<Rightarrow> ty \<noteq> [] \<and> valid_utf8 ty
      | _ \<Rightarrow> True)"

context json_codec
begin

lemma request_event:
  assumes "ok x" and "\<And>d. uds_decode ty d = map_option C (dec d zero)" and "coerce_utf8 ty = ty"
  shows "\<exists>req j. typed_request ty (enc x) = Inr req \<and> encode_UDSRequest req = Inr j \<and> trigger_event (Some j) = Some (C x)"
proof -
  obtain d where "enc x = Inr d" "dec d zero = Some x" using roundtrip[OF assms(1)] by blast
  then show ?thesis using request_decoded[of ty d] assms(2,3) by (auto simp: typed_request_def encode_string_def)
qed

end

lemma type_names_utf8:
  "coerce_utf8 ''session_lock'' = ''session_lock''" "coerce_utf8 ''dpms'' = ''dpms''"
  "coerce_utf8 ''notification_event'' = ''notification_event''" "coerce_utf8 ''media_state'' = ''media_state''"
  "coerce_utf8 ''telemetry'' = ''telemetry''" "coerce_utf8 ''power_profile_state'' = ''power_profile_state''"
  "valid_utf8 ''on''" "valid_utf8 ''off''"
  by code_simp+

lemma request_reaches_event:
  assumes "cli_event parse cmd = Some u" and "cli_ok cmd"
  shows "\<exists>req j. trigger_request parse lexErr cmd = Inr req \<and> encode_UDSRequest req = Inr j \<and> trigger_event (Some j) = Some u"
proof (cases cmd)
  case LockCmd
  with assms(1) lock_codec.request_event[where x = "\<lparr>Locked = True\<rparr>" and ty = "''session_lock''" and C = ULock] show ?thesis
    by (simp add: cli_event_def trigger_request_def RunE_defs uds_decode_def type_names_utf8)
next
  case UnlockCmd
  with assms(1) lock_codec.request_event[where x = "\<lparr>Locked = False\<rparr>" and ty = "''session_lock''" and C = ULock] show ?thesis
    by (simp add: cli_event_def trigger_request_def RunE_defs uds_decode_def type_names_utf8)
next
  case (DpmsCmd flag)
  then have s: "to_lower flag \<in> {''on'', ''off''}" and u: "u = UDpms \<lparr>dp_State = to_lower flag\<rparr>"
    using assms(1) by (auto simp: cli_event_def split: if_splits)
  then have "valid_utf8 (to_lower flag)" using type_names_utf8(7,8) by auto
  with s dpms_codec.request_event[where x = "\<lparr>dp_State = to_lower flag\<rparr>" and ty = "''dpms''" and C = UDpms] show ?thesis
    by (auto simp add: DpmsCmd u trigger_request_def RunE_defs uds_decode_def type_names_utf8 Let_def)
next
  case (NotificationCmd f)
  with assms notification_codec.request_event[where x = "notification_of_flags f" and ty = "''notification_event''" and C = UNotification]
  show ?thesis by (simp add: cli_event_def cli_ok_def trigger_request_def RunE_defs uds_decode_def type_names_utf8)
next
  case (MediaCmd f)
  with assms media_codec.request_event[where x = "media_of_flags f" and ty = "''media_state''" and C = UMedia]
  show ?thesis by (simp add: cli_event_def cli_ok_def trigger_request_def RunE_defs uds_decode_def type_names_utf8)
next
  case (TelemetryCmd f)
  with assms metrics_codec.request_event[where x = "telemetry_of_flags f" and ty = "''telemetry''" and C = UTelemetry]
  show ?thesis by (simp add: cli_event_def cli_ok_def trigger_request_def RunE_defs uds_decode_def type_names_utf8)
next
  case (PowerCmd active available)
  with assms power_codec.request_event[where x = "power_of_flags active available" and ty = "''power_profile_state''" and C = UPower]
  show ?thesis by (simp add: cli_event_def cli_ok_def trigger_request_def RunE_defs uds_decode_def type_names_utf8)
next
  case (RawCmd ty data)
  then obtain d where d: "parse data = Some d" "uds_decode ty d = Some u" "raw_accepted (Some d)" "data \<noteq> []"
    using assms(1) by (auto simp: cli_event_def bind_eq_Some_conv split: if_splits)
  have ty: "ty \<noteq> []" "valid_utf8 ty" using assms(2) RawCmd by (simp_all add: cli_ok_def)
  obtain j where "encode_UDSRequest \<lparr>uq_Type = ty, uq_Data = Some d\<rparr> = Inr j" "trigger_event (Some j) = Some u"
    using request_decoded[of ty d] ty d(2) by (auto simp: encode_string_def)
  then show ?thesis using ty d by (auto simp: RawCmd trigger_request_def RunE_defs)
qed

text \<open>A running daemon behind its socket: one connection is handled, the answer is encoded; a panic would
  end the process and so the connection.\<close>

definition daemon_socket :: "string \<Rightarrow> 'h world \<Rightarrow> string \<Rightarrow> 'h Engine \<Rightarrow> string \<Rightarrow> string + uds_conn" where
  "daemon_socket path w je e p =
     (if p \<noteq> path then Inl ''dial unix: no such file or directory''
      else Inr (\<lambda>j. Inr (case handleCommandConnection w je (Some j) e of Inl _ \<Rightarrow> Inl ''EOF'' | Inr (r, _) \<Rightarrow> encode_UDSResponse r)))"

text \<open>C10: A \<^verbatim>\<open>trigger\<close> command without a socket flag finds a daemon that runs with the default settings of the
  same environment, the daemon decodes exactly the event the flags describe (every field of
  every event type survives the JSON encoding), acts on it, and the command reports success
  with the number of clients the daemon counted.\<close>

theorem trigger_command_reaches_daemon:
  assumes "cli_event parse cmd = Some u" and "cli_ok cmd"
    and "uds_rpc w u (ws_broadcast w (uds_message (w_now w) u) (uds_cache u e)) = Inr e'"
    and "pool_Size (en_pool e') < 2 ^ 63"
  shows "\<exists>req j r. trigger_request parse lexErr cmd = Inr req \<and> encode_UDSRequest req = Inr j \<and>
     handleCommandConnection w je (Some j) e = Inr (r, e') \<and>
     TriggerCmd en (daemon_socket (dc_SocketPath (cf_Daemon (DefaultConfig en))) w je e) parse lexErr decErr [] cmd =
       Inr (uq_Type req, pool_Size (en_pool e'))"
proof -
  obtain req j where req: "trigger_request parse lexErr cmd = Inr req" "encode_UDSRequest req = Inr j" "trigger_event (Some j) = Some u"
    using request_reaches_event[OF assms(1,2)] by blast
  let ?r = "\<lparr>ur_Success = True, ur_ClientCount = pool_Size (en_pool e'), ur_Error = []\<rparr>"
  have h: "handleCommandConnection w je (Some j) e = Inr (?r, e')"
    using req(3) assms(3) by (simp add: handleCommandConnection_event)
  have path: "dc_SocketPath (cf_Daemon (DefaultConfig en)) = default_socket en"
    by (simp add: DefaultConfig_def default_socket_def Let_def)
  obtain rj where "encode_UDSResponse ?r = Inr rj"
      "decode_UDSResponse rj \<lparr>ur_Success = False, ur_ClientCount = 0, ur_Error = []\<rparr> = Some ?r"
    using response_decoded[of ?r] assms(4) by auto
  then show ?thesis using req h by (simp add: TriggerCmd_def sendUDSRequest_def daemon_socket_def path)
qed

theorem trigger_command_reaches_daemon_witness:
  "\<exists>req j r e'. trigger_request (\<lambda>_. None) (\<lambda>_. []) (NotificationCmd default_notification_flags) = Inr req \<and>
     encode_UDSRequest req = Inr j \<and> handleCommandConnection sample_world [] (Some j) (NewEngine sample_config) = Inr (r, e') \<and>
     TriggerCmd \<lparr>pe_vars = [], pe_home = None, pe_tmp = ''/tmp''\<rparr>
       (daemon_socket (dc_SocketPath (cf_Daemon (DefaultConfig \<lparr>pe_vars = [], pe_home = None, pe_tmp = ''/tmp''\<rparr>))) sample_world []
         (NewEngine sample_config)) (\<lambda>_. None) (\<lambda>_. []) [] [] (NotificationCmd default_notification_flags) =
       Inr (uq_Type req, 0)"
proof -
  let ?u = "UNotification (notification_of_flags default_notification_flags)"
  let ?e = "NewEngine sample_config :: unit Engine"
  have ok: "cli_ok (NotificationCmd default_notification_flags)" by code_simp
  have u: "cli_event (\<lambda>_. None) (NotificationCmd default_notification_flags) = Some ?u" by (simp add: cli_event_def)
  obtain j where j: "trigger_event (Some j) = Some ?u" using request_reaches_event[OF u ok] by blast
  have "engine_ok sample_config (duration_ms 1000, ?e)"
    using boot_ok(2)[OF sample_positive] by (simp add: sample_config_def DefaultConfig_def Let_def)
  from handleCommandConnection_safe[OF this, of sample_world "[]" "Some j"] j
  obtain e' where e': "uds_rpc sample_world ?u (ws_broadcast sample_world (uds_message (w_now sample_world) ?u) (uds_cache ?u ?e)) = Inr e'"
    by (auto simp: handleCommandConnection_event ebind_eq_Inr)
  then have "pool_Size (en_pool e') = 0"
    by (auto simp: uds_rpc_def uds_cache_def rpc_broadcast_Inr NewEngine_def pool_Size_def pool_Broadcast_def empty_pool_def)
  with trigger_command_reaches_daemon[OF u ok e', where lexErr = "\<lambda>_. []" and je = "[]"
      and decErr = "[]" and en = "\<lparr>pe_vars = [], pe_home = None, pe_tmp = ''/tmp''\<rparr>"]
  show ?thesis by auto
qed

end
