(* ===== verification/Mock_Reader.thy ===== *)
theory Mock_Reader
  imports Metrics_Types Float_Rounding Go_Numbers
begin

text \<open>
  The emulated metrics reader (\<^verbatim>\<open>pkg/metrics/mock_reader.go\<close>). The sine and cosine of \<^verbatim>\<open>math\<close>, the random
  number source and the seconds since the reader was made are parameters; the reader's state
  is how many random numbers it has drawn. Constants are the floats nearest to the literals.
\<close>

section \<open>The reader\<close>

record MockMetricsReader =
  mr_drawn :: nat

record waves =
  wv_sin :: "f64 \<Rightarrow> f64"
  wv_cos :: "f64 \<Rightarrow> f64"
  wv_rand :: "nat \<Rightarrow> f64"

definition NewMockMetricsReader :: MockMetricsReader where
  "NewMockMetricsReader = \<lparr>mr_drawn = 0\<rparr>"

text \<open>\<^verbatim>\<open>randSrc.Float64() * a - b\<close>.\<close>

definition jitter :: "waves \<Rightarrow> nat \<Rightarrow> rat \<Rightarrow> rat \<Rightarrow> f64" where
  "jitter v k a b = f64_sub (f64_mul (wv_rand v k) (Fin a)) (Fin b)"

text \<open>\<^verbatim>\<open>base + wave*amplitude\<close>.\<close>

definition swing :: "rat \<Rightarrow> f64 \<Rightarrow> rat \<Rightarrow> f64" where
  "swing base wave amp = f64_add (Fin base) (f64_mul wave (Fin amp))"

definition clamp_percent :: "f64 \<Rightarrow> f64" where
  "clamp_percent u = (if f64_less u (Fin 0) then Fin 0 else if f64_less (Fin 100) u then Fin 100 else u)"

definition at_least :: "rat \<Rightarrow> f64 \<Rightarrow> f64" where
  "at_least lo p = (if f64_less p (Fin lo) then Fin lo else p)"

text \<open>The conversion of a float below 2^63 to \<^verbatim>\<open>uint64\<close>.\<close>

definition f64_to_u64 :: "f64 \<Rightarrow> u64" where
  "f64_to_u64 x = f64_to_i64 x"

definition core_usage :: "waves \<Rightarrow> f64 \<Rightarrow> nat \<Rightarrow> nat \<Rightarrow> f64" where
  "core_usage v t k i =
     round2 (clamp_percent (f64_add
       (swing 15 (wv_sin v (f64_div (f64_add t (f64_mul (f64_of_int (int i)) (Fin 2))) (Fin 8))) 10) (jitter v (k + i) 6 3)))"

definition mock_ReadCPU :: "waves \<Rightarrow> f64 \<Rightarrow> MockMetricsReader \<Rightarrow> CPUMetrics \<times> MockMetricsReader" where
  "mock_ReadCPU v t r =
     (let k = mr_drawn r;
          s = wv_sin v (f64_div t (Fin 8));
          usage = clamp_percent (f64_add (swing 15 s 10) (jitter v k 4 2));
          temp = f64_add (swing 40 s 5) (f64_mul usage (rnd (3 / 10)));
          freq = f64_add (swing 2500 usage 20) (jitter v (k + 9) 10 5);
          watts = at_least 5 (f64_add (f64_add (Fin 10) (f64_mul usage (rnd (4 / 5)))) (jitter v (k + 10) 2 1))
      in (\<lparr>cpu_UsagePercent = round2 usage, cpu_CoresUsagePercent = map (core_usage v t (k + 1)) [0..<8],
           cpu_TempCelsius = round2 temp, cpu_FreqMHz = round2 freq, cpu_PowerWatts = round2 watts\<rparr>,
          r\<lparr>mr_drawn := k + 11\<rparr>))"

definition usage_of :: "f64 \<Rightarrow> rat \<Rightarrow> f64" where
  "usage_of used capacity = round2 (f64_mul (f64_div used (Fin capacity)) (Fin 100))"

definition mock_ReadRAM :: "waves \<Rightarrow> f64 \<Rightarrow> RAMMetrics" where
  "mock_ReadRAM v t =
     (let used = swing 12884901888 (wv_sin v (f64_div t (Fin 30))) 1073741824
      in \<lparr>ram_UsedBytes = f64_to_u64 used, ram_TotalBytes = 34359738368, ram_Percentage = usage_of used 34359738368\<rparr>)"

definition mock_ReadGPU :: "waves \<Rightarrow> f64 \<Rightarrow> MockMetricsReader \<Rightarrow> GPUMetrics \<times> MockMetricsReader" where
  "mock_ReadGPU v t r =
     (let k = mr_drawn r;
          c = wv_cos v (f64_div t (Fin 15));
          usage = clamp_percent (f64_add (swing 30 c 15) (jitter v k 2 1));
          temp = f64_add (swing 50 c 8) (f64_mul usage (rnd (1 / 5)));
          usedVram = swing 3221225472 usage 20000000;
          freq = f64_add (swing 300 usage 15) (jitter v (k + 1) 4 2);
          watts = at_least 10 (f64_add (f64_add (Fin 30) (f64_mul usage (Fin (3 / 2)))) (jitter v (k + 2) 4 2));
          vramFreq = f64_add (swing 800 usage 12) (jitter v (k + 3) 6 3);
          vramTemp = f64_add (swing 50 c 10) (f64_mul usage (Fin (1 / 4)))
      in (\<lparr>gpu_UsagePercent = round2 usage, gpu_TempCelsius = round2 temp, gpu_VramUsedBytes = f64_to_u64 usedVram,
           gpu_VramTotalBytes = 8589934592, gpu_FreqMHz = round2 freq, gpu_PowerWatts = round2 watts,
           gpu_VramTempCelsius = round2 vramTemp, gpu_VramFreqMHz = round2 vramFreq\<rparr>,
          r\<lparr>mr_drawn := k + 4\<rparr>))"

definition mock_ReadSwap :: "waves \<Rightarrow> f64 \<Rightarrow> SwapMetrics" where
  "mock_ReadSwap v t =
     (let used = swing 524288000 (wv_sin v (f64_div t (Fin 20))) 104857600
      in \<lparr>swap_UsedBytes = f64_to_u64 used, swap_TotalBytes = 2147483648, swap_Percentage = usage_of used 2147483648\<rparr>)"

definition mock_ReadZRAM :: "waves \<Rightarrow> f64 \<Rightarrow> ZRAMMetrics" where
  "mock_ReadZRAM v t =
     (let orig = swing 1073741824 (wv_sin v (f64_div t (Fin 15))) 104857600;
          compr = f64_div orig (rnd (57 / 20));
          memUsed = f64_mul compr (rnd (11 / 10));
          ratio = (if f64_less (Fin 0) compr then f64_div orig compr else Fin 0)
      in \<lparr>zram_OrigDataSizeBytes = f64_to_u64 orig, zram_ComprDataSizeBytes = f64_to_u64 compr,
          zram_MemUsedTotalBytes = f64_to_u64 memUsed, zram_TotalBytes = 4294967296, zram_CompressionRatio = round2 ratio\<rparr>)"

definition mock_GetFlags :: TelemetryFlags where
  "mock_GetFlags = \<lparr>fl_CPUUsageSupported = True, fl_CPUCoresUsageSupported = True, fl_CPUTempSupported = True,
     fl_CPUFreqSupported = True, fl_CPUPowerSupported = True, fl_RAMSupported = True, fl_SwapSupported = True,
     fl_ZRAMSupported = True, fl_GPUSupported = True, fl_GPUUsageSupported = True, fl_GPUTempSupported = True,
     fl_GPUVramSupported = True, fl_GPUFreqSupported = True, fl_GPUPowerSupported = True,
     fl_GPUVramTempSupported = True, fl_GPUVramFreqSupported = True\<rparr>"

section \<open>Interval arithmetic on floats\<close>

text \<open>Whole bounds of moderate size survive rounding.\<close>

definition fin_in :: "int \<Rightarrow> int \<Rightarrow> f64 \<Rightarrow> bool" where
  "fin_in lo hi x \<longleftrightarrow> \<bar>lo\<bar> \<le> 2 ^ 53 \<and> \<bar>hi\<bar> \<le> 2 ^ 53 \<and> (\<exists>q. x = Fin q \<and> of_int lo \<le> q \<and> q \<le> of_int hi)"

lemma fin_inI: "of_int lo \<le> q \<Longrightarrow> q \<le> of_int hi \<Longrightarrow> \<bar>lo\<bar> \<le> 2 ^ 53 \<Longrightarrow> \<bar>hi\<bar> \<le> 2 ^ 53 \<Longrightarrow> fin_in lo hi (Fin q)"
  by (simp add: fin_in_def)

lemma rnd_minus: "rnd (- x) = f64_neg (rnd x)"
  by (cases "x = 0"; cases "0 < x") (auto simp: rnd_def Let_def)

lemma rnd_in_nonneg:
  assumes "0 \<le> x" and "of_int lo \<le> x" and "x \<le> of_int hi" and "\<bar>lo\<bar> \<le> 2 ^ 53" and "\<bar>hi\<bar> \<le> 2 ^ 53"
  shows "fin_in lo hi (rnd x)"
proof -
  obtain y where y: "rnd x = Fin y" "0 \<le> y" "y \<le> of_int hi" using rnd_up_to_int[OF assms(1,3) abs_le_D1[OF assms(5)]] .
  have "of_int lo \<le> y"
  proof (cases "0 \<le> lo")
    case True
    then have "rnd (of_int lo) = Fin (of_int lo)" using assms(4) by (intro rnd_int) simp_all
    then show ?thesis using rnd_mono[OF _ assms(2) _ y(1)] True by simp
  next
    case False
    then have "(of_int lo :: rat) \<le> 0" by simp
    with y(2) show ?thesis by linarith
  qed
  with y assms(4,5) show ?thesis by (simp add: fin_in_def)
qed

lemma rnd_in:
  assumes "of_int lo \<le> x" and "x \<le> of_int hi" and "\<bar>lo\<bar> \<le> 2 ^ 53" and "\<bar>hi\<bar> \<le> 2 ^ 53"
  shows "fin_in lo hi (rnd x)"
proof (cases "0 \<le> x")
  case False
  then have "fin_in (- hi) (- lo) (rnd (- x))" using assms by (intro rnd_in_nonneg) simp_all
  then show ?thesis unfolding rnd_minus by (cases "rnd x") (auto simp: fin_in_def)
qed (use assms in \<open>simp add: rnd_in_nonneg\<close>)

lemma fin_in_add:
  assumes "fin_in a b x" and "fin_in c d y" and "lo \<le> a + c" and "b + d \<le> hi" and "\<bar>lo\<bar> \<le> 2 ^ 53" and "\<bar>hi\<bar> \<le> 2 ^ 53"
  shows "fin_in lo hi (f64_add x y)"
proof -
  obtain p q where p: "x = Fin p" "of_int a \<le> p" "p \<le> of_int b" and q: "y = Fin q" "of_int c \<le> q" "q \<le> of_int d"
    using assms(1,2) by (auto simp: fin_in_def)
  have "of_int lo \<le> (of_int (a + c) :: rat)" "of_int (b + d) \<le> (of_int hi :: rat)" using assms(3,4) by (simp_all only: of_int_le_iff)
  then have "of_int lo \<le> p + q" "p + q \<le> of_int hi" using p q by simp_all
  then show ?thesis using rnd_in[OF _ _ assms(5,6)] by (simp add: p(1) q(1))
qed

lemma fin_in_mul:
  assumes "fin_in a b x" and "0 \<le> k" and "of_int lo \<le> of_int a * k" and "of_int b * k \<le> of_int hi" and "\<bar>lo\<bar> \<le> 2 ^ 53" and "\<bar>hi\<bar> \<le> 2 ^ 53"
  shows "fin_in lo hi (f64_mul x (Fin k))"
proof -
  obtain p where p: "x = Fin p" "of_int a \<le> p" "p \<le> of_int b" using assms(1) by (auto simp: fin_in_def)
  have "of_int a * k \<le> p * k" "p * k \<le> of_int b * k" using p assms(2) by (simp_all add: mult_right_mono)
  then have "of_int lo \<le> p * k" "p * k \<le> of_int hi" using assms(3,4) by linarith+
  then show ?thesis using rnd_in[OF _ _ assms(5,6)] by (simp add: p(1))
qed

lemma fin_in_round2:
  assumes "fin_in a b x" and "\<bar>a\<bar> \<le> 2 ^ 40" and "\<bar>b\<bar> \<le> 2 ^ 40"
  shows "fin_in a b (round2 x)"
proof -
  have "fin_in (a * 100) (b * 100) (f64_mul x (Fin 100))"
    using assms by (intro fin_in_mul[OF assms(1)]) simp_all
  then obtain p where p: "f64_mul x (Fin 100) = Fin p" "of_int (a * 100) \<le> p" "p \<le> of_int (b * 100)" by (auto simp: fin_in_def)
  obtain n where n: "math_round (Fin p) = Fin (of_int n)" "a * 100 \<le> n" "n \<le> b * 100"
  proof (rule that)
    let ?n = "if 0 \<le> p then \<lfloor>p + 1 / 2\<rfloor> else - \<lfloor>1 / 2 - p\<rfloor>"
    show "math_round (Fin p) = Fin (of_int ?n)" by (simp add: math_round_def)
    have "a * 100 \<le> \<lfloor>p + 1 / 2\<rfloor>" using p(2) by (simp add: le_floor_iff)
    moreover have "\<lfloor>p + 1 / 2\<rfloor> \<le> b * 100" using p(3) by (simp add: floor_le_iff)
    moreover have "\<lfloor>1 / 2 - p\<rfloor> \<le> - (a * 100)" using p(2) by (simp add: floor_le_iff)
    moreover have "- (b * 100) \<le> \<lfloor>1 / 2 - p\<rfloor>" using p(3) by (simp add: le_floor_iff)
    ultimately show "a * 100 \<le> ?n" "?n \<le> b * 100" by simp_all
  qed
  have "of_int a \<le> (of_int n / 100 :: rat)" "of_int n / 100 \<le> (of_int b :: rat)"
    using n(2,3) of_int_le_iff[of "a * 100" n, where ?'a = rat] of_int_le_iff[of n "b * 100", where ?'a = rat] by simp_all
  then have "fin_in a b (rnd (of_int n / 100))" using assms(2,3) by (intro rnd_in) simp_all
  then show ?thesis by (simp add: round2_def p(1) n(1))
qed

lemma fin_in_neg_const: "\<bar>b\<bar> \<le> 2 ^ 53 \<Longrightarrow> fin_in (- b) (- b) (Fin (- of_int b))"
  by (rule fin_inI) simp_all

lemma fin_in_clamp: "fin_in a b x \<Longrightarrow> fin_in 0 100 (clamp_percent x)"
  by (auto simp: fin_in_def clamp_percent_def)

lemma fin_in_at_least: "fin_in a b x \<Longrightarrow> lo \<le> b \<Longrightarrow> \<bar>lo\<bar> \<le> 2 ^ 53 \<Longrightarrow> fin_in lo b (at_least (of_int lo) x)"
  by (auto simp: fin_in_def at_least_def)

lemma uint_in_range:
  assumes "fin_in a b x" and "0 \<le> a"
  shows "a \<le> uint (f64_to_u64 x)" and "uint (f64_to_u64 x) \<le> b"
proof -
  obtain q where q: "x = Fin q" "of_int a \<le> q" "q \<le> of_int b" "b \<le> 2 ^ 53" using assms(1) by (auto simp: fin_in_def)
  have f: "a \<le> \<lfloor>q\<rfloor>" "\<lfloor>q\<rfloor> \<le> b" using q(2,3) by (simp_all add: le_floor_iff floor_le_iff)
  have "0 \<le> (of_int a :: rat)" using assms(2) by simp
  then have "0 \<le> q" using q(2) by linarith
  moreover have "q < 2 ^ 63"
  proof -
    have "(of_int b :: rat) \<le> 2 ^ 53" using q(4) by (metis of_int_le_iff of_int_numeral of_int_power)
    with q(3) show ?thesis by simp
  qed
  ultimately have "f64_to_u64 x = word_of_int \<lfloor>q\<rfloor>" by (simp add: f64_to_u64_def f64_to_i64_def rat_trunc_def q(1))
  moreover have "\<lfloor>q\<rfloor> mod 2 ^ 64 = \<lfloor>q\<rfloor>" 
  proof (rule mod_pos_pos_trivial)
    show "0 \<le> \<lfloor>q\<rfloor>" using f assms(2) by linarith
    have "\<lfloor>q\<rfloor> \<le> 2 ^ 53" using f q(4) by linarith
    then show "\<lfloor>q\<rfloor> < 2 ^ 64" by (rule le_less_trans) simp
  qed
  ultimately have "uint (f64_to_u64 x) = \<lfloor>q\<rfloor>" by (simp add: uint_word_of_int)
  then show "a \<le> uint (f64_to_u64 x)" "uint (f64_to_u64 x) \<le> b" using f by simp_all
qed

section \<open>The emulated readings are plausible\<close>

definition waves_ok :: "waves \<Rightarrow> bool" where
  "waves_ok v \<longleftrightarrow> (\<forall>x. fin_in (- 1) 1 (wv_sin v x)) \<and> (\<forall>x. fin_in (- 1) 1 (wv_cos v x)) \<and> (\<forall>k. fin_in 0 1 (wv_rand v k))"

lemma jitter_in:
  assumes "waves_ok v" and "0 \<le> a" and "\<bar>a\<bar> \<le> 2 ^ 40" and "\<bar>b\<bar> \<le> 2 ^ 40"
  shows "fin_in (- b) (a - b) (jitter v k (of_int a) (of_int b))"
proof -
  have m: "fin_in 0 a (f64_mul (wv_rand v k) (Fin (of_int a)))"
    using assms by (intro fin_in_mul[of 0 1]) (simp_all add: waves_ok_def)
  have "fin_in (- b) (a - b) (f64_add (f64_mul (wv_rand v k) (Fin (of_int a))) (Fin (- of_int b)))"
    using assms by (intro fin_in_add[OF m fin_in_neg_const]) simp_all
  then show ?thesis by (simp add: jitter_def f64_sub_def)
qed

lemma swing_in:
  assumes "fin_in lo hi w" and "0 \<le> amp" and "\<bar>lo * amp\<bar> \<le> 2 ^ 50" and "\<bar>hi * amp\<bar> \<le> 2 ^ 50" and "\<bar>base\<bar> \<le> 2 ^ 50"
  shows "fin_in (base + lo * amp) (base + hi * amp) (swing (of_int base) w (of_int amp))"
proof -
  have m: "fin_in (lo * amp) (hi * amp) (f64_mul w (Fin (of_int amp)))"
    using assms by (intro fin_in_mul[OF assms(1)]) simp_all
  have b: "fin_in base base (Fin (of_int base))" using assms(5) by (intro fin_inI) simp_all
  show ?thesis unfolding swing_def using assms(3-5) by (intro fin_in_add[OF b m]) simp_all
qed

lemmas jitter_num = jitter_in[of _ "numeral a" "numeral b" for a b, simplified] jitter_in[of _ "numeral a" 1 for a, simplified]
lemmas swing_num = swing_in[of _ _ _ "numeral a" "numeral b" for a b, simplified]

lemma core_usage_in:
  assumes "waves_ok v"
  shows "fin_in 0 100 (core_usage v t k i)"
proof -
  have s: "fin_in (- 1) 1 (wv_sin v x)" for x using assms by (simp add: waves_ok_def)
  show ?thesis unfolding core_usage_def
    by (intro fin_in_round2 fin_in_clamp[of "- 100" 100] fin_in_add[OF swing_num[OF s] jitter_num(1)[OF assms]]) simp_all
qed

lemma percent_in:
  assumes "fin_in a b used" and "0 \<le> a" and "b \<le> capacity" and "0 < capacity" and "capacity \<le> 2 ^ 50"
  shows "fin_in 0 100 (usage_of used (of_int capacity))"
proof -
  obtain q where q: "used = Fin q" "of_int a \<le> q" "q \<le> of_int b" using assms(1) by (auto simp: fin_in_def)
  have "0 \<le> (of_int a :: rat)" "(of_int b :: rat) \<le> of_int capacity" using assms(2,3) by simp_all
  then have "0 \<le> q" "q \<le> of_int capacity" using q by linarith+
  then have "0 \<le> q / of_int capacity" "q / of_int capacity \<le> 1" using assms(4) by (simp_all add: divide_le_eq)
  then have "fin_in 0 1 (f64_div used (Fin (of_int capacity)))" using rnd_in[of 0 _ 1] assms(4) by (simp add: q(1))
  then show ?thesis unfolding usage_of_def by (intro fin_in_round2 fin_in_mul[of 0 1]) simp_all
qed

lemma watts_in:
  assumes "fin_in 0 100 u" and "fin_in (- j) j x" and "0 \<le> z" and "100 * z \<le> of_int m" and "0 \<le> m" and "m \<le> 2 ^ 30"
    and "\<bar>base\<bar> \<le> 2 ^ 30" and "\<bar>j\<bar> \<le> 2 ^ 30" and "\<bar>lo\<bar> \<le> 2 ^ 30" and "lo \<le> base + m + j"
  shows "fin_in lo (base + m + j) (at_least (of_int lo) (f64_add (f64_add (Fin (of_int base)) (f64_mul u (Fin z))) x))"
proof -
  have b: "fin_in base base (Fin (of_int base))" using assms(7) by (intro fin_inI) simp_all
  have m: "fin_in 0 m (f64_mul u (Fin z))" using assms(3-6) by (intro fin_in_mul[OF assms(1)]) simp_all
  have s: "fin_in base (base + m) (f64_add (Fin (of_int base)) (f64_mul u (Fin z)))"
    using assms(5-7) by (intro fin_in_add[OF b m]) simp_all
  have "fin_in (base - j) (base + m + j) (f64_add (f64_add (Fin (of_int base)) (f64_mul u (Fin z))) x)"
    using assms(5-8) by (intro fin_in_add[OF s assms(2)]) simp_all
  then show ?thesis using assms(9,10) by (intro fin_in_at_least) simp_all
qed

lemma emulated_ranges:
  assumes "waves_ok v" and "mock_ReadCPU v t r = (cpu, r')" and "mock_ReadGPU v tg r' = (gpu, r'')"
  shows "fin_in 0 100 (cpu_UsagePercent cpu) \<and> length (cpu_CoresUsagePercent cpu) = 8 \<and>
     list_all (fin_in 0 100) (cpu_CoresUsagePercent cpu) \<and> fin_in 5 111 (cpu_PowerWatts cpu) \<and>
     fin_in 0 100 (gpu_UsagePercent gpu) \<and> fin_in 10 182 (gpu_PowerWatts gpu) \<and>
     gpu_VramUsedBytes gpu \<le> gpu_VramTotalBytes gpu \<and>
     ram_UsedBytes (mock_ReadRAM v tr) \<le> ram_TotalBytes (mock_ReadRAM v tr) \<and> fin_in 0 100 (ram_Percentage (mock_ReadRAM v tr)) \<and>
     swap_UsedBytes (mock_ReadSwap v ts) \<le> swap_TotalBytes (mock_ReadSwap v ts) \<and> fin_in 0 100 (swap_Percentage (mock_ReadSwap v ts)) \<and>
     mr_drawn r'' = mr_drawn r + 15"
proof -
  have s: "fin_in (- 1) 1 (wv_sin v x)" and c: "fin_in (- 1) 1 (wv_cos v x)" for x using assms(1) by (simp_all add: waves_ok_def)
  let ?cu = "clamp_percent (f64_add (swing 15 (wv_sin v (f64_div t (Fin 8))) 10) (jitter v (mr_drawn r) 4 2))"
  let ?gu = "clamp_percent (f64_add (swing 30 (wv_cos v (f64_div tg (Fin 15))) 15) (jitter v (mr_drawn r') 2 1))"
  have cu: "fin_in 0 100 ?cu"
    by (intro fin_in_clamp[of "- 100" 100] fin_in_add[OF swing_num[OF s] jitter_num(1)[OF assms(1)]]) simp_all
  have gu: "fin_in 0 100 ?gu"
    by (intro fin_in_clamp[of "- 100" 100] fin_in_add[OF swing_num[OF c] jitter_num(2)[OF assms(1)]]) simp_all
  have le1: "fin_in 0 1 (rnd (4 / 5))" by (rule rnd_in) simp_all
  then obtain z where z: "rnd (4 / 5) = Fin z" "0 \<le> z" "z \<le> 1" by (auto simp: fin_in_def)
  have cw: "fin_in 5 111 (at_least 5 (f64_add (f64_add (Fin 10) (f64_mul ?cu (rnd (4 / 5)))) (jitter v (mr_drawn r + 10) 2 1)))"
    using watts_in[OF cu, of 1 _ z 100 10 5] jitter_in[OF assms(1), of 2 1 "mr_drawn r + 10"] z by simp
  have gw: "fin_in 10 182 (at_least 10 (f64_add (f64_add (Fin 30) (f64_mul ?gu (Fin (3 / 2)))) (jitter v (mr_drawn r' + 2) 4 2)))"
    using watts_in[OF gu, of 2 _ "3 / 2" 150 30 10] jitter_in[OF assms(1), of 4 2 "mr_drawn r' + 2"] by simp
  have ram: "fin_in 11811160064 13958643712 (swing 12884901888 (wv_sin v x) 1073741824)"
    and swap: "fin_in 419430400 629145600 (swing 524288000 (wv_sin v x) 104857600)" for x
    using swing_in[OF s, of 1073741824 12884901888] swing_in[OF s, of 104857600 524288000] by simp_all
  have vram: "fin_in 3221225472 5221225472 (swing 3221225472 ?gu 20000000)"
    using swing_in[OF gu, of 20000000 3221225472] by simp
  have word: "f64_to_u64 x \<le> c" if "fin_in a b x" "0 \<le> a" "b \<le> uint c" for a b x c
    using uint_in_range(2)[OF that(1,2)] that(3) by (simp add: word_le_def)
  have cores: "list_all (fin_in 0 100) (cpu_CoresUsagePercent cpu)" and n: "length (cpu_CoresUsagePercent cpu) = 8"
    using assms(2) core_usage_in[OF assms(1)] by (auto simp: mock_ReadCPU_def Let_def list_all_iff simp del: upt_conv_Cons)
  have cpu: "fin_in 0 100 (cpu_UsagePercent cpu)" "fin_in 5 111 (cpu_PowerWatts cpu)"
    using assms(2) fin_in_round2[OF cu] fin_in_round2[OF cw] by (auto simp: mock_ReadCPU_def Let_def)
  have gpu: "fin_in 0 100 (gpu_UsagePercent gpu)" "fin_in 10 182 (gpu_PowerWatts gpu)" "gpu_VramUsedBytes gpu \<le> gpu_VramTotalBytes gpu"
    using assms(3) fin_in_round2[OF gu] fin_in_round2[OF gw] word[OF vram, of 8589934592] by (auto simp: mock_ReadGPU_def Let_def)
  have mem: "ram_UsedBytes (mock_ReadRAM v tr) \<le> ram_TotalBytes (mock_ReadRAM v tr)" "fin_in 0 100 (ram_Percentage (mock_ReadRAM v tr))"
      "swap_UsedBytes (mock_ReadSwap v ts) \<le> swap_TotalBytes (mock_ReadSwap v ts)" "fin_in 0 100 (swap_Percentage (mock_ReadSwap v ts))"
    using word[OF ram, of 34359738368] percent_in[OF ram, of 34359738368] word[OF swap, of 2147483648] percent_in[OF swap, of 2147483648]
    by (simp_all add: mock_ReadRAM_def mock_ReadSwap_def Let_def)
  have "mr_drawn r'' = mr_drawn r + 15" using assms(2,3) by (auto simp: mock_ReadCPU_def mock_ReadGPU_def Let_def)
  with cpu n cores gpu mem show ?thesis by blast
qed

text \<open>C32: The emulated processor load, overall and of each of the eight cores, lies between 0 and 100 percent, the
  graphics load too, power is at least the documented floor, and no memory is fuller than its
  capacity, whatever the waves, the random numbers and the times of the readings are.\<close>

theorem emulated_readings_in_range:
  assumes "waves_ok v" and "mock_ReadCPU v t r = (cpu, r')" and "mock_ReadGPU v tg r' = (gpu, r'')"
  shows "fin_in 0 100 (cpu_UsagePercent cpu) \<and> length (cpu_CoresUsagePercent cpu) = 8 \<and>
     list_all (fin_in 0 100) (cpu_CoresUsagePercent cpu) \<and> fin_in 5 111 (cpu_PowerWatts cpu) \<and>
     fin_in 0 100 (gpu_UsagePercent gpu) \<and> fin_in 10 182 (gpu_PowerWatts gpu) \<and>
     gpu_VramUsedBytes gpu \<le> gpu_VramTotalBytes gpu \<and>
     ram_UsedBytes (mock_ReadRAM v tr) \<le> ram_TotalBytes (mock_ReadRAM v tr) \<and> fin_in 0 100 (ram_Percentage (mock_ReadRAM v tr)) \<and>
     swap_UsedBytes (mock_ReadSwap v ts) \<le> swap_TotalBytes (mock_ReadSwap v ts) \<and> fin_in 0 100 (swap_Percentage (mock_ReadSwap v ts)) \<and>
     mr_drawn r'' = mr_drawn r + 15"
  by (rule emulated_ranges[OF assms])

definition flat_waves :: waves where
  "flat_waves = \<lparr>wv_sin = (\<lambda>x. Fin 0), wv_cos = (\<lambda>x. Fin 1), wv_rand = (\<lambda>k. Fin (1 / 2))\<rparr>"

theorem emulated_readings_in_range_witness:
  "fin_in 0 100 (cpu_UsagePercent (fst (mock_ReadCPU flat_waves (Fin 0) NewMockMetricsReader)))"
proof -
  have "waves_ok flat_waves" by (simp add: waves_ok_def flat_waves_def fin_inI)
  from emulated_readings_in_range[OF this, of "Fin 0" NewMockMetricsReader _ _ "Fin 0"] show ?thesis
    by (metis prod.collapse)
qed

end
