(* ===== verification/Icon_Image.thy ===== *)
theory Icon_Image
  imports Dbus_Values Go_Base64 Float_Rounding Go_Numbers
begin

text \<open>
  The image half of the notification icon extractor (\<^verbatim>\<open>pkg/notifications/icon_extractor.go\<close>): the raw
  pixels a notification carries in its hints, copied into an image, scaled down to a
  thumbnail and encoded. The PNG encoder is a parameter (its failure is \<^term>\<open>None\<close>).
\<close>

section \<open>Images\<close>

type_synonym pixel = "u8 \<times> u8 \<times> u8 \<times> u8"

text \<open>An \<^verbatim>\<open>image.NRGBA\<close> whose rectangle starts at the origin, its pixels row by row.\<close>

record NRGBA =
  im_W :: nat
  im_H :: nat
  im_Pix :: "pixel list"

definition image_at :: "NRGBA \<Rightarrow> int \<Rightarrow> int \<Rightarrow> pixel" where
  "image_at img x y =
     (if 0 \<le> x \<and> x < int (im_W img) \<and> 0 \<le> y \<and> y < int (im_H img)
      then im_Pix img ! (nat y * im_W img + nat x) else (0, 0, 0, 0))"

definition coords :: "nat \<Rightarrow> nat \<Rightarrow> (nat \<times> nat) list" where
  "coords w h = concat (map (\<lambda>y. map (\<lambda>x. (x, y)) [0..<w]) [0..<h])"

section \<open>Copying the pixels of a hint\<close>

definition src_index :: "int \<Rightarrow> int \<Rightarrow> nat \<Rightarrow> nat \<Rightarrow> int" where
  "src_index rowstride channels x y = int y * rowstride + int x * channels"

text \<open>One turn of the loop: \<^term>\<open>None\<close> is the early return for an unsupported channel count; a pixel beyond
  the data stays zero. The first byte that is read is the one with the least index.\<close>

definition copy_pixel :: "u8 list \<Rightarrow> int \<Rightarrow> int \<Rightarrow> nat \<Rightarrow> nat \<Rightarrow> pixel option go" where
  "copy_pixel data rowstride channels x y =
     (let srcIdx = src_index rowstride channels x y; b = (\<lambda>k. data ! (nat srcIdx + k)) in
      if srcIdx + channels > int (length data) then Inr (Some (0, 0, 0, 0))
      else if channels = 4 then
        if srcIdx < 0 then Inl (IndexOutOfRange srcIdx) else Inr (Some (b 0, b 1, b 2, b 3))
      else if channels = 3 then
        if srcIdx < 0 then Inl (IndexOutOfRange srcIdx) else Inr (Some (b 0, b 1, b 2, 255))
      else Inr None)"

fun copy_pixels :: "u8 list \<Rightarrow> int \<Rightarrow> int \<Rightarrow> (nat \<times> nat) list \<Rightarrow> pixel list option go" where
  "copy_pixels data rowstride channels [] = Inr (Some [])"
| "copy_pixels data rowstride channels ((x, y) # ps) =
     ebind (copy_pixel data rowstride channels x y) (\<lambda>p.
       case p of None \<Rightarrow> Inr None
       | Some px \<Rightarrow> ebind (copy_pixels data rowstride channels ps) (\<lambda>r. Inr (map_option (Cons px) r)))"

section \<open>Scaling down\<close>

definition f64_int :: "f64 \<Rightarrow> int" where
  "f64_int x = sint (f64_to_i64 x)"

definition thumb_size :: "nat \<Rightarrow> nat \<Rightarrow> int \<Rightarrow> int \<Rightarrow> int \<times> int" where
  "thumb_size w h maxW maxH =
     (let ratio = f64_div (f64_of_int (int w)) (f64_of_int (int h));
          (newW, newH) =
            (if f64_less (Fin 1) ratio then (maxW, f64_int (f64_div (f64_of_int maxW) ratio))
             else (f64_int (f64_mul (f64_of_int maxH) ratio), maxH))
      in (if newW < 1 then 1 else newW, if newH < 1 then 1 else newH))"

definition src_coord :: "nat \<Rightarrow> nat \<Rightarrow> int \<Rightarrow> int" where
  "src_coord x w newW = f64_int (f64_div (f64_mul (f64_of_int (int x)) (f64_of_int (int w))) (f64_of_int newW))"

definition resizeImage :: "NRGBA \<Rightarrow> int \<Rightarrow> int \<Rightarrow> NRGBA" where
  "resizeImage img maxW maxH =
     (let w = im_W img; h = im_H img in
      if int w \<le> maxW \<and> int h \<le> maxH then img
      else let (newW, newH) = thumb_size w h maxW maxH in
        \<lparr>im_W = nat newW, im_H = nat newH,
         im_Pix = map (\<lambda>(x, y). image_at img (src_coord x w newW) (src_coord y h newH)) (coords (nat newW) (nat newH))\<rparr>)"

section \<open>Hints\<close>

definition raw_image_hint :: "(string \<times> dval) list \<Rightarrow> dval option" where
  "raw_image_hint hints = first_some (map_of hints) [''image-data'', ''image_data'', ''icon_data'']"

text \<open>The struct of the hint, \<^verbatim>\<open>(iiibiiay)\<close>: width, height, row stride, alpha, bits, channels, data.\<close>

record raw_image =
  ri_width :: int
  ri_height :: int
  ri_rowstride :: int
  ri_bits :: int
  ri_channels :: int
  ri_data :: "u8 list"

definition parse_raw_image :: "dval \<Rightarrow> raw_image option" where
  "parse_raw_image v = (case v of
      DArr (DI32 w # DI32 h # DI32 rs # DBool _ # DI32 bits # DI32 ch # DBytes data # _) \<Rightarrow>
        Some \<lparr>ri_width = sint w, ri_height = sint h, ri_rowstride = sint rs, ri_bits = sint bits,
              ri_channels = sint ch, ri_data = data\<rparr>
    | _ \<Rightarrow> None)"

definition raw_image_valid :: "raw_image \<Rightarrow> bool" where
  "raw_image_valid r \<longleftrightarrow> \<not> (ri_width r \<le> 0 \<or> ri_height r \<le> 0 \<or> ri_width r > 512 \<or> ri_height r > 512 \<or> ri_bits r \<noteq> 8) \<and>
     \<not> (int (length (ri_data r)) < ri_height r * ri_rowstride r)"

definition thumbnail :: "NRGBA \<Rightarrow> NRGBA" where
  "thumbnail img = (if im_W img > 96 \<or> im_H img > 96 then resizeImage img 96 96 else img)"

definition png_url :: "(NRGBA \<Rightarrow> string option) \<Rightarrow> NRGBA \<Rightarrow> string" where
  "png_url png img =
     (case png img of
        None \<Rightarrow> []
      | Some buf \<Rightarrow> if length buf > 153600 then [] else ''data:image/png;base64,'' @ b64_encode buf)"

definition ExtractFromHints :: "(NRGBA \<Rightarrow> string option) \<Rightarrow> (string \<times> dval) list \<Rightarrow> string go" where
  "ExtractFromHints png hints =
     (case Option.bind (raw_image_hint hints) parse_raw_image of
        None \<Rightarrow> Inr []
      | Some r \<Rightarrow>
          if \<not> raw_image_valid r then Inr []
          else let w = nat (ri_width r); h = nat (ri_height r) in
            ebind (copy_pixels (ri_data r) (ri_rowstride r) (ri_channels r) (coords w h)) (\<lambda>pix.
              case pix of
                None \<Rightarrow> Inr []
              | Some ps \<Rightarrow> Inr (png_url png (thumbnail \<lparr>im_W = w, im_H = h, im_Pix = ps\<rparr>))))"

section \<open>Every thumbnail pixel is a pixel of the image\<close>

lemma length_coords [simp]: "length (coords w h) = w * h"
  by (simp add: coords_def length_concat sum_list_triv comp_def)

lemma set_coords: "(x, y) \<in> set (coords w h) \<longleftrightarrow> x < w \<and> y < h"
  by (fastforce simp: coords_def)

lemma coords_Suc: "coords w (Suc h) = coords w h @ map (\<lambda>x. (x, h)) [0..<w]"
  by (simp add: coords_def)

lemma pixel_offset: "x < w \<Longrightarrow> y < h \<Longrightarrow> y * w + x < w * (h :: nat)"
proof -
  assume "x < w" "y < h"
  then have "y * w + x < Suc y * w" by simp
  also have "\<dots> \<le> h * w" using \<open>y < h\<close> by (intro mult_right_mono) simp_all
  finally show ?thesis by (simp add: mult.commute)
qed

lemma nth_coords:
  assumes "x < w" and "y < h"
  shows "coords w h ! (y * w + x) = (x, y)"
  using assms(2)
proof (induction h)
  case (Suc h)
  show ?case
  proof (cases "y < h")
    case True
    with Suc assms(1) show ?thesis by (simp add: coords_Suc nth_append pixel_offset)
  next
    case False
    with Suc.prems have "y = h" by simp
    with assms(1) show ?thesis by (simp add: coords_Suc nth_append mult.commute)
  qed
qed simp

lemma sint_small: "0 \<le> n \<Longrightarrow> n < 2 ^ 63 \<Longrightarrow> sint (word_of_int n :: i64) = n"
  by (simp add: sint_sbintrunc' signed_take_bit_int_eq_self)

lemma f64_int_rnd:
  assumes "0 \<le> x" and "x \<le> of_int n" and "n \<le> 2 ^ 53"
  shows "0 \<le> f64_int (rnd x)" and "f64_int (rnd x) \<le> n"
proof -
  obtain y where y: "rnd x = Fin y" "0 \<le> y" "y \<le> of_int n" using rnd_up_to_int[OF assms] .
  have n: "\<lfloor>y\<rfloor> \<le> n" using y(3) by (metis floor_mono floor_of_int)
  have "f64_int (rnd x) = \<lfloor>y\<rfloor>"
    using y n assms(3) by (simp add: f64_int_def f64_to_i64_def rat_trunc_def sint_small)
  then show "0 \<le> f64_int (rnd x)" "f64_int (rnd x) \<le> n" using y(2) n by simp_all
qed

lemma f64_of_small [simp]: "n \<le> 512 \<Longrightarrow> f64_of_int (int n) = Fin (of_nat n)"
  using rnd_int[of "int n"] by (simp add: f64_of_int_def)

lemma f64_of_96 [simp]: "f64_of_int 96 = Fin 96"
  using rnd_int[of 96] by (simp add: f64_of_int_def)

text \<open>The ratio of two sides is rounded so little that it decides which side is longer.\<close>

lemma ratio_rounded:
  assumes "0 < w" "w \<le> 512" "0 < h" "h \<le> 512"
  obtains r where "f64_div (f64_of_int (int w)) (f64_of_int (int h)) = Fin r" and "0 < r"
    and "r * of_nat h \<le> of_nat w * (1 + 1 / 2 ^ 53)" and "of_nat w * (1 - 1 / 2 ^ 53) \<le> r * of_nat h"
proof -
  let ?q = "of_nat w / of_nat h :: rat"
  have pos: "0 < ?q" using assms by simp
  have "(of_nat w :: rat) \<le> 512 * of_nat h" "of_nat h \<le> (512 * of_nat w :: rat)"
    using assms of_nat_mono[of w "512 * h", where ?'a = rat] of_nat_mono[of h "512 * w", where ?'a = rat] by simp_all
  then have up: "?q \<le> of_int 512" and "1 / 512 \<le> ?q" using assms by (simp_all add: field_simps)
  moreover have "pow2 (- 1000) \<le> pow2 (- 9)" by (rule pow2_mono) simp
  moreover have "pow2 (- 9) = 1 / 512" by (simp add: pow2_def)
  ultimately have low: "pow2 (- 1000) \<le> ?q" by linarith
  obtain r where r: "rnd ?q = Fin r" "0 \<le> r" using rnd_up_to_int[of ?q 512] pos up by auto
  have e: "\<bar>r - ?q\<bar> \<le> ?q / 2 ^ 53" by (rule rnd_error[OF low r(1)])
  have "?q / 2 ^ 53 < ?q" using pos by (simp add: field_simps)
  with e have "0 < r" by linarith
  moreover have "r \<le> ?q * (1 + 1 / 2 ^ 53)" "?q * (1 - 1 / 2 ^ 53) \<le> r" using e by (simp_all add: field_simps abs_le_iff)
  ultimately show ?thesis using that[of r] assms r(1) by (simp add: field_simps)
qed

lemma thumb_size_bounds:
  assumes "0 < w" "w \<le> 512" "0 < h" "h \<le> 512" and big: "w > 96 \<or> h > 96" and sz: "thumb_size w h 96 96 = (nw, nh)"
  shows "1 \<le> nw \<and> nw \<le> 96 \<and> nw \<le> int w" and "1 \<le> nh \<and> nh \<le> 96 \<and> nh \<le> int h"
proof -
  obtain r where ratio: "f64_div (f64_of_int (int w)) (f64_of_int (int h)) = Fin r" and "0 < r"
    and up: "r * of_nat h \<le> of_nat w * (1 + 1 / 2 ^ 53)" and low: "of_nat w * (1 - 1 / 2 ^ 53) \<le> r * of_nat h"
    using ratio_rounded[OF assms(1-4)] .
  have wh: "(of_nat w :: rat) \<le> 512" "(of_nat h :: rat) \<le> 512" using assms(2,4) by (simp_all add: of_nat_le_iff[of _ 512, simplified])
  have "1 \<le> nw \<and> nw \<le> 96 \<and> nw \<le> int w \<and> 1 \<le> nh \<and> nh \<le> 96 \<and> nh \<le> int h"
  proof (cases "1 < r")
    case True
    have "of_nat h < r * of_nat h" using True assms(3) by simp
    then have "of_nat h < (of_nat (w + 1) :: rat)" using up wh by simp
    then have "h < w + 1" by (rule of_nat_less_imp_less)
    then have "97 \<le> w" using big by arith
    then have w97: "(97 :: rat) \<le> of_nat w" by (simp add: of_nat_le_iff[of 97, simplified])
    have "96 \<le> r * of_nat h" using low w97 by simp
    then have x: "0 \<le> 96 / r" "96 / r \<le> of_int 96" "96 / r \<le> of_int (int h)"
      using True \<open>0 < r\<close> by (simp_all add: divide_le_eq mult.commute)
    have "f64_int (rnd (96 / r)) \<le> 96" "f64_int (rnd (96 / r)) \<le> int h"
      using f64_int_rnd(2)[OF x(1,2)] f64_int_rnd(2)[OF x(1,3)] assms(4) by simp_all
    then show ?thesis using sz True \<open>97 \<le> w\<close> assms(3) \<open>0 < r\<close> by (auto simp: thumb_size_def ratio Let_def)
  next
    case False
    then have "r * of_nat h \<le> of_nat h" using \<open>0 < r\<close> by (simp add: mult_le_cancel_right2)
    then have "of_nat w < (of_nat (h + 1) :: rat)" using low wh by simp
    then have "w < h + 1" by (rule of_nat_less_imp_less)
    then have "97 \<le> h" using big by arith
    then have h97: "(97 :: rat) \<le> of_nat h" by (simp add: of_nat_le_iff[of 97, simplified])
    have "r * 97 \<le> r * of_nat h" using \<open>0 < r\<close> h97 by simp
    then have "96 * r \<le> of_nat w" using up wh by simp
    then have x: "0 \<le> 96 * r" "96 * r \<le> of_int 96" "96 * r \<le> of_int (int w)" using False \<open>0 < r\<close> by simp_all
    have "f64_int (rnd (96 * r)) \<le> 96" "f64_int (rnd (96 * r)) \<le> int w"
      using f64_int_rnd(2)[OF x(1,2)] f64_int_rnd(2)[OF x(1,3)] assms(2) by simp_all
    then show ?thesis using sz False \<open>97 \<le> h\<close> assms(1) by (auto simp: thumb_size_def ratio Let_def)
  qed
  then show "1 \<le> nw \<and> nw \<le> 96 \<and> nw \<le> int w" "1 \<le> nh \<and> nh \<le> 96 \<and> nh \<le> int h" by simp_all
qed

lemma src_coord_bounds:
  assumes "int x < n" "n \<le> 96" "n \<le> int w" "w \<le> 512"
  shows "0 \<le> src_coord x w n" and "src_coord x w n < int w"
proof -
  obtain k where k: "n = int k" using assms(1) by (metis nonneg_int_cases of_nat_0_le_iff less_imp_le order_trans)
  have kx: "x < k" "k \<le> 96" "k \<le> w" "0 < k" using assms k by simp_all
  have "x * w \<le> 96 * 512" using kx assms(4) by (intro mult_mono) simp_all
  then have "int (x * w) \<le> int (96 * 512)" by (simp only: of_nat_le_iff)
  also have "\<dots> \<le> 2 ^ 53" by simp
  finally have "int (x * w) \<le> 2 ^ 53" .
  then have m: "rnd (of_nat (x * w)) = Fin (of_nat (x * w))" using rnd_int[of "int (x * w)"] by (simp del: of_nat_mult)
  have q: "src_coord x w n = f64_int (rnd (of_nat (x * w) / of_nat k))"
    using kx assms(4) m by (simp add: src_coord_def k)
  have "x * w + k \<le> k * w"
  proof -
    have "x * w + k \<le> x * w + w" using kx by simp
    also have "\<dots> = Suc x * w" by simp
    also have "\<dots> \<le> k * w" using kx by (intro mult_right_mono) simp_all
    finally show ?thesis .
  qed
  then have "(of_nat (x * w) :: rat) + of_nat k \<le> of_nat k * of_nat w" by (metis of_nat_add of_nat_le_iff of_nat_mult)
  then have "of_nat (x * w) / of_nat k \<le> (of_int (int w - 1) :: rat)"
    using kx(4) by (subst pos_divide_le_eq) (simp_all add: algebra_simps)
  from f64_int_rnd[OF _ this] assms(4) show "0 \<le> src_coord x w n" "src_coord x w n < int w" by (simp_all add: q)
qed

text \<open>C22: A thumbnail never exceeds 96 by 96 pixels, has at least one, is no larger than the image it is
  made from, and each of its pixels is a pixel of that image, whatever the floating point
  ratios round to.\<close>

theorem thumbnail_samples_source:
  assumes "0 < im_W img" "im_W img \<le> 512" "0 < im_H img" "im_H img \<le> 512" "length (im_Pix img) = im_W img * im_H img"
  shows "let t = thumbnail img in 0 < im_W t \<and> im_W t \<le> 96 \<and> im_W t \<le> im_W img \<and> 0 < im_H t \<and> im_H t \<le> 96 \<and>
     im_H t \<le> im_H img \<and> length (im_Pix t) = im_W t * im_H t \<and> set (im_Pix t) \<subseteq> set (im_Pix img)"
proof (cases "im_W img > 96 \<or> im_H img > 96")
  case True
  obtain nw nh where sz: "thumb_size (im_W img) (im_H img) 96 96 = (nw, nh)" by force
  note b = thumb_size_bounds[OF assms(1-4) True sz]
  have t: "thumbnail img = \<lparr>im_W = nat nw, im_H = nat nh,
      im_Pix = map (\<lambda>(x, y). image_at img (src_coord x (im_W img) nw) (src_coord y (im_H img) nh)) (coords (nat nw) (nat nh))\<rparr>"
    using True by (auto simp: thumbnail_def resizeImage_def sz Let_def)
  have "image_at img (src_coord x (im_W img) nw) (src_coord y (im_H img) nh) \<in> set (im_Pix img)"
    if "x < nat nw" "y < nat nh" for x y
  proof -
    have x: "0 \<le> src_coord x (im_W img) nw" "src_coord x (im_W img) nw < int (im_W img)"
      using src_coord_bounds[of x nw "im_W img"] b(1) that(1) assms(2) by (simp_all add: zless_nat_eq_int_zless)
    have y: "0 \<le> src_coord y (im_H img) nh" "src_coord y (im_H img) nh < int (im_H img)"
      using src_coord_bounds[of y nh "im_H img"] b(2) that(2) assms(4) by (simp_all add: zless_nat_eq_int_zless)
    have "nat (src_coord y (im_H img) nh) * im_W img + nat (src_coord x (im_W img) nw) < length (im_Pix img)"
      unfolding assms(5) by (rule pixel_offset) (use x y in simp_all)
    then show ?thesis using x y by (simp add: image_at_def)
  qed
  then show ?thesis using b by (auto simp: t Let_def set_coords)
qed (use assms in \<open>simp add: thumbnail_def Let_def\<close>)

theorem thumbnail_samples_source_witness:
  "im_W (thumbnail \<lparr>im_W = 400, im_H = 100, im_Pix = replicate 40000 (1, 2, 3, 4)\<rparr>) \<le> 96 \<and>
   set (im_Pix (thumbnail \<lparr>im_W = 400, im_H = 100, im_Pix = replicate 40000 (1, 2, 3, 4)\<rparr>)) \<subseteq> {(1, 2, 3, 4)}"
  using thumbnail_samples_source[of "\<lparr>im_W = 400, im_H = 100, im_Pix = replicate 40000 (1, 2, 3, 4)\<rparr>"]
  by (simp add: Let_def del: replicate.simps)

section \<open>The pixels are copied faithfully\<close>

lemma copy_pixels_map:
  assumes "\<And>x y. (x, y) \<in> set ps \<Longrightarrow> copy_pixel data rs ch x y = Inr (Some (f x y))"
  shows "copy_pixels data rs ch ps = Inr (Some (map (\<lambda>(x, y). f x y) ps))"
  using assms by (induction ps) auto

text \<open>C23: A well-formed hint (rows at least as long as their pixels, all of them present) becomes exactly the
  image it describes: three or four bytes per pixel, an opaque alpha where there is none.\<close>

theorem hint_pixels_exact:
  assumes "c = 3 \<or> c = 4" and "w * c \<le> rs" and "h * rs \<le> length data" and "x < w" and "y < h"
  shows "\<exists>ps. copy_pixels data (int rs) (int c) (coords w h) = Inr (Some ps) \<and> length ps = w * h \<and>
     (let i = y * rs + x * c in
      ps ! (y * w + x) = (data ! i, data ! (i + 1), data ! (i + 2), if c = 4 then data ! (i + 3) else 255))"
proof -
  let ?f = "\<lambda>x y. let i = y * rs + x * c in (data ! i, data ! (i + 1), data ! (i + 2), if c = 4 then data ! (i + 3) else 255)"
  have px: "copy_pixel data (int rs) (int c) x y = Inr (Some (?f x y))" if "x < w" "y < h" for x y
  proof -
    have "x * c + c \<le> w * c" using that(1) mult_le_mono1[of "Suc x" w c] by simp
    moreover have "y * rs + rs \<le> h * rs" using that(2) mult_le_mono1[of "Suc y" h rs] by simp
    ultimately have "y * rs + x * c + c \<le> length data" using assms(2,3) by linarith
    then have "\<not> int (length data) < int (y * rs + x * c) + int c" by linarith
    moreover have "src_index (int rs) (int c) x y = int (y * rs + x * c)" by (simp add: src_index_def)
    ultimately show ?thesis using assms(1) by (auto simp: copy_pixel_def Let_def nat_int_add simp del: of_nat_add of_nat_mult)
  qed
  have "copy_pixels data (int rs) (int c) (coords w h) = Inr (Some (map (\<lambda>(x, y). ?f x y) (coords w h)))"
    by (rule copy_pixels_map) (use px in \<open>simp add: set_coords\<close>)
  moreover have "map (\<lambda>(x, y). ?f x y) (coords w h) ! (y * w + x) = ?f x y"
    using pixel_offset[OF assms(4,5)] by (simp add: nth_coords[OF assms(4,5)])
  ultimately show ?thesis by (simp add: Let_def)
qed

theorem hint_pixels_exact_witness:
  "\<exists>ps. copy_pixels [1, 2, 3, 0, 4, 5, 6, 0] 4 3 (coords 1 2) = Inr (Some ps) \<and> length ps = 2 \<and> ps ! 1 = (4, 5, 6, 255)"
  using hint_pixels_exact[of 3 1 4 2 "[1, 2, 3, 0, 4, 5, 6, 0]" 0 1] by (simp add: Let_def)

lemma copy_pixel_cases:
  assumes "ch = 3 \<or> ch = 4"
  shows "if src_index rs ch x y < 0 \<and> src_index rs ch x y + ch \<le> int (length data)
     then copy_pixel data rs ch x y = Inl (IndexOutOfRange (src_index rs ch x y))
     else \<exists>px. copy_pixel data rs ch x y = Inr (Some px)"
  using assms by (auto simp: copy_pixel_def Let_def)

lemma copy_pixels_panic:
  "(\<exists>p. copy_pixels data rs ch ps = Inl p) \<longleftrightarrow>
     (ch = 3 \<or> ch = 4) \<and> (\<exists>(x, y) \<in> set ps. src_index rs ch x y < 0 \<and> src_index rs ch x y + ch \<le> int (length data))"
proof (cases "ch = 3 \<or> ch = 4")
  case True
  have "(\<exists>p. copy_pixels data rs ch ps = Inl p) \<longleftrightarrow>
     (\<exists>(x, y) \<in> set ps. src_index rs ch x y < 0 \<and> src_index rs ch x y + ch \<le> int (length data))"
  proof (induction ps)
    case (Cons q ps)
    obtain x y where q: "q = (x, y)" by force
    show ?case
      using copy_pixel_cases[OF True, of rs x y data] Cons.IH
      by (cases "src_index rs ch x y < 0 \<and> src_index rs ch x y + ch \<le> int (length data)")
         (auto simp: q ebind_def split: sum.splits)
  qed simp
  with True show ?thesis by simp
next
  case False
  then have "copy_pixel data rs ch x y \<noteq> Inl p" for x y p by (simp add: copy_pixel_def Let_def)
  then have "copy_pixels data rs ch ps \<noteq> Inl p" for p
    by (induction ps) (auto simp: ebind_def split: sum.splits option.splits)
  with False show ?thesis by simp
qed

text \<open>A hint that passes the checks makes the extractor panic exactly if some pixel that is not skipped lies
  before the start of the data; that takes a negative row stride, which the checks let
  through.\<close>

theorem hint_panics_iff_negative_index:
  assumes "Option.bind (raw_image_hint hints) parse_raw_image = Some r" and "raw_image_valid r"
  shows "(\<exists>p. ExtractFromHints png hints = Inl p) \<longleftrightarrow>
     ri_channels r \<in> {3, 4} \<and> ri_rowstride r < 0 \<and>
     (\<exists>x y. int x < ri_width r \<and> int y < ri_height r \<and> src_index (ri_rowstride r) (ri_channels r) x y < 0 \<and>
        src_index (ri_rowstride r) (ri_channels r) x y + ri_channels r \<le> int (length (ri_data r)))"
proof -
  have neg: "rs < 0" if "src_index rs ch x y < 0" "ch = 3 \<or> ch = 4" for rs ch x y
  proof (rule ccontr)
    assume "\<not> rs < 0"
    then have "0 \<le> int y * rs" "0 \<le> int x * ch" using that(2) by auto
    with that(1) show False by (simp add: src_index_def)
  qed
  let ?bad = "\<lambda>x y. src_index (ri_rowstride r) (ri_channels r) x y < 0 \<and>
        src_index (ri_rowstride r) (ri_channels r) x y + ri_channels r \<le> int (length (ri_data r))"
  have ex: "(\<exists>(x, y) \<in> set (coords (nat w) (nat h)). P x y) \<longleftrightarrow> (\<exists>x y. int x < w \<and> int y < h \<and> P x y)" for w h P
    by (fastforce simp: set_coords zless_nat_eq_int_zless)
  have "(\<exists>p. ExtractFromHints png hints = Inl p) \<longleftrightarrow>
      (\<exists>p. copy_pixels (ri_data r) (ri_rowstride r) (ri_channels r) (coords (nat (ri_width r)) (nat (ri_height r))) = Inl p)"
    using assms by (auto simp: ExtractFromHints_def Let_def ebind_def split: sum.splits option.splits)
  also have "\<dots> \<longleftrightarrow> (ri_channels r = 3 \<or> ri_channels r = 4) \<and> (\<exists>x y. int x < ri_width r \<and> int y < ri_height r \<and> ?bad x y)"
    unfolding copy_pixels_panic ex ..
  also have "\<dots> \<longleftrightarrow> ri_channels r \<in> {3, 4} \<and> ri_rowstride r < 0 \<and> (\<exists>x y. int x < ri_width r \<and> int y < ri_height r \<and> ?bad x y)"
    using neg[of "ri_rowstride r" "ri_channels r"] by auto
  finally show ?thesis .
qed

definition negative_stride_hint :: "(string \<times> dval) list" where
  "negative_stride_hint = [(''image-data'', DArr [DI32 1, DI32 2, DI32 (- 1), DBool True, DI32 8, DI32 4, DBytes [1, 2, 3, 4]])]"

theorem hint_panics_iff_negative_index_witness:
  "\<exists>p. ExtractFromHints (\<lambda>_. Some ''PNG'') negative_stride_hint = Inl p"
proof -
  let ?r = "\<lparr>ri_width = 1, ri_height = 2, ri_rowstride = - 1, ri_bits = 8, ri_channels = 4, ri_data = [1, 2, 3, 4]\<rparr>"
  have r: "Option.bind (raw_image_hint negative_stride_hint) parse_raw_image = Some ?r"
    by (simp add: negative_stride_hint_def raw_image_hint_def parse_raw_image_def)
  have "src_index (- 1) 4 0 1 = - 1" by (simp add: src_index_def)
  then show ?thesis
    unfolding hint_panics_iff_negative_index[OF r, of "\<lambda>_. Some ''PNG''", unfolded raw_image_valid_def, simplified]
    by (intro exI[of _ 0] exI[of _ 1]) simp
qed

end
