(* ===== verification/Icon_Extractor.thy ===== *)
theory Icon_Extractor
  imports Icon_Image Go_Strings
begin

text \<open>
  The file half of the notification icon extractor (\<^verbatim>\<open>pkg/notifications/icon_extractor.go\<close>): icons named
  by a path, by a desktop entry or by an icon theme, the cache, and the order in which the
  sources are tried. The file system is a parameter.
\<close>

section \<open>The file system\<close>

text \<open>What \<^verbatim>\<open>filepath.Walk\<close> can meet: a file (anything that is not a directory), a directory with its sorted
  entries or one that cannot be read (\<^term>\<open>None\<close>), and an entry whose \<^verbatim>\<open>Lstat\<close> fails.\<close>

datatype fs_node = FFile | FDir "(string \<times> fs_node) list option" | FGone

record icon_files =
  ic_stat :: "string \<Rightarrow> (int \<times> bool) option"
  ic_read :: "string \<Rightarrow> string option"
  ic_open :: "string \<Rightarrow> string option"
  ic_readDir :: "string \<Rightarrow> (string \<times> bool) list option"
  ic_glob :: "string \<Rightarrow> string list option"
  ic_tree :: "string \<Rightarrow> fs_node"
  ic_home :: "string option"
  ic_png :: "NRGBA \<Rightarrow> string option"

type_synonym icon_cache = "(string \<times> string) list"

section \<open>Icons by path\<close>

definition icon_mime :: "string \<Rightarrow> string" where
  "icon_mime path =
     (let ext = to_lower (path_ext path) in
      if ext = ''.svg'' then ''data:image/svg+xml;base64,''
      else if ext = ''.png'' then ''data:image/png;base64,''
      else if ext = ''.jpg'' \<or> ext = ''.jpeg'' then ''data:image/jpeg;base64,''
      else ''data:image/png;base64,'')"

text \<open>The file as a data URL, if it may be inlined.\<close>

definition icon_load :: "icon_files \<Rightarrow> string \<Rightarrow> string option" where
  "icon_load fs path =
     (case ic_stat fs path of
        None \<Rightarrow> None
      | Some (sz, dir) \<Rightarrow>
          if dir then None
          else if sz > 153600 then None
          else map_option (\<lambda>data. icon_mime path @ b64_encode data) (ic_read fs path))"

definition ExtractFromPath :: "icon_files \<Rightarrow> string \<Rightarrow> icon_cache \<Rightarrow> string \<times> icon_cache" where
  "ExtractFromPath fs p cache =
     (if p = [] then ([], cache)
      else let path = (if has_prefix p ''file://'' then trim_prefix p ''file://'' else p) in
        if \<not> path_is_abs path then ([], cache)
        else case map_of cache path of
          Some v \<Rightarrow> (v, cache)
        | None \<Rightarrow>
           (case icon_load fs path of
              None \<Rightarrow> ([], cache)
            | Some result \<Rightarrow> (result, (path, result) # cache)))"

section \<open>Desktop entries\<close>

fun desktop_icon :: "bool \<Rightarrow> string list \<Rightarrow> string" where
  "desktop_icon inSection [] = []"
| "desktop_icon inSection (l # ls) =
     (let line = trim_space l in
      if line = ''[Desktop Entry]'' then desktop_icon True ls
      else if has_prefix line ''['' \<and> has_suffix line '']'' then desktop_icon False ls
      else if inSection \<and> has_prefix line ''Icon='' then trim_prefix line ''Icon=''
      else desktop_icon inSection ls)"

definition parseIconFromDesktopFile :: "icon_files \<Rightarrow> string \<Rightarrow> string" where
  "parseIconFromDesktopFile fs path =
     (case ic_stat fs path of
        None \<Rightarrow> []
      | Some (sz, _) \<Rightarrow>
          if sz > 65536 then []
          else case ic_open fs path of None \<Rightarrow> [] | Some content \<Rightarrow> desktop_icon False (split_on (CHR 0x0A) content))"

definition non_empty :: "string \<Rightarrow> string option" where
  "non_empty s = (if s = [] then None else Some s)"

definition or_empty :: "string option \<Rightarrow> string" where
  "or_empty r = (case r of None \<Rightarrow> [] | Some s \<Rightarrow> s)"

definition data_dirs :: "icon_files \<Rightarrow> string \<Rightarrow> string list" where
  "data_dirs fs kind =
     (case ic_home fs of None \<Rightarrow> [] | Some home \<Rightarrow> [path_join [home, ''.local/share/'' @ kind]])
     @ [''/usr/local/share/'' @ kind, ''/usr/share/'' @ kind]"

text \<open>One search directory: the entries named after the application, then every entry whose name contains it.\<close>

definition desktop_candidates :: "icon_files \<Rightarrow> string \<Rightarrow> string \<Rightarrow> string list" where
  "desktop_candidates fs appName dir =
     map (\<lambda>name. path_join [dir, name @ ''.desktop'']) [to_lower appName, appName]
     @ (case ic_readDir fs dir of
          None \<Rightarrow> []
        | Some files \<Rightarrow>
            map (\<lambda>(f, _). path_join [dir, f])
              (filter (\<lambda>(f, isDir). \<not> (isDir \<or> \<not> has_suffix f ''.desktop'') \<and> contains_str (to_lower f) (to_lower appName)) files))"

definition findIconInDesktop :: "icon_files \<Rightarrow> string \<Rightarrow> string" where
  "findIconInDesktop fs appName =
     or_empty (first_some (\<lambda>dir. first_some (\<lambda>path. non_empty (parseIconFromDesktopFile fs path)) (desktop_candidates fs appName dir))
       (data_dirs fs ''applications''))"

section \<open>Icon themes\<close>

text \<open>The callback of the walk, on the path found so far and the number of visits. The first component of
  the result is whether it returns \<^verbatim>\<open>SkipDir\<close>.\<close>

type_synonym walk_state = "string \<times> nat"

definition icon_matches :: "string \<Rightarrow> string \<Rightarrow> bool" where
  "icon_matches icon path \<longleftrightarrow> path_base path = icon @ ''.png'' \<or> path_base path = icon @ ''.svg''"

definition walk_visit :: "string \<Rightarrow> string \<Rightarrow> bool \<Rightarrow> walk_state \<Rightarrow> bool \<times> walk_state" where
  "walk_visit icon path isDir st =
     (let (foundPath, visits) = st; visitCount = visits + 1 in
      if visitCount > 300 then (True, foundPath, visitCount)
      else if isDir then (False, foundPath, visitCount)
      else if icon_matches icon path then (True, path, visitCount)
      else (False, foundPath, visitCount))"

definition is_dir :: "fs_node \<Rightarrow> bool" where
  "is_dir n = (case n of FDir _ \<Rightarrow> True | _ \<Rightarrow> False)"

text \<open>\<^verbatim>\<open>filepath.Walk\<close>: \<^verbatim>\<open>SkipDir\<close> for a directory skips its content, for a file the rest of its directory; in
  both cases the walk goes on after that directory. A callback that is told of an error
  returns at once.\<close>

fun walk :: "string \<Rightarrow> string \<Rightarrow> fs_node \<Rightarrow> walk_state \<Rightarrow> bool \<times> walk_state"
  and walk_entries :: "string \<Rightarrow> string \<Rightarrow> (string \<times> fs_node) list \<Rightarrow> walk_state \<Rightarrow> bool \<times> walk_state" where
  "walk icon path FGone st = (False, st)"
| "walk icon path FFile st = walk_visit icon path False st"
| "walk icon path (FDir None) st = (False, st)"
| "walk icon path (FDir (Some es)) st =
     (let (skip, st') = walk_visit icon path True st in
      if skip then (True, st') else walk_entries icon path es st')"
| "walk_entries icon dir [] st = (False, st)"
| "walk_entries icon dir ((name, n) # es) st =
     (let (skip, st') = walk icon (path_join [dir, name]) n st in
      if skip \<and> \<not> is_dir n then (True, st') else walk_entries icon dir es st')"

definition walk_icon :: "string \<Rightarrow> string \<Rightarrow> fs_node \<Rightarrow> string" where
  "walk_icon icon dir n = fst (snd (walk icon dir n ([], 0)))"

definition pixmap_icon :: "icon_files \<Rightarrow> string \<Rightarrow> string option" where
  "pixmap_icon fs icon =
     first_some (\<lambda>ext. let path = path_join [''/usr/share/pixmaps'', icon @ ext] in
         case ic_stat fs path of Some (_, False) \<Rightarrow> Some path | _ \<Rightarrow> None)
       [''.png'', ''.svg'']"

definition theme_icon :: "icon_files \<Rightarrow> string \<Rightarrow> string \<Rightarrow> string option" where
  "theme_icon fs icon dir =
     (case first_some (\<lambda>ext. case ic_glob fs (path_join [dir, ''hicolor'', ''*'', ''apps'', icon @ ext]) of
            Some (m # _) \<Rightarrow> Some m | _ \<Rightarrow> None) [''.png'', ''.svg''] of
        Some m \<Rightarrow> Some m
      | None \<Rightarrow> non_empty (walk_icon icon dir (ic_tree fs dir)))"

definition findIconInSystem :: "icon_files \<Rightarrow> string \<Rightarrow> string" where
  "findIconInSystem fs icon =
     (if icon = [] then []
      else case pixmap_icon fs icon of
        Some p \<Rightarrow> p
      | None \<Rightarrow> or_empty (first_some (theme_icon fs icon) (data_dirs fs ''icons'')))"

section \<open>The tiers\<close>

definition themed_path :: "icon_files \<Rightarrow> string \<Rightarrow> string \<Rightarrow> string" where
  "themed_path fs appName iconName =
     (let iconFromDesktop = (if appName = [] then [] else findIconInDesktop fs appName);
          resolved = (if iconFromDesktop = [] then []
                      else if path_is_abs iconFromDesktop then iconFromDesktop
                      else findIconInSystem fs iconFromDesktop)
      in if resolved = [] \<and> iconName \<noteq> [] then findIconInSystem fs iconName else resolved)"

definition ExtractFromThemedName :: "icon_files \<Rightarrow> string \<Rightarrow> string \<Rightarrow> icon_cache \<Rightarrow> string \<times> icon_cache" where
  "ExtractFromThemedName fs appName iconName cache =
     (if iconName = [] \<and> appName = [] then ([], cache)
      else let cacheKey = appName @ '':'' @ iconName in
        case map_of cache cacheKey of
          Some v \<Rightarrow> (v, cache)
        | None \<Rightarrow>
           (let resolvedPath = themed_path fs appName iconName in
            if resolvedPath = [] then ([], cache)
            else let (result, cache') = ExtractFromPath fs resolvedPath cache in
              if result \<noteq> [] then (result, (cacheKey, result) # cache') else ([], cache')))"

text \<open>Sources are tried in order until one gives a non-empty icon.\<close>

fun try_sources :: "(icon_cache \<Rightarrow> string \<times> icon_cache) list \<Rightarrow> icon_cache \<Rightarrow> string \<times> icon_cache" where
  "try_sources [] cache = ([], cache)"
| "try_sources (f # fs) cache =
     (let (s, cache') = f cache in if s \<noteq> [] then (s, cache') else try_sources fs cache')"

definition hint_path :: "(string \<times> dval) list \<Rightarrow> string \<Rightarrow> string" where
  "hint_path hints key = (case map_of hints key of Some v \<Rightarrow> str_or_empty v | None \<Rightarrow> [])"

definition Extract :: "icon_files \<Rightarrow> string \<Rightarrow> string \<Rightarrow> (string \<times> dval) list \<Rightarrow> icon_cache \<Rightarrow> (string \<times> icon_cache) go" where
  "Extract fs appName iconName hints cache =
     ebind (ExtractFromHints (ic_png fs) hints) (\<lambda>s.
       if s \<noteq> [] then Inr (s, cache)
       else Inr (try_sources
         [ExtractFromPath fs iconName,
          ExtractFromPath fs (hint_path hints ''image-path''),
          ExtractFromPath fs (hint_path hints ''image_path''),
          ExtractFromThemedName fs appName iconName] cache))"

section \<open>What is sent is an inline image\<close>

definition icon_mimes :: "string list" where
  "icon_mimes = [''data:image/png;base64,'', ''data:image/svg+xml;base64,'', ''data:image/jpeg;base64,'']"

definition inline_icon :: "string \<Rightarrow> bool" where
  "inline_icon s \<longleftrightarrow> (\<exists>m d. s = m @ b64_encode d \<and> length d \<le> 153600 \<and> m \<in> set icon_mimes)"

lemma inline_iconI: "m \<in> set icon_mimes \<Longrightarrow> length d \<le> 153600 \<Longrightarrow> inline_icon (m @ b64_encode d)"
  by (auto simp: inline_icon_def)

lemma length_b64_encode: "length (b64_encode d) = 4 * ((length d + 2) div 3)"
proof -
  have "(5 + n) div 3 = Suc (Suc (Suc n) div 3)" for n :: nat
    using div_add_self2[of 3 "Suc (Suc n)"] by (simp add: add.commute)
  then show ?thesis by (induction d rule: b64_encode.induct) (simp_all add: Let_def)
qed

lemma inline_icon_length:
  assumes "inline_icon s"
  shows "length s \<le> 204826"
proof -
  obtain m d where s: "s = m @ b64_encode d" "length d \<le> 153600" "m \<in> set icon_mimes"
    using assms unfolding inline_icon_def by blast
  have "length m \<le> 26" using s(3) by (auto simp: icon_mimes_def)
  moreover have "(length d + 2) div 3 \<le> 153602 div 3" using s(2) by (intro div_le_mono) simp
  ultimately show ?thesis unfolding s(1) length_append length_b64_encode by simp
qed

text \<open>The size limit is applied to the size \<^verbatim>\<open>Stat\<close> reports, and nothing checks that the path is a regular
  file. So there is one way to a larger icon: a path, in one of the file system states an
  extraction met, whose reported size is within the limit and whose content is not, as of files
  under \<^verbatim>\<open>/proc\<close>, which report the size 0. Its content is then inlined whole.\<close>

definition oversized_icon :: "icon_files set \<Rightarrow> string \<Rightarrow> bool" where
  "oversized_icon FS s \<longleftrightarrow>
     (\<exists>fs\<in>FS. \<exists>p sz d. path_is_abs p \<and> ic_stat fs p = Some (sz, False) \<and> sz \<le> 153600 \<and>
        ic_read fs p = Some d \<and> 153600 < length d \<and> s = icon_mime p @ b64_encode d)"

definition icon_from :: "icon_files set \<Rightarrow> string \<Rightarrow> bool" where
  "icon_from FS s \<longleftrightarrow> inline_icon s \<or> oversized_icon FS s"

definition icon_cache_ok :: "icon_files set \<Rightarrow> icon_cache \<Rightarrow> bool" where
  "icon_cache_ok FS cache \<longleftrightarrow> list_all (\<lambda>(k, v). icon_from FS v) cache"

definition icon_result :: "icon_files set \<Rightarrow> string \<times> icon_cache \<Rightarrow> bool" where
  "icon_result FS r \<longleftrightarrow> (fst r = [] \<or> icon_from FS (fst r)) \<and> icon_cache_ok FS (snd r)"

lemma icon_cache_hit: "icon_cache_ok FS cache \<Longrightarrow> map_of cache k = Some v \<Longrightarrow> icon_from FS v"
  by (auto simp: icon_cache_ok_def list_all_iff dest: map_of_SomeD)

lemma icon_mime_known: "icon_mime p \<in> set icon_mimes"
  by (simp add: icon_mime_def icon_mimes_def Let_def)

lemma icon_load_ok:
  assumes "fs \<in> FS" and "path_is_abs p" and "icon_load fs p = Some s"
  shows "icon_from FS s"
proof -
  obtain sz data where d: "ic_stat fs p = Some (sz, False)" "sz \<le> 153600" "ic_read fs p = Some data"
      and s: "s = icon_mime p @ b64_encode data"
    using assms(3) by (auto simp: icon_load_def split: option.splits if_splits)
  show ?thesis
  proof (cases "length data \<le> 153600")
    case True
    then show ?thesis unfolding s icon_from_def by (intro disjI1 inline_iconI icon_mime_known)
  next
    case False
    then have "153600 < length data" by simp
    with d s assms(1,2) have "oversized_icon FS s" unfolding oversized_icon_def by blast
    then show ?thesis by (simp add: icon_from_def)
  qed
qed

lemma ExtractFromPath_ok:
  assumes "fs \<in> FS" and "icon_cache_ok FS cache"
  shows "icon_result FS (ExtractFromPath fs p cache)"
  using assms(2) icon_load_ok[OF assms(1)] icon_cache_hit[OF assms(2)]
  by (simp add: ExtractFromPath_def icon_result_def Let_def icon_cache_ok_def split: option.split)

lemma ExtractFromThemedName_ok:
  assumes "fs \<in> FS" and "icon_cache_ok FS cache"
  shows "icon_result FS (ExtractFromThemedName fs a i cache)"
  using ExtractFromPath_ok[OF assms, of "themed_path fs a i"] assms(2) icon_cache_hit[OF assms(2)]
  by (auto simp: ExtractFromThemedName_def icon_result_def Let_def icon_cache_ok_def split: option.splits prod.splits)

lemma try_sources_ok:
  assumes "icon_cache_ok FS cache" and "\<And>f c. f \<in> set srcs \<Longrightarrow> icon_cache_ok FS c \<Longrightarrow> icon_result FS (f c)"
  shows "icon_result FS (try_sources srcs cache)"
  using assms
proof (induction srcs arbitrary: cache)
  case (Cons f srcs)
  have "icon_result FS (f cache)" using Cons.prems by simp
  then show ?case using Cons.IH[of "snd (f cache)"] Cons.prems(2)
    by (auto simp: icon_result_def split: prod.splits)
qed (simp add: icon_result_def)

lemma png_url_ok: "png_url png img = [] \<or> inline_icon (png_url png img)"
  using inline_iconI[of "''data:image/png;base64,''"] by (simp add: png_url_def icon_mimes_def split: option.split)

lemma ExtractFromHints_ok:
  assumes "ExtractFromHints png hints = Inr s"
  shows "s = [] \<or> inline_icon s"
proof -
  have "s = [] \<or> (\<exists>img. s = png_url png img)"
    using assms by (auto simp: ExtractFromHints_def Let_def ebind_def split: option.splits if_splits sum.splits)
  then show ?thesis using png_url_ok by blast
qed

lemma Extract_ok:
  assumes "fs \<in> FS" and "icon_cache_ok FS cache" and "Extract fs appName iconName hints cache = Inr (s, cache')"
  shows "icon_result FS (s, cache')"
proof (cases "\<exists>t. ExtractFromHints (ic_png fs) hints = Inr t \<and> t \<noteq> []")
  case True
  then show ?thesis using assms(2,3) ExtractFromHints_ok[of "ic_png fs" hints]
    by (auto simp: Extract_def icon_result_def icon_from_def)
next
  case False
  then have "(s, cache') = try_sources
       [ExtractFromPath fs iconName, ExtractFromPath fs (hint_path hints ''image-path''),
        ExtractFromPath fs (hint_path hints ''image_path''), ExtractFromThemedName fs appName iconName] cache"
    using assms(3) by (auto simp: Extract_def ebind_eq_Inr split: if_splits)
  moreover have "icon_result FS \<dots>"
    by (rule try_sources_ok[OF assms(2)]) (auto intro: ExtractFromPath_ok[OF assms(1)] ExtractFromThemedName_ok[OF assms(1)])
  ultimately show ?thesis by simp
qed

lemma Extract_panics: "(\<exists>p. Extract fs appName iconName hints cache = Inl p) \<longleftrightarrow> (\<exists>p. ExtractFromHints (ic_png fs) hints = Inl p)"
  by (auto simp: Extract_def ebind_def split: sum.splits)

text \<open>A sequence of extractions with the one extractor, each with what the file system is at that moment.\<close>

type_synonym icon_request = "icon_files \<times> string \<times> string \<times> (string \<times> dval) list"

fun extractions :: "icon_request list \<Rightarrow> icon_cache \<Rightarrow> (string list \<times> icon_cache) go" where
  "extractions [] cache = Inr ([], cache)"
| "extractions ((fs, appName, iconName, hints) # rs) cache =
     ebind (Extract fs appName iconName hints cache) (\<lambda>(s, cache').
       ebind (extractions rs cache') (\<lambda>(ss, cache''). Inr (s # ss, cache'')))"

lemma extractions_ok:
  "extractions rs cache = Inr (ss, cache') \<Longrightarrow> fst ` set rs \<subseteq> FS \<Longrightarrow> icon_cache_ok FS cache \<Longrightarrow>
   list_all (\<lambda>s. s = [] \<or> icon_from FS s) ss \<and> icon_cache_ok FS cache'"
proof (induction rs cache arbitrary: ss cache' rule: extractions.induct)
  case (2 fs appName iconName hints rs cache)
  from 2(2) obtain s c ss' where e: "Extract fs appName iconName hints cache = Inr (s, c)"
      "extractions rs c = Inr (ss', cache')" "ss = s # ss'"
    by (auto simp: ebind_eq_Inr)
  have "icon_result FS (s, c)" using Extract_ok[OF _ 2(4) e(1)] 2(3) by simp
  then show ?case using 2(1)[OF e(2)] 2(3) e(3) by (simp add: icon_result_def)
qed simp

text \<open>C21: Whatever notifications ask for and whatever the file system holds at each of them, what is attached
  to a notification is nothing, or an inline PNG, SVG or JPEG of at most 150 KB (204826
  characters), or, the one exception, the whole content of an absolute path that is not a
  directory and reports at most 150 KB while it holds more. Everything later extractions take
  from the cache is of the same kinds.\<close>

theorem icons_are_inline_and_bounded:
  assumes "extractions rs [] = Inr (ss, cache)"
  shows "list_all (\<lambda>s. s = [] \<or> inline_icon s \<and> length s \<le> 204826 \<or> oversized_icon (fst ` set rs) s) ss \<and>
    icon_cache_ok (fst ` set rs) cache"
  using extractions_ok[OF assms, of "fst ` set rs"] inline_icon_length
  by (auto simp: icon_from_def icon_cache_ok_def list_all_iff)

definition sample_icons :: icon_files where
  "sample_icons = \<lparr>ic_stat = (\<lambda>p. if p = ''/i.svg'' then Some (3, False) else None), ic_read = (\<lambda>p. if p = ''/i.svg'' then Some ''abc'' else None),
     ic_open = (\<lambda>p. None), ic_readDir = (\<lambda>p. None), ic_glob = (\<lambda>p. None), ic_tree = (\<lambda>p. FGone), ic_home = None, ic_png = (\<lambda>i. None)\<rparr>"

theorem icons_are_inline_and_bounded_witness:
  "extractions [(sample_icons, ''app'', ''/i.svg'', []), (sample_icons, [], ''/j.svg'', [])] [] =
     Inr ([''data:image/svg+xml;base64,YWJj'', []], [(''/i.svg'', ''data:image/svg+xml;base64,YWJj'')]) \<and>
   inline_icon ''data:image/svg+xml;base64,YWJj''"
proof -
  have e: "extractions [(sample_icons, ''app'', ''/i.svg'', []), (sample_icons, [], ''/j.svg'', [])] [] =
     Inr ([''data:image/svg+xml;base64,YWJj'', []], [(''/i.svg'', ''data:image/svg+xml;base64,YWJj'')])" by code_simp
  have no: "\<not> oversized_icon {sample_icons} s" for s by (auto simp: oversized_icon_def sample_icons_def)
  from icons_are_inline_and_bounded[OF e] no show ?thesis using e by simp
qed

text \<open>The exception is real, and has no bound: the content of any path that reports the size 0 is sent
  whole to every client, a notification only has to name it.\<close>

lemma pseudo_file_is_inlined_whole:
  assumes "path_is_abs p" and "\<not> has_prefix p ''file://''" and "ic_stat fs p = Some (0, False)" and "ic_read fs p = Some d"
  shows "Extract fs appName p [] [] = Inr (icon_mime p @ b64_encode d, [(p, icon_mime p @ b64_encode d)])"
proof -
  have "p \<noteq> []" using assms(1) by (auto simp: path_is_abs_def has_prefix_def)
  moreover have "icon_mime p \<noteq> []" by (simp add: icon_mime_def Let_def)
  ultimately show ?thesis using assms
    by (simp add: Extract_def ExtractFromHints_def raw_image_hint_def ExtractFromPath_def icon_load_def)
qed

section \<open>The walk through the icon themes\<close>

fun file_paths :: "string \<Rightarrow> fs_node \<Rightarrow> string list"
  and entry_paths :: "string \<Rightarrow> (string \<times> fs_node) list \<Rightarrow> string list" where
  "file_paths path FGone = []"
| "file_paths path FFile = [path]"
| "file_paths path (FDir None) = []"
| "file_paths path (FDir (Some es)) = entry_paths path es"
| "entry_paths dir [] = []"
| "entry_paths dir ((name, n) # es) = file_paths (path_join [dir, name]) n @ entry_paths dir es"

fun node_visits :: "fs_node \<Rightarrow> nat" and entry_visits :: "(string \<times> fs_node) list \<Rightarrow> nat" where
  "node_visits FGone = 0"
| "node_visits FFile = 1"
| "node_visits (FDir None) = 0"
| "node_visits (FDir (Some es)) = 1 + entry_visits es"
| "entry_visits [] = 0"
| "entry_visits ((name, n) # es) = node_visits n + entry_visits es"

lemma icon_matches_not_Nil [simp]: "\<not> icon_matches icon []"
  by (simp add: icon_matches_def path_base_def)

definition walk_sound :: "string \<Rightarrow> string list \<Rightarrow> walk_state \<Rightarrow> bool \<times> walk_state \<Rightarrow> bool" where
  "walk_sound icon paths st r \<longleftrightarrow> fst (snd r) = fst st \<or> fst (snd r) \<in> set paths \<and> icon_matches icon (fst (snd r))"

definition walk_complete :: "string \<Rightarrow> string list \<Rightarrow> nat \<Rightarrow> walk_state \<Rightarrow> bool \<times> walk_state \<Rightarrow> bool" where
  "walk_complete icon paths budget st r \<longleftrightarrow>
     (snd st + budget \<le> 300 \<longrightarrow>
        snd (snd r) \<le> snd st + budget \<and>
        (fst r \<or> fst st \<noteq> [] \<or> (\<exists>q \<in> set paths. icon_matches icon q) \<longrightarrow> fst (snd r) \<noteq> []))"

lemma walk_correct:
  "walk_sound icon (file_paths path n) st (walk icon path n st) \<and>
   walk_complete icon (file_paths path n) (node_visits n) st (walk icon path n st)"
  "walk_sound icon (entry_paths dir es) st (walk_entries icon dir es st) \<and>
   walk_complete icon (entry_paths dir es) (entry_visits es) st (walk_entries icon dir es st)"
proof (induction icon path n st and icon dir es st rule: walk_walk_entries.induct)
  case (6 icon dir name n es st)
  obtain skip st' where w: "walk icon (path_join [dir, name]) n st = (skip, st')" by (cases "walk icon (path_join [dir, name]) n st")
  show ?case
  proof (cases "skip \<and> \<not> is_dir n")
    case True
    with 6(1) w show ?thesis by (auto simp: walk_sound_def walk_complete_def)
  next
    case False
    have "walk_entries icon dir ((name, n) # es) st = walk_entries icon dir es st'" using False by (auto simp: w)
    then show ?thesis using 6(1) 6(2)[OF w[symmetric] refl False] w
      by (auto simp: walk_sound_def walk_complete_def)
  qed
qed (auto simp: walk_sound_def walk_complete_def walk_visit_def Let_def split: prod.splits)

text \<open>C31: The search of an icon theme finds only files of the wanted name below the directory; and if the
  directory has no more entries than the search may visit, it finds one whenever there is one.\<close>

theorem icon_walk_finds_icon:
  "(walk_icon icon dir n \<noteq> [] \<longrightarrow> walk_icon icon dir n \<in> set (file_paths dir n) \<and> icon_matches icon (walk_icon icon dir n)) \<and>
   (node_visits n \<le> 300 \<longrightarrow> (walk_icon icon dir n \<noteq> [] \<longleftrightarrow> (\<exists>q \<in> set (file_paths dir n). icon_matches icon q)))"
  using walk_correct(1)[of icon dir n "([], 0)"] by (auto simp: walk_icon_def walk_sound_def walk_complete_def)

definition sample_theme :: fs_node where
  "sample_theme = FDir (Some [(''a'', FDir None), (''b'', FDir (Some [(''x.png'', FFile), (''y.svg'', FFile)])), (''c'', FGone)])"

theorem icon_walk_finds_icon_witness:
  "walk_icon ''y'' ''/t'' sample_theme \<noteq> [] \<and> walk_icon ''y'' ''/t'' sample_theme \<in> set (file_paths ''/t'' sample_theme)"
proof -
  have "node_visits sample_theme \<le> 300" "\<exists>q \<in> set (file_paths ''/t'' sample_theme). icon_matches ''y'' q" by code_simp+
  with icon_walk_finds_icon[of "''y''" "''/t''" sample_theme] show ?thesis by blast
qed

end
