(* ===== verification/Start_Cli.thy ===== *)
theory Start_Cli
  imports Engine_System Mpris_Manager Mpris_Mock Host_Reader Mock_Reader Adb_Client Notification_Manager Icon_Extractor
begin

text \<open>
  The \<^verbatim>\<open>start\<close> command line (\<^verbatim>\<open>cmd/start.go\<close>): how flags override the settings, which log level results,
  which provider each component gets (a real one, or an emulated one on request or when the
  bus cannot be reached), and how the engine's outcome becomes the outcome of the command.
  The emulated ADB client (\<^verbatim>\<open>pkg/adb/mock_client.go\<close>) is here too.
\<close>

section \<open>The emulated ADB client\<close>

record MockADBClient =
  ma_serial :: string

definition NewMockADBClient :: MockADBClient where
  "NewMockADBClient = \<lparr>ma_serial = ''MOCK_DEVICE_12345''\<rparr>"

text \<open>The events on the channel until it is closed, and whether the context ended during the first wait.\<close>

definition mock_TrackDevices :: "bool \<Rightarrow> MockADBClient \<Rightarrow> adb_error + DeviceEvent list" where
  "mock_TrackDevices cancelledEarly c = Inr (if cancelledEarly then [] else [\<lparr>ev_Serial = ma_serial c, ev_State = StateOnline\<rparr>])"

definition mock_ReversePort :: "string \<Rightarrow> int \<Rightarrow> int \<Rightarrow> MockADBClient \<Rightarrow> adb_error option" where
  "mock_ReversePort serial localPort devicePort c = None"

definition mock_LaunchApp :: "string \<Rightarrow> string \<Rightarrow> string \<Rightarrow> MockADBClient \<Rightarrow> adb_error option" where
  "mock_LaunchApp serial pkg activity c = None"

definition mock_WakeDevice :: "string \<Rightarrow> MockADBClient \<Rightarrow> adb_error option" where
  "mock_WakeDevice serial c = None"

definition mock_SleepDevice :: "string \<Rightarrow> MockADBClient \<Rightarrow> adb_error option" where
  "mock_SleepDevice serial c = None"

definition mock_CloseApp :: "string \<Rightarrow> string \<Rightarrow> MockADBClient \<Rightarrow> adb_error option" where
  "mock_CloseApp serial pkg c = None"

section \<open>Flags\<close>

record start_flags =
  configPath :: string
  emulateMetrics :: bool
  mockADB :: bool
  mockNotifications :: bool
  mockLock :: bool
  mockDPMS :: bool
  portFlag :: int
  verbose :: bool
  logLevel :: string
  logFormat :: string
  noAppControl :: bool

text \<open>The values the options have when they are not given.\<close>

definition default_start_flags :: start_flags where
  "default_start_flags = \<lparr>configPath = [], emulateMetrics = False, mockADB = False, mockNotifications = False, mockLock = False,
     mockDPMS = False, portFlag = 0, verbose = False, logLevel = [], logFormat = [], noAppControl = False\<rparr>"

definition cli_flags :: "start_flags \<Rightarrow> (string \<times> cval) list" where
  "cli_flags f =
     (if portFlag f \<noteq> 0 then [(''server.port'', VInt (portFlag f))] else [])
     @ (if logLevel f \<noteq> [] then [(''daemon.log_level'', VStr (logLevel f))] else [])
     @ (if logFormat f \<noteq> [] then [(''daemon.log_format'', VStr (logFormat f))] else [])
     @ (if noAppControl f then [(''adb.no_app_control'', VBool True)] else [])"

definition override_verbose :: "bool \<Rightarrow> Config \<Rightarrow> Config" where
  "override_verbose v cfg = (if v then cfg\<lparr>cf_Daemon := (cf_Daemon cfg)\<lparr>dc_LogLevel := ''debug''\<rparr>\<rparr> else cfg)"

datatype log_level = LevelDebug | LevelInfo | LevelWarn | LevelError

definition slog_level :: "string \<Rightarrow> log_level" where
  "slog_level s =
     (let l = to_lower s in
      if l = ''debug'' then LevelDebug
      else if l = ''info'' then LevelInfo
      else if l = ''warn'' \<or> l = ''warning'' then LevelWarn
      else if l = ''error'' then LevelError
      else LevelInfo)"

datatype log_handler = JSONHandler | TextHandler

definition slog_handler :: "string \<Rightarrow> log_handler" where
  "slog_handler s = (if to_lower s = ''json'' then JSONHandler else TextHandler)"

section \<open>Providers\<close>

datatype ('r, 'm) provider = Real 'r | Mock 'm

definition resolve :: "bool \<Rightarrow> string + 'r \<Rightarrow> 'm \<Rightarrow> ('r, 'm) provider" where
  "resolve mocked made m = (if mocked then Mock m else case made of Inl _ \<Rightarrow> Mock m | Inr r \<Rightarrow> Real r)"

record DbusNotificationManager =
  dn_extractor :: icon_cache

definition NewDbusNotificationManager :: "bool \<Rightarrow> string + DbusNotificationManager" where
  "NewDbusNotificationManager sessionOk =
     (if sessionOk then Inr \<lparr>dn_extractor = []\<rparr> else Inl ''failed to connect to session bus for publishing'')"

text \<open>Whether each connection that is tried can be made.\<close>

record buses =
  bus_notifications :: bool
  bus_mpris :: bool
  bus_lockSession :: bool
  bus_lockSystem :: bool
  bus_power :: bool
  bus_dpms :: bool

record providers =
  pv_metrics :: "(HostMetricsReader, MockMetricsReader) provider"
  pv_adb :: "(SocketADBClient, MockADBClient) provider"
  pv_notifications :: "(DbusNotificationManager, MockNotificationManager) provider"
  pv_mpris :: "(DbusMPRISManager, MockMPRISManager) provider"
  pv_lock :: "(DbusLockManager, unit) provider"
  pv_power :: "(DbusPowerProfilesManager, MockPowerProfilesManager) provider"
  pv_dpms :: "(DbusDpmsManager, unit) provider"

definition choose_providers :: "host \<Rightarrow> buses \<Rightarrow> start_flags \<Rightarrow> Config \<Rightarrow> providers" where
  "choose_providers h b f cfg =
     \<lparr>pv_metrics = (if emulateMetrics f then Mock NewMockMetricsReader else Real (NewHostMetricsReader h)),
      pv_adb = (if mockADB f then Mock NewMockADBClient
                else Real (NewSocketADBClient (ac_ServerHost (cf_ADB cfg)) (ac_ServerPort (cf_ADB cfg)))),
      pv_notifications = resolve (mockNotifications f) (NewDbusNotificationManager (bus_notifications b)) NewMockNotificationManager,
      pv_mpris = resolve (emulateMetrics f) (NewDbusMPRISManager (bus_mpris b)) NewMockMPRISManager,
      pv_lock = resolve (mockLock f) (NewDbusLockManager (bus_lockSession b) (bus_lockSystem b)) (),
      pv_power = resolve (emulateMetrics f) (NewDbusPowerProfilesManager (bus_power b)) NewMockPowerProfilesManager,
      pv_dpms = resolve (mockDPMS f \<or> emulateMetrics f) (NewDbusDpmsManager (bus_dpms b)) ()\<rparr>"

section \<open>The command\<close>

record daemon_setup =
  ds_cfg :: Config
  ds_level :: log_level
  ds_handler :: log_handler
  ds_providers :: providers

text \<open>Everything up to the start of the engine.\<close>

definition StartCmd ::
  "'k koanf \<Rightarrow> process_env \<Rightarrow> (string \<Rightarrow> stat) \<Rightarrow> host \<Rightarrow> buses \<Rightarrow> start_flags \<Rightarrow> config_error + daemon_setup" where
  "StartCmd kf en fstat h b f =
     ebind (LoadConfig kf en fstat (configPath f) (cli_flags f)) (\<lambda>loaded.
       let cfg = override_verbose (verbose f) loaded in
       Inr \<lparr>ds_cfg = cfg, ds_level = slog_level (dc_LogLevel (cf_Daemon cfg)), ds_handler = slog_handler (dc_LogFormat (cf_Daemon cfg)),
            ds_providers = choose_providers h b f cfg\<rparr>)"

text \<open>What the command returns for the result of \<^verbatim>\<open>engine.Start\<close>; the flag says whether the error is a
  cancelled context.\<close>

definition start_result :: "string option \<Rightarrow> bool \<Rightarrow> string option" where
  "start_result err cancelled = (case err of None \<Rightarrow> None | Some e \<Rightarrow> if cancelled then None else Some e)"

section \<open>Properties\<close>

text \<open>Without options nothing overrides the configuration, and no component is emulated on request.\<close>

lemma no_flags_no_overrides: "cli_flags default_start_flags = []" "override_verbose (verbose default_start_flags) cfg = cfg"
  by (simp_all add: cli_flags_def default_start_flags_def override_verbose_def)

definition is_real :: "('r, 'm) provider \<Rightarrow> bool" where
  "is_real p = (case p of Real _ \<Rightarrow> True | Mock _ \<Rightarrow> False)"

lemma is_real_simps [simp]: "is_real (Real r)" "\<not> is_real (Mock m)"
  by (simp_all add: is_real_def)

lemma connected_iff:
  "isl (NewDbusNotificationManager ok) \<longleftrightarrow> \<not> ok" "isl (NewDbusMPRISManager ok) \<longleftrightarrow> \<not> ok"
  "isl (NewDbusLockManager ok ok') \<longleftrightarrow> \<not> (ok \<or> ok')" "isl (NewDbusPowerProfilesManager ok) \<longleftrightarrow> \<not> ok"
  "isl (NewDbusDpmsManager ok) \<longleftrightarrow> \<not> ok"
  by (simp_all add: NewDbusNotificationManager_def NewDbusMPRISManager_def NewDbusLockManager_def
      NewDbusPowerProfilesManager_def NewDbusDpmsManager_def)

lemma is_real_resolve [simp]: "is_real (resolve mocked made m) \<longleftrightarrow> \<not> mocked \<and> \<not> isl made"
  by (cases made) (simp_all add: resolve_def)

text \<open>The command fails exactly when the settings cannot be loaded. No missing bus stops it: each component
  is the real one exactly if it is not emulated on request and its bus (for the session
  lock, one of two) can be reached. Being verbose wins over every other source of the log level.\<close>

theorem start_survives_missing_buses:
  "case LoadConfig kf en fstat (configPath f) (cli_flags f) of
     Inl err \<Rightarrow> StartCmd kf en fstat h b f = Inl err
   | Inr loaded \<Rightarrow> (case StartCmd kf en fstat h b f of
       Inl err \<Rightarrow> False
     | Inr s \<Rightarrow>
         (let p = ds_providers s in
          is_real (pv_metrics p) = (\<not> emulateMetrics f) \<and> is_real (pv_adb p) = (\<not> mockADB f) \<and>
          is_real (pv_notifications p) = (\<not> mockNotifications f \<and> bus_notifications b) \<and>
          is_real (pv_mpris p) = (\<not> emulateMetrics f \<and> bus_mpris b) \<and>
          is_real (pv_lock p) = (\<not> mockLock f \<and> (bus_lockSession b \<or> bus_lockSystem b)) \<and>
          is_real (pv_power p) = (\<not> emulateMetrics f \<and> bus_power b) \<and>
          is_real (pv_dpms p) = (\<not> (mockDPMS f \<or> emulateMetrics f) \<and> bus_dpms b)) \<and>
         ds_level s = (if verbose f then LevelDebug else slog_level (dc_LogLevel (cf_Daemon loaded))) \<and>
         cf_ADB (ds_cfg s) = cf_ADB loaded \<and> cf_Server (ds_cfg s) = cf_Server loaded)"
proof (cases "LoadConfig kf en fstat (configPath f) (cli_flags f)")
  case (Inr loaded)
  have "slog_level ''debug'' = LevelDebug" by code_simp
  then show ?thesis
    by (simp add: Inr StartCmd_def Let_def choose_providers_def override_verbose_def connected_iff)
qed (simp add: StartCmd_def)

text \<open>What the loader relies on of \<^verbatim>\<open>Unmarshal\<close> for one flag: the field is set from its key.\<close>

definition unmarshals_no_app_control :: "'k koanf \<Rightarrow> ('k \<Rightarrow> string \<Rightarrow> cval option) \<Rightarrow> bool" where
  "unmarshals_no_app_control kf look \<longleftrightarrow> (\<forall>k cfg. kf_unmarshal kf k = Inr cfg \<longrightarrow>
     look k ''adb.no_app_control'' = Some (VBool True) \<longrightarrow> ac_NoAppControl (cf_ADB cfg))"

lemma cli_flags_no_app_control:
  assumes "noAppControl f"
  shows "no_conflicts ''adb.no_app_control'' (cli_flags f)"
    and "map_of (rev (effective_flags (cli_flags f))) ''adb.no_app_control'' = Some (VBool True)"
  using assms by (simp_all add: cli_flags_def no_conflicts_def key_conflict_def has_prefix_def effective_flags_def cli_skipped_def)

text \<open>C11: The flag \<^verbatim>\<open>--no-app-control\<close> works from end to end: whatever the configuration file and the environment
  say, a daemon started with it never wakes, sleeps, launches or closes anything on a device,
  in any sequence of events, provided the configuration library merges and unmarshals as
  documented.\<close>

theorem no_app_control_flag_works:
  assumes "noAppControl f" and "koanf_merges kf look dflt content ''adb.no_app_control''" and "unmarshals_no_app_control kf look"
    and "StartCmd kf en fstat h b f = Inr s" and "positive_intervals (ds_cfg s)"
    and "ebind (boot (ds_cfg s)) (run_ops (engine_exec x) ops) = Inr (period, e)"
  shows "list_all (\<lambda>y. \<not> controls_app y) (en_effects e)"
proof -
  obtain loaded where l: "LoadConfig kf en fstat (configPath f) (cli_flags f) = Inr loaded" "ds_cfg s = override_verbose (verbose f) loaded"
    using assms(4) by (auto simp: StartCmd_def ebind_eq_Inr Let_def)
  then obtain k k3 where k: "merge_flags kf (cli_flags f) k3 = Inr k" "kf_unmarshal kf k = Inr loaded"
    by (auto simp: LoadConfig_def load_store_def ebind_eq_Inr)
  have "look k ''adb.no_app_control'' = Some (VBool True)"
    using merge_flags_lookup[OF assms(2) k(1)] cli_flags_no_app_control[OF assms(1)] by simp
  then have "ac_NoAppControl (cf_ADB (ds_cfg s))"
    using assms(3) k(2) l(2) by (simp add: unmarshals_no_app_control_def override_verbose_def)
  then show ?thesis using boot_run[OF assms(5,6)] by (simp add: engine_ok_def effects_ok_def)
qed

definition start_koanf :: "(string \<times> cval) list koanf" where
  "start_koanf = sample_koanf\<lparr>kf_unmarshal := (\<lambda>k. Inr (sample_config\<lparr>cf_ADB := (cf_ADB sample_config)
     \<lparr>ac_NoAppControl := (map_of k ''adb.no_app_control'' = Some (VBool True))\<rparr>\<rparr>))\<rparr>"

definition no_control_flags :: start_flags where
  "no_control_flags = \<lparr>configPath = [], emulateMetrics = True, mockADB = True, mockNotifications = True, mockLock = True, mockDPMS = True,
     portFlag = 0, verbose = True, logLevel = [], logFormat = ''json'', noAppControl = True\<rparr>"

theorem no_app_control_flag_works_witness:
  "\<forall>h b. \<exists>s period e. StartCmd start_koanf \<lparr>pe_vars = [], pe_home = None, pe_tmp = ''/tmp''\<rparr> (\<lambda>_. NotExist) h b no_control_flags = Inr s \<and>
     ebind (boot (ds_cfg s)) (run_ops (engine_exec sample_outside)
       [ODevice (online_ev ''AB''), ODpms \<lparr>dp_State = ''off''\<rparr>, OCleanup]) = Inr (period, e) \<and>
     list_all (\<lambda>y. \<not> controls_app y) (en_effects e)"
proof (intro allI)
  fix h b
  let ?en = "\<lparr>pe_vars = [], pe_home = None, pe_tmp = ''/tmp''\<rparr>"
  let ?ops = "[ODevice (online_ev ''AB''), ODpms \<lparr>dp_State = ''off''\<rparr>, OCleanup]"
  have m: "koanf_merges start_koanf map_of config_pairs (\<lambda>p ps. [(''server.port'', VInt 9000)]) ''adb.no_app_control''"
    using sample_koanf_merges[of "''adb.no_app_control''"] by (simp add: koanf_merges_def start_koanf_def)
  have u: "unmarshals_no_app_control start_koanf map_of" by (simp add: unmarshals_no_app_control_def start_koanf_def)
  obtain s where s: "StartCmd start_koanf ?en (\<lambda>_. NotExist) h b no_control_flags = Inr s"
    by (simp add: StartCmd_def LoadConfig_def load_store_def load_file_def choose_config_path_def start_koanf_def sample_koanf_def
        cli_flags_def no_control_flags_def wrap_err_def cli_skipped_def Let_def)
  then have pos: "positive_intervals (ds_cfg s)"
    using sample_positive by (auto simp: StartCmd_def LoadConfig_def ebind_eq_Inr Let_def start_koanf_def positive_intervals_def
        override_verbose_def)
  obtain period e where r: "ebind (boot (ds_cfg s)) (run_ops (engine_exec sample_outside) ?ops) = Inr (period, e)"
    using boot_runs[OF pos] by (metis surj_pair)
  with s no_app_control_flag_works[OF _ m u s pos r] show "\<exists>s period e. StartCmd start_koanf ?en (\<lambda>_. NotExist) h b no_control_flags = Inr s \<and>
     ebind (boot (ds_cfg s)) (run_ops (engine_exec sample_outside) ?ops) = Inr (period, e) \<and>
     list_all (\<lambda>y. \<not> controls_app y) (en_effects e)" by (auto simp: no_control_flags_def)
qed

end
