(* ===== verification/Wire_Format.thy ===== *)
theory Wire_Format
  imports Json_Encode Engine_System Mpris_Manager
begin

text \<open>
  Which messages of the WebSocket server can be encoded at all. \<^verbatim>\<open>WriteJSON\<close> fails, for every client
  alike, on a message that holds a float that is not finite, and a broadcast takes a failed
  write for a dead connection.
\<close>

section \<open>Messages that can be encoded\<close>

fun f64_finite :: "f64 \<Rightarrow> bool" where
  "f64_finite (Fin q) = True"
| "f64_finite _ = False"

text \<open>The other messages hold no floats, except for the hints of a notification, of which nothing is
  said here.\<close>

definition encoding_fails :: "ws_msg \<Rightarrow> bool" where
  "encoding_fails msg =
     (case msg of
        TelemetryMsg _ m \<Rightarrow> isl (encode_SystemMetrics m)
      | MediaMsg _ ev \<Rightarrow> isl (encode_MediaEvent ev)
      | _ \<Rightarrow> False)"

text \<open>\<^verbatim>\<open>WriteJSON\<close> returns the error of the encoder.\<close>

definition writes_encode :: "'h world \<Rightarrow> bool" where
  "writes_encode w \<longleftrightarrow> (\<forall>c m. encoding_fails m \<longrightarrow> \<not> w_up w c m)"

lemma isl_encode_f64: "isl (encode_f64 x) \<longleftrightarrow> \<not> f64_finite x"
  by (cases x) (simp_all add: encode_f64_def)

lemma isl_ebind: "isl (ebind r f) \<longleftrightarrow> isl r \<or> (\<exists>x. r = Inr x \<and> isl (f x))"
  by (cases r) auto

lemma isl_json_fields: "isl (json_fields kvs) \<longleftrightarrow> (\<exists>kv \<in> set kvs. isl (snd kv))"
proof (induction kvs)
  case (Cons kv kvs)
  then show ?case by (cases kv; cases "snd kv"; cases "json_fields kvs") auto
qed simp

lemma isl_json_object: "isl (json_object kvs) \<longleftrightarrow> (\<exists>kv \<in> set kvs. isl (snd kv))"
  by (simp add: json_object_def isl_ebind isl_json_fields)

lemma isl_encode_elems: "isl (encode_elems f xs) \<longleftrightarrow> (\<exists>x \<in> set xs. isl (f x))"
proof (induction xs)
  case (Cons x xs)
  then show ?case by (cases "f x"; cases "encode_elems f xs") auto
qed simp

lemma isl_encode_slice: "isl (encode_slice f xs) \<longleftrightarrow> (\<exists>x \<in> set xs. isl (f x))"
  by (cases "xs = []") (auto simp: encode_slice_def isl_ebind isl_encode_elems)

lemma isl_encode_simps [simp]: "\<not> isl (encode_string s)" "\<not> isl (encode_sint n)"
  by (simp_all add: encode_string_def encode_sint_def)

lemma isl_encode_strings [simp]: "\<not> isl (encode_slice encode_string ss)"
  by (simp add: isl_encode_slice)

lemma media_encodable: "isl (encode_MediaEvent ev) \<longleftrightarrow> \<not> list_all (\<lambda>p. f64_finite (ps_Volume p)) (ActivePlayers ev)"
  by (auto simp: encode_MediaEvent_def encode_PlayerState_def encode_PlayerMetadata_def isl_json_object isl_encode_slice
      isl_encode_f64 list_all_iff)

section \<open>One message that cannot be encoded\<close>

lemma unencodable_broadcast:
  assumes "writes_encode w" and "pool_ok (en_pool e)" and "encoding_fails m"
  shows "pl_conns (en_pool (ws_broadcast w m e)) = []" and "pl_sent (en_pool (ws_broadcast w m e)) = pl_sent (en_pool e)"
    and "set (pl_closed (en_pool (ws_broadcast w m e))) = set (pl_closed (en_pool e)) \<union> set (pl_conns (en_pool e))"
proof -
  have up: "\<not> w_up w c m" for c using assms(1,3) by (auto simp: writes_encode_def)
  then show "pl_conns (en_pool (ws_broadcast w m e)) = []" "pl_sent (en_pool (ws_broadcast w m e)) = pl_sent (en_pool e)"
    "set (pl_closed (en_pool (ws_broadcast w m e))) = set (pl_closed (en_pool e)) \<union> set (pl_conns (en_pool e))"
    using pool_Broadcast_effect[OF assms(2), of "w_up w" m] by auto
qed

lemma on_media_runs:
  assumes "engine_ok cfg (p, e)"
  shows "\<exists>e'. on_media w ev e = Inr e' \<and> en_pool e' = en_pool (ws_broadcast w (MediaMsg (w_now w) ev) e)"
proof -
  obtain e' where e': "on_media w ev e = Inr e'"
    using rpc_broadcast_safe[OF server_safe_broadcasts(3) engine_ok_ws_broadcast[OF assms]] by (fastforce simp: on_media_def)
  then show ?thesis by (auto simp: on_media_def rpc_broadcast_Inr)
qed

lemma bad_volume_event:
  assumes "engine_ok cfg (period, e)" and "writes_encode w" and "p \<in> set (ActivePlayers ev)" and "\<not> f64_finite (ps_Volume p)"
  shows "\<exists>e'. on_media w ev e = Inr e' \<and> pl_conns (en_pool e') = [] \<and> pl_sent (en_pool e') = pl_sent (en_pool e) \<and>
     set (pl_closed (en_pool e')) = set (pl_closed (en_pool e)) \<union> set (pl_conns (en_pool e))"
proof -
  have "encoding_fails (MediaMsg (w_now w) ev)"
    using assms(3,4) by (auto simp: encoding_fails_def media_encodable list_all_iff)
  note b = unencodable_broadcast[OF assms(2) engine_okD(2)[OF assms(1)] this]
  from on_media_runs[OF assms(1), of w ev] b show ?thesis by metis
qed

text \<open>The media manager takes the volume of a signal as it is and queues the state for the engine.\<close>

definition volume_signal :: "string \<Rightarrow> f64 \<Rightarrow> signal" where
  "volume_signal owner x = \<lparr>sg_Sender = owner, sg_Path = ''/org/mpris/MediaPlayer2'',
     sg_Name = ''org.freedesktop.DBus.Properties.PropertiesChanged'',
     sg_Body = [DStr ''org.mpris.MediaPlayer2.Player'', DMap [(''Volume'', DF64 x)], DArr []]\<rparr>"

lemma volume_signal_queued:
  assumes "map_of (mm_activePlayers m) owner = Some p" and "mm_eventsChan m = Some c" and "\<not> ch_closed c"
    and "length (ch_buf c) < ch_cap c"
  shows "\<exists>m' ev. mpris_handleDbusSignal env (volume_signal owner x) m = Inr m' \<and>
    mm_eventsChan m' = Some (c\<lparr>ch_buf := ch_buf c @ [ev]\<rparr>) \<and> p\<lparr>ps_Volume := x\<rparr> \<in> set (ActivePlayers ev)"
proof -
  let ?ps = "AList.update owner (p\<lparr>ps_Volume := x\<rparr>) (mm_activePlayers m)"
  let ?ev = "\<lparr>ActivePlayers = map snd ?ps\<rparr>"
  let ?m = "m\<lparr>mm_activePlayers := ?ps, mm_eventsChan := Some (c\<lparr>ch_buf := ch_buf c @ [?ev]\<rparr>)\<rparr>"
  have "map_of ?ps owner = Some (p\<lparr>ps_Volume := x\<rparr>)" by (simp add: update_conv')
  then have mem: "p\<lparr>ps_Volume := x\<rparr> \<in> set (ActivePlayers ?ev)" by (force dest: map_of_SomeD)
  have "mpris_handleDbusSignal env (volume_signal owner x) m = Inr ?m"
    using assms by (simp add: mpris_handleDbusSignal_def volume_signal_def map_or_empty_def str_or_empty_def as_string_def
        mpris_properties_def apply_metadata_def apply_volume_def apply_status_def mpris_broadcastState_def try_send_def)
  with mem show ?thesis by (intro exI[of _ ?m] exI[of _ ?ev]) simp
qed

text \<open>C38: any media player can disconnect every dashboard. When a registered player signals a volume that is not
  finite, the media manager queues an event for the engine, provided that its channel has room; and
  after any history of the daemon, the engine's broadcast of that event closes and removes all
  WebSocket clients without having sent anything, because the event cannot be encoded.\<close>

theorem bad_volume_disconnects_everyone:
  assumes "positive_intervals cfg" and "ebind (boot cfg) (run_ops (engine_exec y) ops) = Inr (period, e)" and "writes_encode w"
    and "map_of (mm_activePlayers m) owner = Some p" and "mm_eventsChan m = Some c" and "\<not> ch_closed c"
    and "length (ch_buf c) < ch_cap c" and "\<not> f64_finite x"
  shows "\<exists>m' ev e'. mpris_handleDbusSignal env (volume_signal owner x) m = Inr m' \<and>
     mm_eventsChan m' = Some (c\<lparr>ch_buf := ch_buf c @ [ev]\<rparr>) \<and> on_media w ev e = Inr e' \<and>
     pl_conns (en_pool e') = [] \<and> pl_sent (en_pool e') = pl_sent (en_pool e) \<and>
     set (pl_closed (en_pool e')) = set (pl_closed (en_pool e)) \<union> set (pl_conns (en_pool e))"
proof -
  obtain m' ev where m': "mpris_handleDbusSignal env (volume_signal owner x) m = Inr m'"
      "mm_eventsChan m' = Some (c\<lparr>ch_buf := ch_buf c @ [ev]\<rparr>)" "p\<lparr>ps_Volume := x\<rparr> \<in> set (ActivePlayers ev)"
    using volume_signal_queued[OF assms(4-7)] by blast
  with bad_volume_event[OF boot_run[OF assms(1,2)] assms(3) m'(3)] assms(8) show ?thesis by fastforce
qed

definition encoding_world :: "unit world" where
  "encoding_world = sample_world\<lparr>w_up := (\<lambda>c m. \<not> encoding_fails m)\<rparr>"

lemma encoding_world_writes: "writes_encode encoding_world"
  by (simp add: writes_encode_def encoding_world_def)

theorem bad_volume_disconnects_everyone_witness:
  "\<exists>period e m' ev e'. ebind (boot sample_config) (run_ops (engine_exec sample_outside) [OConnect 1, OConnect 2]) = Inr (period, e) \<and>
     mpris_handleDbusSignal sample_bus (volume_signal '':1.7'' NaN) sample_players = Inr m' \<and>
     map_option ch_buf (mm_eventsChan m') = Some [ev] \<and>
     on_media encoding_world ev e = Inr e' \<and> pl_conns (en_pool e') = []"
proof -
  obtain period e where st: "ebind (boot sample_config) (run_ops (engine_exec sample_outside) [OConnect 1, OConnect 2]) = Inr (period, e)"
    using boot_runs[OF sample_positive] by (metis surj_pair)
  have "\<exists>p. map_of (mm_activePlayers sample_players) '':1.7'' = Some p" "mm_eventsChan sample_players = Some (make_chan 50)"
    by (simp_all add: sample_players_def)
  then show ?thesis
    using bad_volume_disconnects_everyone[OF sample_positive st encoding_world_writes, of sample_players "'':1.7''" _ "make_chan 50" NaN sample_bus] st
    by fastforce
qed

end
