(* ===== verification/Http_Routes.thy ===== *)
theory Http_Routes
  imports Connection_Pool Adb_Client
begin

text \<open>
  The HTTP side of the daemon: the request multiplexer, the routes that \<^verbatim>\<open>websocket/server.go\<close>,
  \<^verbatim>\<open>connectrpc/server.go\<close> and the generated service handlers mount on it, the server \<^verbatim>\<open>Start\<close> runs, and the calls of the
  generated clients.
  Request paths are those without percent escapes.
\<close>

section \<open>The request multiplexer\<close>

datatype rpc_method =
    MStreamTelemetry
  | MStreamNotifications | MSendNotification | MTriggerNotificationAction | MDismissNotification
  | MStreamMediaState | MSendMediaCommand
  | MStreamSystemState | MExecuteSystemAction | MSetPowerProfile
  | MStreamBluetoothState

text \<open>What a request is answered by: the WebSocket upgrade, or the handler of a unary or of a server
  streaming procedure.\<close>

datatype endpoint = WsUpgrade | Unary rpc_method | ServerStream rpc_method

text \<open>A handler answers a path with one of the daemon's endpoints, or with \<^verbatim>\<open>http.NotFound\<close>.\<close>

type_synonym http_handler = "string \<Rightarrow> endpoint option"

type_synonym serve_mux = "(string \<times> http_handler) list"

text \<open>\<^verbatim>\<open>ServeMux.Handle\<close> for patterns without method, host and wildcards: such patterns conflict only if they
  are equal, and registering an empty or a conflicting one panics.\<close>

definition mux_Handle :: "string \<times> http_handler \<Rightarrow> serve_mux \<Rightarrow> serve_mux go" where
  "mux_Handle ph mux =
     (if fst ph = [] \<or> fst ph \<in> set (map fst mux) then Inl (PatternConflict (fst ph)) else Inr (mux @ [ph]))"

text \<open>\<^verbatim>\<open>cleanPath\<close> of \<^verbatim>\<open>net/http\<close>.\<close>

definition request_clean :: "string \<Rightarrow> string" where
  "request_clean p =
     (if p = [] then ''/''
      else let q = (if hd p = CHR ''/'' then p else CHR ''/'' # p); np = path_clean q
           in if last q = CHR ''/'' \<and> np \<noteq> ''/'' then np @ ''/'' else np)"

text \<open>A pattern that ends in a slash matches the subtree below it, any other only itself; the longest
  match wins.\<close>

definition pattern_matches :: "string \<Rightarrow> string \<Rightarrow> bool" where
  "pattern_matches pat path = (if last pat = CHR ''/'' then has_prefix path pat else path = pat)"

definition mux_match :: "serve_mux \<Rightarrow> string \<Rightarrow> (string \<times> http_handler) option" where
  "mux_match mux path =
     fold (\<lambda>ph best. if pattern_matches (fst ph) path \<and>
             (case best of None \<Rightarrow> True | Some b \<Rightarrow> length (fst b) < length (fst ph))
           then Some ph else best) mux None"

datatype routed = Served endpoint | NotFound | Redirect string

text \<open>A path that only lacks the slash of a subtree pattern, and a path that is not clean, is redirected.\<close>

definition mux_serve :: "serve_mux \<Rightarrow> string \<Rightarrow> routed" where
  "mux_serve mux path =
     (let p = request_clean path in
      if p \<notin> set (map fst mux) \<and> last p \<noteq> CHR ''/'' \<and> p @ ''/'' \<in> set (map fst mux) then Redirect (p @ ''/'')
      else if p \<noteq> path then Redirect p
      else case mux_match mux p of
          None \<Rightarrow> NotFound
        | Some (_, h) \<Rightarrow> (case h p of None \<Rightarrow> NotFound | Some ep \<Rightarrow> Served ep))"

section \<open>The generated code\<close>

subsection \<open>Procedures\<close>

definition TelemetryServiceStreamTelemetryProcedure :: string where
  "TelemetryServiceStreamTelemetryProcedure = ''/pcd.v1.TelemetryService/StreamTelemetry''"

definition NotificationServiceStreamNotificationsProcedure :: string where
  "NotificationServiceStreamNotificationsProcedure = ''/pcd.v1.NotificationService/StreamNotifications''"

definition NotificationServiceSendNotificationProcedure :: string where
  "NotificationServiceSendNotificationProcedure = ''/pcd.v1.NotificationService/SendNotification''"

definition NotificationServiceTriggerNotificationActionProcedure :: string where
  "NotificationServiceTriggerNotificationActionProcedure = ''/pcd.v1.NotificationService/TriggerNotificationAction''"

definition NotificationServiceDismissNotificationProcedure :: string where
  "NotificationServiceDismissNotificationProcedure = ''/pcd.v1.NotificationService/DismissNotification''"

definition MediaServiceStreamMediaStateProcedure :: string where
  "MediaServiceStreamMediaStateProcedure = ''/pcd.v1.MediaService/StreamMediaState''"

definition MediaServiceSendMediaCommandProcedure :: string where
  "MediaServiceSendMediaCommandProcedure = ''/pcd.v1.MediaService/SendMediaCommand''"

definition SystemServiceStreamSystemStateProcedure :: string where
  "SystemServiceStreamSystemStateProcedure = ''/pcd.v1.SystemService/StreamSystemState''"

definition SystemServiceExecuteSystemActionProcedure :: string where
  "SystemServiceExecuteSystemActionProcedure = ''/pcd.v1.SystemService/ExecuteSystemAction''"

definition SystemServiceSetPowerProfileProcedure :: string where
  "SystemServiceSetPowerProfileProcedure = ''/pcd.v1.SystemService/SetPowerProfile''"

definition BluetoothServiceStreamBluetoothStateProcedure :: string where
  "BluetoothServiceStreamBluetoothStateProcedure = ''/pcd.v1.BluetoothService/StreamBluetoothState''"

lemmas procedures =
  TelemetryServiceStreamTelemetryProcedure_def
  NotificationServiceStreamNotificationsProcedure_def
  NotificationServiceSendNotificationProcedure_def
  NotificationServiceTriggerNotificationActionProcedure_def
  NotificationServiceDismissNotificationProcedure_def
  MediaServiceStreamMediaStateProcedure_def
  MediaServiceSendMediaCommandProcedure_def
  SystemServiceStreamSystemStateProcedure_def
  SystemServiceExecuteSystemActionProcedure_def
  SystemServiceSetPowerProfileProcedure_def
  BluetoothServiceStreamBluetoothStateProcedure_def

subsection \<open>Handlers\<close>

text \<open>The path to mount a handler on, and the switch on the procedure.\<close>

definition NewTelemetryServiceHandler :: "string \<times> http_handler" where
  "NewTelemetryServiceHandler = (''/pcd.v1.TelemetryService/'', \<lambda>path.
     if path = TelemetryServiceStreamTelemetryProcedure then Some (ServerStream MStreamTelemetry)
     else None)"

definition NewNotificationServiceHandler :: "string \<times> http_handler" where
  "NewNotificationServiceHandler = (''/pcd.v1.NotificationService/'', \<lambda>path.
     if path = NotificationServiceStreamNotificationsProcedure then Some (ServerStream MStreamNotifications)
     else if path = NotificationServiceSendNotificationProcedure then Some (Unary MSendNotification)
     else if path = NotificationServiceTriggerNotificationActionProcedure then Some (Unary MTriggerNotificationAction)
     else if path = NotificationServiceDismissNotificationProcedure then Some (Unary MDismissNotification)
     else None)"

definition NewMediaServiceHandler :: "string \<times> http_handler" where
  "NewMediaServiceHandler = (''/pcd.v1.MediaService/'', \<lambda>path.
     if path = MediaServiceStreamMediaStateProcedure then Some (ServerStream MStreamMediaState)
     else if path = MediaServiceSendMediaCommandProcedure then Some (Unary MSendMediaCommand)
     else None)"

definition NewSystemServiceHandler :: "string \<times> http_handler" where
  "NewSystemServiceHandler = (''/pcd.v1.SystemService/'', \<lambda>path.
     if path = SystemServiceStreamSystemStateProcedure then Some (ServerStream MStreamSystemState)
     else if path = SystemServiceExecuteSystemActionProcedure then Some (Unary MExecuteSystemAction)
     else if path = SystemServiceSetPowerProfileProcedure then Some (Unary MSetPowerProfile)
     else None)"

definition NewBluetoothServiceHandler :: "string \<times> http_handler" where
  "NewBluetoothServiceHandler = (''/pcd.v1.BluetoothService/'', \<lambda>path.
     if path = BluetoothServiceStreamBluetoothStateProcedure then Some (ServerStream MStreamBluetoothState)
     else None)"

subsection \<open>Clients\<close>

text \<open>A client holds the URL of each of its procedures, below the base URL without trailing slashes.\<close>

definition trim_right :: "char \<Rightarrow> string \<Rightarrow> string" where
  "trim_right c s = rev (dropWhile (\<lambda>d. d = c) (rev s))"

datatype client_call = CallServerStream string | CallUnary string

record telemetryServiceClient =
  tc_streamTelemetry :: string

definition NewTelemetryServiceClient :: "string \<Rightarrow> telemetryServiceClient" where
  "NewTelemetryServiceClient baseURL =
     (let base = trim_right (CHR ''/'') baseURL in
      \<lparr>tc_streamTelemetry = base @ TelemetryServiceStreamTelemetryProcedure\<rparr>)"

definition client_StreamTelemetry :: "telemetryServiceClient \<Rightarrow> client_call" where
  "client_StreamTelemetry c = CallServerStream (tc_streamTelemetry c)"

record notificationServiceClient =
  nc_streamNotifications :: string
  nc_sendNotification :: string
  nc_triggerNotificationAction :: string
  nc_dismissNotification :: string

definition NewNotificationServiceClient :: "string \<Rightarrow> notificationServiceClient" where
  "NewNotificationServiceClient baseURL =
     (let base = trim_right (CHR ''/'') baseURL in
      \<lparr>nc_streamNotifications = base @ NotificationServiceStreamNotificationsProcedure,
       nc_sendNotification = base @ NotificationServiceSendNotificationProcedure,
       nc_triggerNotificationAction = base @ NotificationServiceTriggerNotificationActionProcedure,
       nc_dismissNotification = base @ NotificationServiceDismissNotificationProcedure\<rparr>)"

definition client_StreamNotifications :: "notificationServiceClient \<Rightarrow> client_call" where
  "client_StreamNotifications c = CallServerStream (nc_streamNotifications c)"

definition client_SendNotification :: "notificationServiceClient \<Rightarrow> client_call" where
  "client_SendNotification c = CallUnary (nc_sendNotification c)"

definition client_TriggerNotificationAction :: "notificationServiceClient \<Rightarrow> client_call" where
  "client_TriggerNotificationAction c = CallUnary (nc_triggerNotificationAction c)"

definition client_DismissNotification :: "notificationServiceClient \<Rightarrow> client_call" where
  "client_DismissNotification c = CallUnary (nc_dismissNotification c)"

record mediaServiceClient =
  mc_streamMediaState :: string
  mc_sendMediaCommand :: string

definition NewMediaServiceClient :: "string \<Rightarrow> mediaServiceClient" where
  "NewMediaServiceClient baseURL =
     (let base = trim_right (CHR ''/'') baseURL in
      \<lparr>mc_streamMediaState = base @ MediaServiceStreamMediaStateProcedure,
       mc_sendMediaCommand = base @ MediaServiceSendMediaCommandProcedure\<rparr>)"

definition client_StreamMediaState :: "mediaServiceClient \<Rightarrow> client_call" where
  "client_StreamMediaState c = CallServerStream (mc_streamMediaState c)"

definition client_SendMediaCommand :: "mediaServiceClient \<Rightarrow> client_call" where
  "client_SendMediaCommand c = CallUnary (mc_sendMediaCommand c)"

record systemServiceClient =
  yc_streamSystemState :: string
  yc_executeSystemAction :: string
  yc_setPowerProfile :: string

definition NewSystemServiceClient :: "string \<Rightarrow> systemServiceClient" where
  "NewSystemServiceClient baseURL =
     (let base = trim_right (CHR ''/'') baseURL in
      \<lparr>yc_streamSystemState = base @ SystemServiceStreamSystemStateProcedure,
       yc_executeSystemAction = base @ SystemServiceExecuteSystemActionProcedure,
       yc_setPowerProfile = base @ SystemServiceSetPowerProfileProcedure\<rparr>)"

definition client_StreamSystemState :: "systemServiceClient \<Rightarrow> client_call" where
  "client_StreamSystemState c = CallServerStream (yc_streamSystemState c)"

definition client_ExecuteSystemAction :: "systemServiceClient \<Rightarrow> client_call" where
  "client_ExecuteSystemAction c = CallUnary (yc_executeSystemAction c)"

definition client_SetPowerProfile :: "systemServiceClient \<Rightarrow> client_call" where
  "client_SetPowerProfile c = CallUnary (yc_setPowerProfile c)"

record bluetoothServiceClient =
  bc_streamBluetoothState :: string

definition NewBluetoothServiceClient :: "string \<Rightarrow> bluetoothServiceClient" where
  "NewBluetoothServiceClient baseURL =
     (let base = trim_right (CHR ''/'') baseURL in
      \<lparr>bc_streamBluetoothState = base @ BluetoothServiceStreamBluetoothStateProcedure\<rparr>)"

definition client_StreamBluetoothState :: "bluetoothServiceClient \<Rightarrow> client_call" where
  "client_StreamBluetoothState c = CallServerStream (bc_streamBluetoothState c)"

section \<open>The services of the daemon\<close>

definition RegisterHandlers :: "serve_mux \<Rightarrow> serve_mux go" where
  "RegisterHandlers mux =
     ebind (mux_Handle NewTelemetryServiceHandler mux) (\<lambda>mux.
     ebind (mux_Handle NewNotificationServiceHandler mux) (\<lambda>mux.
     ebind (mux_Handle NewMediaServiceHandler mux) (\<lambda>mux.
     ebind (mux_Handle NewSystemServiceHandler mux) (\<lambda>mux.
     mux_Handle NewBluetoothServiceHandler mux))))"

section \<open>The server\<close>

record http_server =
  hs_Addr :: string
  hs_Handler :: serve_mux
  hs_h2c :: bool
  hs_ReadHeaderTimeout :: i64
  hs_IdleTimeout :: i64

text \<open>What wakes \<^verbatim>\<open>Start\<close>: the listener failed, or the context was cancelled and the shutdown gave a
  result. A listener that ends with \<^verbatim>\<open>ErrServerClosed\<close> sends nothing.\<close>

datatype start_wake = ErrChan string | CtxDone "string option"

definition ws_handler :: http_handler where
  "ws_handler path = Some WsUpgrade"

definition ws_Start ::
  "(serve_mux \<Rightarrow> serve_mux go) option \<Rightarrow> start_wake \<Rightarrow> ws_server \<Rightarrow> (http_server \<times> string option) go" where
  "ws_Start registerConnectRPC wake s =
     ebind (mux_Handle (''/ws'', ws_handler) []) (\<lambda>mux.
     ebind (case registerConnectRPC of None \<Rightarrow> Inr mux | Some register \<Rightarrow> register mux) (\<lambda>mux.
     Inr (\<lparr>hs_Addr = join_host_port (ws_host s) (itoa (ws_port s)), hs_Handler = mux,
           hs_h2c = (registerConnectRPC \<noteq> None), hs_ReadHeaderTimeout = 3000000000, hs_IdleTimeout = 30000000000\<rparr>,
          case wake of ErrChan err \<Rightarrow> Some err | CtxDone res \<Rightarrow> res)))"

section \<open>Every endpoint is served exactly at its own path\<close>

text \<open>The endpoints the daemon documents.\<close>

definition endpoints :: "(string \<times> endpoint) list" where
  "endpoints =
     [(''/ws'', WsUpgrade),
      (''/pcd.v1.TelemetryService/StreamTelemetry'', ServerStream MStreamTelemetry),
      (''/pcd.v1.NotificationService/StreamNotifications'', ServerStream MStreamNotifications),
      (''/pcd.v1.NotificationService/SendNotification'', Unary MSendNotification),
      (''/pcd.v1.NotificationService/TriggerNotificationAction'', Unary MTriggerNotificationAction),
      (''/pcd.v1.NotificationService/DismissNotification'', Unary MDismissNotification),
      (''/pcd.v1.MediaService/StreamMediaState'', ServerStream MStreamMediaState),
      (''/pcd.v1.MediaService/SendMediaCommand'', Unary MSendMediaCommand),
      (''/pcd.v1.SystemService/StreamSystemState'', ServerStream MStreamSystemState),
      (''/pcd.v1.SystemService/ExecuteSystemAction'', Unary MExecuteSystemAction),
      (''/pcd.v1.SystemService/SetPowerProfile'', Unary MSetPowerProfile),
      (''/pcd.v1.BluetoothService/StreamBluetoothState'', ServerStream MStreamBluetoothState)]"

definition daemon_mux :: serve_mux where
  "daemon_mux = [(''/ws'', ws_handler), NewTelemetryServiceHandler, NewNotificationServiceHandler, NewMediaServiceHandler,
     NewSystemServiceHandler, NewBluetoothServiceHandler]"

lemmas service_handlers = NewTelemetryServiceHandler_def NewNotificationServiceHandler_def NewMediaServiceHandler_def
  NewSystemServiceHandler_def NewBluetoothServiceHandler_def

lemma daemon_mux_registered: "ebind (mux_Handle (''/ws'', ws_handler) []) RegisterHandlers = Inr daemon_mux"
  by (simp add: RegisterHandlers_def mux_Handle_def daemon_mux_def service_handlers)

text \<open>The match of the multiplexer is one of its entries, and matches.\<close>

lemma mux_match_sound:
  assumes "mux_match mux path = Some ph"
  shows "ph \<in> set mux \<and> pattern_matches (fst ph) path"
proof -
  let ?f = "\<lambda>ph best. if pattern_matches (fst ph) path \<and>
      (case best of None \<Rightarrow> True | Some b \<Rightarrow> length (fst b) < length (fst ph)) then Some ph else best"
  have "fold ?f mx b = Some ph \<Longrightarrow> b = Some ph \<or> ph \<in> set mx \<and> pattern_matches (fst ph) path" for mx b
  proof (induction mx arbitrary: b)
    case (Cons x mx)
    then show ?case by (auto split: if_splits)
  qed simp
  from this[of mux None] assms show ?thesis by (simp add: mux_match_def)
qed

text \<open>What a mounted handler answers is in the table.\<close>

lemma handlers_answer_endpoints:
  "snd NewTelemetryServiceHandler path = Some ep \<Longrightarrow> (path, ep) \<in> set endpoints"
  "snd NewNotificationServiceHandler path = Some ep \<Longrightarrow> (path, ep) \<in> set endpoints"
  "snd NewMediaServiceHandler path = Some ep \<Longrightarrow> (path, ep) \<in> set endpoints"
  "snd NewSystemServiceHandler path = Some ep \<Longrightarrow> (path, ep) \<in> set endpoints"
  "snd NewBluetoothServiceHandler path = Some ep \<Longrightarrow> (path, ep) \<in> set endpoints"
  by (simp_all add: service_handlers procedures endpoints_def split: if_splits)

lemma daemon_entry_serves:
  assumes "ph \<in> set daemon_mux" and "pattern_matches (fst ph) path" and "snd ph path = Some ep"
  shows "(path, ep) \<in> set endpoints"
proof (cases "ph = (''/ws'', ws_handler)")
  case True
  with assms show ?thesis by (simp add: pattern_matches_def ws_handler_def endpoints_def)
next
  case False
  with assms(1,3) handlers_answer_endpoints show ?thesis by (auto simp: daemon_mux_def)
qed

lemma distinct_endpoints: "distinct (map fst endpoints)"
  by (simp add: endpoints_def)

lemmas mux_eval = mux_serve_def request_clean_def path_clean_def clean_step_def Let_def mux_match_def
  daemon_mux_def pattern_matches_def has_prefix_def ws_handler_def service_handlers procedures

lemma endpoints_served: "list_all (\<lambda>(path, ep). mux_serve daemon_mux path = Served ep) endpoints"
  unfolding endpoints_def list.pred_inject prod.case by (intro conjI; simp add: mux_eval)

lemma served_iff_endpoint: "mux_serve daemon_mux path = Served ep \<longleftrightarrow> map_of endpoints path = Some ep"
proof
  assume "mux_serve daemon_mux path = Served ep"
  then have "(path, ep) \<in> set endpoints"
    using mux_match_sound[of daemon_mux path] daemon_entry_serves[of _ path ep]
    by (fastforce simp: mux_serve_def Let_def split: if_splits option.splits)
  then show "map_of endpoints path = Some ep" using distinct_endpoints by (rule map_of_is_SomeI[rotated])
next
  assume "map_of endpoints path = Some ep"
  then show "mux_serve daemon_mux path = Served ep" using endpoints_served by (auto simp: list_all_iff dest: map_of_SomeD)
qed

section \<open>What the generated clients call\<close>

definition client_calls :: "string \<Rightarrow> (rpc_method \<times> client_call) list" where
  "client_calls baseURL =
     (let t = NewTelemetryServiceClient baseURL; n = NewNotificationServiceClient baseURL; m = NewMediaServiceClient baseURL;
          y = NewSystemServiceClient baseURL; b = NewBluetoothServiceClient baseURL in
      [(MStreamTelemetry, client_StreamTelemetry t),
       (MStreamNotifications, client_StreamNotifications n),
       (MSendNotification, client_SendNotification n),
       (MTriggerNotificationAction, client_TriggerNotificationAction n),
       (MDismissNotification, client_DismissNotification n),
       (MStreamMediaState, client_StreamMediaState m),
       (MSendMediaCommand, client_SendMediaCommand m),
       (MStreamSystemState, client_StreamSystemState y),
       (MExecuteSystemAction, client_ExecuteSystemAction y),
       (MSetPowerProfile, client_SetPowerProfile y),
       (MStreamBluetoothState, client_StreamBluetoothState b)])"

lemmas client_defs = client_calls_def Let_def
  NewTelemetryServiceClient_def NewNotificationServiceClient_def NewMediaServiceClient_def NewSystemServiceClient_def
  NewBluetoothServiceClient_def
  client_StreamTelemetry_def client_StreamNotifications_def client_SendNotification_def client_TriggerNotificationAction_def client_DismissNotification_def client_StreamMediaState_def client_SendMediaCommand_def client_StreamSystemState_def client_ExecuteSystemAction_def client_SetPowerProfile_def client_StreamBluetoothState_def

text \<open>The path that a request to a URL without user, query and fragment asks for.\<close>

definition request_path :: "string \<Rightarrow> string" where
  "request_path url = dropWhile (\<lambda>c. c \<noteq> CHR ''/'') (trim_prefix url ''http://'')"

definition routed_call :: "serve_mux \<Rightarrow> rpc_method \<times> client_call \<Rightarrow> bool" where
  "routed_call mux mc \<longleftrightarrow>
     (case snd mc of
        CallServerStream url \<Rightarrow> mux_serve mux (request_path url) = Served (ServerStream (fst mc))
      | CallUnary url \<Rightarrow> mux_serve mux (request_path url) = Served (Unary (fst mc)))"

lemma trim_right_slashes:
  assumes "s \<noteq> []" and "last s \<noteq> c"
  shows "trim_right c (s @ replicate n c) = s"
proof -
  obtain t d where "s = t @ [d]" using assms(1) by (cases s rule: rev_cases) auto
  moreover have "dropWhile (\<lambda>d. d = c) (replicate n c @ xs) = dropWhile (\<lambda>d. d = c) xs" for xs by (induction n) simp_all
  ultimately show ?thesis using assms(2) by (simp add: trim_right_def)
qed

lemma request_path_base:
  assumes "CHR ''/'' \<notin> set addr" and "path \<noteq> []" and "hd path = CHR ''/''"
  shows "request_path (''http://'' @ addr @ path) = path"
proof -
  have "dropWhile (\<lambda>c. c \<noteq> CHR ''/'') (addr @ path) = path"
    using assms by (cases path) (auto simp: dropWhile_append)
  then show ?thesis by (simp add: request_path_def trim_prefix_def has_prefix_def)
qed

lemma client_calls_routed:
  assumes "addr \<noteq> []" and "CHR ''/'' \<notin> set addr"
  shows "list_all (routed_call daemon_mux) (client_calls (''http://'' @ addr @ replicate n (CHR ''/'')))"
proof -
  have "last addr \<noteq> CHR ''/''" using assms last_in_set by metis
  then have base: "trim_right (CHR ''/'') (''http://'' @ addr @ replicate n (CHR ''/'')) = ''http://'' @ addr"
    using trim_right_slashes[of "''http://'' @ addr" "CHR ''/''" n] assms(1) by simp
  have path: "request_path (''http://'' @ addr @ CHR ''/'' # p) = CHR ''/'' # p" for p
    using request_path_base[OF assms(2), of "CHR ''/'' # p"] by simp
  have "routed_call daemon_mux (m, call) \<longleftrightarrow>
      (case call of CallServerStream url \<Rightarrow> map_of endpoints (request_path url) = Some (ServerStream m)
       | CallUnary url \<Rightarrow> map_of endpoints (request_path url) = Some (Unary m))" for m call
    by (simp add: routed_call_def served_iff_endpoint split: client_call.split)
  then show ?thesis
    unfolding client_defs base
    by (simp add: procedures path[simplified] endpoints_def)
qed

lemma digit_char_not_slash: "n < 10 \<Longrightarrow> CHR ''/'' \<noteq> digit_char n"
proof
  assume "n < 10" and "CHR ''/'' = digit_char n"
  then have "digit_val (CHR ''/'') = Some n" using digit_val_digit_char[of n] by simp
  then show False by (simp add: digit_val_def)
qed

lemma string_of_nat_no_slash: "CHR ''/'' \<notin> set (string_of_nat n)"
  by (induction n rule: string_of_nat.induct) (subst string_of_nat.simps, simp add: digit_char_not_slash)

lemma itoa_no_slash: "CHR ''/'' \<notin> set (itoa i)"
  by (simp add: itoa_def string_of_nat_no_slash)

text \<open>C28: the daemon is reachable on the loopback interface only, and serves exactly its twelve endpoints.
  Whatever host and port are configured, mounting the routes does not panic, the server listens on
  a loopback address with a port other than zero, the WebSocket upgrade is answered exactly at \<^verbatim>\<open>/ws\<close> and
  each remote procedure exactly at the path of its service and name, by a handler of its kind; every other
  path is not found or redirected. Every call of the generated clients, given the server's address with
  any number of trailing slashes, reaches the procedure of the same name and kind. \<^verbatim>\<open>Start\<close>
  returns the error of the listener or the result of the shutdown.\<close>

theorem server_is_local_and_routes_exactly:
  "\<exists>hs. ws_Start (Some RegisterHandlers) wake (NewServer host port) =
        Inr (hs, case wake of ErrChan err \<Rightarrow> Some err | CtxDone res \<Rightarrow> res) \<and>
     (let p = itoa (if port = 0 then 12345 else port)
      in hs_Addr hs \<in> {''127.0.0.1:'' @ p, ''localhost:'' @ p, ''[::1]:'' @ p}) \<and>
     (\<forall>path ep. mux_serve (hs_Handler hs) path = Served ep \<longleftrightarrow> map_of endpoints path = Some ep) \<and>
     (\<forall>n. list_all (routed_call (hs_Handler hs)) (client_calls (''http://'' @ hs_Addr hs @ replicate n (CHR ''/''))))"
proof -
  let ?s = "NewServer host port" and ?p = "itoa (if port = 0 then 12345 else port)"
  let ?hs = "\<lparr>hs_Addr = join_host_port (ws_host ?s) (itoa (ws_port ?s)), hs_Handler = daemon_mux, hs_h2c = True,
    hs_ReadHeaderTimeout = 3000000000, hs_IdleTimeout = 30000000000\<rparr>"
  have start: "ws_Start (Some RegisterHandlers) wake ?s = Inr (?hs, case wake of ErrChan err \<Rightarrow> Some err | CtxDone res \<Rightarrow> res)"
    using daemon_mux_registered by (auto simp: ws_Start_def ebind_eq_Inr)
  have addr: "hs_Addr ?hs \<in> {''127.0.0.1:'' @ ?p, ''localhost:'' @ ?p, ''[::1]:'' @ ?p}"
    by (simp add: NewServer_def join_host_port_def)
  then have "hs_Addr ?hs \<noteq> []" "CHR ''/'' \<notin> set (hs_Addr ?hs)" using itoa_no_slash[of "if port = 0 then 12345 else port"] by auto
  from client_calls_routed[OF this] start addr served_iff_endpoint show ?thesis
    by (intro exI[of _ ?hs]) (simp add: Let_def)
qed

end
