(* ===== verification/Stream_Progress.thy ===== *)
theory Stream_Progress
  imports Stream_Hub
begin

text \<open>
  Progress of the streaming handlers: what waits in a subscriber's buffer reaches its client
  after a bounded number of the handler's own steps, and so under every fair schedule,
  whatever the other handlers and the broadcasts do.
\<close>

section \<open>One handler among the others\<close>

definition waiting :: "nat \<Rightarrow> 'a stream_sys \<Rightarrow> 'a list" where
  "waiting ch s = ch_buf (hb_store (ss_hub s) ! ch)"

text \<open>The steps that do not end handler \<open>ch\<close>.\<close>

definition spares :: "nat \<Rightarrow> 'a stream_op \<Rightarrow> bool" where
  "spares ch opr \<longleftrightarrow> opr \<noteq> SCancel ch \<and> opr \<noteq> SServe ch False"

text \<open>What a client has, and what its handler still has to send to it.\<close>

record 'a handler_view =
  hv_greets :: "'a list"
  hv_sent :: "'a list"
  hv_waiting :: "'a list"

definition shows_view :: "nat \<Rightarrow> 'a handler_view \<Rightarrow> 'a stream_sys \<Rightarrow> bool" where
  "shows_view ch v s \<longleftrightarrow> ch < length (ss_phase s) \<and> ss_phase s ! ch = Sending (hv_greets v) \<and>
     ss_sent s ! ch = hv_sent v \<and> waiting ch s = hv_waiting v"

lemma return_keeps_others:
  assumes "stream_return i s = Inr s'" and "i \<noteq> ch" and "shows_view ch v s"
  shows "shows_view ch v s'"
  using assms by (auto simp: stream_return_def hub_unsubscribe_def Let_def ebind_eq_Inr shows_view_def waiting_def)

lemma receive_keeps_others: "i \<noteq> ch \<Longrightarrow> hb_store (snd (hub_receive i h)) ! ch = hb_store h ! ch"
  by (simp add: hub_receive_def split: prod.split)

lemma serve_keeps_others:
  assumes "stream_serve i sent s = Inr s'" and "i \<noteq> ch" and "shows_view ch v s"
  shows "shows_view ch v s'"
proof (cases "i < length (ss_phase s) \<and> (\<exists>xs. ss_phase s ! i = Sending xs)")
  case False
  with assms show ?thesis by (auto simp: stream_serve_def split: phase.splits if_splits)
next
  case True
  then obtain xs where i: "i < length (ss_phase s)" "ss_phase s ! i = Sending xs" by blast
  obtain r h where rh: "hub_receive i (ss_hub s) = (r, h)" by fastforce
  then have other: "hb_store h ! ch = hb_store (ss_hub s) ! ch"
    using receive_keeps_others[OF assms(2), of "ss_hub s"] by simp
  then have "shows_view ch v (s\<lparr>ss_hub := h\<rparr>)" using assms(3) by (simp add: shows_view_def waiting_def)
  with assms i rh other return_keeps_others[OF _ assms(2), of s s' v] return_keeps_others[OF _ assms(2), of "s\<lparr>ss_hub := h\<rparr>" s' v]
  show ?thesis
    by (auto simp: stream_serve_def shows_view_def waiting_def split: list.splits option.splits if_splits)
qed

lemma serve_own:
  assumes "shows_view ch v s" and "stream_ok s"
  shows "\<exists>s'. stream_serve ch True s = Inr s' \<and> shows_view ch
     (case hv_greets v of
        x # xs \<Rightarrow> v\<lparr>hv_greets := xs\<rparr>
      | [] \<Rightarrow> (case hv_waiting v of [] \<Rightarrow> v | x # b \<Rightarrow> v\<lparr>hv_sent := hv_sent v @ [x], hv_waiting := b\<rparr>)) s'"
proof -
  note D = stream_okD[OF assms(2)]
  show ?thesis
    using assms(1) D(2-5)
    by (auto simp: shows_view_def waiting_def stream_serve_def hub_receive_def try_recv_def split: list.splits)
qed

lemma view_member: "shows_view ch v s \<Longrightarrow> stream_ok s \<Longrightarrow> ch \<in> set (hb_members (ss_hub s))"
  using stream_okD(6)[of s ch] by (simp add: handler_ok_def shows_view_def)

lemma publish_extends:
  assumes "shows_view ch v s" and "stream_ok s" and "stream_publish x s = Inr s'"
  shows "shows_view ch (v\<lparr>hv_waiting := take 10 (hv_waiting v @ [x])\<rparr>) s'"
proof -
  note D = stream_okD[OF assms(2)]
  have ch: "ch < length (hb_store (ss_hub s))" using assms(1) D(2) by (simp add: shows_view_def)
  have mem: "ch \<in> set (hb_members (ss_hub s))" by (rule view_member[OF assms(1,2)])
  obtain h where h: "hub_publish x (ss_hub s) = Inr h"
      "hb_store h ! ch = (hb_store (ss_hub s) ! ch)\<lparr>ch_buf := take 10 (ch_buf (hb_store (ss_hub s) ! ch) @ [x])\<rparr>"
    using hub_publish_members[OF D(1), of x] ch mem by (metis (no_types, lifting))
  then show ?thesis using assms(1,3) by (auto simp: stream_publish_def shows_view_def waiting_def)
qed

text \<open>The view of a handler after any step that spares it: its own steps shorten what it has to send, all
  others keep it or append to what waits.\<close>

lemma spared_step:
  assumes "shows_view ch v s" and "stream_ok s" and "spares ch opr" and "opr \<noteq> SServe ch True"
  shows "\<exists>s' b. stream_exec opr s = Inr s' \<and> stream_ok s' \<and> prefix (hv_waiting v) b \<and> shows_view ch (v\<lparr>hv_waiting := b\<rparr>) s'"
proof -
  obtain s' where s': "stream_exec opr s = Inr s'" "stream_ok s'" using stream.exec_safe[OF assms(2)] by blast
  have len: "length (hv_waiting v) \<le> 10"
    using hub_okD(4)[OF stream_okD(1)[OF assms(2)] view_member[OF assms(1,2)]] assms(1)
    by (simp add: shows_view_def waiting_def)
  show ?thesis
  proof (cases opr)
    case (SPublish x)
    have "prefix (hv_waiting v) (take 10 (hv_waiting v @ [x]))" using len by (auto simp: prefix_def take_append)
    with s' SPublish publish_extends[OF assms(1,2), of x s'] show ?thesis by (auto simp: stream_exec_def)
  next
    case (SServe i sent)
    with assms(3,4) have "i \<noteq> ch" by (cases sent) (auto simp: spares_def)
    with s' SServe serve_keeps_others[OF _ _ assms(1), of i sent s'] show ?thesis
      by (intro exI[of _ s'] exI[of _ "hv_waiting v"]) (auto simp: stream_exec_def)
  next
    case (SCancel i)
    with assms(3) have "i \<noteq> ch" by (auto simp: spares_def)
    with s' SCancel return_keeps_others[OF _ _ assms(1), of i s'] assms(1) show ?thesis
      by (intro exI[of _ s'] exI[of _ "hv_waiting v"]) (auto simp: stream_exec_def stream_cancel_def split: if_splits)
  next
    case SOpen
    then have "shows_view ch v s'" using s' assms(1) stream_okD(2,4)[OF assms(2)]
      by (auto simp: stream_exec_def stream_open_def hub_subscribe_def Let_def shows_view_def waiting_def nth_append)
    with s' show ?thesis by (intro exI[of _ s'] exI[of _ "hv_waiting v"]) simp
  next
    case (SGreet i xs)
    then have "shows_view ch v s'" using s' assms(1)
      by (auto simp: stream_exec_def stream_greet_def shows_view_def waiting_def nth_list_update)
    with s' show ?thesis by (intro exI[of _ s'] exI[of _ "hv_waiting v"]) simp
  qed
qed

lemma bounded_delivery:
  "shows_view ch v s \<Longrightarrow> stream_ok s \<Longrightarrow> list_all (spares ch) ops \<Longrightarrow>
   \<exists>s'. run_ops stream_exec ops s = Inr s' \<and>
     prefix (hv_sent v @ take (count_list ops (SServe ch True) - length (hv_greets v)) (hv_waiting v)) (ss_sent s' ! ch)"
proof (induction ops arbitrary: s v)
  case Nil
  then show ?case by (simp add: shows_view_def)
next
  case (Cons opr ops)
  show ?case
  proof (cases "opr = SServe ch True")
    case True
    obtain s1 where s1: "stream_serve ch True s = Inr s1" "stream_ok s1"
        "shows_view ch (case hv_greets v of x # xs \<Rightarrow> v\<lparr>hv_greets := xs\<rparr>
          | [] \<Rightarrow> (case hv_waiting v of [] \<Rightarrow> v | x # b \<Rightarrow> v\<lparr>hv_sent := hv_sent v @ [x], hv_waiting := b\<rparr>)) s1"
      using serve_own[OF Cons.prems(1,2)] stream_serve_ok[OF Cons.prems(2), of ch True] by auto
    from Cons.IH[OF s1(3,2)] Cons.prems(3) s1(1) True show ?thesis
      by (auto simp: stream_exec_def Suc_diff_le split: list.splits)
  next
    case False
    obtain s1 b where s1: "stream_exec opr s = Inr s1" "stream_ok s1" "prefix (hv_waiting v) b"
        "shows_view ch (v\<lparr>hv_waiting := b\<rparr>) s1"
      using spared_step[OF Cons.prems(1,2) _ False] Cons.prems(3) by auto
    let ?k = "count_list ops (SServe ch True) - length (hv_greets v)"
    obtain s' where s': "run_ops stream_exec ops s1 = Inr s'" "prefix (hv_sent v @ take ?k b) (ss_sent s' ! ch)"
      using Cons.IH[OF s1(4,2)] Cons.prems(3) by auto
    have "prefix (hv_sent v @ take ?k (hv_waiting v)) (hv_sent v @ take ?k b)"
      using s1(3) by (auto simp: prefix_def)
    with s' have "prefix (hv_sent v @ take ?k (hv_waiting v)) (ss_sent s' ! ch)" using prefix_order.trans by blast
    with s'(1) s1(1) False show ?thesis by simp
  qed
qed

section \<open>Fair schedules\<close>

lemma fair_count:
  assumes "\<forall>n. \<exists>m \<ge> n. sched m = x"
  shows "\<exists>N. k \<le> count_list (map sched [0..<N]) x"
proof (induction k)
  case (Suc k)
  then obtain N where N: "k \<le> count_list (map sched [0..<N]) x" by blast
  obtain m where m: "N \<le> m" "sched m = x" using assms by blast
  have "[0..<Suc m] = [0..<N] @ [N..<m] @ [m]" using m(1) upt_add_eq_append[of 0 N "m - N"] by simp
  with N m(2) have "Suc k \<le> count_list (map sched [0..<Suc m]) x" by simp
  then show ?case by blast
qed simp

text \<open>C6: messages get through. Take any history of a stream, a handler that has not returned, and any infinite
  schedule of what happens next in which this handler keeps getting its turn, its sends succeed and
  its request is not cancelled. Then after finitely many steps its client has been sent
  everything that waited in the buffer, in order and right after what it had before, no matter how many
  other handlers fail or return and how much is broadcast meanwhile.\<close>

theorem waiting_messages_are_delivered:
  assumes "run_ops stream_exec past empty_stream = Inr s" and "ch < length (ss_phase s)" and "ss_phase s ! ch = Sending greets"
    and "\<forall>n. \<exists>m \<ge> n. sched m = SServe ch True" and "\<forall>n. spares ch (sched n)"
  shows "\<exists>N s'. run_ops stream_exec (map sched [0..<N]) s = Inr s' \<and> prefix (ss_sent s ! ch @ waiting ch s) (ss_sent s' ! ch)"
proof -
  let ?v = "\<lparr>hv_greets = greets, hv_sent = ss_sent s ! ch, hv_waiting = waiting ch s\<rparr>"
  have ok: "stream_ok s" by (rule stream.run_keeps[OF stream_ok_empty assms(1)])
  have v: "shows_view ch ?v s" using assms(2,3) by (simp add: shows_view_def)
  obtain N where N: "length greets + length (waiting ch s) \<le> count_list (map sched [0..<N]) (SServe ch True)"
    using fair_count[OF assms(4)] by blast
  have "list_all (spares ch) (map sched [0..<N])" using assms(5) by (simp add: list_all_iff)
  from bounded_delivery[OF v ok this] N show ?thesis by force
qed

theorem waiting_messages_are_delivered_witness:
  "\<exists>s N s'. run_ops stream_exec [SOpen, SGreet 0 [5], SPublish (7::nat), SPublish 8] empty_stream = Inr s \<and>
     run_ops stream_exec (map (\<lambda>n. if even n then SServe 0 True else SPublish n) [0..<N]) s = Inr s' \<and>
     prefix [7, 8] (ss_sent s' ! 0)"
proof -
  let ?past = "[SOpen, SGreet 0 [5], SPublish (7::nat), SPublish 8]"
  let ?sched = "\<lambda>n :: nat. if even n then SServe 0 True else SPublish n"
  obtain s where s: "run_ops stream_exec ?past empty_stream = Inr s" "ss_sent s = [[]]" "ss_phase s = [Sending [5]]"
      "waiting 0 s = [7, 8]"
    by (simp add: stream_exec_def stream_open_def stream_greet_def stream_publish_def waiting_def
        hub_subscribe_def hub_publish_def hub_offer_def offer_open empty_stream_def empty_hub_def Let_def)
  have "\<exists>m \<ge> n. ?sched m = SServe 0 True" for n :: nat by (intro exI[of _ "2 * n"]) simp
  moreover have "spares 0 (?sched n)" for n :: nat by (simp add: spares_def)
  ultimately show ?thesis using waiting_messages_are_delivered[OF s(1), of 0 "[5]" ?sched] s by auto
qed

end
