(* ===== verification/Notification_Pipeline.thy ===== *)
theory Notification_Pipeline
  imports Notification_Monitor Icon_Extractor
begin

text \<open>
  The monitor of \<^verbatim>\<open>pkg/notifications/dbus_manager.go\<close> together with the icon extractor it runs: a received call
  starts a goroutine, the goroutine extracts the icon with the extractor all of them share, which
  may panic and fills a cache, and only then offers the event to the output channel.
\<close>

section \<open>The composed system\<close>

record pipeline =
  pn_mon :: notification_monitor
  pn_extracting :: "dval list list"
  pn_cache :: icon_cache

definition start_pipeline :: "notification_monitor \<Rightarrow> pipeline" where
  "start_pipeline m = \<lparr>pn_mon = m, pn_extracting = [], pn_cache = []\<rparr>"

text \<open>The icon of an intercepted call.\<close>

definition call_icon :: "icon_files \<Rightarrow> dval list \<Rightarrow> icon_cache \<Rightarrow> (string \<times> icon_cache) go" where
  "call_icon fs body cache =
     Extract fs (str_or_empty (body ! 0)) (str_or_empty (body ! 2)) (map_or_empty (body ! 6)) cache"

datatype pipeline_op =
    PReceive "dval list"
  | PExtract icon_files nat
  | PMonitor monitor_op

definition pipeline_receive :: "dval list \<Rightarrow> pipeline \<Rightarrow> pipeline" where
  "pipeline_receive body p =
     (if nx_running (pn_mon p)
      then p\<lparr>pn_mon := (pn_mon p)\<lparr>nx_seen := nx_seen (pn_mon p) @ [body]\<rparr>,
             pn_extracting := pn_extracting p @ (if length body < 8 then [] else [body])\<rparr>
      else p)"

definition pipeline_extract :: "icon_files \<Rightarrow> nat \<Rightarrow> pipeline \<Rightarrow> pipeline go" where
  "pipeline_extract fs i p =
     (if i < length (pn_extracting p) then
        ebind (call_icon fs (pn_extracting p ! i) (pn_cache p)) (\<lambda>(icon, cache).
          Inr (p\<lparr>pn_mon := (pn_mon p)\<lparr>nx_pending := nx_pending (pn_mon p) @
                   (case intercept (\<lambda>_ _ _. icon) (pn_extracting p ! i) of Some ev \<Rightarrow> [ev] | None \<Rightarrow> [])\<rparr>,
                 pn_extracting := drop_at i (pn_extracting p), pn_cache := cache\<rparr>))
      else Inr p)"

text \<open>The other steps are those of the monitor; receiving is the step above.\<close>

definition pipeline_exec :: "pipeline_op \<Rightarrow> pipeline \<Rightarrow> pipeline go" where
  "pipeline_exec opr p =
     (case opr of
        PReceive body \<Rightarrow> Inr (pipeline_receive body p)
      | PExtract fs i \<Rightarrow> pipeline_extract fs i p
      | PMonitor (NReceive _) \<Rightarrow> Inr p
      | PMonitor mop \<Rightarrow> ebind (notification_exec (\<lambda>_ _ _. []) mop (pn_mon p)) (\<lambda>m. Inr (p\<lparr>pn_mon := m\<rparr>)))"

section \<open>Which calls make the extractor panic\<close>

text \<open>An image hint that passes the checks and has a pixel, not skipped, before the start of its data.\<close>

definition negative_index_hint :: "(string \<times> dval) list \<Rightarrow> bool" where
  "negative_index_hint hints \<longleftrightarrow>
     (\<exists>r. Option.bind (raw_image_hint hints) parse_raw_image = Some r \<and> raw_image_valid r \<and>
        ri_channels r \<in> {3, 4} \<and> ri_rowstride r < 0 \<and>
        (\<exists>x y. int x < ri_width r \<and> int y < ri_height r \<and> src_index (ri_rowstride r) (ri_channels r) x y < 0 \<and>
           src_index (ri_rowstride r) (ri_channels r) x y + ri_channels r \<le> int (length (ri_data r))))"

lemma hints_panic_iff: "(\<exists>p. ExtractFromHints png hints = Inl p) \<longleftrightarrow> negative_index_hint hints"
proof (cases "\<exists>r. Option.bind (raw_image_hint hints) parse_raw_image = Some r \<and> raw_image_valid r")
  case True
  then obtain r where r: "Option.bind (raw_image_hint hints) parse_raw_image = Some r" "raw_image_valid r" by blast
  show ?thesis unfolding hint_panics_iff_negative_index[OF r] negative_index_hint_def using r by simp
next
  case False
  then show ?thesis by (auto simp: negative_index_hint_def ExtractFromHints_def split: option.splits)
qed

definition crashing_call :: "dval list \<Rightarrow> bool" where
  "crashing_call body \<longleftrightarrow> 8 \<le> length body \<and> negative_index_hint (map_or_empty (body ! 6))"

lemma call_icon_panics: "(\<exists>p. call_icon fs body cache = Inl p) \<longleftrightarrow> negative_index_hint (map_or_empty (body ! 6))"
  by (simp add: call_icon_def Extract_panics hints_panic_iff)

section \<open>Nothing is lost and every icon is inline\<close>

definition without_icon :: "NotificationEvent \<Rightarrow> NotificationEvent" where
  "without_icon ev = ev\<lparr>ne_AppIconBase64 := []\<rparr>"

definition decoded :: "dval list \<Rightarrow> NotificationEvent option" where
  "decoded = intercept (\<lambda>_ _ _. [])"

definition icon_safe :: "icon_files set \<Rightarrow> NotificationEvent \<Rightarrow> bool" where
  "icon_safe FS ev \<longleftrightarrow> ne_AppIconBase64 ev = [] \<or> icon_from FS (ne_AppIconBase64 ev)"

definition events_of :: "notification_monitor \<Rightarrow> NotificationEvent list" where
  "events_of m = nx_taken m @ ch_buf (nx_out m) @ nx_pending m"

definition pipeline_ok :: "icon_files set \<Rightarrow> pipeline \<Rightarrow> bool" where
  "pipeline_ok FS p \<longleftrightarrow>
     (let m = pn_mon p in
      nx_running m \<and> \<not> nx_cancelled m \<and> \<not> ch_closed (nx_out m) \<and> chan_ok (nx_out m) \<and>
      image_mset without_icon (mset (events_of m)) + mset (List.map_filter decoded (pn_extracting p)) =
        mset (List.map_filter decoded (nx_seen m)) \<and>
      list_all (icon_safe FS) (events_of m) \<and> icon_cache_ok FS (pn_cache p) \<and>
      list_all (\<lambda>body. 8 \<le> length body \<and> \<not> crashing_call body) (pn_extracting p))"

text \<open>The steps of a running daemon that receives no crashing call. The icon files are arbitrary, and may
  change from one extraction to the next.\<close>

definition benign :: "pipeline_op \<Rightarrow> bool" where
  "benign opr =
     (case opr of
        PReceive body \<Rightarrow> \<not> crashing_call body
      | PExtract fs i \<Rightarrow> True
      | PMonitor mop \<Rightarrow> steady mop)"

definition file_systems :: "pipeline_op list \<Rightarrow> icon_files set" where
  "file_systems ops = {fs. \<exists>i. PExtract fs i \<in> set ops}"

lemma map_filter_append: "List.map_filter f (xs @ ys) = List.map_filter f xs @ List.map_filter f ys"
  by (simp add: List.map_filter_def)

lemma set_drop_at: "set (drop_at i xs) \<subseteq> set xs"
  by (auto simp: drop_at_def dest: in_set_takeD in_set_dropD)

lemma long_body:
  assumes "8 \<le> length body"
  obtains v0 v1 v2 v3 v4 v5 v6 v7 rest where "body = v0 # v1 # v2 # v3 # v4 # v5 # v6 # v7 # rest"
  using assms by (auto simp: numeral_eq_Suc Suc_le_length_iff)

lemma intercept_long:
  assumes "8 \<le> length body"
  obtains ev where "intercept (\<lambda>_ _ _. icon) body = Some ev" and "ne_AppIconBase64 ev = icon" and "decoded body = Some (without_icon ev)"
proof -
  from assms obtain v0 v1 v2 v3 v4 v5 v6 v7 rest where "body = v0 # v1 # v2 # v3 # v4 # v5 # v6 # v7 # rest" by (rule long_body)
  then have "\<exists>ev. intercept (\<lambda>_ _ _. icon) body = Some ev \<and> ne_AppIconBase64 ev = icon \<and> decoded body = Some (without_icon ev)"
    by (simp add: intercept_def decoded_def without_icon_def)
  then show thesis using that by blast
qed

lemma intercept_short: "length body < 8 \<Longrightarrow> intercept ex body = None"
  by (auto simp: intercept_def split: list.split)

lemma mset_map_filter_drop_at:
  assumes "i < length xs" and "f (xs ! i) = Some y"
  shows "mset (List.map_filter f xs) = add_mset y (mset (List.map_filter f (drop_at i xs)))"
proof -
  have "List.map_filter f xs = List.map_filter f (take i xs @ xs ! i # drop (Suc i) xs)"
    by (simp only: id_take_nth_drop[OF assms(1), symmetric])
  also have "\<dots> = List.map_filter f (take i xs) @ y # List.map_filter f (drop (Suc i) xs)"
    using assms(2) by (simp add: map_filter_append List.map_filter_simps)
  finally show ?thesis by (simp add: drop_at_def map_filter_append)
qed

lemma pipeline_receive_ok:
  assumes "pipeline_ok FS p" and "\<not> crashing_call body"
  shows "pipeline_ok FS (pipeline_receive body p)"
  using assms
  by (auto simp: pipeline_ok_def pipeline_receive_def Let_def events_of_def map_filter_append List.map_filter_simps decoded_def
      intercept_short add.assoc split: option.split)

lemma pipeline_extract_ok:
  assumes ok: "pipeline_ok FS p" and fs: "fs \<in> FS"
  shows "\<exists>p'. pipeline_extract fs i p = Inr p' \<and> pipeline_ok FS p'"
proof (cases "i < length (pn_extracting p)")
  case True
  let ?body = "pn_extracting p ! i"
  have body: "8 \<le> length ?body" "\<not> crashing_call ?body" "icon_cache_ok FS (pn_cache p)"
    using ok True by (auto simp: pipeline_ok_def Let_def list_all_length)
  then obtain icon cache where ic: "call_icon fs ?body (pn_cache p) = Inr (icon, cache)"
    using call_icon_panics[of fs ?body "pn_cache p"] by (cases "call_icon fs ?body (pn_cache p)") (auto simp: crashing_call_def)
  then have res: "icon_result FS (icon, cache)" using Extract_ok[OF fs body(3)] by (auto simp: call_icon_def)
  obtain ev where ev: "intercept (\<lambda>_ _ _. icon) ?body = Some ev" "ne_AppIconBase64 ev = icon" "decoded ?body = Some (without_icon ev)"
    by (rule intercept_long[OF body(1)])
  have "mset (List.map_filter decoded (pn_extracting p)) =
      add_mset (without_icon ev) (mset (List.map_filter decoded (drop_at i (pn_extracting p))))"
    by (rule mset_map_filter_drop_at[where f = decoded, OF True ev(3)])
  then show ?thesis
    using ok True ic ev res set_drop_at[of i "pn_extracting p"] by (auto simp: pipeline_extract_def pipeline_ok_def Let_def events_of_def icon_safe_def icon_result_def list_all_iff)
qed (use ok in \<open>simp add: pipeline_extract_def\<close>)

lemma pipeline_monitor_ok:
  assumes ok: "pipeline_ok FS p" and st: "steady mop"
  shows "\<exists>p'. pipeline_exec (PMonitor mop) p = Inr p' \<and> pipeline_ok FS p'"
proof (cases mop)
  case (NDispatch i)
  let ?m = "pn_mon p"
  show ?thesis
  proof (cases "i < length (nx_pending ?m)")
    case True
    have "mset (nx_pending ?m) = add_mset (nx_pending ?m ! i) (mset (drop_at i (nx_pending ?m)))" by (rule mset_drop_at[OF True])
    then show ?thesis using ok True NDispatch set_drop_at[of i "nx_pending ?m"] nth_mem[OF True]
      by (auto simp: pipeline_exec_def notification_dispatch_def try_send_def pipeline_ok_def Let_def events_of_def chan_ok_def list_all_iff)
  qed (use ok NDispatch in \<open>simp add: pipeline_exec_def notification_dispatch_def\<close>)
next
  case (NGiveUp i)
  then show ?thesis using ok by (simp add: pipeline_exec_def pipeline_ok_def Let_def)
next
  case NTake
  then show ?thesis using ok
    by (auto simp: pipeline_exec_def notification_take_def try_recv_def pipeline_ok_def Let_def events_of_def chan_ok_def split: list.split)
qed (use ok st in \<open>simp_all add: pipeline_exec_def steady_def\<close>)

definition benign_exec :: "icon_files set \<Rightarrow> pipeline_op \<Rightarrow> pipeline \<Rightarrow> pipeline go" where
  "benign_exec FS opr p = (if benign opr \<and> file_systems [opr] \<subseteq> FS then pipeline_exec opr p else Inr p)"

interpretation pipeline: safe_system "benign_exec FS" "pipeline_ok FS" for FS
proof
  fix p opr
  assume ok: "pipeline_ok FS p"
  then show "\<exists>p'. benign_exec FS opr p = Inr p' \<and> pipeline_ok FS p'"
    using pipeline_receive_ok[OF ok] pipeline_extract_ok[OF ok] pipeline_monitor_ok[OF ok]
    by (cases opr) (auto simp: benign_exec_def benign_def file_systems_def pipeline_exec_def)
qed

lemma run_benign:
  "list_all benign ops \<Longrightarrow> file_systems ops \<subseteq> FS \<Longrightarrow> run_ops pipeline_exec ops p = run_ops (benign_exec FS) ops p"
proof (induction ops arbitrary: p)
  case (Cons opr ops)
  then have "file_systems [opr] \<subseteq> FS" "file_systems ops \<subseteq> FS" by (auto simp: file_systems_def)
  with Cons show ?case by (cases "pipeline_exec opr p") (simp_all add: benign_exec_def)
qed simp

lemma start_pipeline_ok: "notification_Start ce me = Inr m \<Longrightarrow> pipeline_ok FS (start_pipeline m)"
  by (auto simp: notification_Start_def pipeline_ok_def start_pipeline_def events_of_def icon_cache_ok_def List.map_filter_simps split: option.splits)

text \<open>C20: while the bus is up, the daemon runs and no application sends a malformed image, every intercepted
  notification is handed on exactly once, however receiving, icon extraction, sending and taking
  interleave and whatever the icon files are: nothing panics, the events the
  daemon took, those in the channel, those waiting to be sent and the calls whose icon is being
  extracted are together exactly the decoded calls, and every icon the daemon took is empty, an inline
  image of at most 150 KB, or the whole content of an absolute path that reported at most 150 KB
  and held more when one of the extractions read it.\<close>

theorem notification_pipeline_correct:
  assumes "notification_Start ce me = Inr m" and "list_all benign ops"
  shows "\<exists>p. run_ops pipeline_exec ops (start_pipeline m) = Inr p \<and>
    image_mset without_icon (mset (events_of (pn_mon p))) + mset (List.map_filter decoded (pn_extracting p)) =
      mset (List.map_filter decoded (nx_seen (pn_mon p))) \<and>
    list_all (icon_safe (file_systems ops)) (nx_taken (pn_mon p))"
proof -
  let ?FS = "file_systems ops"
  obtain p where p: "run_ops (benign_exec ?FS) ops (start_pipeline m) = Inr p" "pipeline_ok ?FS p"
    using pipeline.run_safe[OF start_pipeline_ok[OF assms(1)]] by blast
  then show ?thesis unfolding run_benign[OF assms(2) subset_refl] by (auto simp: pipeline_ok_def Let_def events_of_def)
qed

theorem notification_pipeline_correct_witness:
  "let ops = [PReceive (replicate 8 (DStr ''/i.svg'')), PExtract sample_icons 0, PMonitor (NDispatch 0), PMonitor NTake] in
   \<exists>p. run_ops pipeline_exec ops (start_pipeline (projr (notification_Start None None))) = Inr p \<and>
    list_all (icon_safe (file_systems ops)) (nx_taken (pn_mon p))"
proof -
  let ?ops = "[PReceive (replicate 8 (DStr ''/i.svg'')), PExtract sample_icons 0, PMonitor (NDispatch 0), PMonitor NTake]"
  have "list_all benign ?ops"
    by (simp add: benign_def steady_def crashing_call_def negative_index_hint_def raw_image_hint_def
        map_or_empty_def as_map_def numeral_eq_Suc)
  from notification_pipeline_correct[OF _ this, of None None "projr (notification_Start None None)"] show ?thesis
    unfolding Let_def by (auto simp: notification_Start_def simp del: run_ops.simps)
qed

section \<open>One call that stops the daemon\<close>

text \<open>C37: any application of the desktop session can stop the daemon with one notification. In every state of a running
  monitor, receiving a call and extracting its icon panics exactly if the call carries an image
  hint that passes the checks and, through a negative row stride, has a pixel before its data.\<close>

theorem one_notification_stops_daemon:
  assumes "nx_running (pn_mon p)" and "8 \<le> length body"
  shows "(\<exists>q. run_ops pipeline_exec [PReceive body, PExtract fs (length (pn_extracting p))] p = Inl q) \<longleftrightarrow>
    negative_index_hint (map_or_empty (body ! 6))"
proof -
  let ?p = "pipeline_receive body p"
  have p: "pn_extracting ?p = pn_extracting p @ [body]" "pn_cache ?p = pn_cache p"
    using assms by (simp_all add: pipeline_receive_def)
  have "(\<exists>q. run_ops pipeline_exec [PReceive body, PExtract fs (length (pn_extracting p))] p = Inl q) \<longleftrightarrow>
      (\<exists>q. call_icon fs body (pn_cache p) = Inl q)"
    by (cases "call_icon fs body (pn_cache p)") (auto simp: pipeline_exec_def pipeline_extract_def p)
  then show ?thesis by (simp add: call_icon_panics)
qed

definition crashing_body :: "dval list" where
  "crashing_body = [DStr ''app'', DU32 0, DStr [], DStr ''hi'', DStr [], DArr [], DMap negative_stride_hint, DI32 0]"

theorem one_notification_stops_daemon_witness:
  "\<exists>q. run_ops pipeline_exec [PReceive crashing_body, PExtract sample_icons 0]
     (start_pipeline (projr (notification_Start None None))) = Inl q"
proof -
  have "src_index (- 1) 4 0 1 = - 1" by (simp add: src_index_def)
  then have "negative_index_hint negative_stride_hint"
    by (auto simp: negative_index_hint_def negative_stride_hint_def raw_image_hint_def parse_raw_image_def raw_image_valid_def
        intro!: exI[of _ 0] exI[of _ 1])
  then show ?thesis
    using one_notification_stops_daemon[of "start_pipeline (projr (notification_Start None None))" crashing_body sample_icons]
    by (simp add: crashing_body_def start_pipeline_def notification_Start_def map_or_empty_def)
qed

end
