(* ===== verification/Telemetry_Loop.thy ===== *)
theory Telemetry_Loop
  imports Wire_Format Host_Facts Mock_Reader
begin

text \<open>
  The telemetry loop of the engine with the metrics reader it is given: what a reader promises (the
  interface \<^verbatim>\<open>MetricsReader\<close> of \<^verbatim>\<open>pkg/metrics/metrics.go\<close>), what the loop then sends to the clients, and
  that the reader of the host and the emulated one keep the promise.
\<close>

section \<open>The loop\<close>

text \<open>One tick: a round of readings, then the broadcasts. A tick carries what surrounds the daemon and the
  reader at that time.\<close>

definition telemetry_round ::
  "('x \<Rightarrow> 'r \<Rightarrow> (SystemMetrics \<times> 'r) go) \<Rightarrow> 'h world \<times> 'x \<Rightarrow> 'r \<times> 'h Engine \<Rightarrow> ('r \<times> 'h Engine) go" where
  "telemetry_round read tick re =
     ebind (read (snd tick) (fst re)) (\<lambda>(m, r').
     ebind (telemetry_tick (fst tick) (readings_of m) (snd re)) (\<lambda>e'. Inr (r', e')))"

definition telemetry_rounds ::
  "('x \<Rightarrow> 'r \<Rightarrow> (SystemMetrics \<times> 'r) go) \<Rightarrow> ('h world \<times> 'x) list \<Rightarrow> 'r \<times> 'h Engine \<Rightarrow> ('r \<times> 'h Engine) go" where
  "telemetry_rounds read = run_ops (telemetry_round read)"

text \<open>The emulated reader in one round, in the order of the loop. Each reading looks at the clock for itself:
  the \<open>i\<close>-th of the round at \<open>snd vt i\<close>.\<close>

definition mock_round :: "waves \<times> (nat \<Rightarrow> f64) \<Rightarrow> MockMetricsReader \<Rightarrow> (SystemMetrics \<times> MockMetricsReader) go" where
  "mock_round vt r =
     (case mock_ReadCPU (fst vt) (snd vt 0) r of (cpu, r1) \<Rightarrow>
        (let ram = mock_ReadRAM (fst vt) (snd vt 1) in
         case mock_ReadGPU (fst vt) (snd vt 2) r1 of (gpu, r2) \<Rightarrow>
           Inr (\<lparr>sm_CPU = cpu, sm_RAM = ram, sm_GPU = gpu, sm_Swap = mock_ReadSwap (fst vt) (snd vt 3),
                 sm_ZRAM = mock_ReadZRAM (fst vt) (snd vt 4), sm_Flags = mock_GetFlags\<rparr>, r2)))"

section \<open>What one tick does to the clients\<close>

text \<open>Every channel of the ConnectRPC telemetry stream after some broadcasts: what was waiting, and then
  messages that satisfy \<open>P\<close>.\<close>

definition rpc_gained :: "(pbTelemetryPayload \<Rightarrow> bool) \<Rightarrow> 'h Engine \<Rightarrow> 'h Engine \<Rightarrow> bool" where
  "rpc_gained P e e' \<longleftrightarrow>
     list_all2 (\<lambda>c c'. \<exists>ys. ch_buf c' = ch_buf c @ ys \<and> list_all P ys)
       (hb_store (ss_hub (sv_telemetry (en_srv e)))) (hb_store (ss_hub (sv_telemetry (en_srv e'))))"

lemma rpc_gained_refl: "rpc_gained P e e"
  by (simp add: rpc_gained_def list.rel_refl)

lemma rpc_gained_trans: "rpc_gained P e e1 \<Longrightarrow> rpc_gained P e1 e' \<Longrightarrow> rpc_gained P e e'"
  unfolding rpc_gained_def by (erule (1) list_all2_trans[rotated]) fastforce

lemma telemetry_tick_runs:
  assumes "engine_ok cfg (p, e)" and "P (mapTelemetryPayload (w_now w) m)"
  shows "\<exists>e'. telemetry_tick w (readings_of m) e = Inr e' \<and> engine_ok cfg (p, e') \<and>
    en_pool e' = pool_Broadcast (w_up w) (TelemetryMsg (w_now w) m) (en_pool e) \<and> rpc_gained P e e'"
proof -
  obtain e' where e': "telemetry_tick w (readings_of m) e = Inr e'" "engine_ok cfg (p, e')"
    using rpc_broadcast_safe[OF server_safe_broadcasts(1) engine_ok_ws_broadcast[OF assms(1)]]
    by (fastforce simp: telemetry_tick_def Let_def)
  then obtain s where s: "stream_publish (mapTelemetryPayload (w_now w) m) (sv_telemetry (en_srv e)) = Inr s"
      "sv_telemetry (en_srv e') = s"
    by (auto simp: telemetry_tick_def Let_def rpc_broadcast_Inr BroadcastTelemetry_def ebind_eq_Inr ws_broadcast_def)
  have "rpc_gained P e e'"
    unfolding rpc_gained_def s(2)
    by (rule list_all2_mono[OF stream_publish_appends[OF server_okD(1)[OF engine_okD(1)[OF assms(1)]] s(1)]])
       (use assms(2) in auto)
  with e' show ?thesis by (auto simp: telemetry_tick_def Let_def rpc_broadcast_Inr)
qed

lemma distinct_filter_single: "distinct xs \<Longrightarrow> c \<in> set xs \<Longrightarrow> P c \<Longrightarrow> filter (\<lambda>d. d = c) (filter P xs) = [c]"
  by (induction xs) (auto simp: filter_empty_conv)

section \<open>The contract of a reader\<close>

text \<open>In surroundings that are \<open>good\<close>, a round of readings completes with metrics that satisfy the \<open>promise\<close>. The
  loop then never fails, and sends nothing but telemetry with the promise, on either transport.\<close>

definition honest_delivery :: "(SystemMetrics \<Rightarrow> bool) \<Rightarrow> nat \<times> ws_msg \<Rightarrow> bool" where
  "honest_delivery promise d \<longleftrightarrow> (\<exists>now m. snd d = TelemetryMsg now m \<and> promise m)"

definition honest_payload :: "(SystemMetrics \<Rightarrow> bool) \<Rightarrow> pbTelemetryPayload \<Rightarrow> bool" where
  "honest_payload promise msg \<longleftrightarrow> (\<exists>now m. msg = mapTelemetryPayload now m \<and> promise m)"

definition messages_of :: "nat \<Rightarrow> 'h Engine \<Rightarrow> ws_msg list" where
  "messages_of c e = map snd (filter (\<lambda>d. fst d = c) (pl_sent (en_pool e)))"

locale metrics_reader =
  fixes read :: "'x \<Rightarrow> 'r \<Rightarrow> (SystemMetrics \<times> 'r) go"
    and good :: "'x \<Rightarrow> bool"
    and promise :: "SystemMetrics \<Rightarrow> bool"
  assumes read_promises: "good x \<Longrightarrow> \<exists>m r'. read x r = Inr (m, r') \<and> promise m"
begin

lemma round_promises:
  assumes "engine_ok cfg (p, e)" and "good (snd tick)"
  obtains m r1 e1 where "telemetry_round read tick (r, e) = Inr (r1, e1)" and "promise m" and "engine_ok cfg (p, e1)"
    and "en_pool e1 = pool_Broadcast (w_up (fst tick)) (TelemetryMsg (w_now (fst tick)) m) (en_pool e)"
    and "rpc_gained (honest_payload promise) e e1"
proof -
  obtain m r1 where m: "read (snd tick) r = Inr (m, r1)" "promise m" using read_promises[OF assms(2)] by blast
  have "honest_payload promise (mapTelemetryPayload (w_now (fst tick)) m)" using m(2) by (auto simp: honest_payload_def)
  from telemetry_tick_runs[OF assms(1), where P = "honest_payload promise", OF this]
  obtain e1 where "telemetry_tick (fst tick) (readings_of m) e = Inr e1" "engine_ok cfg (p, e1)"
      "en_pool e1 = pool_Broadcast (w_up (fst tick)) (TelemetryMsg (w_now (fst tick)) m) (en_pool e)"
      "rpc_gained (honest_payload promise) e e1" by blast
  with that[of r1 e1 m] m show thesis by (simp add: telemetry_round_def)
qed

lemma rounds_promise:
  "engine_ok cfg (p, e) \<Longrightarrow> list_all (\<lambda>tick. good (snd tick)) ticks \<Longrightarrow>
   \<exists>r' e' ds. telemetry_rounds read ticks (r, e) = Inr (r', e') \<and> engine_ok cfg (p, e') \<and>
     pl_sent (en_pool e') = pl_sent (en_pool e) @ ds \<and> list_all (honest_delivery promise) ds \<and>
     rpc_gained (honest_payload promise) e e'"
proof (induction ticks arbitrary: r e)
  case Nil
  then show ?case by (simp add: telemetry_rounds_def rpc_gained_refl)
next
  case (Cons tick ticks)
  then have good: "good (snd tick)" and rest: "list_all (\<lambda>tick. good (snd tick)) ticks" by simp_all
  obtain m r1 e1 where r1: "telemetry_round read tick (r, e) = Inr (r1, e1)" "promise m" "engine_ok cfg (p, e1)"
      "en_pool e1 = pool_Broadcast (w_up (fst tick)) (TelemetryMsg (w_now (fst tick)) m) (en_pool e)"
      "rpc_gained (honest_payload promise) e e1"
    by (rule round_promises[OF Cons.prems(1) good])
  let ?d = "map (\<lambda>c. (c, TelemetryMsg (w_now (fst tick)) m))
    (filter (\<lambda>c. w_up (fst tick) c (TelemetryMsg (w_now (fst tick)) m)) (pl_conns (en_pool e)))"
  have sent: "pl_sent (en_pool e1) = pl_sent (en_pool e) @ ?d"
    using pool_Broadcast_effect[OF engine_okD(2)[OF Cons.prems(1)]] r1(4) by simp
  have hon: "list_all (honest_delivery promise) ?d" using r1(2) by (auto simp: honest_delivery_def list_all_iff)
  obtain r' e' ds where ih: "telemetry_rounds read ticks (r1, e1) = Inr (r', e')" "engine_ok cfg (p, e')"
      "pl_sent (en_pool e') = pl_sent (en_pool e1) @ ds" "list_all (honest_delivery promise) ds"
      "rpc_gained (honest_payload promise) e1 e'"
    using Cons.IH[OF r1(3) rest, of r1] by blast
  have "telemetry_rounds read (tick # ticks) (r, e) = Inr (r', e')" using r1(1) ih(1) by (simp add: telemetry_rounds_def)
  moreover have "pl_sent (en_pool e') = pl_sent (en_pool e) @ (?d @ ds)" using sent ih(3) by simp
  moreover have "list_all (honest_delivery promise) (?d @ ds)" using hon ih(4) by simp
  moreover note rpc_gained_trans[OF r1(5) ih(5)] ih(2)
  ultimately show ?case by blast
qed

end

text \<open>If the promise also excludes values that cannot be encoded, then every tick reaches a client whose own
  link works, in order and one message per tick, and that client stays connected, whatever the
  links of the others do.\<close>

definition link_up :: "nat \<Rightarrow> 'h world \<Rightarrow> bool" where
  "link_up c w \<longleftrightarrow> (\<forall>m. encoding_fails m \<or> w_up w c m)"

locale encodable_reader = metrics_reader +
  assumes promise_encodes: "promise m \<Longrightarrow> \<not> isl (encode_SystemMetrics m)"
begin

lemma rounds_reach_client:
  "engine_ok cfg (p, e) \<Longrightarrow> c \<in> set (pl_conns (en_pool e)) \<Longrightarrow>
   list_all (\<lambda>tick. good (snd tick) \<and> link_up c (fst tick)) ticks \<Longrightarrow>
   \<exists>r' e' ms. telemetry_rounds read ticks (r, e) = Inr (r', e') \<and> c \<in> set (pl_conns (en_pool e')) \<and>
     messages_of c e' = messages_of c e @ ms \<and>
     list_all2 (\<lambda>tick msg. \<exists>m. msg = TelemetryMsg (w_now (fst tick)) m \<and> promise m) ticks ms"
proof (induction ticks arbitrary: r e)
  case Nil
  then show ?case by (simp add: telemetry_rounds_def)
next
  case (Cons tick ticks)
  then have good: "good (snd tick)" and link: "link_up c (fst tick)"
    and rest: "list_all (\<lambda>tick. good (snd tick) \<and> link_up c (fst tick)) ticks" by simp_all
  obtain m r1 e1 where r1: "telemetry_round read tick (r, e) = Inr (r1, e1)" "promise m" "engine_ok cfg (p, e1)"
      "en_pool e1 = pool_Broadcast (w_up (fst tick)) (TelemetryMsg (w_now (fst tick)) m) (en_pool e)"
    using round_promises[OF Cons.prems(1) good, of r] by metis
  let ?msg = "TelemetryMsg (w_now (fst tick)) m"
  have ok: "pool_ok (en_pool e)" by (rule engine_okD(2)[OF Cons.prems(1)])
  have "\<not> encoding_fails ?msg" using promise_encodes[OF r1(2)] by (simp add: encoding_fails_def)
  then have up: "w_up (fst tick) c ?msg" using link unfolding link_up_def by blast
  have conn: "c \<in> set (pl_conns (en_pool e1))"
    and sent: "pl_sent (en_pool e1) = pl_sent (en_pool e) @ map (\<lambda>c. (c, ?msg)) (filter (\<lambda>c. w_up (fst tick) c ?msg) (pl_conns (en_pool e)))"
    using pool_Broadcast_effect[OF ok, of "w_up (fst tick)" ?msg] r1(4) up Cons.prems(2) by simp_all
  have "filter (\<lambda>d. d = c) (filter (\<lambda>c. w_up (fst tick) c ?msg) (pl_conns (en_pool e))) = [c]"
    using ok by (intro distinct_filter_single Cons.prems(2) up) (simp add: pool_ok_def)
  then have one: "messages_of c e1 = messages_of c e @ [?msg]"
    by (simp add: messages_of_def sent filter_map comp_def)
  obtain r' e' ms where ih: "telemetry_rounds read ticks (r1, e1) = Inr (r', e')" "c \<in> set (pl_conns (en_pool e'))"
      "messages_of c e' = messages_of c e1 @ ms"
      "list_all2 (\<lambda>tick msg. \<exists>m. msg = TelemetryMsg (w_now (fst tick)) m \<and> promise m) ticks ms"
    using Cons.IH[OF r1(3) conn rest, of r1] by blast
  have "telemetry_rounds read (tick # ticks) (r, e) = Inr (r', e')" using r1(1) ih(1) by (simp add: telemetry_rounds_def)
  moreover have "messages_of c e' = messages_of c e @ (?msg # ms)" using one ih(3) by simp
  ultimately show ?case using ih(2,4) r1(2) by (intro exI[of _ r'] exI[of _ e'] exI[of _ "?msg # ms"]) auto
qed

end

section \<open>The reader of the host\<close>

interpretation host_reader: metrics_reader read_all "\<lambda>h. True" flags_honest
  by unfold_locales (use unsupported_readings_are_zero in auto)

section \<open>The emulated reader\<close>

definition metrics_finite :: "SystemMetrics \<Rightarrow> bool" where
  "metrics_finite m \<longleftrightarrow>
     list_all f64_finite (cpu_CoresUsagePercent (sm_CPU m)) \<and>
     list_all f64_finite
       [cpu_UsagePercent (sm_CPU m), cpu_TempCelsius (sm_CPU m), cpu_FreqMHz (sm_CPU m), cpu_PowerWatts (sm_CPU m),
        ram_Percentage (sm_RAM m), swap_Percentage (sm_Swap m), zram_CompressionRatio (sm_ZRAM m),
        gpu_UsagePercent (sm_GPU m), gpu_TempCelsius (sm_GPU m), gpu_FreqMHz (sm_GPU m), gpu_PowerWatts (sm_GPU m),
        gpu_VramTempCelsius (sm_GPU m), gpu_VramFreqMHz (sm_GPU m)]"

lemma metrics_encodable: "isl (encode_SystemMetrics m) \<longleftrightarrow> \<not> metrics_finite m"
  by (auto simp: encode_SystemMetrics_def encode_CPUMetrics_def encode_RAMMetrics_def encode_SwapMetrics_def encode_ZRAMMetrics_def
      encode_GPUMetrics_def encode_TelemetryFlags_def encode_bool_def encode_uint_def isl_json_object isl_encode_slice isl_encode_f64
      metrics_finite_def list_all_iff)

lemma fin_in_finite: "fin_in a b x \<Longrightarrow> f64_finite x"
  by (auto simp: fin_in_def)

lemma flags_honest_all: "sm_Flags m = mock_GetFlags \<Longrightarrow> flags_honest m"
  by (simp add: flags_honest_def mock_GetFlags_def cpu_honest_def gpu_honest_def vram_honest_def zero_unless_def)

text \<open>A base value, a share of the load, and perhaps some noise.\<close>

lemma loaded_finite:
  assumes "fin_in a b x" and "fin_in 0 100 u" and "0 \<le> z" and "z \<le> 1" and "\<bar>a\<bar> \<le> 2 ^ 30" and "\<bar>b\<bar> \<le> 2 ^ 30"
  shows "f64_finite (round2 (f64_add x (f64_mul u (Fin z))))"
proof -
  have m: "fin_in 0 100 (f64_mul u (Fin z))" using assms(3,4) by (intro fin_in_mul[OF assms(2)]) simp_all
  have "fin_in a (b + 100) (f64_add x (f64_mul u (Fin z)))"
    using assms(5,6) by (intro fin_in_add[OF assms(1) m]) simp_all
  then have "fin_in a (b + 100) (round2 (f64_add x (f64_mul u (Fin z))))"
    using assms(5,6) by (intro fin_in_round2) simp_all
  then show ?thesis by (rule fin_in_finite)
qed

lemma noisy_finite:
  assumes "fin_in a b x" and "fin_in c d y" and "\<bar>a\<bar> \<le> 2 ^ 30" and "\<bar>b\<bar> \<le> 2 ^ 30" and "\<bar>c\<bar> \<le> 2 ^ 30" and "\<bar>d\<bar> \<le> 2 ^ 30"
  shows "f64_finite (round2 (f64_add x y))"
proof -
  have "fin_in (a + c) (b + d) (f64_add x y)" using assms(3-6) by (intro fin_in_add[OF assms(1,2)]) simp_all
  then have "fin_in (a + c) (b + d) (round2 (f64_add x y))" using assms(3-6) by (intro fin_in_round2) simp_all
  then show ?thesis by (rule fin_in_finite)
qed

lemma rnd_unit: "0 \<le> x \<Longrightarrow> x \<le> 1 \<Longrightarrow> \<exists>z. rnd x = Fin z \<and> 0 \<le> z \<and> z \<le> 1"
  using rnd_in[of 0 x 1] by (auto simp: fin_in_def)

lemma mock_ReadCPU_finite:
  assumes "waves_ok v" and "mock_ReadCPU v t r = (cpu, r')"
  shows "f64_finite (cpu_TempCelsius cpu)" and "f64_finite (cpu_FreqMHz cpu)"
proof -
  have s: "fin_in (- 1) 1 (wv_sin v x)" for x using assms(1) by (simp add: waves_ok_def)
  let ?u = "clamp_percent (f64_add (swing 15 (wv_sin v (f64_div t (Fin 8))) 10) (jitter v (mr_drawn r) 4 2))"
  have u: "fin_in 0 100 ?u"
    by (intro fin_in_clamp[of "- 100" 100] fin_in_add[OF swing_num[OF s] jitter_num(1)[OF assms(1)]]) simp_all
  have sw: "fin_in 35 45 (swing 40 (wv_sin v x) 5)" for x using swing_in[OF s, of 5 40] by simp
  have fr: "fin_in 2500 4500 (swing 2500 ?u 20)" using swing_in[OF u, of 20 2500] by simp
  obtain z where z: "rnd (3 / 10) = Fin z" "0 \<le> z" "z \<le> 1" using rnd_unit[of "3 / 10"] by auto
  show "f64_finite (cpu_TempCelsius cpu)"
    using assms(2) loaded_finite[OF sw u z(2,3)] z(1) by (auto simp: mock_ReadCPU_def Let_def)
  show "f64_finite (cpu_FreqMHz cpu)"
    using assms(2) noisy_finite[OF fr jitter_num(1)[OF assms(1)]] by (auto simp: mock_ReadCPU_def Let_def)
qed

lemma mock_ReadGPU_finite:
  assumes "waves_ok v" and "mock_ReadGPU v t r = (gpu, r')"
  shows "f64_finite (gpu_TempCelsius gpu)" and "f64_finite (gpu_FreqMHz gpu)" and "f64_finite (gpu_VramTempCelsius gpu)"
    and "f64_finite (gpu_VramFreqMHz gpu)"
proof -
  have c: "fin_in (- 1) 1 (wv_cos v x)" for x using assms(1) by (simp add: waves_ok_def)
  let ?u = "clamp_percent (f64_add (swing 30 (wv_cos v (f64_div t (Fin 15))) 15) (jitter v (mr_drawn r) 2 1))"
  have u: "fin_in 0 100 ?u"
    by (intro fin_in_clamp[of "- 100" 100] fin_in_add[OF swing_num[OF c] jitter_num(2)[OF assms(1)]]) simp_all
  have sw: "fin_in 42 58 (swing 50 (wv_cos v x) 8)" "fin_in 40 60 (swing 50 (wv_cos v x) 10)" for x
    using swing_in[OF c, of 8 50] swing_in[OF c, of 10 50] by simp_all
  have fr: "fin_in 300 1800 (swing 300 ?u 15)" "fin_in 800 2000 (swing 800 ?u 12)"
    using swing_in[OF u, of 15 300] swing_in[OF u, of 12 800] by simp_all
  obtain z where z: "rnd (1 / 5) = Fin z" "0 \<le> z" "z \<le> 1" using rnd_unit[of "1 / 5"] by auto
  show "f64_finite (gpu_TempCelsius gpu)" "f64_finite (gpu_VramTempCelsius gpu)"
    using assms(2) loaded_finite[OF sw(1) u z(2,3)] z(1) loaded_finite[OF sw(2) u, of "1 / 4"] by (auto simp: mock_ReadGPU_def Let_def)
  show "f64_finite (gpu_FreqMHz gpu)" "f64_finite (gpu_VramFreqMHz gpu)"
    using assms(2) noisy_finite[OF fr(1) jitter_num(1)[OF assms(1)]] noisy_finite[OF fr(2) jitter_num(1)[OF assms(1)]]
    by (auto simp: mock_ReadGPU_def Let_def)
qed

lemma fin_in_div:
  assumes "fin_in a b x" and "fin_in c d y" and "0 \<le> a" and "0 < c" and "b \<le> hi * c" and "0 \<le> hi" and "hi \<le> 2 ^ 53"
  shows "fin_in 0 hi (f64_div x y)"
proof -
  obtain p q where p: "x = Fin p" "of_int a \<le> p" "p \<le> of_int b" and q: "y = Fin q" "of_int c \<le> q" "q \<le> of_int d"
    using assms(1,2) by (auto simp: fin_in_def)
  have c: "(0 :: rat) < of_int c" "(0 :: rat) \<le> of_int a" "(0 :: rat) \<le> of_int hi" using assms(3,4,6) by simp_all
  have "(of_int b :: rat) \<le> of_int (hi * c)" using assms(5) by (simp only: of_int_le_iff)
  moreover have "(of_int hi :: rat) * of_int c \<le> of_int hi * q" using q(2) c(3) by (rule mult_left_mono)
  ultimately have "p \<le> of_int hi * q" using p(3) by simp
  moreover have "0 < q" "0 \<le> p" using c q(2) p(2) by linarith+
  ultimately have "0 \<le> p / q" "p / q \<le> of_int hi" by (simp_all add: divide_le_eq)
  then show ?thesis using rnd_in[of 0 "p / q" hi] assms(6,7) \<open>0 < q\<close> by (simp add: p(1) q(1))
qed

lemma mock_ReadZRAM_finite:
  assumes "waves_ok v"
  shows "f64_finite (zram_CompressionRatio (mock_ReadZRAM v t))"
proof -
  have s: "fin_in (- 1) 1 (wv_sin v x)" for x using assms by (simp add: waves_ok_def)
  let ?o = "swing 1073741824 (wv_sin v (f64_div t (Fin 15))) 104857600"
  let ?c = "f64_div ?o (rnd (57 / 20))"
  have o: "fin_in 968884224 1178599424 ?o" using swing_in[OF s, of 104857600 1073741824] by simp
  have d: "fin_in 2 3 (rnd (57 / 20))" by (rule rnd_in) simp_all
  obtain q z where q: "?o = Fin q" "968884224 \<le> q" "q \<le> 1178599424" and z: "rnd (57 / 20) = Fin z" "2 \<le> z" "z \<le> 3"
    using o d by (auto simp: fin_in_def)
  have "322961408 * z \<le> q" using q(2) z(3) by linarith
  moreover have "q \<le> 589299712 * z" using q(3) z(2) by linarith
  ultimately have "322961408 \<le> q / z" "q / z \<le> 589299712" using z(2) by (simp_all add: le_divide_eq divide_le_eq)
  then have "fin_in 322961408 589299712 (rnd (q / z))" by (intro rnd_in) simp_all
  then have c: "fin_in 322961408 589299712 ?c" using z(2) by (simp add: q(1) z(1))
  then have "f64_less (Fin 0) ?c" by (auto simp: fin_in_def)
  moreover have "fin_in 0 4 (round2 (f64_div ?o ?c))" by (intro fin_in_round2 fin_in_div[OF o c]) simp_all
  ultimately show ?thesis using fin_in_finite by (simp add: mock_ReadZRAM_def Let_def)
qed

lemma mock_round_promises:
  assumes "waves_ok (fst vt)"
  shows "\<exists>m r'. mock_round vt r = Inr (m, r') \<and> flags_honest m \<and> metrics_finite m"
proof -
  obtain v t where vt: "vt = (v, t)" by fastforce
  obtain cpu r1 where cpu: "mock_ReadCPU v (t 0) r = (cpu, r1)" by fastforce
  obtain gpu r2 where gpu: "mock_ReadGPU v (t 2) r1 = (gpu, r2)" by fastforce
  have v: "waves_ok v" using assms vt by simp
  let ?m = "\<lparr>sm_CPU = cpu, sm_RAM = mock_ReadRAM v (t 1), sm_GPU = gpu, sm_Swap = mock_ReadSwap v (t 3),
    sm_ZRAM = mock_ReadZRAM v (t 4), sm_Flags = mock_GetFlags\<rparr>"
  have "metrics_finite ?m"
    using emulated_ranges[OF v cpu gpu] mock_ReadCPU_finite[OF v cpu] mock_ReadGPU_finite[OF v gpu] mock_ReadZRAM_finite[OF v]
    by (auto simp: metrics_finite_def list_all_iff dest: fin_in_finite)
  then show ?thesis using flags_honest_all[of ?m] by (simp add: mock_round_def vt cpu gpu)
qed

interpretation mock_reader: encodable_reader mock_round "\<lambda>vt. waves_ok (fst vt)" "\<lambda>m. flags_honest m \<and> metrics_finite m"
  by unfold_locales (use mock_round_promises metrics_encodable in auto)

section \<open>Properties\<close>

text \<open>C24: what a client is told about the host is honest. After any history of the daemon, every sequence of
  ticks completes, whatever the host answers at each of them and whichever clients fail.
  Everything that is sent to a WebSocket client on the way, and everything that is put into the
  channel of a ConnectRPC subscriber, is telemetry in which every value whose flag says that the
  host does not support it is zero or empty, with one exception: when video memory is flagged as
  unsupported, only one of its two numbers (used and total) is sure to be zero, since the reader
  keeps the one it could read.\<close>

theorem telemetry_is_honest:
  assumes "positive_intervals cfg" and "ebind (boot cfg) (run_ops (engine_exec x) ops) = Inr (period, e)"
  shows "\<exists>r' e' ds. telemetry_rounds read_all ticks (r, e) = Inr (r', e') \<and> pl_sent (en_pool e') = pl_sent (en_pool e) @ ds \<and>
    list_all (honest_delivery flags_honest) ds \<and> rpc_gained (honest_payload flags_honest) e e'"
  using host_reader.rounds_promise[OF boot_run[OF assms], of ticks r] by (auto simp: list_all_iff)

definition bare_host :: host where
  "bare_host = \<lparr>ho_times = None, ho_coreTimes = None, ho_infoMhz = None, ho_virtualMemory = Inl ''no meminfo'', ho_swapMemory = Inl ''no meminfo'',
     ho_now = 0, ho_glob = (\<lambda>p. None), ho_read = (\<lambda>p. None), ho_stat = (\<lambda>p. NotExist), ho_nvidia = False, ho_smi = Inl ''no device''\<rparr>"

theorem telemetry_is_honest_witness:
  "\<exists>period e r' e' ds. ebind (boot sample_config) (run_ops (engine_exec sample_outside) [OConnect 1]) = Inr (period, e) \<and>
     telemetry_rounds read_all [(sample_world, bare_host), (sample_world, bare_host)] (NewHostMetricsReader bare_host, e) = Inr (r', e') \<and>
     pl_sent (en_pool e') = pl_sent (en_pool e) @ ds \<and> list_all (honest_delivery flags_honest) ds"
proof -
  obtain period e where st: "ebind (boot sample_config) (run_ops (engine_exec sample_outside) [OConnect 1]) = Inr (period, e)"
    using boot_runs[OF sample_positive] by (metis surj_pair)
  from telemetry_is_honest[OF sample_positive st, of "[(sample_world, bare_host), (sample_world, bare_host)]" "NewHostMetricsReader bare_host"] st show ?thesis by blast
qed

text \<open>C39: emulated telemetry reaches every client whose own link works. After any history of the daemon and
  with the emulated reader, a connected client to which a write succeeds at every tick, except of a
  value that cannot be encoded, gets exactly one telemetry message per tick, in order and with
  the time of the tick, and is still connected at the end, whatever the links of the other clients
  do. None of the emulated readings is a value that cannot be encoded.\<close>

theorem emulated_telemetry_reaches_clients:
  assumes "positive_intervals cfg" and "ebind (boot cfg) (run_ops (engine_exec x) ops) = Inr (period, e)"
    and "c \<in> set (pl_conns (en_pool e))"
    and "list_all (\<lambda>tick. waves_ok (fst (snd tick)) \<and> link_up c (fst tick)) ticks"
  shows "\<exists>r' e' ms. telemetry_rounds mock_round ticks (r, e) = Inr (r', e') \<and> c \<in> set (pl_conns (en_pool e')) \<and>
    messages_of c e' = messages_of c e @ ms \<and>
    list_all2 (\<lambda>tick msg. \<exists>m. msg = TelemetryMsg (w_now (fst tick)) m \<and> flags_honest m \<and> metrics_finite m) ticks ms"
  by (rule mock_reader.rounds_reach_client[OF boot_run[OF assms(1,2)] assms(3,4)])

text \<open>A world in which only the link of client 1 works.\<close>

definition one_link_world :: "unit world" where
  "one_link_world = sample_world\<lparr>w_up := (\<lambda>c m. c = 1 \<and> \<not> encoding_fails m)\<rparr>"

theorem emulated_telemetry_reaches_clients_witness:
  "\<exists>period e r' e' ms. ebind (boot sample_config) (run_ops (engine_exec sample_outside) [OConnect 1, OConnect 2]) = Inr (period, e) \<and>
     telemetry_rounds mock_round [(one_link_world, flat_waves, \<lambda>i. Fin 0), (one_link_world, flat_waves, \<lambda>i. Fin 1)] (NewMockMetricsReader, e) = Inr (r', e') \<and>
     1 \<in> set (pl_conns (en_pool e')) \<and> messages_of 1 e' = messages_of 1 e @ ms \<and> length ms = 2"
proof -
  let ?ticks = "[(one_link_world, flat_waves, \<lambda>i. Fin 0), (one_link_world, flat_waves, \<lambda>i. Fin 1)]"
  obtain period e where st: "ebind (boot sample_config) (run_ops (engine_exec sample_outside) [OConnect 1, OConnect 2]) = Inr (period, e)"
    using boot_runs[OF sample_positive] by (metis surj_pair)
  have conn: "1 \<in> set (pl_conns (en_pool e))"
    using st by (auto simp: boot_def Let_def telemetry_start_def ebind_eq_Inr engine_exec_def engine_step_def
        connect_client_def NewEngine_def empty_pool_def handleClientConnect_def pool_Insert_def)
  have "waves_ok flat_waves" by (simp add: waves_ok_def flat_waves_def fin_inI)
  then have "list_all (\<lambda>tick. waves_ok (fst (snd tick)) \<and> link_up 1 (fst tick)) ?ticks"
    by (simp add: link_up_def one_link_world_def)
  from emulated_telemetry_reaches_clients[OF sample_positive st conn this, of NewMockMetricsReader] st show ?thesis
    by (auto dest: list_all2_lengthD)
qed

end
