(* ===== verification/Media_Control.thy ===== *)
theory Media_Control
  imports Engine_System Mpris_Manager
begin

text \<open>
  A media command from a dashboard to the player: the frame of a WebSocket client, the dispatch of
  \<^verbatim>\<open>pkg/websocket\<close>, the engine's callback, the registry of the media manager, the call on the bus, and the
  answer back to the client.
\<close>

section \<open>The engine with its media manager\<close>

text \<open>The callback of the engine calls \<^verbatim>\<open>SendCommand\<close> of the media manager; \<open>bus\<close> is what the call on the bus returns.\<close>

definition with_media :: "(string \<Rightarrow> player_call \<Rightarrow> string option) \<Rightarrow> DbusMPRISManager \<Rightarrow> 'h world \<Rightarrow> 'h world" where
  "with_media bus m w = w\<lparr>w_media := (\<lambda>player command args. fst (mpris_SendCommand bus m player command (Some args)))\<rparr>"

text \<open>The calls on the bus that a sequence of effects stands for.\<close>

definition player_calls :: "(string \<Rightarrow> player_call \<Rightarrow> string option) \<Rightarrow> DbusMPRISManager \<Rightarrow> effect list \<Rightarrow> (string \<times> player_call) list" where
  "player_calls bus m effs =
     List.map_filter (\<lambda>eff. case eff of
         SendPlayerCommand player command args \<Rightarrow> snd (mpris_SendCommand bus m player command (Some args))
       | _ \<Rightarrow> None) effs"

definition call_in_range :: "player_call \<Rightarrow> bool" where
  "call_in_range call =
     (case call of
        CallSetVolume v \<Rightarrow> v = NaN \<or> (\<exists>q. v = Fin q \<and> 0 \<le> q \<and> q \<le> 1)
      | CallSetPosition _ position \<Rightarrow> 0 \<le> sint position
      | _ \<Rightarrow> True)"

lemma player_call_in_range:
  assumes "player_call_of command args = Inr call"
  shows "call_in_range call"
proof -
  have "call_in_range (CallSetVolume (clamp_unit v))" for v using clamp_unit_cases[of v] by (auto simp: call_in_range_def)
  moreover have "call_in_range (CallMethod meth)" "call_in_range (CallSeek i)" "call_in_range (CallSetPosition t i) \<longleftrightarrow> 0 \<le> sint i" for meth i t
    by (simp_all add: call_in_range_def)
  ultimately show ?thesis using assms by (auto simp: player_call_of_def Let_def split: option.splits if_splits)
qed

lemma media_frame:
  assumes "Option.bind (parse bytes) unmarshal_inbound = Some im" and "im_Type im = ''media_command''"
    and "c \<notin> set (pl_closed (en_pool e))" and "\<And>msg. w_up w c msg"
  shows "handle_frame engine_pool_access (engine_callbacks w) parse (w_up w) c bytes e =
    (let e1 = add_effect (SendPlayerCommand (im_PlayerName im) (im_Command im) (margs_of_inbound im)) e;
         reply = ReplyMsg (MediaResponse (w_media w (im_PlayerName im) (im_Command im) (margs_of_inbound im)))
     in e1\<lparr>en_pool := (en_pool e)\<lparr>pl_sent := pl_sent (en_pool e) @ [(c, reply)]\<rparr>\<rparr>)"
  using assms by (simp add: handle_frame_def dispatch_def engine_callbacks_def handleMediaCommand_def engine_pool_access_def
      writeJSON_def Let_def)

text \<open>C13: a dashboard's media command reaches exactly its player. After any starts, signals and polls of the media
  manager, a well-formed media command of a connected client for a registered player leads to one call on the bus,
  on the service that owns the player, with the volume within 0 and 1 (or NaN) and the position not
  negative, and the client gets back the outcome of that call; a command that is unknown or lacks an argument
  leads to no call, and the client gets the reason.\<close>

theorem dashboard_controls_player:
  assumes "NewDbusMPRISManager sessionOk = Inr m0" and "run_ops mpris_exec mops m0 = Inr m"
    and "map_of (mm_activePlayers m) owner = Some p"
    and "Option.bind (parse bytes) unmarshal_inbound = Some im" and "im_Type im = ''media_command''"
    and "im_PlayerName im = ps_PlayerName p"
    and "c \<notin> set (pl_closed (en_pool e))" and "\<And>msg. w_up w c msg"
  shows "\<exists>svc effs reply. let e' = handle_frame engine_pool_access (engine_callbacks (with_media bus m w)) parse (w_up w) c bytes e in
    map_of (mm_ownerToService m) owner = Some svc \<and> en_effects e' = en_effects e @ effs \<and>
    pl_sent (en_pool e') = pl_sent (en_pool e) @ [(c, ReplyMsg (MediaResponse reply))] \<and>
    (case player_call_of (im_Command im) (Some (margs_of_inbound im)) of
       Inl err \<Rightarrow> player_calls bus m effs = [] \<and> reply = Some err
     | Inr call \<Rightarrow> player_calls bus m effs = [(svc, call)] \<and> call_in_range call \<and> reply = bus svc call)"
proof -
  have ok: "mpris_ok m" by (rule players.run_keeps[OF new_mpris_ok[OF assms(1)] assms(2)])
  let ?svc = "mpris_prefix @ ps_PlayerName p"
  let ?eff = "SendPlayerCommand (im_PlayerName im) (im_Command im) (margs_of_inbound im)"
  have svc: "map_of (mm_ownerToService m) owner = Some ?svc" "service_of m (im_PlayerName im) = ?svc"
    using registry_service[OF _ assms(3)] service_of_registered[OF ok assms(3)] ok assms(6) by (simp_all add: mpris_ok_def)
  have up: "w_up (with_media bus m w) c msg" "w_up (with_media bus m w) = w_up w" for msg
    using assms(8) by (simp_all add: with_media_def)
  let ?reply = "fst (mpris_SendCommand bus m (im_PlayerName im) (im_Command im) (Some (margs_of_inbound im)))"
  let ?e' = "handle_frame engine_pool_access (engine_callbacks (with_media bus m w)) parse (w_up w) c bytes e"
  have e': "en_effects ?e' = en_effects e @ [?eff]" "pl_sent (en_pool ?e') = pl_sent (en_pool e) @ [(c, ReplyMsg (MediaResponse ?reply))]"
    using media_frame[where w = "with_media bus m w" and parse = parse and bytes = bytes and im = im, OF assms(4,5,7) up(1)] by (simp_all add: up(2) Let_def with_media_def)
  have "case player_call_of (im_Command im) (Some (margs_of_inbound im)) of
       Inl err \<Rightarrow> player_calls bus m [?eff] = [] \<and> ?reply = Some err
     | Inr call \<Rightarrow> player_calls bus m [?eff] = [(?svc, call)] \<and> call_in_range call \<and> ?reply = bus ?svc call"
    by (auto simp: player_calls_def List.map_filter_simps mpris_SendCommand_def svc(2) Let_def player_call_in_range split: sum.split)
  with svc(1) e' show ?thesis unfolding Let_def by blast
qed

definition volume_frame :: json where
  "volume_frame = JObj [(''type'', JStr ''media_command''), (''player_name'', JStr ''vlc''), (''command'', JStr ''set_volume''),
     (''args'', JObj [(''volume'', JInt 7)])]"

theorem dashboard_controls_player_witness:
  "\<exists>m effs. run_ops mpris_exec [XStart sample_bus None] (projr (NewDbusMPRISManager True)) = Inr m \<and>
     en_effects (handle_frame engine_pool_access (engine_callbacks (with_media (\<lambda>_ _. None) m sample_world)) (\<lambda>_. Some volume_frame)
       (w_up sample_world) 1 [] (NewEngine sample_config)) = effs \<and>
     player_calls (\<lambda>_ _. None) m effs = [(''org.mpris.MediaPlayer2.vlc'', CallSetVolume (Fin 1))]"
proof -
  let ?e = "NewEngine sample_config :: unit Engine"
  obtain m p where m: "run_ops mpris_exec [XStart sample_bus None] (projr (NewDbusMPRISManager True)) = Inr m"
      "map_of (mm_activePlayers m) '':1.7'' = Some p" "ps_PlayerName p = ''vlc''"
      "map_of (mm_ownerToService m) '':1.7'' = Some ''org.mpris.MediaPlayer2.vlc''"
    by (simp add: NewDbusMPRISManager_def mpris_Start_def bootstrapActivePlayers_def register_name_def fetchAndRegisterPlayer_def
        mpris_broadcastState_def try_send_def sample_bus_def Let_def split_beta fetch_player_name has_prefix_def trim_prefix_def)
  obtain im where im: "unmarshal_inbound volume_frame = Some im" "im_Type im = ''media_command''" "im_PlayerName im = ''vlc''"
      "player_call_of (im_Command im) (Some (margs_of_inbound im)) = Inr (CallSetVolume (Fin 1))"
  proof -
    have "rnd 7 = Fin 7" using rnd_int[of 7] by simp
    then have "case unmarshal_inbound volume_frame of None \<Rightarrow> False
      | Some im \<Rightarrow> im_Type im = ''media_command'' \<and> im_PlayerName im = ''vlc'' \<and> im_Command im = ''set_volume'' \<and>
          margs_of_inbound im = [(''volume'', AFloat64 (Fin 7))]"
      by (simp add: volume_frame_def unmarshal_inbound_def decode_struct_def inbound_names_def inbound_field_def decode_string_def
          zeroInbound_def decode_ptr_def decode_args_def args_field_def zeroArgs_def decode_f64_def finite_f64_def
          margs_of_inbound_def margs_of_def)
    then show thesis
      using that by (auto simp: player_call_of_def player_method_def arg_f64_def clamp_unit_def split: option.splits)
  qed
  have new: "NewDbusMPRISManager True = Inr (projr (NewDbusMPRISManager True))" by (simp add: NewDbusMPRISManager_def)
  have e: "en_effects ?e = []" "pl_closed (en_pool ?e) = []" by (simp_all add: NewEngine_def empty_pool_def)
  from dashboard_controls_player[OF new m(1,2), of "\<lambda>_. Some volume_frame" "[]" im 1 ?e sample_world "\<lambda>_ _. None"] m im e
  show ?thesis by (auto simp: Let_def sample_world_def)
qed

end
