(* ===== verification/Monitor_Pipeline.thy ===== *)
theory Monitor_Pipeline
  imports Engine_System
begin

text \<open>
  The session lock and the display power managers composed with the engine: signals of the buses are reduced to transitions by
  the manager, queued in its channel, and taken by the engine's monitor, which caches them, pushes them to the clients
  and acts on them, while every other operation of the daemon runs in between. The composition is done once, in
  a locale, for any manager that forwards transitions and any daemon that never panics.
\<close>

section \<open>A manager, its channel and the daemon\<close>

text \<open>\<open>pp_taken\<close> records the events the monitor has taken.\<close>

record ('m, 'e, 'd) piped =
  pp_mgr :: 'm
  pp_out :: "'e chan"
  pp_daemon :: 'd
  pp_taken :: "'e list"

datatype ('g, 'o) pipe_op = PSignal 'g | PTake | PDaemon 'o

definition pipe_start :: "'m \<Rightarrow> 'e chan \<Rightarrow> 'd \<Rightarrow> ('m, 'e, 'd) piped" where
  "pipe_start m out d = \<lparr>pp_mgr = m, pp_out = out, pp_daemon = d, pp_taken = []\<rparr>"

definition pipe_exec ::
  "('m \<Rightarrow> 'g \<Rightarrow> 'e chan \<Rightarrow> ('m \<times> 'e chan) go) \<Rightarrow> ('e \<Rightarrow> 'd \<Rightarrow> 'd go) \<Rightarrow> ('o \<Rightarrow> 'd \<Rightarrow> 'd go) \<Rightarrow>
     ('g, 'o) pipe_op \<Rightarrow> ('m, 'e, 'd) piped \<Rightarrow> ('m, 'e, 'd) piped go" where
  "pipe_exec receive on_event exec opr s =
     (case opr of
        PSignal g \<Rightarrow> ebind (receive (pp_mgr s) g (pp_out s)) (\<lambda>(m, out). Inr (s\<lparr>pp_mgr := m, pp_out := out\<rparr>))
      | PTake \<Rightarrow>
         (case try_recv (pp_out s) of
            (None, _) \<Rightarrow> Inr s
          | (Some ev, out) \<Rightarrow> ebind (on_event ev (pp_daemon s))
              (\<lambda>d. Inr (s\<lparr>pp_out := out, pp_daemon := d, pp_taken := pp_taken s @ [ev]\<rparr>)))
      | PDaemon x \<Rightarrow> ebind (exec x (pp_daemon s)) (\<lambda>d. Inr (s\<lparr>pp_daemon := d\<rparr>)))"

text \<open>The monitor keeps up: the channel has room whenever a signal arrives.\<close>

fun keeps_up :: "(('g, 'o) pipe_op \<Rightarrow> ('m, 'e, 'd) piped \<Rightarrow> ('m, 'e, 'd) piped go) \<Rightarrow> ('g, 'o) pipe_op list \<Rightarrow> ('m, 'e, 'd) piped \<Rightarrow> bool" where
  "keeps_up exec [] s = True"
| "keeps_up exec (opr # ops) s =
     ((case opr of PSignal _ \<Rightarrow> length (ch_buf (pp_out s)) < ch_cap (pp_out s) | _ \<Rightarrow> True) \<and>
      (case exec opr s of Inl _ \<Rightarrow> True | Inr s' \<Rightarrow> keeps_up exec ops s'))"

definition claims_of :: "('g \<Rightarrow> 'v option) \<Rightarrow> ('g, 'o) pipe_op list \<Rightarrow> 'v list" where
  "claims_of claim ops = List.map_filter (\<lambda>opr. case opr of PSignal g \<Rightarrow> claim g | _ \<Rightarrow> None) ops"

lemma claims_of_simps [simp]:
  "claims_of claim [] = []"
  "claims_of claim (opr # ops) = (case opr of PSignal g \<Rightarrow> (case claim g of Some v \<Rightarrow> [v] | None \<Rightarrow> []) | _ \<Rightarrow> []) @ claims_of claim ops"
  by (auto simp: claims_of_def List.map_filter_simps split: option.splits pipe_op.splits)

definition latest :: "'v list \<Rightarrow> 'v option" where
  "latest vs = (if vs = [] then None else Some (last vs))"

lemma latest_simps [simp]: "latest [] = None" "latest (vs @ [v]) = Some v"
  by (simp_all add: latest_def)

lemma transitions_snoc:
  "transitions k (vs @ [v]) = transitions k vs @ (if (if vs = [] then k else latest vs) = Some v then [] else [v])"
proof (induction vs arbitrary: k)
  case (Cons w ws)
  then show ?case by (cases "ws = []") (auto simp: latest_def)
qed simp

locale monitor_pipeline = transition_filter upd known mk + safe_system exec inv
  for upd :: "'m \<Rightarrow> 'v \<Rightarrow> 'e chan \<Rightarrow> ('m \<times> 'e chan) go" and known :: "'m \<Rightarrow> 'v option" and mk :: "'v \<Rightarrow> 'e"
    and exec :: "'o \<Rightarrow> 'd \<Rightarrow> 'd go" and inv :: "'d \<Rightarrow> bool" +
  fixes receive :: "'m \<Rightarrow> 'g \<Rightarrow> 'e chan \<Rightarrow> ('m \<times> 'e chan) go"
    and claim :: "'m \<Rightarrow> 'g \<Rightarrow> 'v option"
    and on_event :: "'e \<Rightarrow> 'd \<Rightarrow> 'd go"
  assumes receive_claim: "receive m g out = (case claim m g of None \<Rightarrow> Inr (m, out) | Some v \<Rightarrow> upd m v out)"
    and claim_stable: "upd m v out = Inr (m', out') \<Longrightarrow> claim m' = claim m"
    and event_safe: "inv d \<Longrightarrow> \<exists>d'. on_event ev d = Inr d' \<and> inv d'"
begin

text \<open>After the claims \<open>cs\<close>: what was taken and what waits are the transitions among them.\<close>

definition flow :: "('g \<Rightarrow> 'v option) \<Rightarrow> 'v list \<Rightarrow> ('m, 'e, 'd) piped \<Rightarrow> bool" where
  "flow cl cs s \<longleftrightarrow> \<not> ch_closed (pp_out s) \<and> inv (pp_daemon s) \<and> claim (pp_mgr s) = cl \<and> known (pp_mgr s) = latest cs \<and>
     pp_taken s @ ch_buf (pp_out s) = map mk (transitions None cs)"

lemma flow_signal:
  assumes "flow cl cs s" and "length (ch_buf (pp_out s)) < ch_cap (pp_out s)"
  shows "\<exists>s'. pipe_exec receive on_event exec (PSignal g) s = Inr s' \<and> flow cl (cs @ (case cl g of Some v \<Rightarrow> [v] | None \<Rightarrow> [])) s'"
proof (cases "cl g")
  case None
  with assms(1) show ?thesis by (auto simp: pipe_exec_def receive_claim flow_def)
next
  case (Some v)
  from assms(1) have f: "\<not> ch_closed (pp_out s)" "claim (pp_mgr s) = cl" "known (pp_mgr s) = latest cs"
    "pp_taken s @ ch_buf (pp_out s) = map mk (transitions None cs)" "inv (pp_daemon s)" by (simp_all add: flow_def)
  obtain m' out' where upd: "upd (pp_mgr s) v (pp_out s) = Inr (m', out')" "known m' = Some v" "\<not> ch_closed out'"
    and off: "offer_all offer (map mk (transitions (latest cs) [v])) (pp_out s) = Inr out'"
    using upd_open[OF f(1), of "pp_mgr s" v] unfolding f(3) by blast
  have "ch_buf out' = ch_buf (pp_out s) @ map mk (if latest cs = Some v then [] else [v])"
    using off assms(2) f(1) by (cases "latest cs = Some v") (auto simp: offer_Inr_iff ebind_eq_Inr)
  moreover have "transitions None (cs @ [v]) = transitions None cs @ (if latest cs = Some v then [] else [v])"
    by (simp add: transitions_snoc latest_def)
  ultimately have "flow cl (cs @ [v]) (s\<lparr>pp_mgr := m', pp_out := out'\<rparr>)"
    using f upd claim_stable[OF upd(1)] by (simp add: flow_def)
  with Some upd(1) f(2) show ?thesis by (simp add: pipe_exec_def receive_claim)
qed

lemma flow_take:
  assumes "flow cl cs s" and "ch_buf (pp_out s) = ev # rest"
  shows "\<exists>d'. on_event ev (pp_daemon s) = Inr d' \<and>
    pipe_exec receive on_event exec PTake s =
      Inr (s\<lparr>pp_out := (pp_out s)\<lparr>ch_buf := rest\<rparr>, pp_daemon := d', pp_taken := pp_taken s @ [ev]\<rparr>) \<and>
    flow cl cs (s\<lparr>pp_out := (pp_out s)\<lparr>ch_buf := rest\<rparr>, pp_daemon := d', pp_taken := pp_taken s @ [ev]\<rparr>)"
proof -
  obtain d' where "on_event ev (pp_daemon s) = Inr d'" "inv d'" using event_safe assms(1) by (auto simp: flow_def)
  with assms show ?thesis by (simp add: pipe_exec_def try_recv_def flow_def)
qed

lemma flow_step:
  assumes "flow cl cs s" and "case opr of PSignal _ \<Rightarrow> length (ch_buf (pp_out s)) < ch_cap (pp_out s) | _ \<Rightarrow> True"
  shows "\<exists>s'. pipe_exec receive on_event exec opr s = Inr s' \<and> flow cl (cs @ claims_of cl [opr]) s'"
proof (cases opr)
  case (PSignal g)
  with assms flow_signal[OF assms(1), of g] show ?thesis by simp
next
  case PTake
  then show ?thesis
    using assms(1) flow_take[OF assms(1)] by (cases "ch_buf (pp_out s)") (auto simp: pipe_exec_def try_recv_def)
next
  case (PDaemon x)
  then show ?thesis using exec_safe[of "pp_daemon s" x] assms(1) by (auto simp: flow_def pipe_exec_def)
qed

lemma flow_run:
  assumes "flow cl cs s" and "keeps_up (pipe_exec receive on_event exec) ops s"
  shows "\<exists>s'. run_ops (pipe_exec receive on_event exec) ops s = Inr s' \<and> flow cl (cs @ claims_of cl ops) s'"
  using assms
proof (induction ops arbitrary: s cs)
  case (Cons opr ops)
  from flow_step[OF Cons.prems(1)] Cons.prems(2) obtain s1 where
    s1: "pipe_exec receive on_event exec opr s = Inr s1" "flow cl (cs @ claims_of cl [opr]) s1" by auto
  with Cons.IH[OF s1(2)] Cons.prems(2) show ?case by simp
qed simp

text \<open>From a fresh manager: the monitor sees the claimed values with adjacent repetitions removed, and it can
  take the next one at any time, with the effect that its handler has.\<close>

lemma pipeline_correct:
  assumes "known m = None" and "\<not> ch_closed out" and "ch_buf out = []" and "inv d"
    and "\<And>ev d d'. inv d \<Longrightarrow> on_event ev d = Inr d' \<Longrightarrow> shown ev d d'"
    and "keeps_up (pipe_exec receive on_event exec) ops (pipe_start m out d)"
  shows "\<exists>s. run_ops (pipe_exec receive on_event exec) ops (pipe_start m out d) = Inr s \<and>
    pp_taken s @ ch_buf (pp_out s) = map mk (remdups_adj (claims_of (claim m) ops)) \<and>
    (\<forall>ev rest. ch_buf (pp_out s) = ev # rest \<longrightarrow> (\<exists>s'. pipe_exec receive on_event exec PTake s = Inr s' \<and>
       pp_taken s' = pp_taken s @ [ev] \<and> ch_buf (pp_out s') = rest \<and> shown ev (pp_daemon s) (pp_daemon s')))"
proof -
  have "flow (claim m) [] (pipe_start m out d)" using assms(1-4) by (simp add: flow_def pipe_start_def)
  from flow_run[OF this assms(6)] obtain s where s: "run_ops (pipe_exec receive on_event exec) ops (pipe_start m out d) = Inr s"
      "flow (claim m) (claims_of (claim m) ops) s" by auto
  have "\<exists>s'. pipe_exec receive on_event exec PTake s = Inr s' \<and> pp_taken s' = pp_taken s @ [ev] \<and> ch_buf (pp_out s') = rest \<and>
      shown ev (pp_daemon s) (pp_daemon s')" if "ch_buf (pp_out s) = ev # rest" for ev rest
    using flow_take[OF s(2) that] assms(5) s(2) by (auto simp: flow_def)
  with s show ?thesis by (auto simp: flow_def transitions_None)
qed

end

section \<open>Session lock and displays\<close>

definition lock_pipe :: "'h outside \<Rightarrow> (lock_source, 'h engine_op) pipe_op \<Rightarrow>
    (DbusLockManager, SessionLockEvent, i64 \<times> 'h Engine) piped \<Rightarrow> (DbusLockManager, SessionLockEvent, i64 \<times> 'h Engine) piped go" where
  "lock_pipe y = pipe_exec lock_receive (\<lambda>ev. engine_exec y (OLock ev)) (engine_exec y)"

definition dpms_pipe :: "'h outside \<Rightarrow> (signal, 'h engine_op) pipe_op \<Rightarrow>
    (DbusDpmsManager, DpmsEvent, i64 \<times> 'h Engine) piped \<Rightarrow> (DbusDpmsManager, DpmsEvent, i64 \<times> 'h Engine) piped go" where
  "dpms_pipe y = pipe_exec dpms_handleSessionSignal (\<lambda>ev. engine_exec y (ODpms ev)) (engine_exec y)"

interpretation lock_flow: monitor_pipeline lock_updateState lock_known "\<lambda>b. \<lparr>Locked = b\<rparr>" "engine_exec y" "engine_ok cfg"
    lock_receive lock_claim "\<lambda>ev. engine_exec y (OLock ev)" for y cfg
  by unfold_locales (simp_all add: lock_receive_claim fun_eq_iff lock_claim_update engine_exec_safe del: split_paired_Ex)

interpretation dpms_flow: monitor_pipeline dpms_updateState dpms_known "\<lambda>s. \<lparr>dp_State = s\<rparr>" "engine_exec y" "engine_ok cfg"
    dpms_handleSessionSignal "\<lambda>_. dpms_claim" "\<lambda>ev. engine_exec y (ODpms ev)" for y cfg
  by unfold_locales (simp_all add: dpms_handle_claim engine_exec_safe del: split_paired_Ex)

text \<open>What the monitors do with an event: it is remembered for new clients, written to every client that can be reached, offered to
  the streams of the remote procedures, and acted on.\<close>

definition sent_to_clients :: "'h world \<Rightarrow> ws_msg \<Rightarrow> 'h Engine \<Rightarrow> 'h Engine \<Rightarrow> bool" where
  "sent_to_clients w msg e e' \<longleftrightarrow>
     pl_sent (en_pool e') = pl_sent (en_pool e) @ map (\<lambda>c. (c, msg)) (filter (\<lambda>c. w_up w c msg) (pl_conns (en_pool e)))"

definition lock_shown :: "'h world \<Rightarrow> Config \<Rightarrow> SessionLockEvent \<Rightarrow> 'h Engine \<Rightarrow> 'h Engine \<Rightarrow> bool" where
  "lock_shown w cfg ev e e' \<longleftrightarrow>
     en_lastLockState e' = Some ev \<and> sent_to_clients w (SessionLockMsg (w_now w) ev) e e' \<and>
     BroadcastSystemLock (w_now w) ev (en_srv e) = Inr (en_srv e') \<and>
     en_interval e' = duration_ms (if Locked ev then dc_LockedUpdateIntervalMS (cf_Daemon cfg) else dc_UpdateIntervalMS (cf_Daemon cfg)) \<and>
     en_resetChan e' = reset_send (en_interval e') (en_resetChan e)"

definition dpms_shown :: "'h world \<Rightarrow> Config \<Rightarrow> DpmsEvent \<Rightarrow> 'h Engine \<Rightarrow> 'h Engine \<Rightarrow> bool" where
  "dpms_shown w cfg ev e e' \<longleftrightarrow>
     en_lastDpmsState e' = Some ev \<and> sent_to_clients w (DpmsMsg (w_now w) ev) e e' \<and>
     BroadcastDpms (w_now w) ev (en_srv e) = Inr (en_srv e') \<and>
     en_effects e' = en_effects e @ (if ac_NoAppControl (cf_ADB cfg) then []
       else map (if dp_State ev = ''off'' then AdbSleep else AdbWake) (en_activeSerials e))"

lemma ws_broadcast_sent:
  assumes "engine_ok cfg (p, e)" and "en_pool e' = en_pool (ws_broadcast w msg e)"
  shows "sent_to_clients w msg e e'"
  using pool_Broadcast_effect[OF engine_okD(2)[OF assms(1)], of "w_up w" msg] assms(2) by (simp add: sent_to_clients_def)

lemma lock_event_shown:
  assumes "engine_ok cfg (p, e)" and "engine_exec y (OLock ev) (p, e) = Inr (p', e')"
  shows "p' = p \<and> lock_shown (o_world y) cfg ev e e'"
proof -
  have "en_cfg e = cfg" using assms(1) by (simp add: engine_ok_def)
  with assms show ?thesis
    by (auto simp: engine_exec_def engine_step_def Let_def on_lock_def ebind_eq_Inr rpc_broadcast_Inr lock_shown_def
        updateIntervalForLockState_def intro!: ws_broadcast_sent[OF assms(1)])
qed

lemma dpms_event_shown:
  assumes "engine_ok cfg (p, e)" and "engine_exec y (ODpms ev) (p, e) = Inr (p', e')"
  shows "p' = p \<and> dpms_shown (o_world y) cfg ev e e'"
proof -
  have "en_cfg e = cfg" using assms(1) by (simp add: engine_ok_def)
  with assms show ?thesis
    by (auto simp: engine_exec_def engine_step_def Let_def on_dpms_def ebind_eq_Inr rpc_broadcast_Inr dpms_shown_def
        adb_screens_eq intro!: ws_broadcast_sent[OF assms(1)])
qed

lemma boot_engine_ok: "positive_intervals cfg \<Longrightarrow> boot cfg = Inr d \<Longrightarrow> engine_ok cfg d"
  using boot_run[of cfg x "[]" d] by simp

lemma sample_boot: "boot sample_config = Inr (projr (boot sample_config))"
  by (simp add: boot_ok(1)[OF sample_positive])

section \<open>Properties\<close>

text \<open>C14: a change of the session lock reaches every dashboard and the ticker. Whatever signals the two buses deliver and whatever else
  the daemon does in between, nothing panics; as long as the lock manager's channel has room when a signal arrives,
  the events the engine has taken, followed by those that wait, are the claimed lock states with adjacent repetitions
  removed; and whenever one waits, the engine can take it, which makes it the state that new clients get, sends it to every client that
  can be reached, offers it to the streams, and requests the polling interval of that state.\<close>

theorem lock_signals_reach_dashboards:
  assumes "positive_intervals cfg" and "boot cfg = Inr d" and "NewDbusLockManager sessionOk systemOk = Inr m"
    and "keeps_up (lock_pipe y) ops (pipe_start m lock_out_chan d)"
  shows "\<exists>s. run_ops (lock_pipe y) ops (pipe_start m lock_out_chan d) = Inr s \<and>
    pp_taken s @ ch_buf (pp_out s) = map (\<lambda>b. \<lparr>Locked = b\<rparr>) (remdups_adj (claims_of (lock_claim m) ops)) \<and>
    (\<forall>ev rest. ch_buf (pp_out s) = ev # rest \<longrightarrow> (\<exists>s'. lock_pipe y PTake s = Inr s' \<and> pp_taken s' = pp_taken s @ [ev] \<and>
       ch_buf (pp_out s') = rest \<and> lock_shown (o_world y) cfg ev (snd (pp_daemon s)) (snd (pp_daemon s'))))"
proof -
  have fresh: "lock_known m = None" using assms(3) by (auto simp: NewDbusLockManager_def lock_known_def split: if_splits)
  have shown: "lock_shown (o_world y) cfg ev (snd d1) (snd d2)"
    if "engine_ok cfg d1" and "engine_exec y (OLock ev) d1 = Inr d2" for ev d1 d2
    using that lock_event_shown[of cfg "fst d1" "snd d1" y ev "fst d2" "snd d2"] by simp
  show ?thesis
    unfolding lock_pipe_def
    by (rule lock_flow.pipeline_correct[OF fresh _ _ boot_engine_ok[OF assms(1,2)] shown assms(4)[unfolded lock_pipe_def]])
      (simp_all add: lock_out_chan_def)
qed

definition lock_signal :: lock_source where
  "lock_signal = SystemBus (sample_signal ''org.freedesktop.login1.Session.Lock'' [])"

theorem lock_signals_reach_dashboards_witness:
  "\<exists>s s'. run_ops (lock_pipe sample_outside) [PSignal lock_signal, PSignal lock_signal]
      (pipe_start (projr (NewDbusLockManager True True)) lock_out_chan (projr (boot sample_config))) = Inr s \<and>
    ch_buf (pp_out s) = [\<lparr>Locked = True\<rparr>] \<and> lock_pipe sample_outside PTake s = Inr s' \<and>
    en_lastLockState (snd (pp_daemon s')) = Some \<lparr>Locked = True\<rparr>"
proof -
  have n: "NewDbusLockManager True True = Inr (projr (NewDbusLockManager True True))" by (simp add: NewDbusLockManager_def)
  let ?ops = "[PSignal lock_signal, PSignal lock_signal] :: (lock_source, unit engine_op) pipe_op list"
  let ?s0 = "pipe_start (projr (NewDbusLockManager True True)) lock_out_chan (projr (boot sample_config) :: i64 \<times> unit Engine)"
  note run = lock_pipe_def pipe_exec_def pipe_start_def lock_receive_def lock_handleSystemSignal_def lock_signal_def
    lock_updateState_def NewDbusLockManager_def sample_signal_def lock_out_chan_def try_send_def Let_def make_chan_def
  have k: "keeps_up (lock_pipe sample_outside) ?ops ?s0" by (simp add: run)
  have buf: "run_ops (lock_pipe sample_outside) ?ops ?s0 = Inr s \<Longrightarrow> ch_buf (pp_out s) = [\<lparr>Locked = True\<rparr>]" for s
    by (auto simp: run)
  show ?thesis
    using lock_signals_reach_dashboards[OF sample_positive sample_boot n k] buf by (auto simp: lock_shown_def)
qed

text \<open>C16: when the displays go to sleep or wake up, so do the dashboards. With the same guarantees as for the session
  lock, every event the engine takes from the display power manager becomes the state that new clients get, is sent to every client that can be reached
  and offered to the streams, and each known device is put to sleep for \<^verbatim>\<open>off\<close> and woken up otherwise, unless the control of
  the application is disabled.\<close>

theorem display_power_reaches_devices:
  assumes "positive_intervals cfg" and "boot cfg = Inr d" and "NewDbusDpmsManager sessionOk = Inr m"
    and "keeps_up (dpms_pipe y) ops (pipe_start m dpms_out_chan d)"
  shows "\<exists>s. run_ops (dpms_pipe y) ops (pipe_start m dpms_out_chan d) = Inr s \<and>
    pp_taken s @ ch_buf (pp_out s) = map (\<lambda>st. \<lparr>dp_State = st\<rparr>) (remdups_adj (claims_of dpms_claim ops)) \<and>
    (\<forall>ev rest. ch_buf (pp_out s) = ev # rest \<longrightarrow> (\<exists>s'. dpms_pipe y PTake s = Inr s' \<and> pp_taken s' = pp_taken s @ [ev] \<and>
       ch_buf (pp_out s') = rest \<and> dpms_shown (o_world y) cfg ev (snd (pp_daemon s)) (snd (pp_daemon s'))))"
proof -
  have fresh: "dpms_known m = None" using assms(3) by (auto simp: NewDbusDpmsManager_def dpms_known_def split: if_splits)
  have shown: "dpms_shown (o_world y) cfg ev (snd d1) (snd d2)"
    if "engine_ok cfg d1" and "engine_exec y (ODpms ev) d1 = Inr d2" for ev d1 d2
    using that dpms_event_shown[of cfg "fst d1" "snd d1" y ev "fst d2" "snd d2"] by simp
  show ?thesis
    unfolding dpms_pipe_def
    by (rule dpms_flow.pipeline_correct[OF fresh _ _ boot_engine_ok[OF assms(1,2)] shown assms(4)[unfolded dpms_pipe_def]])
      (simp_all add: dpms_out_chan_def)
qed

theorem display_power_reaches_devices_witness:
  "\<exists>s s'. run_ops (dpms_pipe sample_outside) [PSignal (sample_mode_signal (DI32 3)), PSignal (sample_mode_signal (DI32 1))]
      (pipe_start (projr (NewDbusDpmsManager True)) dpms_out_chan (projr (boot sample_config))) = Inr s \<and>
    ch_buf (pp_out s) = [\<lparr>dp_State = ''off''\<rparr>] \<and> dpms_pipe sample_outside PTake s = Inr s' \<and>
    en_lastDpmsState (snd (pp_daemon s')) = Some \<lparr>dp_State = ''off''\<rparr>"
proof -
  have n: "NewDbusDpmsManager True = Inr (projr (NewDbusDpmsManager True))" by (simp add: NewDbusDpmsManager_def)
  let ?ops = "[PSignal (sample_mode_signal (DI32 3)), PSignal (sample_mode_signal (DI32 1))] :: (signal, unit engine_op) pipe_op list"
  let ?s0 = "pipe_start (projr (NewDbusDpmsManager True)) dpms_out_chan (projr (boot sample_config) :: i64 \<times> unit Engine)"
  note run = dpms_pipe_def pipe_exec_def pipe_start_def dpms_handleSessionSignal_def sample_mode_signal_def power_save_mode_def
    dpms_state_of_mode_def dpms_updateState_def NewDbusDpmsManager_def dpms_out_chan_def try_send_def Let_def make_chan_def
  have k: "keeps_up (dpms_pipe sample_outside) ?ops ?s0" by (simp add: run)
  have buf: "run_ops (dpms_pipe sample_outside) ?ops ?s0 = Inr s \<Longrightarrow> ch_buf (pp_out s) = [\<lparr>dp_State = ''off''\<rparr>]" for s
    by (auto simp: run)
  show ?thesis
    using display_power_reaches_devices[OF sample_positive sample_boot n k] buf by (auto simp: dpms_shown_def)
qed

end
