(* ===== verification/Wire_Schema.thy ===== *)
theory Wire_Schema
  imports Wire_Format "HOL-Library.List_Lexorder" "HOL-Library.Char_ord"
begin

text \<open>
  The JSON of the messages the daemon pushes to its WebSocket clients, against the JSON schemas of
  \<^verbatim>\<open>docs/protocol_specification.md\<close>. What \<^verbatim>\<open>WriteJSON\<close> may write for a message is a relation, because the model does not
  tell a nil slice, written as \<^verbatim>\<open>null\<close>, from an empty one. A schema is a value, and \<open>violations\<close> computes the places where a
  document departs from it; of a schema only the types, the constants and the required fields are kept, not the ranges
  of numbers and the enumerations of strings.
\<close>

section \<open>What is written\<close>

definition encoded_as :: "('a \<Rightarrow> encoded) \<Rightarrow> 'a \<Rightarrow> json \<Rightarrow> bool" where
  "encoded_as enc x j \<longleftrightarrow> enc x = Inr j"

definition slice_json :: "('a \<Rightarrow> json \<Rightarrow> bool) \<Rightarrow> 'a list \<Rightarrow> json \<Rightarrow> bool" where
  "slice_json wr xs j = (case j of JNull \<Rightarrow> xs = [] | JArr js \<Rightarrow> list_all2 wr xs js | _ \<Rightarrow> False)"

definition struct_json :: "(string \<times> (json \<Rightarrow> bool)) list \<Rightarrow> json \<Rightarrow> bool" where
  "struct_json fs j = (case j of JObj kvs \<Rightarrow> list_all2 (\<lambda>(k, wr) (k', v). k' = k \<and> wr v) fs kvs | _ \<Rightarrow> False)"

text \<open>A \<^verbatim>\<open>map[string]interface{}\<close> is nil or has its keys written once each, in any case as strings; how the value of a
  hint is written is left open.\<close>

definition hints_json :: "(dval \<Rightarrow> json \<Rightarrow> bool) \<Rightarrow> (string \<times> dval) list option \<Rightarrow> json \<Rightarrow> bool" where
  "hints_json wr h j =
     (case j of
        JNull \<Rightarrow> h = None
      | JObj kvs \<Rightarrow> (case h of None \<Rightarrow> False
          | Some ds \<Rightarrow> list_all (\<lambda>(k, v). list_ex (\<lambda>(k', d). coerce_utf8 k' = k \<and> wr d v) ds) kvs
              \<and> list_all (\<lambda>(k', d). coerce_utf8 k' \<in> set (map fst kvs)) ds)
      | _ \<Rightarrow> False)"

text \<open>A decoded \<^verbatim>\<open>interface{}\<close> that is encoded again: the keys of its maps in order.\<close>

fun encode_any :: "json \<Rightarrow> encoded"
  and encode_anys :: "json list \<Rightarrow> string + json list"
  and encode_members :: "(string \<times> json) list \<Rightarrow> string + (string \<times> json) list" where
  "encode_any (JDec x) = encode_f64 x"
| "encode_any (JStr s) = encode_string s"
| "encode_any (JArr js) = ebind (encode_anys js) (\<lambda>ks. Inr (JArr ks))"
| "encode_any (JObj kvs) = ebind (encode_members kvs) (\<lambda>ks. Inr (JObj (sort_key fst ks)))"
| "encode_any j = Inr j"
| "encode_anys [] = Inr []"
| "encode_anys (j # js) = ebind (encode_any j) (\<lambda>k. ebind (encode_anys js) (\<lambda>ks. Inr (k # ks)))"
| "encode_members [] = Inr []"
| "encode_members ((k, v) # kvs) =
     ebind (encode_any v) (\<lambda>j. ebind (encode_members kvs) (\<lambda>ks. Inr ((coerce_utf8 k, j) # ks)))"

definition power_json :: "PowerProfileState \<Rightarrow> json \<Rightarrow> bool" where
  "power_json st = struct_json
     [(''active_profile'', encoded_as encode_string (ActiveProfile st)),
      (''available_profiles'', slice_json (encoded_as encode_PowerProfile) (AvailableProfiles st))]"

definition metadata_json :: "PlayerMetadata \<Rightarrow> json \<Rightarrow> bool" where
  "metadata_json m = struct_json
     [(''track_id'', encoded_as encode_string (pm_TrackID m)), (''title'', encoded_as encode_string (pm_Title m)),
      (''artist'', slice_json (encoded_as encode_string) (pm_Artist m)), (''album'', encoded_as encode_string (pm_Album m)),
      (''art_url'', encoded_as encode_string (pm_ArtURL m)), (''length_microseconds'', encoded_as encode_sint (pm_LengthMicro m))]"

definition player_json :: "PlayerState \<Rightarrow> json \<Rightarrow> bool" where
  "player_json p = struct_json
     [(''player_name'', encoded_as encode_string (ps_PlayerName p)), (''identity'', encoded_as encode_string (ps_Identity p)),
      (''desktop_entry'', encoded_as encode_string (ps_DesktopEntry p)),
      (''playback_status'', encoded_as encode_string (ps_PlaybackStatus p)),
      (''volume'', encoded_as encode_f64 (ps_Volume p)), (''position_microseconds'', encoded_as encode_sint (ps_PositionMicro p)),
      (''metadata'', metadata_json (ps_Metadata p))]"

definition media_json :: "MediaEvent \<Rightarrow> json \<Rightarrow> bool" where
  "media_json ev = struct_json [(''active_players'', slice_json player_json (ActivePlayers ev))]"

definition notification_json :: "(dval \<Rightarrow> json \<Rightarrow> bool) \<Rightarrow> NotificationEvent \<Rightarrow> json \<Rightarrow> bool" where
  "notification_json wr ev = struct_json
     ([(''app_name'', encoded_as encode_string (ne_AppName ev)), (''replaces_id'', encoded_as encode_uint (ne_ReplacesID ev)),
       (''app_icon'', encoded_as encode_string (ne_AppIcon ev))]
      @ (if ne_AppIconBase64 ev = [] then [] else [(''app_icon_base64'', encoded_as encode_string (ne_AppIconBase64 ev))])
      @ [(''summary'', encoded_as encode_string (ne_Summary ev)), (''body'', encoded_as encode_string (ne_Body ev)),
         (''actions'', slice_json (encoded_as encode_string) (ne_Actions ev)), (''hints'', hints_json wr (ne_Hints ev)),
         (''expire_timeout'', encoded_as encode_sint (ne_ExpireTimeout ev))])"

definition cpu_json :: "CPUMetrics \<Rightarrow> json \<Rightarrow> bool" where
  "cpu_json m = struct_json
     [(''usage_percent'', encoded_as encode_f64 (cpu_UsagePercent m)),
      (''cores_usage_percent'', slice_json (encoded_as encode_f64) (cpu_CoresUsagePercent m)),
      (''temp_celsius'', encoded_as encode_f64 (cpu_TempCelsius m)), (''freq_mhz'', encoded_as encode_f64 (cpu_FreqMHz m)),
      (''power_watts'', encoded_as encode_f64 (cpu_PowerWatts m))]"

definition metrics_json :: "SystemMetrics \<Rightarrow> json \<Rightarrow> bool" where
  "metrics_json m = struct_json
     [(''cpu'', cpu_json (sm_CPU m)), (''ram'', encoded_as encode_RAMMetrics (sm_RAM m)),
      (''gpu'', encoded_as encode_GPUMetrics (sm_GPU m)), (''swap'', encoded_as encode_SwapMetrics (sm_Swap m)),
      (''zram'', encoded_as encode_ZRAMMetrics (sm_ZRAM m)), (''flags'', encoded_as encode_TelemetryFlags (sm_Flags m))]"

text \<open>The payload structs of the engine: type, time and data.\<close>

definition payload_json :: "string \<Rightarrow> i64 \<Rightarrow> (json \<Rightarrow> bool) \<Rightarrow> json \<Rightarrow> bool" where
  "payload_json ty now wr = struct_json
     [(''type'', encoded_as encode_string ty), (''timestamp'', encoded_as encode_sint now), (''data'', wr)]"

text \<open>The replies are maps, so their keys come in order.\<close>

definition status_json :: "string \<Rightarrow> string option \<Rightarrow> json \<Rightarrow> bool" where
  "status_json ty r =
     (case r of
        Some err \<Rightarrow> struct_json [(''error'', encoded_as encode_string err), (''status'', encoded_as encode_string ''error''),
            (''type'', encoded_as encode_string ty)]
      | None \<Rightarrow> struct_json [(''status'', encoded_as encode_string ''success''), (''type'', encoded_as encode_string ty)])"

definition reply_json :: "reply \<Rightarrow> json \<Rightarrow> bool" where
  "reply_json r =
     (case r of
        Pong \<Rightarrow> struct_json [(''type'', encoded_as encode_string ''pong'')]
      | NotificationResponse (Inl err) \<Rightarrow> status_json ''notification_response'' (Some err)
      | NotificationResponse (Inr ident) \<Rightarrow> struct_json [(''id'', encoded_as encode_uint ident),
            (''status'', encoded_as encode_string ''success''), (''type'', encoded_as encode_string ''notification_response'')]
      | MediaResponse err \<Rightarrow> status_json ''media_response'' err
      | PowerProfileResponse err \<Rightarrow> status_json ''power_profile_response'' err)"

definition ws_json :: "(dval \<Rightarrow> json \<Rightarrow> bool) \<Rightarrow> ws_msg \<Rightarrow> json \<Rightarrow> bool" where
  "ws_json wr msg =
     (case msg of
        TelemetryMsg now m \<Rightarrow> payload_json ''telemetry'' now (metrics_json m)
      | NotificationMsg now ev \<Rightarrow> payload_json ''notification_event'' now (notification_json wr ev)
      | MediaMsg now ev \<Rightarrow> payload_json ''media_state'' now (media_json ev)
      | SessionLockMsg now ev \<Rightarrow> payload_json ''session_lock'' now (encoded_as encode_SessionLockEvent ev)
      | PowerProfileMsg now st \<Rightarrow> payload_json ''power_profile_state'' now (power_json st)
      | DpmsMsg now ev \<Rightarrow> payload_json ''dpms_state'' now (encoded_as encode_DpmsEvent ev)
      | RawMsg j \<Rightarrow> encoded_as encode_any j
      | CustomMsg ty now j \<Rightarrow> struct_json [(''data'', encoded_as encode_any j), (''timestamp'', encoded_as encode_sint now),
            (''type'', encoded_as encode_string ty)]
      | ReplyMsg r \<Rightarrow> reply_json r)"

section \<open>Schemas\<close>

datatype schema =
    SAny
  | SString
  | SConst string
  | SInteger
  | SNumber
  | SBoolean
  | SArray schema
  | SObject "(string \<times> bool \<times> schema) list"

text \<open>A place in a document: the keys that lead to it, with one key for the elements of an array.\<close>

type_synonym place = "string list"

definition elem_key :: string where
  "elem_key = ''[]''"

fun violations :: "schema \<Rightarrow> json \<Rightarrow> place list" where
  "violations SAny j = []"
| "violations SString j = (case j of JStr _ \<Rightarrow> [] | _ \<Rightarrow> [[]])"
| "violations (SConst s) j = (if j = JStr s then [] else [[]])"
| "violations SInteger j = (case j of JInt _ \<Rightarrow> [] | _ \<Rightarrow> [[]])"
| "violations SNumber j = (case j of JInt _ \<Rightarrow> [] | JDec _ \<Rightarrow> [] | _ \<Rightarrow> [[]])"
| "violations SBoolean j = (case j of JBool _ \<Rightarrow> [] | _ \<Rightarrow> [[]])"
| "violations (SArray s) j =
     (case j of JArr js \<Rightarrow> concat (map (\<lambda>x. map ((#) elem_key) (violations s x)) js) | _ \<Rightarrow> [[]])"
| "violations (SObject ps) j =
     (case j of
        JObj kvs \<Rightarrow> concat (map (\<lambda>(k, req, s). map ((#) k)
          (case map_of kvs k of None \<Rightarrow> if req then [[]] else [] | Some v \<Rightarrow> violations s v)) ps)
      | _ \<Rightarrow> [[]])"

text \<open>The values at a place.\<close>

fun values_at :: "place \<Rightarrow> json \<Rightarrow> json list" where
  "values_at [] j = [j]"
| "values_at (k # p) (JObj kvs) = (case map_of kvs k of None \<Rightarrow> [] | Some v \<Rightarrow> values_at p v)"
| "values_at (k # p) (JArr js) = (if k = elem_key then concat (map (values_at p) js) else [])"
| "values_at (k # p) j = []"


section \<open>The documented schemas\<close>

definition payload_schema :: "string \<Rightarrow> schema \<Rightarrow> schema" where
  "payload_schema ty data = SObject [(''type'', True, SConst ty), (''timestamp'', True, SInteger), (''data'', True, data)]"

definition required :: "schema \<Rightarrow> string list \<Rightarrow> (string \<times> bool \<times> schema) list" where
  "required s ks = map (\<lambda>k. (k, True, s)) ks"

definition cpu_schema :: schema where
  "cpu_schema = SObject (required SNumber [''usage_percent'', ''temp_celsius'', ''power_watts'', ''tmax_celsius''] @
     [(''cores_usage_percent'', True, SArray SNumber)])"

definition gpu_schema :: schema where
  "gpu_schema = SObject
     (required SNumber [''usage_percent'', ''temp_celsius'', ''power_watts'', ''vram_temp_celsius'', ''vram_freq_mhz'', ''tmax_celsius''] @
      required SInteger [''vram_used_bytes'', ''vram_total_bytes''])"

definition ram_schema :: schema where
  "ram_schema = SObject (required SInteger [''used_bytes'', ''total_bytes''] @ required SNumber [''percentage''])"

definition peripherals_schema :: schema where
  "peripherals_schema = SObject [(''devices'', True, SArray (SObject
     (required SString [''name'', ''type'', ''charging_state''] @ required SNumber [''battery_percent''] @ required SInteger [''poll_rate_hz''])))]"

definition package_updates_schema :: schema where
  "package_updates_schema = SObject (required SInteger [''updates_available'', ''security_updates_available''])"

definition flags_schema :: schema where
  "flags_schema = SObject (required SBoolean
     [''cpu_usage_supported'', ''cpu_cores_usage_supported'', ''cpu_temp_supported'', ''cpu_freq_supported'', ''cpu_power_supported'',
      ''cpu_temp_tmax_supported'', ''ram_supported'', ''gpu_supported'', ''gpu_usage_supported'', ''gpu_temp_supported'',
      ''gpu_vram_supported'', ''gpu_freq_supported'', ''gpu_power_supported'', ''gpu_vram_temp_supported'',
      ''gpu_vram_freq_supported'', ''gpu_temp_tmax_supported'', ''osd_supported'', ''peripherals_supported'',
      ''package_updates_supported''])"

definition telemetry_schema :: schema where
  "telemetry_schema = SObject
     [(''cpu'', True, cpu_schema), (''gpu'', True, gpu_schema), (''ram'', True, ram_schema),
      (''peripherals'', True, peripherals_schema), (''package_updates'', True, package_updates_schema), (''flags'', True, flags_schema)]"

definition notification_schema :: schema where
  "notification_schema = SObject
     [(''id'', True, SInteger), (''app_name'', True, SString), (''replaces_id'', True, SInteger), (''app_icon'', True, SString),
      (''app_icon_base64'', False, SString), (''summary'', True, SString), (''body'', True, SString),
      (''actions'', True, SArray SString), (''hints'', True, SObject []), (''expire_timeout'', True, SInteger)]"

definition metadata_schema :: schema where
  "metadata_schema = SObject
     (required SString [''track_id'', ''title'', ''album'', ''art_url''] @
      [(''artist'', True, SArray SString), (''length_microseconds'', True, SInteger)])"

definition player_schema :: schema where
  "player_schema = SObject
     [(''player_name'', True, SString), (''identity'', False, SString), (''desktop_entry'', False, SString),
      (''playback_status'', True, SString), (''volume'', True, SNumber), (''position_microseconds'', True, SInteger),
      (''metadata'', True, metadata_schema)]"

definition media_schema :: schema where
  "media_schema = SObject [(''active_players'', True, SArray player_schema)]"

definition power_schema :: schema where
  "power_schema = SObject [(''active_profile'', True, SString),
     (''available_profiles'', True, SArray (SObject [(''profile'', True, SString)]))]"

text \<open>The display power payload and the replies, which the document does not list, are described by their fields in
  the code; so is the envelope of a custom trigger. A raw trigger is sent as it is.\<close>

definition status_schema :: "string \<Rightarrow> schema" where
  "status_schema ty = SObject [(''type'', True, SConst ty), (''status'', True, SString), (''error'', False, SString)]"

definition reply_schema :: "reply \<Rightarrow> schema" where
  "reply_schema r =
     (case r of
        Pong \<Rightarrow> SObject [(''type'', True, SConst ''pong'')]
      | NotificationResponse _ \<Rightarrow> SObject [(''type'', True, SConst ''notification_response''), (''status'', True, SString),
          (''error'', False, SString), (''id'', False, SInteger)]
      | MediaResponse _ \<Rightarrow> status_schema ''media_response''
      | PowerProfileResponse _ \<Rightarrow> status_schema ''power_profile_response'')"

definition message_schema :: "ws_msg \<Rightarrow> schema" where
  "message_schema msg =
     (case msg of
        TelemetryMsg _ _ \<Rightarrow> payload_schema ''telemetry'' telemetry_schema
      | NotificationMsg _ _ \<Rightarrow> payload_schema ''notification_event'' notification_schema
      | MediaMsg _ _ \<Rightarrow> payload_schema ''media_state'' media_schema
      | SessionLockMsg _ _ \<Rightarrow> payload_schema ''session_lock'' (SObject [(''locked'', True, SBoolean)])
      | PowerProfileMsg _ _ \<Rightarrow> payload_schema ''power_profile_state'' power_schema
      | DpmsMsg _ _ \<Rightarrow> payload_schema ''dpms_state'' (SObject [(''state'', True, SString)])
      | RawMsg _ \<Rightarrow> SAny
      | CustomMsg _ _ _ \<Rightarrow> SObject [(''type'', True, SString), (''timestamp'', True, SInteger), (''data'', True, SAny)]
      | ReplyMsg r \<Rightarrow> reply_schema r)"

text \<open>The required fields that no message has.\<close>

definition missing_fields :: "ws_msg \<Rightarrow> place set" where
  "missing_fields msg =
     (case msg of
        TelemetryMsg _ _ \<Rightarrow>
          {[''data'', ''peripherals''], [''data'', ''package_updates''], [''data'', ''cpu'', ''tmax_celsius''],
           [''data'', ''gpu'', ''tmax_celsius''], [''data'', ''flags'', ''cpu_temp_tmax_supported''],
           [''data'', ''flags'', ''gpu_temp_tmax_supported''], [''data'', ''flags'', ''osd_supported''],
           [''data'', ''flags'', ''peripherals_supported''], [''data'', ''flags'', ''package_updates_supported'']}
      | NotificationMsg _ _ \<Rightarrow> {[''data'', ''id'']}
      | _ \<Rightarrow> {})"

section \<open>Conformance\<close>

text \<open>Every document that may be written violates the schema at the places \<open>gaps\<close>, and elsewhere only where it has \<^verbatim>\<open>null\<close>.\<close>

definition meets :: "(json \<Rightarrow> bool) \<Rightarrow> schema \<Rightarrow> place set \<Rightarrow> bool" where
  "meets wr s gaps \<longleftrightarrow> (\<forall>j. wr j \<longrightarrow> gaps \<subseteq> set (violations s j) \<and>
     (\<forall>p \<in> set (violations s j). p \<in> gaps \<or> JNull \<in> set (values_at p j)))"

lemma meets_scalars [simp]:
  "meets (encoded_as encode_string x) SString {}"
  "meets (encoded_as encode_f64 y) SNumber {}"
  "meets (encoded_as encode_bool b) SBoolean {}"
  "meets (encoded_as encode_uint u) SInteger {}"
  "meets (encoded_as encode_sint i) SInteger {}"
  "meets wr SAny {}"
  by (auto simp: meets_def encoded_as_def encode_string_def encode_f64_def encode_bool_def encode_uint_def encode_sint_def
      split: f64.splits if_splits)

lemma meets_const [simp]: "coerce_utf8 ty = ty \<Longrightarrow> meets (encoded_as encode_string ty) (SConst ty) {}"
  by (auto simp: meets_def encoded_as_def encode_string_def)

lemma meets_slice:
  assumes "\<And>x. x \<in> set xs \<Longrightarrow> meets (wr x) s {}"
  shows "meets (slice_json wr xs) (SArray s) {}"
  unfolding meets_def
proof (intro allI impI conjI ballI)
  fix j p
  assume j: "slice_json wr xs j" and p: "p \<in> set (violations (SArray s) j)"
  show "p \<in> {} \<or> JNull \<in> set (values_at p j)"
  proof (cases j)
    case (JArr js)
    with p obtain y q where y: "y \<in> set js" "p = elem_key # q" "q \<in> set (violations s y)" by auto
    from j JArr have "list_all2 wr xs js" by (simp add: slice_json_def)
    then have "\<exists>x \<in> set xs. wr x y" using y(1) by (induction rule: list_all2_induct) auto
    then obtain x where "x \<in> set xs" "wr x y" by blast
    with assms y(3) have "JNull \<in> set (values_at q y)" by (fastforce simp: meets_def)
    with y(1,2) JArr show ?thesis by auto
  qed (use j p in \<open>auto simp: slice_json_def\<close>)
qed simp

lemma meets_hints [simp]: "meets (hints_json wr h) (SObject []) {}"
  by (auto simp: meets_def hints_json_def split: json.splits)

text \<open>The places of an object are those of its fields.\<close>

definition below :: "string \<Rightarrow> place set \<Rightarrow> place set" where
  "below k = image ((#) k)"

lemma struct_json_field:
  assumes "struct_json fs j"
  shows "\<exists>kvs. j = JObj kvs \<and> (\<forall>k. case map_of fs k of
    None \<Rightarrow> map_of kvs k = None | Some wr \<Rightarrow> \<exists>v. map_of kvs k = Some v \<and> wr v)"
proof -
  from assms obtain kvs where kvs: "j = JObj kvs" "list_all2 (\<lambda>(k, wr) (k', v). k' = k \<and> wr v) fs kvs"
    by (auto simp: struct_json_def split: json.splits)
  from kvs(2) have "case map_of fs k of None \<Rightarrow> map_of kvs k = None | Some wr \<Rightarrow> \<exists>v. map_of kvs k = Some v \<and> wr v" for k
    by (induction rule: list_all2_induct) (auto split: option.splits)
  with kvs(1) show ?thesis by blast
qed

lemma meets_struct:
  assumes "list_all (\<lambda>(k, req, s). case map_of fs k of
      None \<Rightarrow> g k = (if req then {[]} else {}) | Some wr \<Rightarrow> meets wr s (g k)) ps"
  shows "meets (struct_json fs) (SObject ps) (\<Union>k \<in> set (map fst ps). below k (g k))"
  unfolding meets_def
proof (intro allI impI)
  fix j
  assume "struct_json fs j"
  then obtain kvs where j: "j = JObj kvs" and fields: "\<And>k. case map_of fs k of
      None \<Rightarrow> map_of kvs k = None | Some wr \<Rightarrow> \<exists>v. map_of kvs k = Some v \<and> wr v"
    using struct_json_field by blast
  define vs where "vs k req s = (case map_of kvs k of None \<Rightarrow> if req then [[]] else [] | Some v \<Rightarrow> violations s v)" for k req s
  have field: "g k \<subseteq> set (vs k req s) \<and> (\<forall>p \<in> set (vs k req s). p \<in> g k \<or> JNull \<in> set (values_at (k # p) j))"
    if "(k, req, s) \<in> set ps" for k req s
  proof (cases "map_of fs k")
    case None
    moreover from this fields[of k] have "map_of kvs k = None" by simp
    moreover from calculation assms that have "g k = (if req then {[]} else {})" by (force simp: list_all_iff)
    ultimately show ?thesis by (simp add: vs_def)
  next
    case (Some wr)
    with assms that have "meets wr s (g k)" by (force simp: list_all_iff)
    moreover obtain v where "map_of kvs k = Some v" "wr v" using fields[of k] Some by auto
    ultimately show ?thesis by (auto simp: meets_def vs_def j)
  qed
  have "violations (SObject ps) j = concat (map (\<lambda>(k, req, s). map ((#) k) (vs k req s)) ps)"
    by (simp add: j vs_def)
  then have mem: "p \<in> set (violations (SObject ps) j) \<longleftrightarrow> (\<exists>(k, req, s) \<in> set ps. \<exists>q \<in> set (vs k req s). p = k # q)" for p
    by (auto simp: split_beta)
  let ?gaps = "\<Union>k \<in> set (map fst ps). below k (g k)"
  have "p \<in> set (violations (SObject ps) j)" if "p \<in> ?gaps" for p
  proof -
    from that obtain k req s q where "(k, req, s) \<in> set ps" "q \<in> g k" "p = k # q" by (auto simp: below_def)
    with field[of k req s] show ?thesis unfolding mem by blast
  qed
  moreover have "p \<in> ?gaps \<or> JNull \<in> set (values_at p j)" if "p \<in> set (violations (SObject ps) j)" for p
  proof -
    from that obtain k req s q where kq: "(k, req, s) \<in> set ps" "q \<in> set (vs k req s)" "p = k # q" unfolding mem by blast
    with field[of k req s] have "q \<in> g k \<or> JNull \<in> set (values_at p j)" by blast
    with kq(1,3) show ?thesis by (force simp: below_def)
  qed
  ultimately show "?gaps \<subseteq> set (violations (SObject ps) j) \<and> (\<forall>p \<in> set (violations (SObject ps) j). p \<in> ?gaps \<or> JNull \<in> set (values_at p j))"
    by blast
qed

lemma meets_struct_gaps:
  assumes "list_all (\<lambda>(k, req, s). case map_of fs k of
      None \<Rightarrow> g k = (if req then {[]} else {}) | Some wr \<Rightarrow> meets wr s (g k)) ps"
    and "(\<Union>k \<in> set (map fst ps). below k (g k)) = gaps"
  shows "meets (struct_json fs) (SObject ps) gaps"
  using meets_struct[OF assms(1)] assms(2) by simp

lemma meets_struct_full:
  assumes "list_all (\<lambda>(k, req, s). case map_of fs k of None \<Rightarrow> \<not> req | Some wr \<Rightarrow> meets wr s {}) ps"
  shows "meets (struct_json fs) (SObject ps) {}"
proof -
  have "list_all (\<lambda>(k, req, s). case map_of fs k of
      None \<Rightarrow> {} = (if req then {[] :: place} else {}) | Some wr \<Rightarrow> meets wr s {}) ps"
    using assms by (rule list.pred_mono_strong) (auto split: option.splits)
  from meets_struct[where g = "\<lambda>_. {}", OF this] show ?thesis by (simp add: below_def)
qed

text \<open>An encoder of a struct writes its fields.\<close>

lemma json_object_struct:
  "json_object kvs = Inr j \<longleftrightarrow> struct_json (map (\<lambda>(k, v). (k, \<lambda>x. v = Inr x)) kvs) j"
proof -
  have "json_fields kvs = Inr js \<longleftrightarrow> list_all2 (\<lambda>(k, wr) (k', v). k' = k \<and> wr v) (map (\<lambda>(k, v). (k, \<lambda>x. v = Inr x)) kvs) js" for js
    by (induction kvs arbitrary: js rule: json_fields.induct) (auto simp: ebind_eq_Inr list_all2_Cons1)
  then show ?thesis by (cases j) (auto simp: json_object_def struct_json_def ebind_eq_Inr)
qed

lemma struct_encoders:
  "encoded_as encode_SessionLockEvent ev = struct_json [(''locked'', encoded_as encode_bool (Locked ev))]"
  "encoded_as encode_DpmsEvent d = struct_json [(''state'', encoded_as encode_string (dp_State d))]"
  "encoded_as encode_PowerProfile p = struct_json [(''profile'', encoded_as encode_string (Profile p))]"
  "encoded_as encode_RAMMetrics r = struct_json
     [(''used_bytes'', encoded_as encode_uint (ram_UsedBytes r)), (''total_bytes'', encoded_as encode_uint (ram_TotalBytes r)),
      (''percentage'', encoded_as encode_f64 (ram_Percentage r))]"
  "encoded_as encode_GPUMetrics m = struct_json
     [(''usage_percent'', encoded_as encode_f64 (gpu_UsagePercent m)), (''temp_celsius'', encoded_as encode_f64 (gpu_TempCelsius m)),
      (''vram_used_bytes'', encoded_as encode_uint (gpu_VramUsedBytes m)),
      (''vram_total_bytes'', encoded_as encode_uint (gpu_VramTotalBytes m)),
      (''freq_mhz'', encoded_as encode_f64 (gpu_FreqMHz m)), (''power_watts'', encoded_as encode_f64 (gpu_PowerWatts m)),
      (''vram_temp_celsius'', encoded_as encode_f64 (gpu_VramTempCelsius m)),
      (''vram_freq_mhz'', encoded_as encode_f64 (gpu_VramFreqMHz m))]"
  by (simp_all add: fun_eq_iff encoded_as_def[abs_def] json_object_struct encode_SessionLockEvent_def encode_DpmsEvent_def
      encode_PowerProfile_def encode_RAMMetrics_def encode_GPUMetrics_def)

lemma flags_encoder:
  "encoded_as encode_TelemetryFlags f = struct_json (map (\<lambda>(k, sel). (k, encoded_as encode_bool (sel f)))
     [(''cpu_usage_supported'', fl_CPUUsageSupported), (''cpu_cores_usage_supported'', fl_CPUCoresUsageSupported),
      (''cpu_temp_supported'', fl_CPUTempSupported), (''cpu_freq_supported'', fl_CPUFreqSupported),
      (''cpu_power_supported'', fl_CPUPowerSupported), (''ram_supported'', fl_RAMSupported),
      (''swap_supported'', fl_SwapSupported), (''zram_supported'', fl_ZRAMSupported),
      (''gpu_supported'', fl_GPUSupported), (''gpu_usage_supported'', fl_GPUUsageSupported),
      (''gpu_temp_supported'', fl_GPUTempSupported), (''gpu_vram_supported'', fl_GPUVramSupported),
      (''gpu_freq_supported'', fl_GPUFreqSupported), (''gpu_power_supported'', fl_GPUPowerSupported),
      (''gpu_vram_temp_supported'', fl_GPUVramTempSupported), (''gpu_vram_freq_supported'', fl_GPUVramFreqSupported)])"
  by (simp add: fun_eq_iff encoded_as_def[abs_def] json_object_struct encode_TelemetryFlags_def)

subsection \<open>Each kind of message\<close>

lemmas schema_defs = payload_schema_def required_def cpu_schema_def gpu_schema_def ram_schema_def flags_schema_def
  telemetry_schema_def notification_schema_def metadata_schema_def player_schema_def media_schema_def power_schema_def
  status_schema_def reply_schema_def

lemma meets_power: "meets (power_json st) power_schema {}"
  unfolding power_json_def power_schema_def
  by (rule meets_struct_full) (simp add: meets_slice struct_encoders meets_struct_full)

lemma meets_metadata: "meets (metadata_json m) metadata_schema {}"
  unfolding metadata_json_def metadata_schema_def
  by (rule meets_struct_full) (simp add: meets_slice required_def)

lemma meets_player: "meets (player_json p) player_schema {}"
  unfolding player_json_def player_schema_def
  by (rule meets_struct_full) (simp add: meets_metadata)

lemma meets_media: "meets (media_json ev) media_schema {}"
  unfolding media_json_def media_schema_def
  by (rule meets_struct_full) (simp add: meets_slice meets_player)

lemma meets_notification: "meets (notification_json wr ev) notification_schema {[''id'']}"
  unfolding notification_json_def notification_schema_def
  by (rule meets_struct_gaps[where g = "\<lambda>k. if k = ''id'' then {[]} else {}"]) (simp_all add: meets_slice below_def)

lemma meets_cpu: "meets (cpu_json m) cpu_schema {[''tmax_celsius'']}"
  unfolding cpu_json_def cpu_schema_def
  by (rule meets_struct_gaps[where g = "\<lambda>k. if k = ''tmax_celsius'' then {[]} else {}"])
    (simp_all add: meets_slice below_def required_def)

lemma meets_gpu: "meets (encoded_as encode_GPUMetrics m) gpu_schema {[''tmax_celsius'']}"
  unfolding struct_encoders gpu_schema_def
  by (rule meets_struct_gaps[where g = "\<lambda>k. if k = ''tmax_celsius'' then {[]} else {}"])
    (simp_all add: below_def required_def)

lemma meets_ram: "meets (encoded_as encode_RAMMetrics m) ram_schema {}"
  unfolding struct_encoders ram_schema_def by (rule meets_struct_full) (simp add: required_def)

definition missing_flags :: "string list" where
  "missing_flags = [''cpu_temp_tmax_supported'', ''gpu_temp_tmax_supported'', ''osd_supported'', ''peripherals_supported'',
     ''package_updates_supported'']"

lemma meets_flags: "meets (encoded_as encode_TelemetryFlags f) flags_schema ((\<lambda>k. [k]) ` set missing_flags)"
  unfolding flags_encoder flags_schema_def
  by (rule meets_struct_gaps[where g = "\<lambda>k. if k \<in> set missing_flags then {[]} else {}"])
    (simp_all add: below_def required_def missing_flags_def insert_commute)

lemma meets_telemetry:
  "meets (metrics_json m) telemetry_schema
     ({[''peripherals''], [''package_updates''], [''cpu'', ''tmax_celsius''], [''gpu'', ''tmax_celsius'']} \<union>
      (\<lambda>k. [''flags'', k]) ` set missing_flags)"
  unfolding metrics_json_def telemetry_schema_def
  by (rule meets_struct_gaps[where g = "\<lambda>k. if k \<in> {''peripherals'', ''package_updates''} then {[]}
      else if k \<in> {''cpu'', ''gpu''} then {[''tmax_celsius'']} else if k = ''flags'' then (\<lambda>k. [k]) ` set missing_flags else {}"])
    (simp_all add: meets_cpu meets_gpu meets_ram meets_flags below_def image_image insert_commute Un_commute)

lemma meets_payload:
  assumes "meets wr s gaps" and "coerce_utf8 ty = ty"
  shows "meets (payload_json ty now wr) (payload_schema ty s) (below ''data'' gaps)"
  unfolding payload_json_def payload_schema_def
  by (rule meets_struct_gaps[where g = "\<lambda>k. if k = ''data'' then gaps else {}"]) (simp_all add: assms below_def)

lemma type_constants:
  "coerce_utf8 ''telemetry'' = ''telemetry''" "coerce_utf8 ''notification_event'' = ''notification_event''"
  "coerce_utf8 ''media_state'' = ''media_state''" "coerce_utf8 ''session_lock'' = ''session_lock''"
  "coerce_utf8 ''power_profile_state'' = ''power_profile_state''" "coerce_utf8 ''dpms_state'' = ''dpms_state''"
  "coerce_utf8 ''pong'' = ''pong''" "coerce_utf8 ''notification_response'' = ''notification_response''"
  "coerce_utf8 ''media_response'' = ''media_response''" "coerce_utf8 ''power_profile_response'' = ''power_profile_response''"
  by code_simp+

lemma meets_status: "coerce_utf8 ty = ty \<Longrightarrow> meets (status_json ty r) (status_schema ty) {}"
  unfolding status_json_def status_schema_def
  by (cases r) (simp_all add: meets_struct_full)

lemma meets_reply: "meets (reply_json r) (reply_schema r) {}"
proof (cases r)
  case (NotificationResponse res)
  then show ?thesis
    by (cases res) (simp_all add: reply_json_def reply_schema_def status_json_def meets_struct_full type_constants)
qed (simp_all add: reply_json_def reply_schema_def meets_status meets_struct_full type_constants)

lemma meets_message: "meets (ws_json wr msg) (message_schema msg) (missing_fields msg)"
proof -
  note payload = meets_payload[OF meets_telemetry type_constants(1)] meets_payload[OF meets_notification type_constants(2)]
    meets_payload[OF meets_media type_constants(3)] meets_payload[OF meets_power type_constants(5)]
  have "meets (encoded_as encode_SessionLockEvent ev) (SObject [(''locked'', True, SBoolean)]) {}"
    "meets (encoded_as encode_DpmsEvent d) (SObject [(''state'', True, SString)]) {}" for ev d
    unfolding struct_encoders by (simp_all add: meets_struct_full)
  note small = this(1)[THEN meets_payload, OF type_constants(4)] this(2)[THEN meets_payload, OF type_constants(6)]
  show ?thesis
    by (cases msg) (use payload small in \<open>simp_all add: ws_json_def message_schema_def missing_fields_def below_def
        missing_flags_def insert_commute meets_reply meets_struct_full\<close>)
qed

text \<open>What the encoders of the command line write, with nil for every empty slice, is among it; so every message that can be
  encoded is written somehow.\<close>

lemma slice_written: "encode_slice enc xs = Inr j \<Longrightarrow> slice_json (encoded_as enc) xs j"
proof -
  have "encode_elems enc xs = Inr js \<Longrightarrow> list_all2 (encoded_as enc) xs js" for js
    by (induction xs arbitrary: js) (auto simp: ebind_eq_Inr encoded_as_def)
  then show "encode_slice enc xs = Inr j \<Longrightarrow> slice_json (encoded_as enc) xs j"
    by (auto simp: encode_slice_def slice_json_def ebind_eq_Inr split: if_splits)
qed

lemma slice_json_mono: "slice_json wr xs j \<Longrightarrow> (\<And>x j. wr x j \<Longrightarrow> wr' x j) \<Longrightarrow> slice_json wr' xs j"
  by (auto simp: slice_json_def split: json.splits intro: list_all2_mono)

lemma struct_json_mono:
  assumes "struct_json fs j" and "list_all2 (\<lambda>(k, wr) (k', wr'). k = k' \<and> (\<forall>v. wr v \<longrightarrow> wr' v)) fs fs'"
  shows "struct_json fs' j"
proof -
  have "list_all2 (\<lambda>(k, wr) (k', v). k' = k \<and> wr v) fs' kvs"
    if "list_all2 (\<lambda>(k, wr) (k', v). k' = k \<and> wr v) fs kvs" for kvs
    using assms(2) that
  proof (induction fs fs' arbitrary: kvs rule: list_all2_induct)
    case (Cons f fs f' fs')
    then show ?case by (cases kvs) auto
  qed simp
  with assms(1) show ?thesis by (auto simp: struct_json_def split: json.splits)
qed

lemma media_written: "encode_MediaEvent ev = Inr j \<Longrightarrow> media_json ev j"
proof -
  have metadata: "encode_PlayerMetadata m = Inr v \<Longrightarrow> metadata_json m v" for m v
    unfolding encode_PlayerMetadata_def metadata_json_def json_object_struct
    by (erule struct_json_mono) (simp add: encoded_as_def slice_written)
  have player: "encode_PlayerState p = Inr v \<Longrightarrow> player_json p v" for p v
    unfolding encode_PlayerState_def player_json_def json_object_struct
    by (erule struct_json_mono) (simp add: encoded_as_def metadata)
  show "encode_MediaEvent ev = Inr j \<Longrightarrow> media_json ev j"
    unfolding encode_MediaEvent_def media_json_def json_object_struct
    by (erule struct_json_mono) (auto dest!: slice_written elim!: slice_json_mono simp: encoded_as_def player)
qed

lemma metrics_written: "encode_SystemMetrics m = Inr j \<Longrightarrow> metrics_json m j"
proof -
  have "encode_CPUMetrics c = Inr v \<Longrightarrow> cpu_json c v" for c v
    unfolding encode_CPUMetrics_def cpu_json_def json_object_struct
    by (erule struct_json_mono) (simp add: encoded_as_def slice_written)
  then show "encode_SystemMetrics m = Inr j \<Longrightarrow> metrics_json m j"
    unfolding encode_SystemMetrics_def metrics_json_def json_object_struct
    by (elim struct_json_mono) (simp add: encoded_as_def)
qed

text \<open>C15: every message the daemon pushes has the shape its protocol documents, but for ten required fields it never
  has and for nil slices. Whatever is written to a client for a message departs from the schema of its kind, as far as types,
  constant fields and required fields go, only at the nine fields of telemetry and the one of notifications that the
  program does not have, where it always does, and at places that hold \<^verbatim>\<open>null\<close>.\<close>

theorem messages_follow_schemas:
  assumes "ws_json wr msg j"
  shows "missing_fields msg \<subseteq> set (violations (message_schema msg) j) \<and>
    (\<forall>p \<in> set (violations (message_schema msg) j). p \<in> missing_fields msg \<or> JNull \<in> set (values_at p j))"
  using meets_message[of wr msg] assms by (simp add: meets_def)

definition sample_note :: NotificationEvent where
  "sample_note = \<lparr>ne_AppName = [], ne_ReplacesID = 7, ne_AppIcon = [], ne_AppIconBase64 = [], ne_Summary = [], ne_Body = [],
     ne_Actions = [], ne_Hints = Some [], ne_ExpireTimeout = 0\<rparr>"

definition sample_note_json :: json where
  "sample_note_json = JObj [(''type'', JStr ''notification_event''), (''timestamp'', JInt 5), (''data'', JObj
     [(''app_name'', JStr []), (''replaces_id'', JInt 7), (''app_icon'', JStr []), (''summary'', JStr []), (''body'', JStr []),
      (''actions'', JNull), (''hints'', JObj []), (''expire_timeout'', JInt 0)])]"

lemma sample_note_written: "ws_json (\<lambda>_ _. True) (NotificationMsg 5 sample_note) sample_note_json"
proof -
  have "coerce_utf8 [] = []" by code_simp
  then show ?thesis
    by (simp add: ws_json_def payload_json_def struct_json_def notification_json_def encoded_as_def encode_string_def encode_sint_def
        encode_uint_def sample_note_def sample_note_json_def type_constants slice_json_def hints_json_def)
qed

theorem messages_follow_schemas_witness:
  "ws_json (\<lambda>_ _. True) (NotificationMsg 5 sample_note) sample_note_json \<and>
   [''data'', ''id''] \<in> set (violations (message_schema (NotificationMsg 5 sample_note)) sample_note_json) \<and>
   list_all (\<lambda>p. p = [''data'', ''id''] \<or> JNull \<in> set (values_at p sample_note_json))
     (violations (message_schema (NotificationMsg 5 sample_note)) sample_note_json)"
  using messages_follow_schemas[OF sample_note_written] sample_note_written by (simp add: missing_fields_def list_all_iff)

lemma actions_written_as_null:
  "violations (message_schema (NotificationMsg 5 sample_note)) sample_note_json = [[''data'', ''id''], [''data'', ''actions'']]"
  by (simp add: message_schema_def payload_schema_def notification_schema_def sample_note_json_def)

end
