(* ===== verification/Service_Stubs.thy ===== *)
theory Service_Stubs
  imports Http_Routes Connect_Server
begin

text \<open>
  The default implementations of the generated services (\<^verbatim>\<open>Unimplemented...ServiceHandler\<close> in \<^verbatim>\<open>pcdv1connect\<close>): every method answers with
  the code \<^verbatim>\<open>unimplemented\<close>. The daemon implements all services itself and uses none of them.
\<close>

section \<open>The default answers\<close>

definition UnimplementedTelemetryServiceHandler_StreamTelemetry :: connect_error where
  "UnimplementedTelemetryServiceHandler_StreamTelemetry =
     ConnectError CodeUnimplemented ''pcd.v1.TelemetryService.StreamTelemetry is not implemented''"

definition UnimplementedNotificationServiceHandler_StreamNotifications :: connect_error where
  "UnimplementedNotificationServiceHandler_StreamNotifications =
     ConnectError CodeUnimplemented ''pcd.v1.NotificationService.StreamNotifications is not implemented''"

definition UnimplementedNotificationServiceHandler_SendNotification :: connect_error where
  "UnimplementedNotificationServiceHandler_SendNotification =
     ConnectError CodeUnimplemented ''pcd.v1.NotificationService.SendNotification is not implemented''"

definition UnimplementedNotificationServiceHandler_TriggerNotificationAction :: connect_error where
  "UnimplementedNotificationServiceHandler_TriggerNotificationAction =
     ConnectError CodeUnimplemented ''pcd.v1.NotificationService.TriggerNotificationAction is not implemented''"

definition UnimplementedNotificationServiceHandler_DismissNotification :: connect_error where
  "UnimplementedNotificationServiceHandler_DismissNotification =
     ConnectError CodeUnimplemented ''pcd.v1.NotificationService.DismissNotification is not implemented''"

definition UnimplementedMediaServiceHandler_StreamMediaState :: connect_error where
  "UnimplementedMediaServiceHandler_StreamMediaState =
     ConnectError CodeUnimplemented ''pcd.v1.MediaService.StreamMediaState is not implemented''"

definition UnimplementedMediaServiceHandler_SendMediaCommand :: connect_error where
  "UnimplementedMediaServiceHandler_SendMediaCommand =
     ConnectError CodeUnimplemented ''pcd.v1.MediaService.SendMediaCommand is not implemented''"

definition UnimplementedSystemServiceHandler_StreamSystemState :: connect_error where
  "UnimplementedSystemServiceHandler_StreamSystemState =
     ConnectError CodeUnimplemented ''pcd.v1.SystemService.StreamSystemState is not implemented''"

definition UnimplementedSystemServiceHandler_ExecuteSystemAction :: connect_error where
  "UnimplementedSystemServiceHandler_ExecuteSystemAction =
     ConnectError CodeUnimplemented ''pcd.v1.SystemService.ExecuteSystemAction is not implemented''"

definition UnimplementedSystemServiceHandler_SetPowerProfile :: connect_error where
  "UnimplementedSystemServiceHandler_SetPowerProfile =
     ConnectError CodeUnimplemented ''pcd.v1.SystemService.SetPowerProfile is not implemented''"

definition UnimplementedBluetoothServiceHandler_StreamBluetoothState :: connect_error where
  "UnimplementedBluetoothServiceHandler_StreamBluetoothState =
     ConnectError CodeUnimplemented ''pcd.v1.BluetoothService.StreamBluetoothState is not implemented''"

section \<open>Each answer names its procedure\<close>

definition stubs :: "(string \<times> connect_error) list" where
  "stubs =
     [(TelemetryServiceStreamTelemetryProcedure, UnimplementedTelemetryServiceHandler_StreamTelemetry),
      (NotificationServiceStreamNotificationsProcedure, UnimplementedNotificationServiceHandler_StreamNotifications),
      (NotificationServiceSendNotificationProcedure, UnimplementedNotificationServiceHandler_SendNotification),
      (NotificationServiceTriggerNotificationActionProcedure, UnimplementedNotificationServiceHandler_TriggerNotificationAction),
      (NotificationServiceDismissNotificationProcedure, UnimplementedNotificationServiceHandler_DismissNotification),
      (MediaServiceStreamMediaStateProcedure, UnimplementedMediaServiceHandler_StreamMediaState),
      (MediaServiceSendMediaCommandProcedure, UnimplementedMediaServiceHandler_SendMediaCommand),
      (SystemServiceStreamSystemStateProcedure, UnimplementedSystemServiceHandler_StreamSystemState),
      (SystemServiceExecuteSystemActionProcedure, UnimplementedSystemServiceHandler_ExecuteSystemAction),
      (SystemServiceSetPowerProfileProcedure, UnimplementedSystemServiceHandler_SetPowerProfile),
      (BluetoothServiceStreamBluetoothStateProcedure, UnimplementedBluetoothServiceHandler_StreamBluetoothState)]"

lemmas stub_defs = stubs_def procedures
  UnimplementedTelemetryServiceHandler_StreamTelemetry_def
  UnimplementedNotificationServiceHandler_StreamNotifications_def
  UnimplementedNotificationServiceHandler_SendNotification_def
  UnimplementedNotificationServiceHandler_TriggerNotificationAction_def
  UnimplementedNotificationServiceHandler_DismissNotification_def
  UnimplementedMediaServiceHandler_StreamMediaState_def
  UnimplementedMediaServiceHandler_SendMediaCommand_def
  UnimplementedSystemServiceHandler_StreamSystemState_def
  UnimplementedSystemServiceHandler_ExecuteSystemAction_def
  UnimplementedSystemServiceHandler_SetPowerProfile_def
  UnimplementedBluetoothServiceHandler_StreamBluetoothState_def

text \<open>The full name of the method that a procedure path stands for.\<close>

definition method_name :: "string \<Rightarrow> string" where
  "method_name path = map (\<lambda>c. if c = CHR ''/'' then CHR ''.'' else c) (trim_prefix path ''/'')"

text \<open>The stubs cover the remote procedures of the daemon, each once and in the order of its endpoints, and the text of each
  names the method of its procedure.\<close>

lemma stubs_cover_endpoints: "''/ws'' # map fst stubs = map fst endpoints"
  by (simp add: stub_defs endpoints_def)

lemma stubs_name_their_method:
  "list_all (\<lambda>(path, err). err = ConnectError CodeUnimplemented (method_name path @ '' is not implemented'')) stubs"
  unfolding stub_defs list.pred_inject prod.case by (intro conjI; simp add: method_name_def trim_prefix_def has_prefix_def)

end
