(* ===== verification/Program_Entry.thy ===== *)
theory Program_Entry
  imports Trigger_Cli Start_Cli
begin

text \<open>
  The entry of the program (\<^verbatim>\<open>main.go\<close>, \<^verbatim>\<open>cmd/root.go\<close>): the command library picks a command from the arguments and runs it, and an error
  of it makes the process exit with status 1. What the library does with the arguments is a parameter.
\<close>

section \<open>Running a command\<close>

datatype command =
    Trigger string trigger_cmd
  | Start start_flags

text \<open>\<^verbatim>\<open>Execute\<close>: the status the process is made to exit with; it ends by itself, with status 0, when there is none.\<close>

definition Execute :: "('a \<Rightarrow> string option) \<Rightarrow> 'a \<Rightarrow> nat option" where
  "Execute rootExecute args = (case rootExecute args of Some err \<Rightarrow> Some 1 | None \<Rightarrow> None)"

definition main :: "('a \<Rightarrow> string option) \<Rightarrow> 'a \<Rightarrow> nat option" where
  "main rootExecute args = Execute rootExecute args"

section \<open>The exit status of a trigger\<close>

text \<open>The library runs the \<^verbatim>\<open>RunE\<close> of the command it finds in the arguments and returns its error.\<close>

definition runs_trigger :: "('a \<Rightarrow> string option) \<Rightarrow> ('a \<Rightarrow> command option) \<Rightarrow>
    (string \<Rightarrow> trigger_cmd \<Rightarrow> string + string \<times> nat) \<Rightarrow> bool" where
  "runs_trigger rootExecute parse_args run \<longleftrightarrow>
     (\<forall>args flag cmd. parse_args args = Some (Trigger flag cmd) \<longrightarrow>
        rootExecute args = (case run flag cmd of Inl err \<Rightarrow> Some err | Inr _ \<Rightarrow> None))"

text \<open>A trigger whose data cannot be sent as it is, or that no daemon answers, is reported by the exit status.\<close>

lemma trigger_exit_status:
  assumes "runs_trigger rootExecute parse_args (TriggerCmd en dial parse lexErr decErr)"
    and "parse_args args = Some (Trigger flag cmd)"
  shows "main rootExecute args = None \<longleftrightarrow> (\<exists>req answer. trigger_request parse lexErr cmd = Inr req \<and>
    sendUDSRequest en dial decErr flag req = Inr answer)"
  using assms by (auto simp: runs_trigger_def main_def Execute_def TriggerCmd_def ebind_eq_Inr split: sum.splits)

lemma unreachable_daemon_exit_status:
  assumes "runs_trigger rootExecute parse_args (TriggerCmd en (\<lambda>_. Inl err) parse lexErr decErr)"
    and "parse_args args = Some (Trigger flag cmd)"
  shows "main rootExecute args = Some 1"
proof -
  have "main rootExecute args \<noteq> None"
    using trigger_exit_status[OF assms] by (simp add: sendUDSRequest_def Let_def)
  then show ?thesis by (auto simp: main_def Execute_def split: option.splits)
qed

end
