(* ===== verification/Spec2Isabelle.thy ===== *)
theory Spec2Isabelle
  imports Reset_Channel Engine_System Mpris_Manager Notification_Monitor Host_Clocks Trigger_Cli Start_Cli Wire_Format Http_Routes
    Stream_Progress Notification_Pipeline Telemetry_Loop Media_Control
    Monitor_Pipeline Wire_Schema Service_Stubs Program_Entry
begin

text \<open>
  A verification library for the PC dashboard server, a Go daemon that reads the state of a Linux
  desktop (load, memory, media players, notifications, session lock, display power, power
  profiles) and streams it to a companion application on an Android device, over WebSockets
  and over ConnectRPC, and that carries commands back. All source names below are under \<^verbatim>\<open>src/\<close>.

  \<^bold>\<open>The program.\<close> \<^verbatim>\<open>cmd/start.go\<close> loads the settings (\<^verbatim>\<open>pkg/config\<close>), picks a real or an emulated provider for
  every component and starts the engine (\<^verbatim>\<open>pkg/daemon/engine.go\<close>). The engine runs one goroutine per
  component: the managers of \<^verbatim>\<open>pkg/lock\<close>, \<^verbatim>\<open>pkg/dpms\<close>, \<^verbatim>\<open>pkg/power\<close>, \<^verbatim>\<open>pkg/notifications\<close> and \<^verbatim>\<open>pkg/mpris\<close> deliver events
  on channels, a ticker reads \<^verbatim>\<open>pkg/metrics\<close>, \<^verbatim>\<open>pkg/adb\<close> announces devices and runs commands on them,
  and a Unix socket (\<^verbatim>\<open>pkg/daemon/command_listener.go\<close>) takes the requests of \<^verbatim>\<open>cmd/trigger.go\<close>. Every event
  updates a cached state and is broadcast to both servers (\<^verbatim>\<open>pkg/websocket\<close>, \<^verbatim>\<open>pkg/connectrpc\<close>), whose clients'
  requests come back through the callbacks the engine installs.

  \<^bold>\<open>Conventions.\<close> A struct is a record with the fields of the source, an enumeration a datatype, a fixed
  width integer a word, \<^verbatim>\<open>float64\<close> the type \<open>f64\<close> (rationals with the IEEE rounding, infinities and NaN). An
  operation that may panic has the result type \<open>'a go\<close>, whose left values are panics; an \<^verbatim>\<open>error\<close> result is
  a sum or an option. State is passed explicitly. Concurrent goroutines are operations on a shared state, and a
  theorem about them quantifies over all sequences of operations. What the program only calls (the
  bus, the network, the file system, the configuration library, the JSON lexer, the PNG encoder,
  the clock, random numbers) is a parameter. No model uses fuel: every loop ends by its
  structure or by a measure, and where the source bounds a loop (300 visits of a theme, six attempts at a
  cover file, buffers of 5, 10 and 50 values) the bound is the one of the source.

  \<^bold>\<open>Foundations.\<close>
  \<^item> \<open>PCD_Prelude\<close>: panics, the error monad, collections of rules, maps used as sets.
  \<^item> \<open>Go_Strings\<close>, \<open>Go_Utf8\<close>, \<open>Go_Base64\<close>, \<open>Go_Json\<close>: the string, path, text encoding, base 64 and JSON decoding rules.
  \<^item> \<open>Go_Chan\<close>: buffered channels, and the contracts \<open>lossy_sink\<close>, \<open>transition_filter\<close> and \<open>safe_system\<close>.
  \<^item> \<open>Go_Float\<close>, \<open>Go_Numbers\<close>, \<open>Float_Rounding\<close>: floats, their arithmetic and parsing, and that rounding is
    monotone, exact on whole numbers up to 2^53 and has a relative error of at most 2^-53.
  \<^item> \<open>Dbus_Values\<close>, \<open>Metrics_Types\<close>, \<open>Mpris_Types\<close>: the values of the bus and the data of \<^verbatim>\<open>metrics.go\<close> and \<^verbatim>\<open>mpris.go\<close>.

  \<^bold>\<open>Components.\<close>
  \<^item> \<open>Config_Loader\<close> (\<^verbatim>\<open>config.go\<close>, \<^verbatim>\<open>loader.go\<close>): the order flags, environment, file, defaults; which keys the
    environment can reach.
  \<^item> \<open>Adb_Client\<close> (\<^verbatim>\<open>socket_client.go\<close>): frames and their round trip, the wire protocol of the commands, that every
    connection is closed, and that the events of the tracking stream rebuild the snapshots.
  \<^item> \<open>Lock_Manager\<close>, \<open>Dpms_Manager\<close>, \<open>Power_Manager\<close>: the bus managers and their emulations; deduplicated streams as
    refinements of one contract, no panic in the power manager.
  \<^item> \<open>Notification_Manager\<close>, \<open>Notification_Monitor\<close> (\<^verbatim>\<open>notifications/dbus_manager.go\<close>, \<^verbatim>\<open>mock_manager.go\<close>): sanitised outgoing
    notifications; no intercepted notification is lost or doubled while the monitor runs.
  \<^item> \<open>Icon_Image\<close>, \<open>Icon_Extractor\<close> (\<^verbatim>\<open>icon_extractor.go\<close>): pixel hints, thumbnails, icons by path, desktop entry and
    theme; exact copies, thumbnails made of source pixels, inline results of at most 150 KB but for files that
    report less than they hold, the walk.
  \<^item> \<open>Notification_Pipeline\<close>: the monitor composed with the icon extractor; nothing is lost, what an icon can be, and the
    one kind of call that stops the daemon.
  \<^item> \<open>Artwork_Extractor\<close>, \<open>Mpris_Mock\<close>, \<open>Mpris_Manager\<close> (\<^verbatim>\<open>pkg/mpris\<close>): covers that name local files are inlined or
    dropped; the emulated player; the registry of players, its signals and commands.
  \<^item> \<open>Media_Control\<close>: a dashboard's media command followed to the call on the bus and its answer back to the client.
  \<^item> \<open>Host_Reader\<close>, \<open>Host_Facts\<close>, \<open>Host_Clocks\<close>, \<open>Mock_Reader\<close> (\<^verbatim>\<open>pkg/metrics\<close>): the readings of the host and the
    emulated ones; readings complete, unsupported ones are zero (of the two on video memory at least one), usage is not negative, emulated
    values lie in range by interval arithmetic on floats.
  \<^item> \<open>Connection_Pool\<close> (\<^verbatim>\<open>pkg/websocket\<close>): registry, broadcast, decoding and dispatch of inbound messages.
  \<^item> \<open>Http_Routes\<close> (\<^verbatim>\<open>websocket/server.go\<close>, \<^verbatim>\<open>RegisterHandlers\<close>, the handlers and clients of \<^verbatim>\<open>pcdv1connect\<close>): the multiplexer and its
    routes; the server is local, every endpoint is served exactly at its path, and the generated clients call it there.
  \<^item> \<open>Stream_Hub\<close>, \<open>Connect_Server\<close> (\<^verbatim>\<open>pkg/connectrpc/server.go\<close>): the streaming handlers under all interleavings, the
    greeting of a new one, the unary calls and the message mapping, with the images it carries.
  \<^item> \<open>Stream_Progress\<close>: waiting messages are delivered under every fair schedule.
  \<^item> \<open>Engine\<close>, \<open>Reset_Channel\<close>, \<open>Command_Listener\<close>, \<open>Engine_System\<close> (\<^verbatim>\<open>pkg/daemon\<close>): the handlers, the interval change
    step by step under every schedule of its callers, the local socket, and the engine with both servers as a
    transition system over all of them, in which each handler is one step.
  \<^item> \<open>Json_Encode\<close>, \<open>Trigger_Cli\<close> (\<^verbatim>\<open>cmd/trigger.go\<close>): the encoders, their contract \<open>json_codec\<close> with the decoders, and the
    round trip from a command line to the event the daemon acts on.
  \<^item> \<open>Wire_Format\<close>: which outbound messages the encoder refuses, and what the media manager and the engine do to
    the WebSocket clients when a player reports a volume that is not a number.
  \<^item> \<open>Telemetry_Loop\<close>: the telemetry loop composed with either metrics reader; what it sends on either transport
    is honest, and emulated telemetry reaches every client whose own link works.
  \<^item> \<open>Monitor_Pipeline\<close>: the session lock and the display power managers composed with the daemon, once for both; a transition
    reaches every client, the ticker and the devices, in order and without repetition while the engine keeps up.
  \<^item> \<open>Wire_Schema\<close>: what is written to a WebSocket client against the schemas of \<^verbatim>\<open>docs/protocol_specification.md\<close>; it has the documented
    shape but for ten fields and for nil slices. Ranges and enumerations of the schemas are not part of it.
  \<^item> \<open>Service_Stubs\<close> (\<^verbatim>\<open>pcdv1connect\<close>): the default implementations of the services.
  \<^item> \<open>Program_Entry\<close> (\<^verbatim>\<open>main.go\<close>, \<^verbatim>\<open>cmd/root.go\<close>): the exit status.
  \<^item> \<open>Start_Cli\<close> (\<^verbatim>\<open>cmd/start.go\<close>, \<^verbatim>\<open>adb/mock_client.go\<close>): flags, log level, providers and their fallback.
  \<^item> this theory: what the local triggers do compared with the events they imitate.

  \<^bold>\<open>Contracts between components\<close> are locales, interpreted on the definitions of the components that keep them:
  a sink that may drop values, a filter of repeated states, a system of operations that never panics
  (\<open>Go_Chan\<close>), the registry of clients (\<open>Connection_Pool\<close>), a profile manager (\<open>Power_Manager\<close>), a cache of the last
  value (\<open>Engine_System\<close>), an encoder with its decoder (\<open>Json_Encode\<close>), a metrics reader
  (\<open>Telemetry_Loop\<close>), and a manager that feeds a monitor of the daemon (\<open>Monitor_Pipeline\<close>).

  \<^bold>\<open>Not modelled.\<close> The generated protobuf code under \<^verbatim>\<open>pkg/api\<close>, of which only the message records appear; the
  parsing of arguments by the command library; the HTTP protocol, the WebSocket upgrade and percent escapes in
  request paths; logging. Floats follow the amd64 port, which fuses no operations. The sign of a
  floating point zero and characters outside ASCII in case conversion and white space are not told apart.
\<close>

section \<open>Local triggers\<close>


text \<open>C19: the answer to a local trigger is truthful. It reports failure, with a reason, exactly when the
  request or its data cannot be decoded, and then nothing has changed; otherwise it reports
  success, the message of the decoded event has been broadcast once to the WebSocket clients,
  the reported count is the number of clients still connected after that broadcast, and the
  polling interval is untouched.\<close>

theorem trigger_answer_is_truthful:
  assumes "handleCommandConnection w je j e = Inr (r, e')"
  shows "case trigger_event j of
      None \<Rightarrow> \<not> ur_Success r \<and> ur_Error r \<noteq> [] \<and> e' = e
    | Some u \<Rightarrow> ur_Success r \<and> ur_Error r = [] \<and> ur_ClientCount r = pool_Size (en_pool e') \<and>
        en_pool e' = pool_Broadcast (w_up w) (uds_message (w_now w) u) (en_pool e) \<and>
        en_interval e' = en_interval e \<and> en_resetChan e' = en_resetChan e"
proof (cases "trigger_event j")
  case None
  with assms show ?thesis by (auto simp: handleCommandConnection_event uds_failure_def split: option.splits)
next
  case (Some u)
  have rpc: "en_pool e2 = en_pool e1 \<and> en_interval e2 = en_interval e1 \<and> en_resetChan e2 = en_resetChan e1"
    if "uds_rpc w u e1 = Inr e2" for e1 e2
    using that by (cases u) (auto simp: uds_rpc_def rpc_broadcast_Inr)
  have "en_pool (uds_cache u e) = en_pool e" "en_interval (uds_cache u e) = en_interval e"
      "en_resetChan (uds_cache u e) = en_resetChan e"
    by (simp_all add: uds_cache_def adb_screens_eq split: uds_event.split)
  then show ?thesis using assms Some by (auto simp: handleCommandConnection_event ebind_eq_Inr dest!: rpc)
qed

definition lock_trigger :: "json option" where
  "lock_trigger = Some (JObj [(''type'', JStr ''session_lock''), (''data'', JObj [(''locked'', JBool True)])])"

lemma lock_trigger_event: "trigger_event lock_trigger = Some (ULock \<lparr>Locked = True\<rparr>)"
  by code_simp

theorem trigger_answer_is_truthful_witness:
  "\<exists>r e'. handleCommandConnection sample_world [] lock_trigger (NewEngine sample_config) = Inr (r, e') \<and>
     ur_Success r \<and> en_interval e' = duration_ms 1000"
proof -
  have "engine_ok sample_config (duration_ms 1000, NewEngine sample_config :: unit Engine)"
    using boot_ok(2)[OF sample_positive] by (simp add: sample_config_def DefaultConfig_def Let_def)
  from handleCommandConnection_safe[OF this, of sample_world "[]" lock_trigger]
  obtain r e' where h: "handleCommandConnection sample_world [] lock_trigger (NewEngine sample_config) = Inr (r, e')"
    by (auto simp: ebind_eq_Inr)
  from trigger_answer_is_truthful[OF h] have "ur_Success r" "en_interval e' = en_interval (NewEngine sample_config :: unit Engine)"
    by (simp_all add: lock_trigger_event)
  with h show ?thesis by (auto simp: NewEngine_def sample_config_def DefaultConfig_def Let_def)
qed

lemma screens_commute_ws: "ws_broadcast w m (adb_screens st e) = adb_screens st (ws_broadcast w m e)"
  by (simp add: adb_screens_eq ws_broadcast_def)

lemma screens_commute_rpc:
  "rpc_broadcast f (adb_screens st e) = ebind (rpc_broadcast f e) (\<lambda>e'. Inr (adb_screens st e'))"
  by (auto simp: adb_screens_eq rpc_broadcast_def ebind_def split: sum.split)

text \<open>The monitor step a trigger stands for; a telemetry trigger stands for a tick with those readings.\<close>

definition monitor_step :: "'h world \<Rightarrow> uds_event \<Rightarrow> ('h Engine \<Rightarrow> 'h Engine go) option" where
  "monitor_step w u =
     (case u of
        ULock ev \<Rightarrow> Some (on_lock w ev)
      | UDpms ev \<Rightarrow> Some (on_dpms w ev)
      | UPower ev \<Rightarrow> Some (on_power w ev)
      | UNotification ev \<Rightarrow> Some (on_notification w ev)
      | UMedia ev \<Rightarrow> Some (on_media w ev)
      | UTelemetry m \<Rightarrow> Some (telemetry_tick w (readings_of m))
      | _ \<Rightarrow> None)"

text \<open>C9: a local trigger does to the daemon what the event it imitates would do: for display, power,
  notification, media and telemetry events the resulting state is the same, including cached
  states, both broadcasts and the commands to the devices. A lock trigger differs in one point:
  the monitor's step also adjusts the polling interval, the trigger does not.\<close>

theorem triggers_simulate_monitors:
  assumes "trigger_event j = Some u" and "monitor_step w u = Some f"
  shows "f e = ebind (handleCommandConnection w je j e) (\<lambda>(r, e').
    Inr (case u of ULock ev \<Rightarrow> updateIntervalForLockState (Locked ev) e' | _ \<Rightarrow> e'))"
proof -
  let ?body = "uds_rpc w u (ws_broadcast w (uds_message (w_now w) u) (uds_cache u e))"
  have assoc: "ebind (ebind r (\<lambda>e'. Inr (g e', e'))) (\<lambda>(a, e'). Inr (h e')) = ebind r (\<lambda>e'. Inr (h e'))" for r :: "'x + 'y" and g h
    by (cases r) simp_all
  have id: "ebind r Inr = r" for r :: "'x + 'y" by (cases r) simp_all
  show ?thesis
    using assms unfolding handleCommandConnection_event
    by (cases u) (auto simp: monitor_step_def uds_rpc_def uds_message_def uds_cache_def assoc id on_lock_def on_dpms_def on_power_def
        on_notification_def on_media_def telemetry_tick_def Let_def screens_commute_ws screens_commute_rpc)
qed

theorem triggers_simulate_monitors_witness:
  "on_lock sample_world \<lparr>Locked = True\<rparr> (NewEngine sample_config) =
     ebind (handleCommandConnection sample_world [] lock_trigger (NewEngine sample_config))
       (\<lambda>(r, e'). Inr (updateIntervalForLockState True e'))"
  using triggers_simulate_monitors[OF lock_trigger_event, of sample_world "on_lock sample_world \<lparr>Locked = True\<rparr>"]
  by (simp add: monitor_step_def)

end
